(* ===== verification/Prelude.thy ===== *)
theory Prelude
  imports Main "HOL-Library.Word" "HOL-Library.Sublist"
begin

text \<open>
  Shared vocabulary of the development: the C integer types of the firmware (\<open>u8\<close>, \<open>u16\<close>,
  \<open>u32\<close> of \<^verbatim>\<open>xil_types.h\<close>; \<open>unsigned long\<close> is 32 bits wide on the Cortex-A9), the
  collections of rewrite rules the component theories fill, and the generic facts on words and
  lists that several of them use.
\<close>

unbundle bit_operations_syntax

type_synonym u8 = "8 word"
type_synonym u16 = "16 word"
type_synonym u32 = "32 word"

text \<open>
  \<open>macro_defs\<close>: the constants of the headers; \<open>io_simps\<close>: how an operation acts on the trace and
  on the memory; \<open>frame_simps\<close>: what an operation leaves alone.
\<close>

named_theorems macro_defs
named_theorems io_simps
named_theorems frame_simps

section \<open>Words\<close>

lemma unat_Suc_below:
  fixes i n :: "'a::len word"
  assumes "i < n"
  shows "unat (i + 1) = Suc (unat i)"
proof -
  have "1 + i \<noteq> 0"
  proof
    assume "1 + i = 0"
    then have "i = - 1" by (simp add: eq_neg_iff_add_eq_0 add.commute)
    with assms show False by simp
  qed
  then show ?thesis by (simp add: unatSuc add.commute)
qed

lemma mask_merge_in:
  fixes v m old :: "'a::len word"
  shows "((v AND m) OR (old AND NOT m)) AND m = v AND m"
  by (rule bit_word_eqI) (auto simp: bit_simps)

lemma mask_merge_out:
  fixes v m old :: "'a::len word"
  shows "((v AND m) OR (old AND NOT m)) AND NOT m = old AND NOT m"
  by (rule bit_word_eqI) (auto simp: bit_simps)

lemma and_covered_eq:
  fixes v m :: "'a::len word"
  assumes "v AND NOT m = 0"
  shows "v AND m = v"
proof (rule bit_word_eqI)
  fix n assume "n < LENGTH('a)"
  then show "bit (v AND m) n = bit v n"
    using arg_cong [OF assms, of "\<lambda>w. bit w n"] by (auto simp: bit_simps)
qed

lemma word_and_zero_mono:
  fixes e a b :: "'a::len word"
  assumes "e AND a \<noteq> 0" and "a AND NOT b = 0"
  shows "e AND b \<noteq> 0"
proof
  assume "e AND b = 0"
  then have "(e AND a) = (e AND b) AND a"
    using and_covered_eq [OF assms(2)] by (metis and.assoc and.commute)
  with \<open>e AND b = 0\<close> assms(1) show False by simp
qed

lemma and_push_bit_1: "w AND push_bit k 1 = (if bit w k then push_bit k 1 else 0)"
  for w :: "'a::len word"
  by (rule bit_word_eqI) (auto simp: bit_simps)

lemma and_push_bit_1_eq_0: "w AND push_bit k 1 = 0 \<longleftrightarrow> \<not> bit w k"
  for w :: "'a::len word"
proof (cases "bit w k")
  case True
  then have "bit (push_bit k 1 :: 'a word) k" using bit_imp_le_length by (fastforce simp: bit_simps)
  then have "push_bit k 1 \<noteq> (0 :: 'a word)" by (metis bit_0_eq bot_apply bot_bool_def)
  with True show ?thesis by (simp only: and_push_bit_1) simp
next
  case False
  then show ?thesis by (simp only: and_push_bit_1) simp
qed

lemma minus_top_bit:
  fixes w :: "'a::len word"
  assumes len: "LENGTH('a) = Suc k"
  shows "w - (w AND push_bit k 1) = take_bit k w"
proof -
  have "take_bit k w AND (w AND push_bit k 1) = 0"
    by (rule bit_word_eqI) (auto simp: bit_simps)
  then have "take_bit k w + (w AND push_bit k 1) = take_bit k w OR (w AND push_bit k 1)"
    by (rule disjunctive_add_eq_or)
  also have "\<dots> = w"
  proof (rule bit_word_eqI)
    fix n assume "n < LENGTH('a)"
    then have "n < k \<or> n = k" using len by auto
    then show "bit (take_bit k w OR (w AND push_bit k 1)) n = bit w n"
      using len by (auto simp: bit_simps)
  qed
  finally have "take_bit k w + (w AND push_bit k 1) = w" .
  then show ?thesis by (metis add_diff_cancel_right')
qed

section \<open>Lists\<close>

lemma prefix_append_right: "prefix xs ys \<Longrightarrow> prefix xs (ys @ zs)"
  by (auto simp: prefix_def)

lemma length_le_prefix: "prefix xs ys \<Longrightarrow> length xs \<le> length ys"
  by (rule prefix_length_le)

lemma drop_append_prefix [simp]: "drop (length xs) (xs @ ys) = ys"
  by simp

end
