(* ===== verification/Machine.thy ===== *)
theory Machine
  imports Prelude
begin

text \<open>
  The world outside the firmware. Everything that is not under src/ (memory-mapped registers,
  the Xilinx drivers, the lwIP stack) is reached through a \<open>call\<close>, and an environment \<open>env\<close>
  answers it. The answer may depend on everything that happened before (the trace), so the
  registers are volatile and a device may behave in any way. Each call is appended to the trace,
  which makes the effects of the code, and their order, part of the state.
\<close>

section \<open>Calls, traces, environments\<close>

text \<open>The interrupt service routines the code registers with \<^verbatim>\<open>XSetupInterruptSystem\<close>.\<close>

datatype isr = ISR_Rx_Dma | ISR_Iic_Master

text \<open>The AXI DMA driver (\<^verbatim>\<open>xaxidma.h\<close>).\<close>

datatype dma_call =
    XAxiDma_LookupConfig u32
  | XAxiDma_CfgInitialize u32
  | XAxiDma_IntrDisable u32 u32
  | XAxiDma_IntrEnable u32 u32
  | XAxiDma_IntrGetIrq u32
  | XAxiDma_IntrAckIrq u32 u32
  | XAxiDma_Reset
  | XAxiDma_ResetIsDone

text \<open>The I2C driver (\<^verbatim>\<open>xiicps.h\<close>).\<close>

datatype iic_call =
    XIicPs_LookupConfig u32
  | XIicPs_CfgInitialize u32
  | XIicPs_SelfTest
  | XIicPs_SetStatusHandler
  | XIicPs_SetSClk u32
  | XIicPs_MasterSend "u8 list" u32 u16
  | XIicPs_MasterRecv u32 u32 u16
  | XIicPs_SetOptions
  | XIicPs_ClearOptions
  | XIicPs_DisableAllInterrupts
  | XIicPs_ReadReg

text \<open>lwIP packet buffers and UDP.\<close>

datatype udp_call =
    Pbuf_alloc u16
  | Pbuf_free u32
  | Udp_new
  | Udp_bind u32 u32
  | Udp_remove u32
  | Udp_recv u32
  | Udp_send u32 "u8 list"
  | Udp_sendto u32 u32 u32 u16
  | Usleep u32

text \<open>lwIP TCP.\<close>

datatype tcp_call =
    Tcp_new_ip_type
  | Tcp_bind u32 u32
  | Tcp_listen u32
  | Tcp_accept u32
  | Tcp_arg u32 u32
  | Tcp_recv u32 bool                    \<comment> \<open>\<open>False\<close>: the callback is cleared with NULL\<close>
  | Tcp_recved u32 u16
  | Tcp_sndbuf u32
  | Tcp_write u32 "u8 list"
  | Tcp_close u32
  | Tcp_fasttmr
  | Tcp_slowtmr

text \<open>lwIP network interfaces, DHCP and link supervision.\<close>

datatype netif_call =
    Lwip_init
  | Xemac_add u32 u32 u32 "u8 list"
  | Netif_set_default
  | Netif_set_up
  | Netif_ip_addr
  | Netif_netmask
  | Netif_gw
  | Netif_assign u32 u32 u32
  | Xemacif_input
  | Dhcp_start
  | Dhcp_fine_tmr
  | Dhcp_coarse_tmr
  | Acd_tmr
  | Eth_link_detect
  | Xemacpsif_resetrx_on_no_rxdata

text \<open>Processor, caches, interrupt controller and timers.\<close>

datatype cpu_call =
    Xil_DCacheFlushRange u32 u32
  | Xil_DCacheDisable
  | Xil_ICacheDisable
  | XSetupInterruptSystem isr
  | Platform_enable_interrupts
  | XTimer_SetInterval u32
  | XTimer_SetHandler
  | XScuTimer_ClearInterruptStatus

text \<open>The private timer and the interrupt controller of the Zynq (\<^verbatim>\<open>xscutimer.h\<close>, \<^verbatim>\<open>xscugic.h\<close>).\<close>

datatype scu_call =
    XScuTimer_LookupConfig
  | XScuTimer_CfgInitialize u32
  | XScuTimer_SelfTest
  | XScuTimer_EnableAutoReload
  | XScuTimer_LoadTimer u32
  | XScuTimer_EnableInterrupt
  | XScuTimer_Start
  | Xil_ExceptionInit
  | Xil_ExceptionRegisterHandler
  | Xil_ExceptionEnableMask
  | XScuGic_DeviceInitialize
  | XScuGic_RegisterHandler
  | XScuGic_EnableIntr

text \<open>
  What \<^verbatim>\<open>platform.c\<close> calls in builds for other processors: the AXI interrupt controller (\<^verbatim>\<open>xintc.h\<close>),
  the caches and the UART of a MicroBlaze or PowerPC, and the timer set-up of their platform files.
\<close>

datatype intc_call =
    XIntc_Initialize
  | XIntc_Start
  | XIntc_MasterEnable
  | XIntc_EnableIntr u32
  | XIntc_Enable u32
  | Microblaze_register_handler
  | Platform_setup_timer
  | Xil_ICacheEnableRegion
  | Xil_DCacheEnableRegion
  | Xil_ICacheEnable
  | Xil_DCacheEnable
  | XUartNs550_SetBaud u32
  | XUartNs550_SetLineControlReg

datatype call =
    Vaccess                             \<comment> \<open>the main thread accesses a volatile global\<close>
  | In32 u32                            \<comment> \<open>\<^verbatim>\<open>Xil_In32\<close> and reads through a volatile pointer\<close>
  | Out32 u32 u32                       \<comment> \<open>\<^verbatim>\<open>Xil_Out32\<close> and writes through a volatile pointer\<close>
  | Cpu cpu_call
  | Dma dma_call
  | Iic iic_call
  | Udp udp_call
  | Tcp tcp_call
  | Netif netif_call
  | Scu scu_call
  | Intc intc_call

type_synonym event = "call \<times> u32"

text \<open>
  The environment: the answers, the interrupts it delivers by the time the main thread accesses a
  volatile variable, and the constants that the vendor headers define. The constants are parameters because
  those headers are not part of the repository.
\<close>

record env =
  ret :: "event list \<Rightarrow> call \<Rightarrow> u32"
  iic_irqs :: "event list \<Rightarrow> u32 list"      \<comment> \<open>I2C events pending at a volatile access\<close>
  timer_irqs :: "event list \<Rightarrow> nat"         \<comment> \<open>50 ms timer interrupts pending at a volatile access\<close>
  payload_of :: "u32 \<Rightarrow> u32"                \<comment> \<open>\<^verbatim>\<open>p->payload\<close> of an allocated pbuf\<close>
  XST_SUCCESS :: u32
  XST_FAILURE :: u32
  ERR_OK :: u32
  XIICPS_EVENT_COMPLETE_RECV :: u32
  XIICPS_EVENT_COMPLETE_SEND :: u32
  XIICPS_EVENT_SLAVE_RDY :: u32
  XIICPS_BASEADDRESS :: u32
  XAXIDMA_IRQ_ALL_MASK :: u32
  XAXIDMA_IRQ_ERROR_MASK :: u32
  XAXIDMA_IRQ_IOC_MASK :: u32
  XAXIDMA_DMA_TO_DEVICE :: u32
  XAXIDMA_DEVICE_TO_DMA :: u32
  XPAR_AXI_DMA_0_BASEADDR :: u32
  TREG_ADDR :: u32                          \<comment> \<open>\<^verbatim>\<open>XPAR_AXILITESLAVESIMPLE_0_BASEADDR\<close>\<close>
  LWIP_DHCP :: bool
  LWIP_DHCP_DOES_ACD_CHECK :: bool
  SDT :: bool

text \<open>
  The documented values of the vendor constants (lwIP's \<open>ERR_OK\<close>, the Xilinx drivers' status codes
  and masks) and plausible base addresses, with the answers left open. The examples and witnesses of
  the development run in such an environment.
\<close>

definition zynq_env :: "(event list \<Rightarrow> call \<Rightarrow> u32) \<Rightarrow> (event list \<Rightarrow> u32 list) \<Rightarrow>
    (event list \<Rightarrow> nat) \<Rightarrow> env" where
  "zynq_env answers irqs ticks =
     \<lparr>ret = answers, iic_irqs = irqs, timer_irqs = ticks, payload_of = (\<lambda>p. p + 16),
      XST_SUCCESS = 0, XST_FAILURE = 1, ERR_OK = 0,
      XIICPS_EVENT_COMPLETE_RECV = 2, XIICPS_EVENT_COMPLETE_SEND = 1,
      XIICPS_EVENT_SLAVE_RDY = 0x20, XIICPS_BASEADDRESS = 0xE0005000,
      XAXIDMA_IRQ_ALL_MASK = 0x7000, XAXIDMA_IRQ_ERROR_MASK = 0x4000,
      XAXIDMA_IRQ_IOC_MASK = 0x1000, XAXIDMA_DMA_TO_DEVICE = 0, XAXIDMA_DEVICE_TO_DMA = 1,
      XPAR_AXI_DMA_0_BASEADDR = 0x40400000, TREG_ADDR = 0x43C00000,
      LWIP_DHCP = True, LWIP_DHCP_DOES_ACD_CHECK = True, SDT = True\<rparr>"

section \<open>The part of the state every component shares\<close>

record io =
  tr :: "event list"
  mem :: "u32 \<Rightarrow> u8"

text \<open>An initial state for examples: nothing happened yet, memory is zero.\<close>

definition power_on :: io where "power_on = \<lparr>tr = [], mem = (\<lambda>_. 0)\<rparr>"

definition ans :: "env \<Rightarrow> call \<Rightarrow> 'a io_scheme \<Rightarrow> u32" where
  "ans E c s = ret E (tr s) c"

definition emit :: "env \<Rightarrow> call \<Rightarrow> 'a io_scheme \<Rightarrow> 'a io_scheme" where
  "emit E c s = s\<lparr>tr := tr s @ [(c, ans E c s)]\<rparr>"

lemma tr_emit [simp]: "tr (emit E c s) = tr s @ [(c, ret E (tr s) c)]"
  by (simp add: emit_def ans_def)

lemma mem_emit [simp]: "mem (emit E c s) = mem s"
  by (simp add: emit_def)

lemma more_emit [simp]: "io.more (emit E c s) = io.more s"
  by (simp add: emit_def)

lemma emit_mem_update: "emit E c (s\<lparr>mem := m\<rparr>) = (emit E c s)\<lparr>mem := m\<rparr>"
  by (simp add: emit_def ans_def)

text \<open>The calls a piece of code made: the trace it appended, without the answers.\<close>

definition calls_since :: "'a io_scheme \<Rightarrow> 'b io_scheme \<Rightarrow> call list" where
  "calls_since s s' = map fst (drop (length (tr s)) (tr s'))"

lemma calls_since_emit [simp]:
  "prefix (tr s) (tr s') \<Longrightarrow> calls_since s (emit E c s') = calls_since s s' @ [c]"
  by (auto simp: calls_since_def prefix_def)

lemma calls_since_trans:
  "prefix (tr s) (tr s') \<Longrightarrow> prefix (tr s') (tr s'') \<Longrightarrow>
   calls_since s s'' = calls_since s s' @ calls_since s' s''"
  by (auto simp: calls_since_def prefix_def)

lemma calls_since_refl [simp]: "calls_since s s = []"
  by (simp add: calls_since_def)

text \<open>
  Interrupts are delivered when the main thread accesses a volatile variable: \<open>f\<close> gives those
  pending at a point of the trace, \<open>delivered f n t\<close> all those delivered from position \<open>n\<close> on.
\<close>

definition delivered :: "(event list \<Rightarrow> 'x list) \<Rightarrow> nat \<Rightarrow> event list \<Rightarrow> 'x list" where
  "delivered f n t =
     concat (map (\<lambda>i. if fst (t ! i) = Vaccess then f (take i t) else []) [n..<length t])"

lemma delivered_none [simp]: "delivered f (length t) t = []"
  by (simp add: delivered_def)

lemma delivered_snoc [simp]:
  "delivered f (length t) (t @ [(c, x)]) = (if c = Vaccess then f t else [])"
  by (simp add: delivered_def)

lemma delivered_split:
  assumes "n \<le> length t"
  shows "delivered f n (t @ u) = delivered f n t @ delivered f (length t) (t @ u)"
proof -
  have "[n..<length (t @ u)] = [n..<length t] @ [length t..<length (t @ u)]"
    using assms by (metis le_add1 length_append upt_add_eq_append le_Suc_ex)
  then show ?thesis
    by (auto simp: delivered_def nth_append intro!: arg_cong [where f = concat] map_cong)
qed

section \<open>Registers that keep what is written\<close>

text \<open>The value a register holds if it keeps what was last written to it (\<open>r0\<close> at the start).\<close>

definition last_out :: "u32 \<Rightarrow> u32 \<Rightarrow> event list \<Rightarrow> u32" where
  "last_out a r0 t =
     foldl (\<lambda>r e. case fst e of Out32 b v \<Rightarrow> if b = a then v else r | _ \<Rightarrow> r) r0 t"

lemma last_out_simps [simp]:
  "last_out a r0 [] = r0"
  "last_out a r0 ((c, x) # t) =
     last_out a (case c of Out32 b v \<Rightarrow> if b = a then v else r0 | _ \<Rightarrow> r0) t"
  "last_out a r0 (t @ t') = last_out a (last_out a r0 t) t'"
  by (simp_all add: last_out_def)

definition stores :: "env \<Rightarrow> u32 \<Rightarrow> u32 \<Rightarrow> bool" where
  "stores E a r0 \<longleftrightarrow> (\<forall>t. ret E t (In32 a) = last_out a r0 t)"

section \<open>Operations extend the trace\<close>

text \<open>
  An operation only appends to the trace. The locale is the interface through which the components
  obtain that the history is never rewritten: operations that extend it compose, and what was
  in the trace stays.
\<close>

locale extends_trace =
  fixes op :: "'a io_scheme \<Rightarrow> 'a io_scheme"
  assumes extends: "prefix (tr s) (tr (op s))"
begin

lemma earlier_events_kept: "e \<in> set (tr s) \<Longrightarrow> e \<in> set (tr (op s))"
  using extends [of s] by (auto simp: prefix_def)

lemma trace_grows: "length (tr s) \<le> length (tr (op s))"
  by (rule prefix_length_le [OF extends])

lemma extends_funpow: "prefix (tr s) (tr ((op ^^ n) s))"
proof (induction n)
  case 0
  show ?case by simp
next
  case (Suc n)
  then show ?case
    using extends [of "(op ^^ n) s"] by (simp add: prefix_order.trans)
qed

end

interpretation emit: extends_trace "emit E c" for E c
  by unfold_locales simp

section \<open>Relations kept by every operation\<close>

text \<open>
  A relation between the states before and after a piece of code that holds of doing nothing and
  composes is a contract: if the parts keep it, so do the loops and batches built from them.
\<close>

locale contract =
  fixes R :: "'s \<Rightarrow> 's \<Rightarrow> bool"
  assumes idle: "R s s"
    and compose: "R s t \<Longrightarrow> R t u \<Longrightarrow> R s u"
begin

lemma iterated: "(\<And>s. R s (f s)) \<Longrightarrow> R s ((f ^^ n) s)"
  by (induction n) (auto intro: idle compose)

lemma batch: "(\<And>x s. R s (f x s)) \<Longrightarrow> R s (fold f xs s)"
  by (induction xs arbitrary: s) (auto intro: idle compose)

lemma run:
  assumes "\<And>l s l' s'. step (l, s) (l', s') \<Longrightarrow> R s s'" and "step\<^sup>*\<^sup>* x y"
  shows "R (snd x) (snd y)"
  using assms(2)
proof (induction rule: rtranclp_induct)
  case base
  show ?case by (rule idle)
next
  case (step y z)
  then show ?case using assms(1) [of "fst y" "snd y" "fst z" "snd z"] by (auto intro: compose)
qed

end

end
