(* ===== verification/Ps7_Config.thy ===== *)
theory Ps7_Config
  imports Machine
begin

text \<open>
  The boot-time initialisation interpreter of \<^verbatim>\<open>ps7_init.c\<close> / \<^verbatim>\<open>ps7_init.h\<close>: a table of
  \<open>unsigned long\<close> words encodes register operations (opcode and number of arguments in the first
  word), \<open>ps7_config\<close> decodes and executes them. The theory holds the encoding macros, the
  interpreter on words, the semantics on decoded operations, and the proof that the interpreter
  implements it.
\<close>

section \<open>Opcodes, return codes, the EMIT macros\<close>

definition OPCODE_EXIT :: u32 where [macro_defs]: "OPCODE_EXIT = 0"
definition OPCODE_CLEAR :: u32 where [macro_defs]: "OPCODE_CLEAR = 1"
definition OPCODE_WRITE :: u32 where [macro_defs]: "OPCODE_WRITE = 2"
definition OPCODE_MASKWRITE :: u32 where [macro_defs]: "OPCODE_MASKWRITE = 3"
definition OPCODE_MASKPOLL :: u32 where [macro_defs]: "OPCODE_MASKPOLL = 4"
definition OPCODE_MASKDELAY :: u32 where [macro_defs]: "OPCODE_MASKDELAY = 5"

datatype ps7_status =
    PS7_INIT_SUCCESS
  | PS7_INIT_CORRUPT
  | PS7_INIT_TIMEOUT
  | PS7_POLL_FAILED_DDR_INIT
  | PS7_POLL_FAILED_DMA
  | PS7_POLL_FAILED_PLL

primrec status_code :: "ps7_status \<Rightarrow> nat" where
  "status_code PS7_INIT_SUCCESS = 0"
| "status_code PS7_INIT_CORRUPT = 1"
| "status_code PS7_INIT_TIMEOUT = 2"
| "status_code PS7_POLL_FAILED_DDR_INIT = 3"
| "status_code PS7_POLL_FAILED_DMA = 4"
| "status_code PS7_POLL_FAILED_PLL = 5"

datatype ps7_op =
    EMIT_EXIT
  | EMIT_CLEAR u32
  | EMIT_WRITE u32 u32
  | EMIT_MASKWRITE u32 u32 u32
  | EMIT_MASKPOLL u32 u32
  | EMIT_MASKDELAY u32 u32

text \<open>The words a macro expands to.\<close>

primrec encode_op :: "ps7_op \<Rightarrow> u32 list" where
  "encode_op EMIT_EXIT = [push_bit 4 OPCODE_EXIT OR 0]"
| "encode_op (EMIT_CLEAR addr) = [push_bit 4 OPCODE_CLEAR OR 1, addr]"
| "encode_op (EMIT_WRITE addr val) = [push_bit 4 OPCODE_WRITE OR 2, addr, val]"
| "encode_op (EMIT_MASKWRITE addr m val) =
     [push_bit 4 OPCODE_MASKWRITE OR 3, addr, m, val]"
| "encode_op (EMIT_MASKPOLL addr m) = [push_bit 4 OPCODE_MASKPOLL OR 2, addr, m]"
| "encode_op (EMIT_MASKDELAY addr m) = [push_bit 4 OPCODE_MASKDELAY OR 2, addr, m]"

definition encode_table :: "ps7_op list \<Rightarrow> u32 list" where
  "encode_table ops = concat (map encode_op ops)"

lemma encode_table_simps [simp]:
  "encode_table [] = []"
  "encode_table (p # ops) = encode_op p @ encode_table ops"
  "encode_table (ops @ ops') = encode_table ops @ encode_table ops'"
  by (simp_all add: encode_table_def)

section \<open>Register accesses\<close>

definition mask_write :: "env \<Rightarrow> u32 \<Rightarrow> u32 \<Rightarrow> u32 \<Rightarrow> 'a io_scheme \<Rightarrow> 'a io_scheme" where
  "mask_write E add m val s =
     (let old = ans E (In32 add) s; s = emit E (In32 add) s
      in emit E (Out32 add ((val AND m) OR (old AND NOT m))) s)"

text \<open>
  The polling loop of \<open>mask_poll\<close> and of \<open>OPCODE_MASKPOLL\<close>; \<open>n\<close> is how far the counter \<open>i\<close> is from
  \<open>PS7_MASK_POLL_TIME\<close>. The result says whether the mask was seen.
\<close>

definition PS7_MASK_POLL_TIME :: nat where "PS7_MASK_POLL_TIME = 100000000"

fun poll_loop :: "env \<Rightarrow> u32 \<Rightarrow> u32 \<Rightarrow> nat \<Rightarrow> 'a io_scheme \<Rightarrow> bool \<times> 'a io_scheme" where
  "poll_loop E add m n s =
     (let v = ans E (In32 add) s; s = emit E (In32 add) s
      in if v AND m \<noteq> 0 then (True, s)
         else if n = 0 then (False, s)
         else poll_loop E add m (n - 1) s)"

declare poll_loop.simps [simp del]

definition mask_poll :: "env \<Rightarrow> u32 \<Rightarrow> u32 \<Rightarrow> 'a io_scheme \<Rightarrow> int \<times> 'a io_scheme" where
  "mask_poll E add m s =
     (let (ok, s) = poll_loop E add m PS7_MASK_POLL_TIME s in (if ok then 1 else -1, s))"

definition mask_read :: "env \<Rightarrow> u32 \<Rightarrow> u32 \<Rightarrow> 'a io_scheme \<Rightarrow> u32 \<times> 'a io_scheme" where
  "mask_read E add m s = (ans E (In32 add) s AND m, emit E (In32 add) s)"

section \<open>The global timer\<close>

definition SCU_GLOBAL_TIMER_COUNT_L32 :: u32 where
  [macro_defs]: "SCU_GLOBAL_TIMER_COUNT_L32 = 0xF8F00200"
definition SCU_GLOBAL_TIMER_COUNT_U32 :: u32 where
  [macro_defs]: "SCU_GLOBAL_TIMER_COUNT_U32 = 0xF8F00204"
definition SCU_GLOBAL_TIMER_CONTROL :: u32 where
  [macro_defs]: "SCU_GLOBAL_TIMER_CONTROL = 0xF8F00208"
definition APU_FREQ :: u32 where [macro_defs]: "APU_FREQ = 500000000"

definition perf_start_clock :: "env \<Rightarrow> 'a io_scheme \<Rightarrow> 'a io_scheme" where
  "perf_start_clock E s =
     emit E (Out32 SCU_GLOBAL_TIMER_CONTROL (push_bit 0 1 OR push_bit 3 1 OR push_bit 8 0)) s"

definition perf_disable_clock :: "env \<Rightarrow> 'a io_scheme \<Rightarrow> 'a io_scheme" where
  "perf_disable_clock E s = emit E (Out32 SCU_GLOBAL_TIMER_CONTROL 0) s"

definition perf_reset_clock :: "env \<Rightarrow> 'a io_scheme \<Rightarrow> 'a io_scheme" where
  "perf_reset_clock E s =
     (let s = perf_disable_clock E s;
          s = emit E (Out32 SCU_GLOBAL_TIMER_COUNT_L32 0) s
      in emit E (Out32 SCU_GLOBAL_TIMER_COUNT_U32 0) s)"

text \<open>\<open>int * unsigned\<close> is unsigned 32-bit arithmetic in C: the product wraps around.\<close>

definition get_number_of_cycles_for_delay :: "u32 \<Rightarrow> u32" where
  "get_number_of_cycles_for_delay delay = APU_FREQ * delay div (2 * 1000)"

definition perf_reset_and_start_timer :: "env \<Rightarrow> 'a io_scheme \<Rightarrow> 'a io_scheme" where
  "perf_reset_and_start_timer E s = perf_start_clock E (perf_reset_clock E s)"

text \<open>\<open>while (*addr < delay);\<close>, which ends only when the register gets there.\<close>

partial_function (option) delay_loop :: "env \<Rightarrow> u32 \<Rightarrow> u32 \<Rightarrow> 'a io_scheme \<Rightarrow> 'a io_scheme option" where
  "delay_loop E add delay s =
     (if ans E (In32 add) s < delay then delay_loop E add delay (emit E (In32 add) s)
      else Some (emit E (In32 add) s))"

section \<open>The interpreter\<close>

text \<open>
  \<open>Ret\<close>: the C function returned; \<open>Hang\<close>: it loops forever; \<open>Undefined\<close>: it read past the end
  of the table, which C leaves undefined.
\<close>

datatype 'a run = Ret 'a | Hang | Undefined

text \<open>\<open>if (ret != PS7_INIT_SUCCESS) return ret;\<close> before going on.\<close>

definition if_success :: "(ps7_status \<times> 's) run \<Rightarrow> ('s \<Rightarrow> (ps7_status \<times> 's) run) \<Rightarrow>
    (ps7_status \<times> 's) run" where
  "if_success res k =
     (case res of Ret (r, s) \<Rightarrow> if r \<noteq> PS7_INIT_SUCCESS then Ret (r, s) else k s
      | Hang \<Rightarrow> Hang | Undefined \<Rightarrow> Undefined)"

text \<open>
  One iteration per step of \<open>ptr\<close>; \<open>args\<close> is the local array, which keeps the values of earlier
  instructions in the places the current one does not fill.
\<close>

function ps7_config_loop ::
    "env \<Rightarrow> u32 list \<Rightarrow> u32 list \<Rightarrow> 'a io_scheme \<Rightarrow> (ps7_status \<times> 'a io_scheme) run" where
  "ps7_config_loop E args ptr s =
     (case ptr of [] \<Rightarrow> Undefined | w # rest \<Rightarrow>
      let numargs = unat (w AND 0xF); opcode = drop_bit 4 w
      in if length rest < numargs then Undefined else
      let args = take numargs rest @ drop numargs args; ptr = drop numargs rest
      in if opcode = OPCODE_EXIT then Ret (PS7_INIT_SUCCESS, s)
         else if opcode = OPCODE_CLEAR then
           ps7_config_loop E args ptr (emit E (Out32 (args ! 0) 0) s)
         else if opcode = OPCODE_WRITE then
           ps7_config_loop E args ptr (emit E (Out32 (args ! 0) (args ! 1)) s)
         else if opcode = OPCODE_MASKWRITE then
           ps7_config_loop E args ptr (mask_write E (args ! 0) (args ! 1) (args ! 2) s)
         else if opcode = OPCODE_MASKPOLL then
           (let (ok, s) = poll_loop E (args ! 0) (args ! 1) PS7_MASK_POLL_TIME s
            in if ok then ps7_config_loop E args ptr s else Ret (PS7_INIT_TIMEOUT, s))
         else if opcode = OPCODE_MASKDELAY then
           (case delay_loop E (args ! 0) (get_number_of_cycles_for_delay (args ! 1))
                   (perf_reset_and_start_timer E s) of
              None \<Rightarrow> Hang
            | Some s \<Rightarrow> ps7_config_loop E args ptr s)
         else Ret (PS7_INIT_CORRUPT, s))"
  by pat_completeness auto
termination
  by (relation "measure (\<lambda>(E, args, ptr, s). length ptr)") auto

declare ps7_config_loop.simps [simp del]

text \<open>\<open>args0\<close>: the uninitialised contents of \<open>args[16]\<close> at entry.\<close>

definition ps7_config ::
    "env \<Rightarrow> u32 list \<Rightarrow> u32 list \<Rightarrow> 'a io_scheme \<Rightarrow> (ps7_status \<times> 'a io_scheme) run" where
  "ps7_config E args0 ps7_config_init s = ps7_config_loop E args0 ps7_config_init s"

section \<open>Semantics of decoded operations\<close>

fun run_ops :: "env \<Rightarrow> ps7_op list \<Rightarrow> 'a io_scheme \<Rightarrow> (ps7_status \<times> 'a io_scheme) run" where
  "run_ops E [] s = Undefined"
| "run_ops E (EMIT_EXIT # ops) s = Ret (PS7_INIT_SUCCESS, s)"
| "run_ops E (EMIT_CLEAR a # ops) s = run_ops E ops (emit E (Out32 a 0) s)"
| "run_ops E (EMIT_WRITE a v # ops) s = run_ops E ops (emit E (Out32 a v) s)"
| "run_ops E (EMIT_MASKWRITE a m v # ops) s = run_ops E ops (mask_write E a m v s)"
| "run_ops E (EMIT_MASKPOLL a m # ops) s =
     (case poll_loop E a m PS7_MASK_POLL_TIME s of
        (True, s) \<Rightarrow> run_ops E ops s
      | (False, s) \<Rightarrow> Ret (PS7_INIT_TIMEOUT, s))"
| "run_ops E (EMIT_MASKDELAY a d # ops) s =
     (case delay_loop E a (get_number_of_cycles_for_delay d) (perf_reset_and_start_timer E s) of
        None \<Rightarrow> Hang
      | Some s \<Rightarrow> run_ops E ops s)"

text \<open>
  The interpreter on the encoded table computes the semantics, whatever the local array held.
\<close>

lemma config_loop_encode:
  "ps7_config_loop E args (encode_table ops) s = run_ops E ops s"
proof (induction E ops s arbitrary: args rule: run_ops.induct)
  case (1 E s)
  show ?case by (simp add: ps7_config_loop.simps)
next
  case (2 E ops s)
  show ?case by (simp add: ps7_config_loop.simps macro_defs)
next
  case (3 E a ops s)
  then show ?case by (subst ps7_config_loop.simps) (simp add: macro_defs)
next
  case (4 E a v ops s)
  then show ?case by (subst ps7_config_loop.simps) (simp add: macro_defs)
next
  case (5 E a m v ops s)
  then show ?case by (subst ps7_config_loop.simps) (simp add: macro_defs)
next
  case (6 E a m ops s)
  then show ?case
    by (subst ps7_config_loop.simps) (auto simp: macro_defs split: prod.splits bool.splits)
next
  case (7 E a d ops s)
  then show ?case
    by (subst ps7_config_loop.simps) (auto simp: macro_defs split: option.splits)
qed

end
