(* ===== verification/Loops.thy ===== *)
theory Loops
  imports Machine
begin

text \<open>
  The two shapes of waiting loop of the firmware. A bounded wait retries a probe a fixed number of
  times (\<open>mask_poll\<close>, the DMA reset loops, the UDP send loop); an unbounded wait repeats a call
  until its answer satisfies a condition (\<open>OPCODE_MASKDELAY\<close>), and returns only if the environment
  lets it.
\<close>

section \<open>Bounded waits\<close>

text \<open>
  \<open>loop n s\<close> makes at most \<open>n\<close> attempts from \<open>s\<close>: an attempt succeeds when \<open>probe\<close> holds, in the
  state \<open>hit s\<close>; after a failed one the loop goes on from \<open>miss s\<close>.
\<close>

locale bounded_wait =
  fixes loop :: "nat \<Rightarrow> 's \<Rightarrow> bool \<times> 's"
    and probe :: "'s \<Rightarrow> bool"
    and hit :: "'s \<Rightarrow> 's"
    and miss :: "'s \<Rightarrow> 's"
  assumes loop_0: "loop 0 s = (False, s)"
    and loop_Suc: "loop (Suc n) s = (if probe s then (True, hit s) else loop n (miss s))"
begin

lemma loop_succeeds_iff: "fst (loop n s) \<longleftrightarrow> (\<exists>k<n. probe ((miss ^^ k) s))"
proof (induction n arbitrary: s)
  case 0
  show ?case by (simp add: loop_0)
next
  case (Suc n)
  show ?case
  proof (cases "probe s")
    case True
    then have "probe ((miss ^^ 0) s)" by simp
    with True show ?thesis by (auto simp: loop_Suc)
  next
    case False
    have "(\<exists>k<n. probe ((miss ^^ k) (miss s))) \<longleftrightarrow> (\<exists>k<Suc n. probe ((miss ^^ k) s))"
    proof
      assume "\<exists>k<n. probe ((miss ^^ k) (miss s))"
      then obtain k where "k < n" "probe ((miss ^^ Suc k) s)"
        by (auto simp: funpow_swap1)
      then show "\<exists>k<Suc n. probe ((miss ^^ k) s)" by (meson Suc_less_eq)
    next
      assume "\<exists>k<Suc n. probe ((miss ^^ k) s)"
      then obtain k where k: "k < Suc n" "probe ((miss ^^ k) s)" by blast
      then obtain j where "k = Suc j" using False by (cases k) auto
      with k show "\<exists>k<n. probe ((miss ^^ k) (miss s))" by (auto simp: funpow_swap1)
    qed
    with Suc.IH [of "miss s"] False show ?thesis by (simp add: loop_Suc)
  qed
qed

lemma loop_fails: "\<not> fst (loop n s) \<Longrightarrow> snd (loop n s) = (miss ^^ n) s"
  by (induction n arbitrary: s) (auto simp: loop_0 loop_Suc funpow_swap1 split: if_splits)

lemma loop_hit:
  "fst (loop n s) \<Longrightarrow>
   \<exists>k<n. probe ((miss ^^ k) s) \<and> (\<forall>j<k. \<not> probe ((miss ^^ j) s)) \<and>
     snd (loop n s) = hit ((miss ^^ k) s)"
proof (induction n arbitrary: s)
  case 0
  then show ?case by (simp add: loop_0)
next
  case (Suc n)
  show ?case
  proof (cases "probe s")
    case True
    then show ?thesis by (intro exI [of _ 0]) (simp add: loop_Suc)
  next
    case False
    with Suc.prems have "fst (loop n (miss s))" by (simp add: loop_Suc)
    from Suc.IH [OF this] obtain k where k: "k < n" "probe ((miss ^^ k) (miss s))"
      "\<And>j. j < k \<Longrightarrow> \<not> probe ((miss ^^ j) (miss s))"
      "snd (loop n (miss s)) = hit ((miss ^^ k) (miss s))" by blast
    have "\<not> probe ((miss ^^ j) s)" if "j < Suc k" for j
      using that False k(3) [of "j - 1"] by (cases j) (auto simp: funpow_swap1)
    with k False show ?thesis
      by (intro exI [of _ "Suc k"]) (auto simp: loop_Suc funpow_swap1)
  qed
qed

lemma loop_keeps:
  assumes "P s" and "\<And>s. P s \<Longrightarrow> P (hit s)" and "\<And>s. P s \<Longrightarrow> P (miss s)"
  shows "P (snd (loop n s))"
  using assms(1) by (induction n arbitrary: s) (auto simp: loop_0 loop_Suc assms(2,3))

end

section \<open>Repeating a call\<close>

text \<open>The trace after \<open>n\<close> repetitions of the call \<open>c\<close>.\<close>

primrec repeated :: "env \<Rightarrow> call \<Rightarrow> event list \<Rightarrow> nat \<Rightarrow> event list" where
  "repeated E c t 0 = t"
| "repeated E c t (Suc n) = repeated E c (t @ [(c, ret E t c)]) n"

lemma repeated_snoc:
  "repeated E c t (Suc n) = repeated E c t n @ [(c, ret E (repeated E c t n) c)]"
proof (induction n arbitrary: t)
  case 0
  show ?case by simp
next
  case (Suc n)
  show ?case using Suc.IH [of "t @ [(c, ret E t c)]"] by simp
qed

lemma prefix_repeated: "prefix t (repeated E c t n)"
  by (induction n arbitrary: t) (auto intro: append_prefixD)

lemma funpow_emit: "(emit E c ^^ n) s = s\<lparr>tr := repeated E c (tr s) n\<rparr>"
proof (induction n)
  case 0
  show ?case by simp
next
  case (Suc n)
  then show ?case
    by (simp add: repeated_snoc emit_def ans_def del: repeated.simps)
qed

lemma calls_repeated: "map fst (repeated E c t n) = map fst t @ replicate n c"
  by (induction n arbitrary: t) (simp_all add: replicate_app_Cons_same)

end
