(* ===== verification/Ps7_Semantics.thy ===== *)
theory Ps7_Semantics
  imports Ps7_Config Loops
begin

text \<open>
  What can be said of a table of operations by looking at it, and what that means for its
  execution on any hardware: the shape that rules out a corrupt table, the SLCR lock protocol,
  and the bits of a register that are known once a table has run.
\<close>

section \<open>The polling loop\<close>

text \<open>With a budget of \<open>n\<close> the loop reads the register at most \<open>n + 1\<close> times.\<close>

definition poll_attempts :: "env \<Rightarrow> u32 \<Rightarrow> u32 \<Rightarrow> nat \<Rightarrow> 'a io_scheme \<Rightarrow> bool \<times> 'a io_scheme" where
  "poll_attempts E a m k s = (if k = 0 then (False, s) else poll_loop E a m (k - 1) s)"

interpretation poll: bounded_wait "poll_attempts E a m" "\<lambda>s. ans E (In32 a) s AND m \<noteq> 0"
    "emit E (In32 a)" "emit E (In32 a)" for E a m
proof
  fix s :: "'a io_scheme" and n
  show "poll_attempts E a m 0 s = (False, s)" by (simp add: poll_attempts_def)
  show "poll_attempts E a m (Suc n) s =
      (if ans E (In32 a) s AND m \<noteq> 0 then (True, emit E (In32 a) s)
       else poll_attempts E a m n (emit E (In32 a) s))"
    by (cases n) (simp_all add: poll_attempts_def poll_loop.simps [of E a m] Let_def)
qed

lemma poll_loop_attempts: "poll_loop E a m n s = poll_attempts E a m (Suc n) s"
  by (simp add: poll_attempts_def)

lemma poll_loop_state:
  assumes "poll_loop E a m n s = (ok, s')"
  shows "\<exists>k\<le>n. s' = s\<lparr>tr := repeated E (In32 a) (tr s) (Suc k)\<rparr>"
proof (cases ok)
  case True
  with assms have "fst (poll_attempts E a m (Suc n) s)" by (simp add: poll_loop_attempts)
  from poll.loop_hit [OF this] obtain k
    where "k < Suc n" "s' = (emit E (In32 a) ^^ Suc k) s"
    using assms by (auto simp: poll_loop_attempts)
  then show ?thesis
    by (intro exI [of _ k]) (simp add: funpow_emit del: funpow.simps repeated.simps)
next
  case False
  with assms poll.loop_fails [of E a m "Suc n" s] have "s' = (emit E (In32 a) ^^ Suc n) s"
    by (simp add: poll_loop_attempts del: funpow.simps)
  then show ?thesis by (auto simp: funpow_emit simp del: funpow.simps repeated.simps)
qed

lemma poll_loop_prefix: "poll_loop E a m n s = (ok, s') \<Longrightarrow> prefix (tr s) (tr s')"
  using poll.loop_keeps [of "\<lambda>s'. prefix (tr s) (tr s')" s E a m "Suc n"]
  by (auto simp: poll_loop_attempts intro: prefix_append_right)

lemma poll_loop_calls:
  "poll_loop E a m n s = (ok, s') \<Longrightarrow> \<exists>k. calls_since s s' = replicate (Suc k) (In32 a)"
  using poll_loop_state [of E a m n s ok s']
  by (auto simp: calls_since_def drop_map [symmetric] calls_repeated simp del: repeated.simps replicate.simps)

section \<open>The delay loop\<close>

lemma delay_loop_state:
  assumes "delay_loop E a d s = Some s'"
  shows "\<exists>k. s' = (emit E (In32 a) ^^ Suc k) s"
proof -
  define P where "P = (\<lambda>E a (d::u32) s (s'::'a io_scheme). \<exists>k. s' = (emit E (In32 a) ^^ Suc k) s)"
  have "P E a d s s'"
  proof (rule delay_loop.raw_induct [where P = P, OF _ assms])
    fix f E a d and s s' :: "'a io_scheme"
    assume IH: "\<And>E a d s s'. f E a d s = Some s' \<Longrightarrow> P E a d s s'"
      and eq: "(if ans E (In32 a) s < d then f E a d (emit E (In32 a) s)
        else Some (emit E (In32 a) s)) = Some s'"
    show "P E a d s s'"
    proof (cases "ans E (In32 a) s < d")
      case True
      with eq IH obtain k where "s' = (emit E (In32 a) ^^ Suc k) (emit E (In32 a) s)"
        by (fastforce simp: P_def)
      then have "s' = (emit E (In32 a) ^^ Suc (Suc k)) s" by (simp add: funpow_swap1)
      then show ?thesis unfolding P_def by blast
    next
      case False
      with eq have "s' = (emit E (In32 a) ^^ Suc 0) s" by simp
      then show ?thesis unfolding P_def by blast
    qed
  qed
  then show ?thesis by (simp add: P_def)
qed

text \<open>The delay ends exactly when some later read of the timer reaches it.\<close>

lemma delay_loop_returns:
  "\<not> ret E (repeated E (In32 a) (tr s) n) (In32 a) < d \<Longrightarrow> \<exists>s'. delay_loop E a d s = Some s'"
proof (induction n arbitrary: s)
  case 0
  then show ?case by (subst delay_loop.simps) (simp add: ans_def)
next
  case (Suc n)
  then show ?case
    by (subst delay_loop.simps) (auto simp: ans_def emit_def)
qed

lemma delay_loop_prefix: "delay_loop E a d s = Some s' \<Longrightarrow> prefix (tr s) (tr s')"
  by (drule delay_loop_state)
    (auto simp: funpow_emit prefix_repeated simp del: funpow.simps repeated.simps)

lemma delay_loop_calls:
  "delay_loop E a d s = Some s' \<Longrightarrow> \<exists>k. calls_since s s' = replicate (Suc k) (In32 a)"
  by (drule delay_loop_state)
    (auto simp: funpow_emit calls_since_def drop_map [symmetric] calls_repeated
      simp del: funpow.simps repeated.simps replicate.simps)


section \<open>Well-formed tables\<close>

text \<open>An \<open>EMIT_EXIT\<close> ends the table, and no operation follows it.\<close>

fun wf_ops :: "ps7_op list \<Rightarrow> bool" where
  "wf_ops [] = False"
| "wf_ops [p] = (p = EMIT_EXIT)"
| "wf_ops (p # ops) = (p \<noteq> EMIT_EXIT \<and> wf_ops ops)"

lemma wf_ops_Cons: "wf_ops (p # ops) \<longleftrightarrow> (if p = EMIT_EXIT then ops = [] else wf_ops ops)"
  by (cases ops) auto

text \<open>Repeated reads of the register at \<open>a\<close> reach the delay, whatever happened before.\<close>

definition delay_ends :: "env \<Rightarrow> u32 \<Rightarrow> u32 \<Rightarrow> bool" where
  "delay_ends E a d \<longleftrightarrow>
     (\<forall>t. \<exists>n. \<not> ret E (repeated E (In32 a) t n) (In32 a) < get_number_of_cycles_for_delay d)"

text \<open>Polling the register at \<open>a\<close> shows a bit of the mask within the budget of the loop.\<close>

definition poll_ends :: "env \<Rightarrow> u32 \<Rightarrow> u32 \<Rightarrow> bool" where
  "poll_ends E a m \<longleftrightarrow>
     (\<forall>t. \<exists>n\<le>PS7_MASK_POLL_TIME. ret E (repeated E (In32 a) t n) (In32 a) AND m \<noteq> 0)"

fun delay_of :: "ps7_op \<Rightarrow> (u32 \<times> u32) list" where
  "delay_of (EMIT_MASKDELAY a d) = [(a, d)]"
| "delay_of _ = []"

fun poll_of :: "ps7_op \<Rightarrow> (u32 \<times> u32) list" where
  "poll_of (EMIT_MASKPOLL a m) = [(a, m)]"
| "poll_of _ = []"

definition delays_in :: "ps7_op list \<Rightarrow> (u32 \<times> u32) list" where
  "delays_in ops = concat (map delay_of ops)"

definition polls_in :: "ps7_op list \<Rightarrow> (u32 \<times> u32) list" where
  "polls_in ops = concat (map poll_of ops)"

lemma delays_in_simps [simp]:
  "delays_in [] = []" "delays_in (p # ops) = delay_of p @ delays_in ops"
  "delays_in (ops @ ops') = delays_in ops @ delays_in ops'"
  by (simp_all add: delays_in_def)

lemma polls_in_simps [simp]:
  "polls_in [] = []" "polls_in (p # ops) = poll_of p @ polls_in ops"
  "polls_in (ops @ ops') = polls_in ops @ polls_in ops'"
  by (simp_all add: polls_in_def)

definition delays_end :: "env \<Rightarrow> ps7_op list \<Rightarrow> bool" where
  "delays_end E ops \<longleftrightarrow> (\<forall>(a, d) \<in> set (delays_in ops). delay_ends E a d)"

definition polls_end :: "env \<Rightarrow> ps7_op list \<Rightarrow> bool" where
  "polls_end E ops \<longleftrightarrow> (\<forall>(a, m) \<in> set (polls_in ops). poll_ends E a m)"

lemma run_ops_not_undefined: "wf_ops ops \<Longrightarrow> run_ops E ops s \<noteq> Undefined"
  by (induction E ops s rule: run_ops.induct)
    (auto simp: wf_ops_Cons split: prod.splits bool.splits option.splits)

lemma run_ops_status:
  "run_ops E ops s = Ret (r, s') \<Longrightarrow> r = PS7_INIT_SUCCESS \<or> r = PS7_INIT_TIMEOUT"
  by (induction E ops s rule: run_ops.induct)
    (auto split: prod.splits bool.splits option.splits)

lemma delay_ends_returns:
  "delay_ends E a d \<Longrightarrow> \<exists>s'. delay_loop E a (get_number_of_cycles_for_delay d) s = Some s'"
  using delay_loop_returns unfolding delay_ends_def by blast

lemma poll_ends_hits:
  assumes "poll_ends E a m"
  shows "fst (poll_loop E a m PS7_MASK_POLL_TIME s)"
proof -
  obtain n where "n \<le> PS7_MASK_POLL_TIME"
      "ret E (repeated E (In32 a) (tr s) n) (In32 a) AND m \<noteq> 0"
    using assms unfolding poll_ends_def by blast
  then have "\<exists>k<Suc PS7_MASK_POLL_TIME. ans E (In32 a) ((emit E (In32 a) ^^ k) s) AND m \<noteq> 0"
    by (intro exI [of _ n]) (simp add: funpow_emit ans_def)
  then show ?thesis unfolding poll_loop_attempts poll.loop_succeeds_iff .
qed

lemma run_ops_returns: "delays_end E ops \<Longrightarrow> run_ops E ops s \<noteq> Hang"
proof (induction E ops s rule: run_ops.induct)
  case (7 E a d ops s)
  then obtain s' where "delay_loop E a (get_number_of_cycles_for_delay d)
      (perf_reset_and_start_timer E s) = Some s'"
    using delay_ends_returns by (fastforce simp: delays_end_def)
  with 7 show ?case by (simp add: delays_end_def)
qed (auto simp: delays_end_def split: prod.splits bool.splits)

lemma run_ops_succeeds:
  "wf_ops ops \<Longrightarrow> delays_end E ops \<Longrightarrow> polls_end E ops \<Longrightarrow>
   \<exists>s'. run_ops E ops s = Ret (PS7_INIT_SUCCESS, s')"
proof (induction E ops s rule: run_ops.induct)
  case (6 E a m ops s)
  obtain ok s1 where p: "poll_loop E a m PS7_MASK_POLL_TIME s = (ok, s1)" by fastforce
  moreover from this have ok using 6 poll_ends_hits [of E a m s] by (simp add: polls_end_def)
  ultimately show ?case using 6 by (simp add: wf_ops_Cons delays_end_def polls_end_def)
next
  case (7 E a d ops s)
  then obtain s' where "delay_loop E a (get_number_of_cycles_for_delay d)
      (perf_reset_and_start_timer E s) = Some s'"
    using delay_ends_returns by (fastforce simp: delays_end_def)
  with 7 show ?case by (simp add: wf_ops_Cons delays_end_def polls_end_def)
qed (simp_all add: wf_ops_Cons delays_end_def polls_end_def)

section \<open>The calls an operation makes\<close>

fun op_calls :: "ps7_op \<Rightarrow> call list \<Rightarrow> bool" where
  "op_calls EMIT_EXIT cs = (cs = [])"
| "op_calls (EMIT_CLEAR a) cs = (cs = [Out32 a 0])"
| "op_calls (EMIT_WRITE a v) cs = (cs = [Out32 a v])"
| "op_calls (EMIT_MASKWRITE a m v) cs = (\<exists>w. w AND m = v AND m \<and> cs = [In32 a, Out32 a w])"
| "op_calls (EMIT_MASKPOLL a m) cs = (\<exists>k. cs = replicate (Suc k) (In32 a))"
| "op_calls (EMIT_MASKDELAY a d) cs =
     (\<exists>k. cs = [Out32 SCU_GLOBAL_TIMER_CONTROL 0, Out32 SCU_GLOBAL_TIMER_COUNT_L32 0,
                Out32 SCU_GLOBAL_TIMER_COUNT_U32 0, Out32 SCU_GLOBAL_TIMER_CONTROL 9]
              @ replicate (Suc k) (In32 a))"

lemma tr_mask_write:
  "\<exists>w x y. w AND m = v AND m \<and> tr (mask_write E a m v s) = tr s @ [(In32 a, x), (Out32 a w, y)]"
  by (auto simp: mask_write_def Let_def mask_merge_in)

lemma mask_write_calls:
  "prefix (tr s) (tr (mask_write E a m v s)) \<and>
   op_calls (EMIT_MASKWRITE a m v) (calls_since s (mask_write E a m v s))"
  by (auto simp: mask_write_def Let_def calls_since_def mask_merge_in)

lemma timer_start_calls:
  "prefix (tr s) (tr (perf_reset_and_start_timer E s)) \<and>
   calls_since s (perf_reset_and_start_timer E s) =
     [Out32 SCU_GLOBAL_TIMER_CONTROL 0, Out32 SCU_GLOBAL_TIMER_COUNT_L32 0,
      Out32 SCU_GLOBAL_TIMER_COUNT_U32 0, Out32 SCU_GLOBAL_TIMER_CONTROL 9]"
  by (simp add: perf_reset_and_start_timer_def perf_start_clock_def perf_reset_clock_def
      perf_disable_clock_def calls_since_def)

lemma mask_delay_calls:
  assumes "delay_loop E a d (perf_reset_and_start_timer E s) = Some s'"
  shows "prefix (tr s) (tr s') \<and> op_calls (EMIT_MASKDELAY a d') (calls_since s s')"
proof -
  let ?s = "perf_reset_and_start_timer E s"
  have p: "prefix (tr ?s) (tr s')" using assms by (rule delay_loop_prefix)
  obtain k where "calls_since ?s s' = replicate (Suc k) (In32 a)"
    using delay_loop_calls [OF assms] by blast
  then show ?thesis
    using timer_start_calls [of s E] p calls_since_trans [OF _ p, of s]
    by (auto simp del: replicate.simps intro: prefix_order.trans)
qed

section \<open>Monitors\<close>

text \<open>
  A monitor watches the calls of a run and may reject one (\<open>None\<close>). If a static analysis of an
  operation predicts what the monitor does on every call sequence the operation can make, the
  analysis of a table predicts the monitor on every execution of the table, on any hardware.
\<close>

fun monitor :: "('b \<Rightarrow> call \<Rightarrow> 'b option) \<Rightarrow> 'b \<Rightarrow> call list \<Rightarrow> 'b option" where
  "monitor nxt x [] = Some x"
| "monitor nxt x (c # cs) = (case nxt x c of None \<Rightarrow> None | Some y \<Rightarrow> monitor nxt y cs)"

lemma monitor_append:
  "monitor nxt x (cs @ ds) =
     (case monitor nxt x cs of None \<Rightarrow> None | Some y \<Rightarrow> monitor nxt y ds)"
  by (induction cs arbitrary: x) (auto split: option.splits)

fun analyse :: "('b \<Rightarrow> ps7_op \<Rightarrow> 'b option) \<Rightarrow> 'b \<Rightarrow> ps7_op list \<Rightarrow> 'b option" where
  "analyse f x [] = Some x"
| "analyse f x (p # ops) = (case f x p of None \<Rightarrow> None | Some y \<Rightarrow> analyse f y ops)"

lemma analyse_append:
  "analyse f x (ops @ ops') =
     (case analyse f x ops of None \<Rightarrow> None | Some y \<Rightarrow> analyse f y ops')"
  by (induction ops arbitrary: x) (auto split: option.splits)

text \<open>A run from \<open>s\<close> never makes a rejected call, and a successful one ends in the state \<open>goal\<close>.\<close>

definition accepts :: "('b \<Rightarrow> call \<Rightarrow> 'b option) \<Rightarrow> 'b option \<Rightarrow> 'b \<Rightarrow>
    (ps7_status \<times> 'a io_scheme) run \<Rightarrow> 'a io_scheme \<Rightarrow> bool" where
  "accepts nxt goal x res s \<longleftrightarrow> (\<forall>r s'. res = Ret (r, s') \<longrightarrow> prefix (tr s) (tr s') \<and>
     monitor nxt x (calls_since s s') \<noteq> None \<and>
     (r = PS7_INIT_SUCCESS \<longrightarrow> monitor nxt x (calls_since s s') = goal))"

lemma accepts_after:
  assumes "prefix (tr s) (tr s1)" and "monitor nxt x (calls_since s s1) = Some y"
    and "accepts nxt goal y res s1"
  shows "accepts nxt goal x res s"
  unfolding accepts_def
proof (intro allI impI)
  fix r s' assume "res = Ret (r, s')"
  with assms(3) have p: "prefix (tr s1) (tr s')" "monitor nxt y (calls_since s1 s') \<noteq> None"
    "r = PS7_INIT_SUCCESS \<longrightarrow> monitor nxt y (calls_since s1 s') = goal"
    by (auto simp: accepts_def)
  moreover have "calls_since s s' = calls_since s s1 @ calls_since s1 s'"
    using assms(1) p(1) by (rule calls_since_trans)
  ultimately show "prefix (tr s) (tr s') \<and> monitor nxt x (calls_since s s') \<noteq> None \<and>
     (r = PS7_INIT_SUCCESS \<longrightarrow> monitor nxt x (calls_since s s') = goal)"
    using assms(1,2) by (auto simp: monitor_append intro: prefix_order.trans)
qed

locale call_monitor =
  fixes nxt :: "'b \<Rightarrow> call \<Rightarrow> 'b option"
    and op_next :: "'b \<Rightarrow> ps7_op \<Rightarrow> 'b option"
  assumes op_next_sound: "op_next x p = Some y \<Longrightarrow> op_calls p cs \<Longrightarrow> monitor nxt x cs = Some y"
begin

lemma op_accepted:
  assumes "op_next x p = Some y" and "prefix (tr s) (tr s1) \<and> op_calls p (calls_since s s1)"
    and "accepts nxt goal y res s1"
  shows "accepts nxt goal x res s"
  using assms(2) op_next_sound [OF assms(1)] accepts_after [OF _ _ assms(3)] by simp

lemma run_ops_accepted:
  "analyse op_next x ops = Some goal \<Longrightarrow> wf_ops ops \<Longrightarrow>
   accepts nxt (Some goal) x (run_ops E ops s) s"
proof (induction E ops s arbitrary: x rule: run_ops.induct)
  case (1 E s)
  then show ?case by simp
next
  case (2 E ops s)
  then obtain "op_next x EMIT_EXIT = Some goal" by (auto simp: wf_ops_Cons split: option.splits)
  from op_next_sound [OF this, of "[]"] show ?case by (simp add: accepts_def)
next
  case (3 E a ops s)
  then obtain y where y: "op_next x (EMIT_CLEAR a) = Some y" "analyse op_next y ops = Some goal"
    by (auto split: option.splits)
  show ?case
    using 3 y by (auto simp: wf_ops_Cons intro!: op_accepted [OF y(1), of _ "emit E (Out32 a 0) s"])
next
  case (4 E a v ops s)
  then obtain y where y: "op_next x (EMIT_WRITE a v) = Some y" "analyse op_next y ops = Some goal"
    by (auto split: option.splits)
  show ?case
    using 4 y by (auto simp: wf_ops_Cons intro!: op_accepted [OF y(1), of _ "emit E (Out32 a v) s"])
next
  case (5 E a m v ops s)
  then obtain y where y: "op_next x (EMIT_MASKWRITE a m v) = Some y"
      "analyse op_next y ops = Some goal"
    by (auto split: option.splits)
  have "accepts nxt (Some goal) y (run_ops E ops (mask_write E a m v s)) (mask_write E a m v s)"
    using 5 y by (auto simp: wf_ops_Cons)
  from op_accepted [OF y(1) mask_write_calls this] show ?case by simp
next
  case (6 E a m ops s)
  then obtain y where y: "op_next x (EMIT_MASKPOLL a m) = Some y" "analyse op_next y ops = Some goal"
    by (auto split: option.splits)
  obtain ok s1 where p: "poll_loop E a m PS7_MASK_POLL_TIME s = (ok, s1)" by fastforce
  have c: "prefix (tr s) (tr s1) \<and> op_calls (EMIT_MASKPOLL a m) (calls_since s s1)"
    using poll_loop_prefix [OF p] poll_loop_calls [OF p] by simp
  have "accepts nxt (Some goal) y (if ok then run_ops E ops s1 else Ret (PS7_INIT_TIMEOUT, s1)) s1"
    using 6 y p by (auto simp: wf_ops_Cons accepts_def)
  from op_accepted [OF y(1) c this] p show ?case by (cases ok) simp_all
next
  case (7 E a d ops s)
  then obtain y where y: "op_next x (EMIT_MASKDELAY a d) = Some y" "analyse op_next y ops = Some goal"
    by (auto split: option.splits)
  show ?case
  proof (cases "delay_loop E a (get_number_of_cycles_for_delay d) (perf_reset_and_start_timer E s)")
    case None
    then show ?thesis by (simp add: accepts_def)
  next
    case (Some s1)
    have "accepts nxt (Some goal) y (run_ops E ops s1) s1"
      using 7 y Some by (auto simp: wf_ops_Cons)
    from op_accepted [OF y(1) mask_delay_calls [OF Some] this] Some show ?thesis by simp
  qed
qed

end

lemma accepts_then:
  assumes "accepts nxt (Some y) x res s"
    and "\<And>s1. res = Ret (PS7_INIT_SUCCESS, s1) \<Longrightarrow> accepts nxt goal y (k s1) s1"
  shows "accepts nxt goal x (if_success res k) s"
proof (cases res)
  case (Ret p)
  obtain r s1 where rs: "p = (r, s1)" by fastforce
  show ?thesis
  proof (cases "r = PS7_INIT_SUCCESS")
    case False
    with assms(1) show ?thesis by (auto simp: accepts_def if_success_def Ret rs)
  next
    case True
    have "prefix (tr s) (tr s1)" "monitor nxt x (calls_since s s1) = Some y"
      using assms(1) True by (auto simp: accepts_def Ret rs)
    moreover have "accepts nxt goal y (k s1) s1" using assms(2) Ret rs True by simp
    ultimately have "accepts nxt goal x (k s1) s" by (rule accepts_after)
    with True show ?thesis by (simp add: if_success_def Ret rs)
  qed
qed (simp_all add: accepts_def if_success_def)

end
