(* ===== verification/Ps7_Checks.thy ===== *)
theory Ps7_Checks
  imports Ps7_Semantics
begin

text \<open>
  Two analyses of the initialisation tables, both sound for every execution: the SLCR lock
  protocol (a monitor) and the bits a table leaves in a configuration register.
\<close>

section \<open>The SLCR lock protocol\<close>

text \<open>
  The system-level control registers accept writes only between the unlock key written to
  \<open>0xF8000008\<close> and the lock key written to \<open>0xF8000004\<close> (UNLOCK_KEY and LOCK_KEY in the comments of
  the tables). The monitor's state says whether they are unlocked; it rejects a wrong key and a
  write to a locked register.
\<close>

definition SLCR_LOCK :: u32 where [macro_defs]: "SLCR_LOCK = 0xF8000004"
definition SLCR_UNLOCK :: u32 where [macro_defs]: "SLCR_UNLOCK = 0xF8000008"
definition LOCK_KEY :: u32 where [macro_defs]: "LOCK_KEY = 0x767B"
definition UNLOCK_KEY :: u32 where [macro_defs]: "UNLOCK_KEY = 0xDF0D"

definition in_slcr :: "u32 \<Rightarrow> bool" where
  "in_slcr a \<longleftrightarrow> 0xF8000000 \<le> a \<and> a < 0xF8001000"

definition slcr_write :: "bool \<Rightarrow> u32 \<Rightarrow> u32 \<Rightarrow> bool option" where
  "slcr_write unlocked a v =
     (if a = SLCR_UNLOCK then (if v = UNLOCK_KEY then Some True else None)
      else if a = SLCR_LOCK then (if v = LOCK_KEY then Some False else None)
      else if in_slcr a \<and> \<not> unlocked then None
      else Some unlocked)"

fun slcr_next :: "bool \<Rightarrow> call \<Rightarrow> bool option" where
  "slcr_next unlocked (Out32 a v) = slcr_write unlocked a v"
| "slcr_next unlocked _ = Some unlocked"

text \<open>A masked write may not touch the key registers, whose value it would not determine.\<close>

fun slcr_op :: "bool \<Rightarrow> ps7_op \<Rightarrow> bool option" where
  "slcr_op unlocked (EMIT_CLEAR a) = slcr_write unlocked a 0"
| "slcr_op unlocked (EMIT_WRITE a v) = slcr_write unlocked a v"
| "slcr_op unlocked (EMIT_MASKWRITE a m v) =
     (if a = SLCR_UNLOCK \<or> a = SLCR_LOCK then None else slcr_write unlocked a 0)"
| "slcr_op unlocked _ = Some unlocked"

lemma monitor_reads: "monitor slcr_next u (replicate k (In32 a)) = Some u"
  by (induction k) simp_all

interpretation slcr: call_monitor slcr_next slcr_op
proof
  fix x y p cs
  assume "slcr_op x p = Some y" and "op_calls p cs"
  then show "monitor slcr_next x cs = Some y"
    by (cases p) (auto simp: monitor_reads slcr_write_def in_slcr_def macro_defs
        simp del: replicate.simps split: if_splits)
qed

section \<open>Configuration registers\<close>

lemma last_out_repeated: "last_out a r0 (repeated E (In32 b) t n) = last_out a r0 t"
  by (induction n arbitrary: t) simp_all

definition is_timer_reg :: "u32 \<Rightarrow> bool" where
  "is_timer_reg a \<longleftrightarrow> a = SCU_GLOBAL_TIMER_CONTROL \<or> a = SCU_GLOBAL_TIMER_COUNT_L32
     \<or> a = SCU_GLOBAL_TIMER_COUNT_U32"

text \<open>Which bits of the register at \<open>a\<close> are known (first component), and what they are.\<close>

fun known_op :: "u32 \<Rightarrow> u32 \<times> u32 \<Rightarrow> ps7_op \<Rightarrow> u32 \<times> u32" where
  "known_op a (k, w) (EMIT_CLEAR b) = (if b = a then (-1, 0) else (k, w))"
| "known_op a (k, w) (EMIT_WRITE b v) = (if b = a then (-1, v) else (k, w))"
| "known_op a (k, w) (EMIT_MASKWRITE b m v) =
     (if b = a then (k OR m, (v AND m) OR (w AND NOT m)) else (k, w))"
| "known_op a (k, w) _ = (k, w)"

definition known_bits :: "u32 \<Rightarrow> u32 \<times> u32 \<Rightarrow> ps7_op list \<Rightarrow> u32 \<times> u32" where
  "known_bits a = foldl (known_op a)"

lemma known_bits_simps [simp]:
  "known_bits a x [] = x"
  "known_bits a x (p # ops) = known_bits a (known_op a x p) ops"
  "known_bits a x (ops @ ops') = known_bits a (known_bits a x ops) ops'"
  by (simp_all add: known_bits_def)

definition knows :: "u32 \<times> u32 \<Rightarrow> u32 \<Rightarrow> bool" where
  "knows x r \<longleftrightarrow> r AND fst x = snd x AND fst x"

lemma knows_mask_write:
  assumes "knows (k, w) r"
  shows "knows (k OR m, (v AND m) OR (w AND NOT m)) ((v AND m) OR (r AND NOT m))"
  unfolding knows_def fst_conv snd_conv
proof (rule bit_word_eqI)
  fix n assume n: "n < LENGTH(32)"
  have "r AND k = w AND k" using assms by (simp add: knows_def)
  then have "bit (r AND k) n = bit (w AND k) n" by simp
  then show "bit (((v AND m) OR (r AND NOT m)) AND (k OR m)) n =
      bit (((v AND m) OR (w AND NOT m)) AND (k OR m)) n"
    using n by (auto simp: bit_simps)
qed

lemma timer_start_last_out:
  "\<not> is_timer_reg a \<Longrightarrow>
   last_out a r0 (tr (perf_reset_and_start_timer E s)) = last_out a r0 (tr s)"
  by (auto simp: perf_reset_and_start_timer_def perf_start_clock_def perf_reset_clock_def
      perf_disable_clock_def is_timer_reg_def)

lemma poll_loop_last_out:
  "poll_loop E b m n s = (ok, s') \<Longrightarrow> last_out a r0 (tr s') = last_out a r0 (tr s)"
  by (drule poll_loop_state) (auto simp: last_out_repeated simp del: repeated.simps)

lemma delay_loop_last_out:
  "delay_loop E b d s = Some s' \<Longrightarrow> last_out a r0 (tr s') = last_out a r0 (tr s)"
  by (drule delay_loop_state)
    (auto simp: funpow_emit last_out_repeated simp del: repeated.simps funpow.simps)

lemma mask_write_knows:
  assumes "stores E a r0" and "knows x (last_out a r0 (tr s))"
  shows "knows (known_op a x (EMIT_MASKWRITE b m v)) (last_out a r0 (tr (mask_write E b m v s)))"
  using assms knows_mask_write [of "fst x" "snd x"]
  by (cases x) (auto simp: mask_write_def Let_def ans_def stores_def)

lemma run_ops_knows:
  assumes "stores E a r0" and "\<not> is_timer_reg a"
    and "run_ops E ops s = Ret (PS7_INIT_SUCCESS, s')" and "wf_ops ops"
    and "knows x (last_out a r0 (tr s))"
  shows "knows (known_bits a x ops) (last_out a r0 (tr s'))"
  using assms
proof (induction E ops s arbitrary: x rule: run_ops.induct)
  case (2 E ops s)
  then show ?case by (cases x) (simp add: wf_ops_Cons)
next
  case (3 E b ops s)
  have "knows (known_op a x (EMIT_CLEAR b)) (last_out a r0 (tr (emit E (Out32 b 0) s)))"
    using "3.prems" by (cases x) (simp add: knows_def)
  with 3 show ?case by (simp add: wf_ops_Cons)
next
  case (4 E b v ops s)
  have "knows (known_op a x (EMIT_WRITE b v)) (last_out a r0 (tr (emit E (Out32 b v) s)))"
    using "4.prems" by (cases x) (simp add: knows_def)
  with 4 show ?case by (simp add: wf_ops_Cons)
next
  case (5 E b m v ops s)
  from mask_write_knows [OF "5.prems"(1,5), of b m v] 5 show ?case by (simp add: wf_ops_Cons)
next
  case (6 E b m ops s)
  obtain ok s1 where p: "poll_loop E b m PS7_MASK_POLL_TIME s = (ok, s1)" by fastforce
  with 6 have ok: ok "run_ops E ops s1 = Ret (PS7_INIT_SUCCESS, s')" by (auto split: bool.splits)
  have "knows (known_op a x (EMIT_MASKPOLL b m)) (last_out a r0 (tr s1))"
    using "6.prems" poll_loop_last_out [OF p] by (cases x) simp
  with 6 p ok show ?case by (simp add: wf_ops_Cons)
next
  case (7 E b d ops s)
  let ?s = "perf_reset_and_start_timer E s"
  obtain s1 where d: "delay_loop E b (get_number_of_cycles_for_delay d) ?s = Some s1"
      "run_ops E ops s1 = Ret (PS7_INIT_SUCCESS, s')"
    using 7 by (auto split: option.splits)
  have "knows (known_op a x (EMIT_MASKDELAY b d)) (last_out a r0 (tr s1))"
    using "7.prems" delay_loop_last_out [OF d(1)]
    by (cases x) (simp add: timer_start_last_out)
  with 7 d show ?case by (simp add: wf_ops_Cons)
qed simp_all

lemma knows_nothing: "knows (0, 0) r"
  by (simp add: knows_def)

end
