(* ===== verification/Ps7_Init.thy ===== *)
theory Ps7_Init
  imports Ps7_Checks Ps7_Tables_1_0
begin

text \<open>
  The entry points of \<^verbatim>\<open>ps7_init.c\<close> (\<open>ps7_init\<close>, \<open>ps7_post_config\<close>, \<open>ps7_debug\<close> and the
  version and message helpers) and what they guarantee for the tables of this board, on any
  hardware.
\<close>

section \<open>The entry points\<close>

definition getPS7MessageInfo :: "nat \<Rightarrow> string" where
  "getPS7MessageInfo key =
     (if key = status_code PS7_INIT_SUCCESS then ''PS7 initialization successful''
      else if key = status_code PS7_INIT_CORRUPT then ''PS7 init Data Corrupted''
      else if key = status_code PS7_INIT_TIMEOUT then ''PS7 init mask poll timeout''
      else if key = status_code PS7_POLL_FAILED_DDR_INIT then ''Mask Poll failed for DDR Init''
      else if key = status_code PS7_POLL_FAILED_DMA then ''Mask Poll failed for PLL Init''
      else if key = status_code PS7_POLL_FAILED_PLL then ''Mask Poll failed for DMA done bit''
      else ''Undefined error status'')"

definition ps7GetSiliconVersion :: "env \<Rightarrow> 'a io_scheme \<Rightarrow> u32 \<times> 'a io_scheme" where
  "ps7GetSiliconVersion E s =
     (drop_bit 28 (ans E (In32 0xF8007080) s AND 0xF0000000), emit E (In32 0xF8007080) s)"

definition PCW_SILICON_VERSION_1 :: u32 where [macro_defs]: "PCW_SILICON_VERSION_1 = 0"
definition PCW_SILICON_VERSION_2 :: u32 where [macro_defs]: "PCW_SILICON_VERSION_2 = 1"
definition PCW_SILICON_VERSION_3 :: u32 where [macro_defs]: "PCW_SILICON_VERSION_3 = 2"

text \<open>\<open>G k\<close> is the uninitialised content of the local array of the \<open>k\<close>-th call of \<open>ps7_config\<close>.\<close>

definition ps7_post_config ::
    "env \<Rightarrow> (nat \<Rightarrow> u32 list) \<Rightarrow> 'a io_scheme \<Rightarrow> (ps7_status \<times> 'a io_scheme) run" where
  "ps7_post_config E G s =
     (let (si_ver, s) = ps7GetSiliconVersion E s
      in if_success
           (if si_ver = PCW_SILICON_VERSION_1 then ps7_config E (G 0) ps7_post_config_1_0 s
            else if si_ver = PCW_SILICON_VERSION_2 then ps7_config E (G 0) ps7_post_config_2_0 s
            else ps7_config E (G 0) ps7_post_config_3_0 s)
           (\<lambda>s. Ret (PS7_INIT_SUCCESS, s)))"

definition ps7_debug ::
    "env \<Rightarrow> (nat \<Rightarrow> u32 list) \<Rightarrow> 'a io_scheme \<Rightarrow> (ps7_status \<times> 'a io_scheme) run" where
  "ps7_debug E G s =
     (let (si_ver, s) = ps7GetSiliconVersion E s
      in if_success
           (if si_ver = PCW_SILICON_VERSION_1 then ps7_config E (G 0) ps7_debug_1_0 s
            else if si_ver = PCW_SILICON_VERSION_2 then ps7_config E (G 0) ps7_debug_2_0 s
            else ps7_config E (G 0) ps7_debug_3_0 s)
           (\<lambda>s. Ret (PS7_INIT_SUCCESS, s)))"

text \<open>The table pointers \<open>ps7_init\<close> selects, in the order mio, pll, clock, ddr, peripherals.\<close>

record ps7_table_ptrs =
  ps7_mio_init_data :: "u32 list"
  ps7_pll_init_data :: "u32 list"
  ps7_clock_init_data :: "u32 list"
  ps7_ddr_init_data :: "u32 list"
  ps7_peripherals_init_data :: "u32 list"

definition select_tables :: "u32 \<Rightarrow> ps7_table_ptrs" where
  "select_tables si_ver =
     (if si_ver = PCW_SILICON_VERSION_1 then
        \<lparr>ps7_mio_init_data = ps7_mio_init_data_1_0,
         ps7_pll_init_data = ps7_pll_init_data_1_0,
         ps7_clock_init_data = ps7_clock_init_data_1_0,
         ps7_ddr_init_data = ps7_ddr_init_data_1_0,
         ps7_peripherals_init_data = ps7_peripherals_init_data_1_0\<rparr>
      else if si_ver = PCW_SILICON_VERSION_2 then
        \<lparr>ps7_mio_init_data = ps7_mio_init_data_2_0,
         ps7_pll_init_data = ps7_pll_init_data_2_0,
         ps7_clock_init_data = ps7_clock_init_data_2_0,
         ps7_ddr_init_data = ps7_ddr_init_data_2_0,
         ps7_peripherals_init_data = ps7_peripherals_init_data_2_0\<rparr>
      else
        \<lparr>ps7_mio_init_data = ps7_mio_init_data_3_0,
         ps7_pll_init_data = ps7_pll_init_data_3_0,
         ps7_clock_init_data = ps7_clock_init_data_3_0,
         ps7_ddr_init_data = ps7_ddr_init_data_3_0,
         ps7_peripherals_init_data = ps7_peripherals_init_data_3_0\<rparr>)"

definition ps7_init ::
    "env \<Rightarrow> (nat \<Rightarrow> u32 list) \<Rightarrow> 'a io_scheme \<Rightarrow> (ps7_status \<times> 'a io_scheme) run" where
  "ps7_init E G s =
     (let (si_ver, s) = ps7GetSiliconVersion E s; p = select_tables si_ver
      in if_success (ps7_config E (G 0) (ps7_mio_init_data p) s) (\<lambda>s.
         if_success (ps7_config E (G 1) (ps7_pll_init_data p) s) (\<lambda>s.
         if_success (ps7_config E (G 2) (ps7_clock_init_data p) s) (\<lambda>s.
         if_success (ps7_config E (G 3) (ps7_ddr_init_data p) s) (\<lambda>s.
         if_success (ps7_config E (G 4) (ps7_peripherals_init_data p) s) (\<lambda>s.
         Ret (PS7_INIT_SUCCESS, s)))))))"

section \<open>The tables as operations\<close>

datatype silicon = Silicon_1 | Silicon_2 | Silicon_3

definition silicon_of :: "u32 \<Rightarrow> silicon" where
  "silicon_of si_ver =
     (if si_ver = PCW_SILICON_VERSION_1 then Silicon_1
      else if si_ver = PCW_SILICON_VERSION_2 then Silicon_2 else Silicon_3)"

primrec mio_ops :: "silicon \<Rightarrow> ps7_op list" where
  "mio_ops Silicon_1 = ps7_mio_ops_1_0"
| "mio_ops Silicon_2 = ps7_mio_ops_2_0"
| "mio_ops Silicon_3 = ps7_mio_ops_3_0"

primrec pll_ops :: "silicon \<Rightarrow> ps7_op list" where
  "pll_ops Silicon_1 = ps7_pll_ops_1_0"
| "pll_ops Silicon_2 = ps7_pll_ops_2_0"
| "pll_ops Silicon_3 = ps7_pll_ops_3_0"

primrec clock_ops :: "silicon \<Rightarrow> ps7_op list" where
  "clock_ops Silicon_1 = ps7_clock_ops_1_0"
| "clock_ops Silicon_2 = ps7_clock_ops_2_0"
| "clock_ops Silicon_3 = ps7_clock_ops_3_0"

primrec ddr_ops :: "silicon \<Rightarrow> ps7_op list" where
  "ddr_ops Silicon_1 = ps7_ddr_ops_1_0"
| "ddr_ops Silicon_2 = ps7_ddr_ops_2_0"
| "ddr_ops Silicon_3 = ps7_ddr_ops_3_0"

primrec periph_ops :: "silicon \<Rightarrow> ps7_op list" where
  "periph_ops Silicon_1 = ps7_periph_ops_1_0"
| "periph_ops Silicon_2 = ps7_periph_ops_2_0"
| "periph_ops Silicon_3 = ps7_periph_ops_3_0"

primrec post_ops :: "silicon \<Rightarrow> ps7_op list" where
  "post_ops Silicon_1 = ps7_post_ops_1_0"
| "post_ops Silicon_2 = ps7_post_ops_2_0"
| "post_ops Silicon_3 = ps7_post_ops_3_0"

primrec debug_ops :: "silicon \<Rightarrow> ps7_op list" where
  "debug_ops Silicon_1 = ps7_debug_ops_1_0"
| "debug_ops Silicon_2 = ps7_debug_ops_2_0"
| "debug_ops Silicon_3 = ps7_debug_ops_3_0"

definition init_tables :: "silicon \<Rightarrow> ps7_op list list" where
  "init_tables v = [mio_ops v, pll_ops v, clock_ops v, ddr_ops v, periph_ops v]"

lemmas table_defs = ps7_tables
  ps7_mio_ops_1_0_def ps7_pll_ops_1_0_def ps7_clock_ops_1_0_def ps7_ddr_ops_1_0_def
  ps7_periph_ops_1_0_def ps7_post_ops_1_0_def ps7_debug_ops_1_0_def
  ps7_mio_ops_2_0_def ps7_pll_ops_2_0_def ps7_clock_ops_2_0_def ps7_ddr_ops_2_0_def
  ps7_periph_ops_2_0_def ps7_post_ops_2_0_def ps7_debug_ops_2_0_def
  ps7_mio_ops_3_0_def ps7_pll_ops_3_0_def ps7_clock_ops_3_0_def ps7_ddr_ops_3_0_def
  ps7_periph_ops_3_0_def ps7_post_ops_3_0_def ps7_debug_ops_3_0_def

lemmas data_defs =
  ps7_mio_init_data_1_0_def ps7_pll_init_data_1_0_def ps7_clock_init_data_1_0_def
  ps7_ddr_init_data_1_0_def ps7_peripherals_init_data_1_0_def ps7_post_config_1_0_def
  ps7_debug_1_0_def
  ps7_mio_init_data_2_0_def ps7_pll_init_data_2_0_def ps7_clock_init_data_2_0_def
  ps7_ddr_init_data_2_0_def ps7_peripherals_init_data_2_0_def ps7_post_config_2_0_def
  ps7_debug_2_0_def
  ps7_mio_init_data_3_0_def ps7_pll_init_data_3_0_def ps7_clock_init_data_3_0_def
  ps7_ddr_init_data_3_0_def ps7_peripherals_init_data_3_0_def ps7_post_config_3_0_def
  ps7_debug_3_0_def

lemma config_table: "ps7_config E args (encode_table ops) s = run_ops E ops s"
  by (simp add: ps7_config_def config_loop_encode)

lemma select_tables_ops:
  "select_tables si_ver =
     \<lparr>ps7_mio_init_data = encode_table (mio_ops (silicon_of si_ver)),
      ps7_pll_init_data = encode_table (pll_ops (silicon_of si_ver)),
      ps7_clock_init_data = encode_table (clock_ops (silicon_of si_ver)),
      ps7_ddr_init_data = encode_table (ddr_ops (silicon_of si_ver)),
      ps7_peripherals_init_data = encode_table (periph_ops (silicon_of si_ver))\<rparr>"
  by (simp add: select_tables_def silicon_of_def data_defs)

text \<open>Running several tables in turn, as \<open>ps7_init\<close> does.\<close>

primrec run_tables :: "env \<Rightarrow> ps7_op list list \<Rightarrow> 'a io_scheme \<Rightarrow> (ps7_status \<times> 'a io_scheme) run" where
  "run_tables E [] = (\<lambda>s. Ret (PS7_INIT_SUCCESS, s))"
| "run_tables E (ops # tables) = (\<lambda>s. if_success (run_ops E ops s) (run_tables E tables))"

lemma ps7_init_run:
  "ps7_init E G s =
     (let (si_ver, s) = ps7GetSiliconVersion E s in run_tables E (init_tables (silicon_of si_ver)) s)"
  by (simp add: ps7_init_def select_tables_ops config_table init_tables_def Let_def
      split: prod.splits)

end
