(* ===== verification/Ps7_Table_Facts.thy ===== *)
theory Ps7_Table_Facts
  imports Ps7_Init
begin

text \<open>
  What computation shows of the tables of this board, for the three silicon versions: their shape,
  the lock protocol, the registers they wait for, and the bits they fix in the pin and PLL
  registers. Every proof here evaluates a table.
\<close>

section \<open>Shape, lock protocol, waits\<close>

lemma wf_tables:
  "wf_ops (mio_ops v)" "wf_ops (pll_ops v)" "wf_ops (clock_ops v)" "wf_ops (ddr_ops v)"
  "wf_ops (periph_ops v)" "wf_ops (post_ops v)" "wf_ops (debug_ops v)"
  by (cases v; hypsubst; code_simp)+

lemma slcr_tables:
  "analyse slcr_op False (mio_ops v) = Some False"
  "analyse slcr_op False (pll_ops v) = Some False"
  "analyse slcr_op False (clock_ops v) = Some False"
  "analyse slcr_op False (ddr_ops v) = Some False"
  "analyse slcr_op False (periph_ops v) = Some False"
  "analyse slcr_op False (post_ops v) = Some False"
  "analyse slcr_op False (debug_ops v) = Some False"
  by (cases v; hypsubst; code_simp)+

lemma delays_tables:
  "delays_in (mio_ops v) = []" "delays_in (pll_ops v) = []" "delays_in (clock_ops v) = []"
  "delays_in (ddr_ops v) = []" "delays_in (debug_ops v) = []" "delays_in (post_ops v) = []"
  "delays_in (periph_ops v) = [(SCU_GLOBAL_TIMER_COUNT_L32, 1)]"
  by (cases v; hypsubst; code_simp)+

lemma polls_tables:
  "polls_in (mio_ops v) = []" "polls_in (clock_ops v) = []" "polls_in (periph_ops v) = []"
  "polls_in (pll_ops v) = [(0xF800010C, 1), (0xF800010C, 2), (0xF800010C, 4)]"
  "polls_in (post_ops v) = []" "polls_in (debug_ops v) = []"
  "polls_in (ddr_ops v) = [(0xF8000B74, 0x2000), (0xF8006054, 7)]"
  by (cases v; hypsubst; code_simp)+

lemma init_tables_wf: "list_all wf_ops (init_tables v)"
  by (simp add: init_tables_def wf_tables)

section \<open>The pins\<close>

text \<open>
  The table \<open>MIO Table View\<close> of \<^verbatim>\<open>ps7_init.html\<close>, generated with the code: voltage, pull-up and
  direction of the 54 pins. Every pin is a slow one.
\<close>

datatype io_type = LVCMOS18 | LVCMOS33

datatype pin_dir = Pin_In | Pin_Out | Pin_Inout

definition mio_view :: "(io_type \<times> bool \<times> pin_dir) list" where
  "mio_view =
  [
   (LVCMOS33, True, Pin_Inout), (LVCMOS33, False, Pin_Out), (LVCMOS33, False, Pin_Inout),
   (LVCMOS33, False, Pin_Inout), (LVCMOS33, False, Pin_Inout), (LVCMOS33, False, Pin_Inout),
   (LVCMOS33, False, Pin_Out), (LVCMOS33, False, Pin_Out), (LVCMOS33, False, Pin_Out),
   (LVCMOS33, False, Pin_Inout), (LVCMOS33, True, Pin_In), (LVCMOS33, True, Pin_Out),
   (LVCMOS33, True, Pin_Inout), (LVCMOS33, True, Pin_Inout), (LVCMOS33, True, Pin_In),
   (LVCMOS33, True, Pin_Out), (LVCMOS18, True, Pin_Out), (LVCMOS18, True, Pin_Out),
   (LVCMOS18, True, Pin_Out), (LVCMOS18, True, Pin_Out), (LVCMOS18, True, Pin_Out),
   (LVCMOS18, True, Pin_Out), (LVCMOS18, True, Pin_In), (LVCMOS18, True, Pin_In),
   (LVCMOS18, True, Pin_In), (LVCMOS18, True, Pin_In), (LVCMOS18, True, Pin_In),
   (LVCMOS18, True, Pin_In), (LVCMOS18, True, Pin_Inout), (LVCMOS18, True, Pin_In),
   (LVCMOS18, True, Pin_Out), (LVCMOS18, True, Pin_In), (LVCMOS18, True, Pin_Inout),
   (LVCMOS18, True, Pin_Inout), (LVCMOS18, True, Pin_Inout), (LVCMOS18, True, Pin_Inout),
   (LVCMOS18, True, Pin_In), (LVCMOS18, True, Pin_Inout), (LVCMOS18, True, Pin_Inout),
   (LVCMOS18, True, Pin_Inout), (LVCMOS18, True, Pin_Inout), (LVCMOS18, True, Pin_Inout),
   (LVCMOS18, True, Pin_Inout), (LVCMOS18, True, Pin_Inout), (LVCMOS18, True, Pin_Inout),
   (LVCMOS18, True, Pin_Inout), (LVCMOS18, False, Pin_In), (LVCMOS18, False, Pin_In),
   (LVCMOS18, True, Pin_Out), (LVCMOS18, True, Pin_In), (LVCMOS18, False, Pin_Inout),
   (LVCMOS18, False, Pin_Out), (LVCMOS18, True, Pin_Out), (LVCMOS18, True, Pin_Inout)
  ]"

text \<open>The fields of a pin register that express a row: TRI_ENABLE, Speed, IO_Type, PULLUP.\<close>

fun pin_fields :: "io_type \<times> bool \<times> pin_dir \<Rightarrow> u32" where
  "pin_fields (io, pullup, dir) =
     (if dir = Pin_In then 1 else 0)
     OR push_bit 9 (case io of LVCMOS18 \<Rightarrow> 1 | LVCMOS33 \<Rightarrow> 3)
     OR (if pullup then push_bit 12 1 else 0)"

definition MIO_PIN_MASK :: u32 where "MIO_PIN_MASK = 0x1F01"

definition mio_reg :: "nat \<Rightarrow> u32" where
  "mio_reg i = 0xF8000700 + 4 * of_nat i"

section \<open>The operations on a range of registers\<close>

fun op_target :: "ps7_op \<Rightarrow> u32 option" where
  "op_target (EMIT_CLEAR a) = Some a"
| "op_target (EMIT_WRITE a v) = Some a"
| "op_target (EMIT_MASKWRITE a m v) = Some a"
| "op_target _ = None"

definition in_range :: "u32 \<Rightarrow> u32 \<Rightarrow> ps7_op \<Rightarrow> bool" where
  "in_range lo hi p \<longleftrightarrow> (case op_target p of None \<Rightarrow> False | Some a \<Rightarrow> lo \<le> a \<and> a \<le> hi)"

definition range_ops :: "u32 \<Rightarrow> u32 \<Rightarrow> ps7_op list list \<Rightarrow> ps7_op list" where
  "range_ops lo hi tables = concat (map (filter (in_range lo hi)) tables)"

lemma known_op_other: "op_target p \<noteq> Some a \<Longrightarrow> known_op a x p = x"
  by (cases p; cases x) auto

lemma known_bits_others: "\<forall>p \<in> set ops. op_target p \<noteq> Some a \<Longrightarrow> known_bits a x ops = x"
  by (induction ops) (simp_all add: known_op_other)

lemma known_bits_filter:
  "lo \<le> a \<Longrightarrow> a \<le> hi \<Longrightarrow> known_bits a x (filter (in_range lo hi) ops) = known_bits a x ops"
proof (induction ops arbitrary: x)
  case (Cons p ops)
  then show ?case
    using known_op_other [of p a x] by (auto simp: in_range_def split: option.splits)
qed simp

lemma known_bits_range:
  "lo \<le> a \<Longrightarrow> a \<le> hi \<Longrightarrow>
   foldl (known_bits a) x tables = known_bits a x (range_ops lo hi tables)"
  by (induction tables arbitrary: x) (simp_all add: range_ops_def known_bits_filter)

text \<open>One operation of the list targets \<open>a\<close>: it alone decides what is known.\<close>

lemma known_bits_single:
  assumes "i < length ops" and "op_target (ops ! i) = Some a"
    and "\<And>j. j < length ops \<Longrightarrow> j \<noteq> i \<Longrightarrow> op_target (ops ! j) \<noteq> Some a"
  shows "known_bits a x ops = known_op a x (ops ! i)"
proof -
  have "op_target p \<noteq> Some a" if "p \<in> set (take i ops) \<union> set (drop (Suc i) ops)" for p
    using that assms(1,3) by (auto simp: in_set_conv_nth)
  then have *: "known_bits a y (take i ops) = y" "known_bits a y (drop (Suc i) ops) = y" for y
    by (simp_all add: known_bits_others)
  have "known_bits a x ops = known_bits a x (take i ops @ ops ! i # drop (Suc i) ops)"
    using assms(1) by (simp add: id_take_nth_drop [symmetric])
  also have "\<dots> = known_op a x (ops ! i)" by (simp add: *)
  finally show ?thesis .
qed

section \<open>What the tables leave in the pin and PLL registers\<close>

text \<open>The tables of version \<open>v\<close> fix the bits \<open>m\<close> of the register at \<open>a\<close> to those of \<open>w\<close>.\<close>

definition fixes_bits :: "silicon \<Rightarrow> u32 \<Rightarrow> u32 \<Rightarrow> u32 \<Rightarrow> bool" where
  "fixes_bits v a m w \<longleftrightarrow>
     (case foldl (known_bits a) (0, 0) (init_tables v) of (k, x) \<Rightarrow> k AND m = m \<and> x AND m = w)"

fun pin_op :: "nat \<Rightarrow> ps7_op \<Rightarrow> bool" where
  "pin_op i (EMIT_MASKWRITE a m w) \<longleftrightarrow> a = mio_reg i \<and> m AND MIO_PIN_MASK = MIO_PIN_MASK
     \<and> w AND MIO_PIN_MASK = pin_fields (mio_view ! i) \<and> m AND w = w"
| "pin_op i _ \<longleftrightarrow> False"

lemma pin_ops_in_order:
  "list_all2 pin_op [0..<54] (range_ops 0xF8000700 0xF80007D4 (init_tables v))"
  by (cases v; hypsubst; code_simp)

definition pll_ops_known :: "silicon \<Rightarrow> u32 \<Rightarrow> u32 \<times> u32" where
  "pll_ops_known v a = known_bits a (0, 0) (range_ops 0xF8000100 0xF8000108 (init_tables v))"

lemma pll_known:
  "pll_ops_known v 0xF8000100 = (0x7F011, 0x1E000)"
  "pll_ops_known v 0xF8000104 = (0x7F011, 0x20000)"
  "pll_ops_known v 0xF8000108 = (0x7F011, 0x30000)"
  by (cases v; hypsubst; code_simp)+

end
