(* ===== verification/Ps7_Properties.thy ===== *)
theory Ps7_Properties
  imports Ps7_Table_Facts
begin

text \<open>
  What the tables of this board guarantee. The facts on the tables themselves are computed; the
  soundness lemmas of \<^verbatim>\<open>Ps7_Semantics\<close> and \<^verbatim>\<open>Ps7_Checks\<close> carry them over to every execution of
  \<open>ps7_init\<close>, \<open>ps7_post_config\<close> and \<open>ps7_debug\<close>, on every silicon version.
\<close>

section \<open>Running several tables\<close>

lemma run_tables_status:
  assumes "list_all wf_ops tables"
  shows "case run_tables E tables s of Ret (r, _) \<Rightarrow> r \<in> {PS7_INIT_SUCCESS, PS7_INIT_TIMEOUT}
    | Hang \<Rightarrow> True | Undefined \<Rightarrow> False"
  using assms
proof (induction tables arbitrary: s)
  case Nil
  show ?case by simp
next
  case (Cons ops tables)
  then show ?case
    using run_ops_not_undefined [of ops E s] run_ops_status [of E ops s]
    by (fastforce simp: if_success_def split: run.splits)
qed

lemma run_tables_defined: "list_all wf_ops tables \<Longrightarrow> run_tables E tables s \<noteq> Undefined"
  using run_tables_status [of tables E s] by auto

lemma run_tables_returns:
  "\<forall>ops \<in> set tables. delays_end E ops \<Longrightarrow> run_tables E tables s \<noteq> Hang"
proof (induction tables arbitrary: s)
  case (Cons ops tables)
  then show ?case
    using run_ops_returns [of E ops s] by (auto simp: if_success_def split: run.splits)
qed simp

lemma run_tables_succeeds:
  "\<forall>ops \<in> set tables. wf_ops ops \<and> delays_end E ops \<and> polls_end E ops \<Longrightarrow>
   \<exists>s'. run_tables E tables s = Ret (PS7_INIT_SUCCESS, s')"
proof (induction tables arbitrary: s)
  case (Cons ops tables)
  then obtain s1 where "run_ops E ops s = Ret (PS7_INIT_SUCCESS, s1)"
    using run_ops_succeeds [of ops E s] by auto
  with Cons show ?case by (simp add: if_success_def)
qed simp

lemma run_tables_accepted:
  "\<forall>ops \<in> set tables. wf_ops ops \<and> analyse slcr_op x ops = Some x \<Longrightarrow>
   accepts slcr_next (Some x) x (run_tables E tables s) s"
proof (induction tables arbitrary: s)
  case Nil
  show ?case by (simp add: accepts_def)
next
  case (Cons ops tables)
  then have "accepts slcr_next (Some x) x (run_ops E ops s) s"
    by (intro slcr.run_ops_accepted) simp_all
  then show ?case unfolding run_tables.simps by (rule accepts_then) (use Cons in simp)
qed

lemma run_tables_knows:
  assumes "stores E a r0" and "\<not> is_timer_reg a" and "list_all wf_ops tables"
  shows "run_tables E tables s = Ret (PS7_INIT_SUCCESS, s') \<Longrightarrow> knows x (last_out a r0 (tr s)) \<Longrightarrow>
    knows (foldl (known_bits a) x tables) (last_out a r0 (tr s'))"
  using assms(3)
proof (induction tables arbitrary: s x)
  case (Cons ops tables)
  then obtain s1 where r: "run_ops E ops s = Ret (PS7_INIT_SUCCESS, s1)"
      "run_tables E tables s1 = Ret (PS7_INIT_SUCCESS, s')"
    by (auto simp: if_success_def split: run.splits if_splits)
  from Cons r(2) run_ops_knows [OF assms(1,2) r(1), of x] show ?case by simp
qed simp

section \<open>The silicon version read\<close>

text \<open>Reading the version register is one more call, which no monitor here objects to.\<close>

lemma read_version:
  "ps7GetSiliconVersion E s = (si_ver, s1) \<Longrightarrow> s1 = emit E (In32 0xF8007080) s"
  by (simp add: ps7GetSiliconVersion_def)

lemma accepts_after_version:
  assumes "accepts slcr_next goal u res (emit E (In32 0xF8007080) s)"
  shows "accepts slcr_next goal u res s"
  by (rule accepts_after [OF _ _ assms]) (auto simp: calls_since_def)

lemma ps7_init_cases:
  obtains v where "ps7_init E G s = run_tables E (init_tables v) (emit E (In32 0xF8007080) s)"
  by (simp add: ps7_init_run Let_def ps7GetSiliconVersion_def)

lemma ps7_post_config_cases:
  obtains v where
    "ps7_post_config E G s = run_tables E [post_ops v] (emit E (In32 0xF8007080) s)"
proof -
  let ?v = "silicon_of (fst (ps7GetSiliconVersion E s))"
  have "ps7_post_config E G s = run_tables E [post_ops ?v] (emit E (In32 0xF8007080) s)"
    by (simp add: ps7_post_config_def Let_def ps7GetSiliconVersion_def silicon_of_def data_defs
        config_table)
  then show thesis by (rule that)
qed

lemma ps7_debug_cases:
  obtains v where "ps7_debug E G s = run_tables E [debug_ops v] (emit E (In32 0xF8007080) s)"
proof -
  let ?v = "silicon_of (fst (ps7GetSiliconVersion E s))"
  have "ps7_debug E G s = run_tables E [debug_ops ?v] (emit E (In32 0xF8007080) s)"
    by (simp add: ps7_debug_def Let_def ps7GetSiliconVersion_def silicon_of_def data_defs
        config_table)
  then show thesis by (rule that)
qed

section \<open>Bits fixed by the tables\<close>

lemma fixes_bits_init:
  assumes "fixes_bits v a m w" and "stores E a r0" and "\<not> is_timer_reg a"
    and "run_tables E (init_tables v) s = Ret (PS7_INIT_SUCCESS, s')"
  shows "last_out a r0 (tr s') AND m = w"
proof -
  obtain k x where kx: "foldl (known_bits a) (0, 0) (init_tables v) = (k, x)"
      "k AND m = m" "x AND m = w"
    using assms(1) by (auto simp: fixes_bits_def split: prod.splits)
  from run_tables_knows [OF assms(2,3) init_tables_wf assms(4) knows_nothing] kx(1)
  have "last_out a r0 (tr s') AND k = x AND k" by (simp add: knows_def)
  then have "last_out a r0 (tr s') AND (k AND m) = x AND (k AND m)"
    by (simp add: and.assoc [symmetric])
  with kx show ?thesis by simp
qed

lemma unat_mio_reg: "i < 54 \<Longrightarrow> unat (mio_reg i) = 0xF8000700 + 4 * i"
proof -
  assume i: "i < 54"
  have "mio_reg i = of_nat (0xF8000700 + 4 * i)" by (simp add: mio_reg_def)
  then have "unat (mio_reg i) = (0xF8000700 + 4 * i) mod 2 ^ 32"
    by (simp only: unat_of_nat) simp
  also have "\<dots> = 0xF8000700 + 4 * i" using i by (intro mod_less) simp
  finally show ?thesis .
qed

lemma mio_reg_inj:
  assumes "i < 54" and "j < 54" and "mio_reg i = mio_reg j"
  shows "i = j"
  using unat_mio_reg [OF assms(1)] unat_mio_reg [OF assms(2)] arg_cong [OF assms(3), of unat]
  by linarith

lemma mio_reg_range:
  assumes "i < 54"
  shows "0xF8000700 \<le> mio_reg i" "mio_reg i \<le> 0xF80007D4"
proof -
  have "unat (0xF8000700 :: u32) = 0xF8000700" "unat (0xF80007D4 :: u32) = 0xF80007D4"
    by simp_all
  then show "0xF8000700 \<le> mio_reg i" "mio_reg i \<le> 0xF80007D4"
    unfolding word_le_nat_alt unat_mio_reg [OF assms] using assms by linarith+
qed

lemma not_timer_reg: "a \<le> 0xF80007D4 \<Longrightarrow> \<not> is_timer_reg a"
  by (auto simp: is_timer_reg_def macro_defs)

lemma pin_op_target: "pin_op i p \<Longrightarrow> op_target p = Some (mio_reg i)"
  by (cases p) simp_all

lemma pins_fixed:
  assumes "i < 54"
  shows "fixes_bits v (mio_reg i) MIO_PIN_MASK (pin_fields (mio_view ! i))"
proof -
  let ?ops = "range_ops 0xF8000700 0xF80007D4 (init_tables v)"
  have len: "length ?ops = 54"
    using list_all2_lengthD [OF pin_ops_in_order [of v]] by simp
  have pin: "pin_op j (?ops ! j)" if "j < 54" for j
    using list_all2_nthD [OF pin_ops_in_order [of v], of j] that by simp
  have "known_bits (mio_reg i) x ?ops = known_op (mio_reg i) x (?ops ! i)" for x
    using assms by (intro known_bits_single)
      (auto simp: len pin_op_target [OF pin] dest: mio_reg_inj)
  then show ?thesis
    using pin [OF assms] known_bits_range [OF mio_reg_range [OF assms]]
    by (cases "?ops ! i") (auto simp: fixes_bits_def and.commute)
qed

lemma pll_fixed:
  "fixes_bits v 0xF8000100 0x7F011 0x1E000"
  "fixes_bits v 0xF8000104 0x7F011 0x20000"
  "fixes_bits v 0xF8000108 0x7F011 0x30000"
  using pll_known [of v]
  by (simp_all add: fixes_bits_def pll_ops_known_def
      known_bits_range [where lo = "0xF8000100" and hi = "0xF8000108"])

section \<open>The properties\<close>

text \<open>
  C3: Interpreting the words of an encoded table is the same as executing its operations: no
  opcode is misread, no argument is taken from the wrong place, and the uninitialised contents of
  the local array \<open>args[16]\<close> never reach a register.
\<close>

theorem ps7_config_refines:
  "ps7_config E args0 (encode_table ops) s = run_ops E ops s"
  by (rule config_table)

text \<open>
  C8: \<open>ps7_init\<close> never reads past the end of a table and never reports a corrupt one: when it
  returns, it reports success or a poll timeout, on every silicon version and any hardware.
\<close>

theorem ps7_init_outcome:
  "case ps7_init E G s of
     Ret (r, _) \<Rightarrow> r \<in> {PS7_INIT_SUCCESS, PS7_INIT_TIMEOUT}
   | Hang \<Rightarrow> True
   | Undefined \<Rightarrow> False"
proof -
  obtain v where "ps7_init E G s = run_tables E (init_tables v) (emit E (In32 0xF8007080) s)"
    by (rule ps7_init_cases)
  then show ?thesis using run_tables_status [OF init_tables_wf] by metis
qed

lemma delays_end_tables:
  assumes "delay_ends E SCU_GLOBAL_TIMER_COUNT_L32 1"
  shows "\<forall>ops \<in> set (init_tables v). delays_end E ops"
  using assms by (simp add: init_tables_def delays_end_def delays_tables)

text \<open>
  C9: \<open>ps7_init\<close> always returns if the global timer advances: its polls are bounded, and the only
  unbounded wait of the tables is one millisecond on the timer it has just started.
\<close>

theorem ps7_init_returns:
  assumes "delay_ends E SCU_GLOBAL_TIMER_COUNT_L32 1"
  shows "\<exists>r s'. ps7_init E G s = Ret (r, s')"
proof -
  obtain v where v: "ps7_init E G s = run_tables E (init_tables v) (emit E (In32 0xF8007080) s)"
    by (rule ps7_init_cases)
  have "ps7_init E G s \<noteq> Hang"
    unfolding v by (rule run_tables_returns [OF delays_end_tables [OF assms]])
  moreover have "ps7_init E G s \<noteq> Undefined"
    unfolding v by (rule run_tables_defined [OF init_tables_wf])
  ultimately show ?thesis by (cases "ps7_init E G s") auto
qed

text \<open>
  C10: \<open>ps7_init\<close> succeeds on working hardware: if the PLLs lock, the DCI calibration and the DDR
  controller report completion within the polling budget, and the timer advances, the result is
  \<open>PS7_INIT_SUCCESS\<close>.
\<close>

theorem ps7_init_succeeds:
  assumes "delay_ends E SCU_GLOBAL_TIMER_COUNT_L32 1"
    and "poll_ends E 0xF800010C 1" and "poll_ends E 0xF800010C 2" and "poll_ends E 0xF800010C 4"
    and "poll_ends E 0xF8000B74 0x2000" and "poll_ends E 0xF8006054 7"
  shows "\<exists>s'. ps7_init E G s = Ret (PS7_INIT_SUCCESS, s')"
proof -
  obtain v where v: "ps7_init E G s = run_tables E (init_tables v) (emit E (In32 0xF8007080) s)"
    by (rule ps7_init_cases)
  have "\<forall>ops \<in> set (init_tables v). wf_ops ops \<and> delays_end E ops \<and> polls_end E ops"
    using delays_end_tables [OF assms(1), of v] assms(2-)
    by (simp add: init_tables_def wf_tables polls_end_def polls_tables)
  from run_tables_succeeds [OF this] v show ?thesis by metis
qed

text \<open>
  C4: The SLCR lock protocol holds throughout \<open>ps7_init\<close>: no system-level control register is
  written while the registers are locked, only the right keys are written, and after a successful
  run the registers are locked again.
\<close>

theorem ps7_init_lock_protocol:
  "accepts slcr_next (Some False) False (ps7_init E G s) s"
proof -
  obtain v where v: "ps7_init E G s = run_tables E (init_tables v) (emit E (In32 0xF8007080) s)"
    by (rule ps7_init_cases)
  have "\<forall>ops \<in> set (init_tables v). wf_ops ops \<and> analyse slcr_op False ops = Some False"
    by (simp add: init_tables_def wf_tables slcr_tables)
  from run_tables_accepted [OF this] show ?thesis
    unfolding v by (rule accepts_after_version)
qed

text \<open>
  C18: \<open>ps7_post_config\<close> and \<open>ps7_debug\<close> keep the lock protocol too, never run off their tables, and
  return success: their tables contain no poll and no delay.
\<close>

theorem ps7_post_config_debug_ok:
  "accepts slcr_next (Some False) False (ps7_post_config E G s) s \<and>
   accepts slcr_next (Some False) False (ps7_debug E G s) s \<and>
   (\<exists>s'. ps7_post_config E G s = Ret (PS7_INIT_SUCCESS, s')) \<and>
   (\<exists>s'. ps7_debug E G s = Ret (PS7_INIT_SUCCESS, s'))"
proof -
  obtain v where p: "ps7_post_config E G s = run_tables E [post_ops v] (emit E (In32 0xF8007080) s)"
    by (rule ps7_post_config_cases)
  obtain w where d: "ps7_debug E G s = run_tables E [debug_ops w] (emit E (In32 0xF8007080) s)"
    by (rule ps7_debug_cases)
  have ops: "\<forall>ops \<in> set [post_ops v]. wf_ops ops \<and> analyse slcr_op False ops = Some False"
    "\<forall>ops \<in> set [debug_ops w]. wf_ops ops \<and> analyse slcr_op False ops = Some False"
    "\<forall>ops \<in> set [post_ops v]. wf_ops ops \<and> delays_end E ops \<and> polls_end E ops"
    "\<forall>ops \<in> set [debug_ops w]. wf_ops ops \<and> delays_end E ops \<and> polls_end E ops"
    by (simp_all add: wf_tables slcr_tables delays_end_def polls_end_def delays_tables polls_tables)
  show ?thesis
    using accepts_after_version [OF run_tables_accepted [OF ops(1)]]
      accepts_after_version [OF run_tables_accepted [OF ops(2)]]
      run_tables_succeeds [OF ops(3)] run_tables_succeeds [OF ops(4)]
    unfolding p d by blast
qed

text \<open>
  C16: After a successful \<open>ps7_init\<close> the three PLLs run from their configured dividers: the ARM, DDR
  and I/O PLL control registers have RESET and BYPASS cleared and multiply by 30, 32 and 48,
  whatever they held before and whatever the hardware answered.
\<close>

theorem ps7_init_plls:
  assumes "stores E 0xF8000100 r1" and "stores E 0xF8000104 r2" and "stores E 0xF8000108 r3"
    and "ps7_init E G s = Ret (PS7_INIT_SUCCESS, s')"
  shows "last_out 0xF8000100 r1 (tr s') AND 0x7F011 = push_bit 12 30 \<and>
    last_out 0xF8000104 r2 (tr s') AND 0x7F011 = push_bit 12 32 \<and>
    last_out 0xF8000108 r3 (tr s') AND 0x7F011 = push_bit 12 48"
proof -
  obtain v where "ps7_init E G s = run_tables E (init_tables v) (emit E (In32 0xF8007080) s)"
    by (rule ps7_init_cases)
  then have "run_tables E (init_tables v) (emit E (In32 0xF8007080) s) = Ret (PS7_INIT_SUCCESS, s')"
    using assms(4) by simp
  from fixes_bits_init [OF pll_fixed(1) assms(1) not_timer_reg this]
    fixes_bits_init [OF pll_fixed(2) assms(2) not_timer_reg this]
    fixes_bits_init [OF pll_fixed(3) assms(3) not_timer_reg this]
  show ?thesis by simp
qed

text \<open>
  C17: After a successful \<open>ps7_init\<close> each of the 54 multiplexed pins is set up as the board's pin
  table (\<open>MIO Table View\<close> of \<^verbatim>\<open>ps7_init.html\<close>) says: tri-stated exactly when it is an input, slow,
  with the listed voltage standard and pull-up, on every silicon version.
\<close>

theorem ps7_init_pins:
  assumes "i < 54" and "stores E (mio_reg i) r"
    and "ps7_init E G s = Ret (PS7_INIT_SUCCESS, s')"
  shows "last_out (mio_reg i) r (tr s') AND MIO_PIN_MASK = pin_fields (mio_view ! i)"
proof -
  obtain v where "ps7_init E G s = run_tables E (init_tables v) (emit E (In32 0xF8007080) s)"
    by (rule ps7_init_cases)
  then have "run_tables E (init_tables v) (emit E (In32 0xF8007080) s) = Ret (PS7_INIT_SUCCESS, s')"
    using assms(3) by simp
  from fixes_bits_init [OF pins_fixed [OF assms(1)] assms(2) _ this] mio_reg_range [OF assms(1)]
  show ?thesis by (simp add: not_timer_reg)
qed

text \<open>
  \<open>mask_poll\<close> returns 1 exactly when one of the first \<open>PS7_MASK_POLL_TIME + 1\<close> reads shows a bit
  of the mask, and -1 otherwise; it never reads more often and never writes.
\<close>

lemma mask_poll_bounded:
  "(fst (mask_poll E a m s) = 1 \<longleftrightarrow>
      (\<exists>k\<le>PS7_MASK_POLL_TIME. ret E (repeated E (In32 a) (tr s) k) (In32 a) AND m \<noteq> 0)) \<and>
   (fst (mask_poll E a m s) = -1 \<or> fst (mask_poll E a m s) = 1) \<and>
   (\<exists>k\<le>PS7_MASK_POLL_TIME.
      snd (mask_poll E a m s) = s\<lparr>tr := repeated E (In32 a) (tr s) (Suc k)\<rparr>)"
proof -
  obtain ok s' where p: "poll_loop E a m PS7_MASK_POLL_TIME s = (ok, s')" by fastforce
  have "ok \<longleftrightarrow> (\<exists>k\<le>PS7_MASK_POLL_TIME. ret E (repeated E (In32 a) (tr s) k) (In32 a) AND m \<noteq> 0)"
    using poll.loop_succeeds_iff [of E a m "Suc PS7_MASK_POLL_TIME" s] p
    by (simp add: poll_loop_attempts funpow_emit ans_def less_Suc_eq_le)
  then show ?thesis
    using p poll_loop_state [OF p] by (auto simp: mask_poll_def simp del: repeated.simps)
qed

text \<open>
  C40: \<open>get_number_of_cycles_for_delay\<close> computes 250000 cycles per millisecond exactly for delays of
  at most 8 ms; from 9 ms on the 32-bit product wraps around and the delay comes out too short. The
  tables wait 1 ms.
\<close>

theorem get_number_of_cycles_for_delay_exact:
  "unat (get_number_of_cycles_for_delay delay) = 250000 * unat delay \<longleftrightarrow> unat delay \<le> 8"
proof
  assume le: "unat delay \<le> 8"
  then have "unat (APU_FREQ * delay) = 500000000 * unat delay"
    by (simp add: APU_FREQ_def unat_word_ariths)
  then show "unat (get_number_of_cycles_for_delay delay) = 250000 * unat delay"
    by (simp add: get_number_of_cycles_for_delay_def unat_div)
next
  assume eq: "unat (get_number_of_cycles_for_delay delay) = 250000 * unat delay"
  have "unat (get_number_of_cycles_for_delay delay) = unat (APU_FREQ * delay) div 2000"
    by (simp add: get_number_of_cycles_for_delay_def unat_div)
  moreover have "unat (APU_FREQ * delay) < 4294967296"
    using unsigned_less [of "APU_FREQ * delay", where ?'a = nat] by simp
  ultimately have "250000 * unat delay < 2147484" using eq by linarith
  then show "unat delay \<le> 8" by linarith
qed

section \<open>Examples\<close>

text \<open>
  Hardware on which everything works: PLL and pin registers hold what was written to them, every
  other register reads as all ones (every poll succeeds, the timer has run far).
\<close>

definition config_reg :: "u32 \<Rightarrow> bool" where
  "config_reg a \<longleftrightarrow> 0xF8000100 \<le> a \<and> a \<le> 0xF8000108 \<or> 0xF8000700 \<le> a \<and> a \<le> 0xF80007D4"

definition ready_env :: env where
  "ready_env = zynq_env
     (\<lambda>t c. case c of In32 a \<Rightarrow> if config_reg a then last_out a 0 t else -1 | _ \<Rightarrow> 0)
     (\<lambda>_. []) (\<lambda>_. 0)"

lemma ready_env_stores: "config_reg a \<Longrightarrow> stores ready_env a 0"
  by (simp add: stores_def ready_env_def zynq_env_def)

lemma ready_env_polls: "\<not> config_reg a \<Longrightarrow> m \<noteq> 0 \<Longrightarrow> poll_ends ready_env a m"
  by (auto simp: poll_ends_def ready_env_def zynq_env_def intro!: exI [of _ 0])

lemma ready_env_delay: "delay_ends ready_env SCU_GLOBAL_TIMER_COUNT_L32 1"
  by (auto simp: delay_ends_def ready_env_def zynq_env_def config_reg_def macro_defs
      get_number_of_cycles_for_delay_def intro!: exI [of _ 0])

theorem ps7_init_returns_witness:
  "\<exists>r s'. ps7_init ready_env (\<lambda>_. []) power_on = Ret (r, s')"
  by (rule ps7_init_returns [OF ready_env_delay])

theorem ps7_init_succeeds_witness:
  "\<exists>s'. ps7_init ready_env (\<lambda>_. []) power_on = Ret (PS7_INIT_SUCCESS, s')"
  by (rule ps7_init_succeeds; (rule ready_env_delay | rule ready_env_polls))
    (simp_all add: config_reg_def)

lemma ready_init:
  obtains s' where "ps7_init ready_env (\<lambda>_. []) power_on = Ret (PS7_INIT_SUCCESS, s')"
proof -
  obtain v where v: "ps7_init ready_env (\<lambda>_. []) power_on =
      run_tables ready_env (init_tables v) (emit ready_env (In32 0xF8007080) power_on)"
    by (rule ps7_init_cases)
  have "polls_end ready_env ops" if "ops \<in> set (init_tables v)" for ops
    using that by (auto simp: init_tables_def polls_end_def polls_tables config_reg_def
        intro!: ready_env_polls)
  then have "\<forall>ops \<in> set (init_tables v). wf_ops ops \<and> delays_end ready_env ops \<and> polls_end ready_env ops"
    using delays_end_tables [OF ready_env_delay, of v] init_tables_wf [of v]
    by (simp add: list_all_iff)
  from run_tables_succeeds [OF this] v that show thesis by metis
qed

theorem ps7_init_plls_witness:
  "\<exists>s'. ps7_init ready_env (\<lambda>_. []) power_on = Ret (PS7_INIT_SUCCESS, s') \<and>
     last_out 0xF8000108 0 (tr s') AND 0x7F011 = 0x30000"
proof -
  obtain s' where s': "ps7_init ready_env (\<lambda>_. []) power_on = Ret (PS7_INIT_SUCCESS, s')"
    by (rule ready_init)
  have "stores ready_env 0xF8000100 0" "stores ready_env 0xF8000104 0" "stores ready_env 0xF8000108 0"
    by (rule ready_env_stores; simp add: config_reg_def)+
  from ps7_init_plls [OF this s'] s' show ?thesis by auto
qed

theorem ps7_init_pins_witness:
  "\<exists>s'. ps7_init ready_env (\<lambda>_. []) power_on = Ret (PS7_INIT_SUCCESS, s') \<and>
     last_out (mio_reg 22) 0 (tr s') AND MIO_PIN_MASK = 0x1201"
proof -
  obtain s' where s': "ps7_init ready_env (\<lambda>_. []) power_on = Ret (PS7_INIT_SUCCESS, s')"
    by (rule ready_init)
  have st: "stores ready_env (mio_reg 22) 0"
    by (rule ready_env_stores) (simp add: config_reg_def mio_reg_range)
  have "pin_fields (mio_view ! 22) = 0x1201" by code_simp
  with ps7_init_pins [OF _ st s'] s' show ?thesis by auto
qed

end
