(* ===== verification/Ps7_Gpl_Config.thy ===== *)
theory Ps7_Gpl_Config
  imports Ps7_Config
begin

text \<open>
  The interpreter of \<^verbatim>\<open>ps7_init_gpl.c\<close> and the macros of \<^verbatim>\<open>ps7_init_gpl.h\<close>, the second generated
  copy of the board initialisation, translated from those files, with the proof that every function
  agrees with its namesake in \<^verbatim>\<open>Ps7_Config\<close>. The return codes are the values of \<open>ps7_status\<close>.
\<close>

section \<open>Macros\<close>

named_theorems gpl_macros

definition gpl_OPCODE_EXIT :: u32 where [gpl_macros]: "gpl_OPCODE_EXIT = 0"
definition gpl_OPCODE_CLEAR :: u32 where [gpl_macros]: "gpl_OPCODE_CLEAR = 1"
definition gpl_OPCODE_WRITE :: u32 where [gpl_macros]: "gpl_OPCODE_WRITE = 2"
definition gpl_OPCODE_MASKWRITE :: u32 where [gpl_macros]: "gpl_OPCODE_MASKWRITE = 3"
definition gpl_OPCODE_MASKPOLL :: u32 where [gpl_macros]: "gpl_OPCODE_MASKPOLL = 4"
definition gpl_OPCODE_MASKDELAY :: u32 where [gpl_macros]: "gpl_OPCODE_MASKDELAY = 5"

primrec gpl_status_code :: "ps7_status \<Rightarrow> nat" where
  "gpl_status_code PS7_INIT_SUCCESS = 0"
| "gpl_status_code PS7_INIT_CORRUPT = 1"
| "gpl_status_code PS7_INIT_TIMEOUT = 2"
| "gpl_status_code PS7_POLL_FAILED_DDR_INIT = 3"
| "gpl_status_code PS7_POLL_FAILED_DMA = 4"
| "gpl_status_code PS7_POLL_FAILED_PLL = 5"

primrec gpl_encode_op :: "ps7_op \<Rightarrow> u32 list" where
  "gpl_encode_op EMIT_EXIT = [push_bit 4 gpl_OPCODE_EXIT OR 0]"
| "gpl_encode_op (EMIT_CLEAR addr) = [push_bit 4 gpl_OPCODE_CLEAR OR 1, addr]"
| "gpl_encode_op (EMIT_WRITE addr val) = [push_bit 4 gpl_OPCODE_WRITE OR 2, addr, val]"
| "gpl_encode_op (EMIT_MASKWRITE addr m val) =
     [push_bit 4 gpl_OPCODE_MASKWRITE OR 3, addr, m, val]"
| "gpl_encode_op (EMIT_MASKPOLL addr m) = [push_bit 4 gpl_OPCODE_MASKPOLL OR 2, addr, m]"
| "gpl_encode_op (EMIT_MASKDELAY addr m) = [push_bit 4 gpl_OPCODE_MASKDELAY OR 2, addr, m]"

definition gpl_encode_table :: "ps7_op list \<Rightarrow> u32 list" where
  "gpl_encode_table ops = concat (map gpl_encode_op ops)"

definition gpl_PCW_SILICON_VERSION_1 :: u32 where [gpl_macros]: "gpl_PCW_SILICON_VERSION_1 = 0"
definition gpl_PCW_SILICON_VERSION_2 :: u32 where [gpl_macros]: "gpl_PCW_SILICON_VERSION_2 = 1"
definition gpl_PCW_SILICON_VERSION_3 :: u32 where [gpl_macros]: "gpl_PCW_SILICON_VERSION_3 = 2"

definition gpl_SCU_GLOBAL_TIMER_COUNT_L32 :: u32 where
  [gpl_macros]: "gpl_SCU_GLOBAL_TIMER_COUNT_L32 = 0xF8F00200"
definition gpl_SCU_GLOBAL_TIMER_COUNT_U32 :: u32 where
  [gpl_macros]: "gpl_SCU_GLOBAL_TIMER_COUNT_U32 = 0xF8F00204"
definition gpl_SCU_GLOBAL_TIMER_CONTROL :: u32 where
  [gpl_macros]: "gpl_SCU_GLOBAL_TIMER_CONTROL = 0xF8F00208"
definition gpl_APU_FREQ :: u32 where [gpl_macros]: "gpl_APU_FREQ = 500000000"

section \<open>Register accesses and the global timer\<close>

definition gpl_mask_write :: "env \<Rightarrow> u32 \<Rightarrow> u32 \<Rightarrow> u32 \<Rightarrow> 'a io_scheme \<Rightarrow> 'a io_scheme" where
  "gpl_mask_write E add m val s =
     (let old = ans E (In32 add) s; s = emit E (In32 add) s
      in emit E (Out32 add ((val AND m) OR (old AND NOT m))) s)"

definition gpl_PS7_MASK_POLL_TIME :: nat where "gpl_PS7_MASK_POLL_TIME = 100000000"

fun gpl_poll_loop :: "env \<Rightarrow> u32 \<Rightarrow> u32 \<Rightarrow> nat \<Rightarrow> 'a io_scheme \<Rightarrow> bool \<times> 'a io_scheme" where
  "gpl_poll_loop E add m n s =
     (let v = ans E (In32 add) s; s = emit E (In32 add) s
      in if v AND m \<noteq> 0 then (True, s)
         else if n = 0 then (False, s)
         else gpl_poll_loop E add m (n - 1) s)"

declare gpl_poll_loop.simps [simp del]

definition gpl_mask_poll :: "env \<Rightarrow> u32 \<Rightarrow> u32 \<Rightarrow> 'a io_scheme \<Rightarrow> int \<times> 'a io_scheme" where
  "gpl_mask_poll E add m s =
     (let (ok, s) = gpl_poll_loop E add m gpl_PS7_MASK_POLL_TIME s in (if ok then 1 else -1, s))"

definition gpl_mask_read :: "env \<Rightarrow> u32 \<Rightarrow> u32 \<Rightarrow> 'a io_scheme \<Rightarrow> u32 \<times> 'a io_scheme" where
  "gpl_mask_read E add m s = (ans E (In32 add) s AND m, emit E (In32 add) s)"

definition gpl_perf_start_clock :: "env \<Rightarrow> 'a io_scheme \<Rightarrow> 'a io_scheme" where
  "gpl_perf_start_clock E s =
     emit E (Out32 gpl_SCU_GLOBAL_TIMER_CONTROL (push_bit 0 1 OR push_bit 3 1 OR push_bit 8 0)) s"

definition gpl_perf_disable_clock :: "env \<Rightarrow> 'a io_scheme \<Rightarrow> 'a io_scheme" where
  "gpl_perf_disable_clock E s = emit E (Out32 gpl_SCU_GLOBAL_TIMER_CONTROL 0) s"

definition gpl_perf_reset_clock :: "env \<Rightarrow> 'a io_scheme \<Rightarrow> 'a io_scheme" where
  "gpl_perf_reset_clock E s =
     (let s = gpl_perf_disable_clock E s;
          s = emit E (Out32 gpl_SCU_GLOBAL_TIMER_COUNT_L32 0) s
      in emit E (Out32 gpl_SCU_GLOBAL_TIMER_COUNT_U32 0) s)"

definition gpl_get_number_of_cycles_for_delay :: "u32 \<Rightarrow> u32" where
  "gpl_get_number_of_cycles_for_delay delay = gpl_APU_FREQ * delay div (2 * 1000)"

definition gpl_perf_reset_and_start_timer :: "env \<Rightarrow> 'a io_scheme \<Rightarrow> 'a io_scheme" where
  "gpl_perf_reset_and_start_timer E s = gpl_perf_start_clock E (gpl_perf_reset_clock E s)"

partial_function (option) gpl_delay_loop :: "env \<Rightarrow> u32 \<Rightarrow> u32 \<Rightarrow> 'a io_scheme \<Rightarrow> 'a io_scheme option" where
  "gpl_delay_loop E add delay s =
     (if ans E (In32 add) s < delay then gpl_delay_loop E add delay (emit E (In32 add) s)
      else Some (emit E (In32 add) s))"

section \<open>The interpreter\<close>

function gpl_ps7_config_loop ::
    "env \<Rightarrow> u32 list \<Rightarrow> u32 list \<Rightarrow> 'a io_scheme \<Rightarrow> (ps7_status \<times> 'a io_scheme) run" where
  "gpl_ps7_config_loop E args ptr s =
     (case ptr of [] \<Rightarrow> Undefined | w # rest \<Rightarrow>
      let numargs = unat (w AND 0xF); opcode = drop_bit 4 w
      in if length rest < numargs then Undefined else
      let args = take numargs rest @ drop numargs args; ptr = drop numargs rest
      in if opcode = gpl_OPCODE_EXIT then Ret (PS7_INIT_SUCCESS, s)
         else if opcode = gpl_OPCODE_CLEAR then
           gpl_ps7_config_loop E args ptr (emit E (Out32 (args ! 0) 0) s)
         else if opcode = gpl_OPCODE_WRITE then
           gpl_ps7_config_loop E args ptr (emit E (Out32 (args ! 0) (args ! 1)) s)
         else if opcode = gpl_OPCODE_MASKWRITE then
           gpl_ps7_config_loop E args ptr (gpl_mask_write E (args ! 0) (args ! 1) (args ! 2) s)
         else if opcode = gpl_OPCODE_MASKPOLL then
           (let (ok, s) = gpl_poll_loop E (args ! 0) (args ! 1) gpl_PS7_MASK_POLL_TIME s
            in if ok then gpl_ps7_config_loop E args ptr s else Ret (PS7_INIT_TIMEOUT, s))
         else if opcode = gpl_OPCODE_MASKDELAY then
           (case gpl_delay_loop E (args ! 0) (gpl_get_number_of_cycles_for_delay (args ! 1))
                   (gpl_perf_reset_and_start_timer E s) of
              None \<Rightarrow> Hang
            | Some s \<Rightarrow> gpl_ps7_config_loop E args ptr s)
         else Ret (PS7_INIT_CORRUPT, s))"
  by pat_completeness auto
termination
  by (relation "measure (\<lambda>(E, args, ptr, s). length ptr)") auto

declare gpl_ps7_config_loop.simps [simp del]

definition gpl_ps7_config ::
    "env \<Rightarrow> u32 list \<Rightarrow> u32 list \<Rightarrow> 'a io_scheme \<Rightarrow> (ps7_status \<times> 'a io_scheme) run" where
  "gpl_ps7_config E args0 ps7_config_init s = gpl_ps7_config_loop E args0 ps7_config_init s"

section \<open>Agreement with the first copy\<close>

lemma gpl_encode_table_eq: "gpl_encode_table = encode_table"
proof -
  have "gpl_encode_op p = encode_op p" for p by (cases p) (simp_all add: gpl_macros macro_defs)
  then have "map gpl_encode_op ops = map encode_op ops" for ops by simp
  then show ?thesis by (simp only: fun_eq_iff gpl_encode_table_def encode_table_def simp_thms)
qed

lemma gpl_status_code_eq: "gpl_status_code r = status_code r"
  by (cases r) simp_all

lemma gpl_accesses_eq:
  "gpl_mask_write E add m val s = mask_write E add m val s"
  "gpl_mask_read E add m s = mask_read E add m s"
  "gpl_get_number_of_cycles_for_delay delay = get_number_of_cycles_for_delay delay"
  "gpl_perf_reset_and_start_timer E s = perf_reset_and_start_timer E s"
  "gpl_PS7_MASK_POLL_TIME = PS7_MASK_POLL_TIME"
  by (simp_all add: gpl_mask_write_def mask_write_def gpl_mask_read_def mask_read_def
      gpl_get_number_of_cycles_for_delay_def get_number_of_cycles_for_delay_def
      gpl_perf_reset_and_start_timer_def perf_reset_and_start_timer_def gpl_perf_start_clock_def
      perf_start_clock_def gpl_perf_reset_clock_def perf_reset_clock_def gpl_perf_disable_clock_def
      perf_disable_clock_def gpl_PS7_MASK_POLL_TIME_def PS7_MASK_POLL_TIME_def gpl_macros macro_defs)

lemma gpl_poll_loop_eq: "gpl_poll_loop E add m n s = poll_loop E add m n s"
proof (induction n arbitrary: s)
  case 0
  show ?case by (subst gpl_poll_loop.simps, subst poll_loop.simps) (simp add: Let_def)
next
  case (Suc n)
  show ?case
    by (subst gpl_poll_loop.simps, subst poll_loop.simps) (simp add: Let_def Suc.IH)
qed

lemma gpl_mask_poll_eq: "gpl_mask_poll E add m s = mask_poll E add m s"
  by (simp add: gpl_mask_poll_def mask_poll_def gpl_poll_loop_eq gpl_accesses_eq)

text \<open>Both loops are defined for the same inputs, with the same result.\<close>

lemma gpl_delay_loop_le:
  assumes "gpl_delay_loop E add delay s = Some s'"
  shows "delay_loop E add delay s = Some s'"
  by (rule gpl_delay_loop.raw_induct
        [where P = "\<lambda>E add delay s s'. delay_loop E add delay s = Some s'", OF _ assms])
    (subst delay_loop.simps, auto split: if_splits)

lemma delay_loop_le:
  assumes "delay_loop E add delay s = Some s'"
  shows "gpl_delay_loop E add delay s = Some s'"
  by (rule delay_loop.raw_induct
        [where P = "\<lambda>E add delay s s'. gpl_delay_loop E add delay s = Some s'", OF _ assms])
    (subst gpl_delay_loop.simps, auto split: if_splits)

lemma gpl_delay_loop_eq: "gpl_delay_loop E add delay s = delay_loop E add delay s"
  using gpl_delay_loop_le [of E add delay s] delay_loop_le [of E add delay s]
  by (cases "gpl_delay_loop E add delay s"; cases "delay_loop E add delay s") auto

lemmas gpl_functions_eq = gpl_accesses_eq gpl_poll_loop_eq gpl_delay_loop_eq

lemma gpl_config_loop_eq: "gpl_ps7_config_loop E args ptr s = ps7_config_loop E args ptr s"
proof (induction E args ptr s rule: ps7_config_loop.induct)
  case (1 E args ptr s)
  show ?case
  proof (cases ptr)
    case Nil
    then show ?thesis by (simp add: gpl_ps7_config_loop.simps ps7_config_loop.simps)
  next
    case (Cons w rest)
    show ?thesis
      unfolding Cons gpl_ps7_config_loop.simps [of E args "w # rest"] ps7_config_loop.simps [of E args "w # rest"]
      using 1 [OF Cons refl refl _ refl refl]
      by (auto simp: Let_def gpl_functions_eq gpl_macros macro_defs
          split: prod.splits option.splits)
  qed
qed

lemma gpl_ps7_config_eq: "gpl_ps7_config E args ptr s = ps7_config E args ptr s"
  by (simp add: gpl_ps7_config_def ps7_config_def gpl_config_loop_eq)

end
