(* ===== verification/Ps7_Gpl_Tables_3_0.thy ===== *)
theory Ps7_Gpl_Tables_3_0
  imports Ps7_Gpl_Config
begin

text \<open>
  The initialisation tables of \<^verbatim>\<open>ps7_init_gpl.c\<close> for silicon version 3.0, operation by operation
  in the order of the source. A table is the concatenation of its consecutive pieces (at most 150
  source lines each, comments included); \<open>..._data_3_0\<close> is the word array the C compiler sees.
\<close>

named_theorems gpl_tables

section \<open>PLL initialisation\<close>

definition gpl_pll_arm_3_0 :: "ps7_op list" where
  [gpl_tables]: "gpl_pll_arm_3_0 =
   [EMIT_WRITE 0xF8000008 0x0000DF0D,
    EMIT_MASKWRITE 0xF8000110 0x003FFFF0 0x001452C0,
    EMIT_MASKWRITE 0xF8000100 0x0007F000 0x0001E000,
    EMIT_MASKWRITE 0xF8000100 0x00000010 0x00000010,
    EMIT_MASKWRITE 0xF8000100 0x00000001 0x00000001,
    EMIT_MASKWRITE 0xF8000100 0x00000001 0x00000000,
    EMIT_MASKPOLL 0xF800010C 0x00000001,
    EMIT_MASKWRITE 0xF8000100 0x00000010 0x00000000,
    EMIT_MASKWRITE 0xF8000120 0x1F003F30 0x1F000200]"

definition gpl_pll_ddr_3_0 :: "ps7_op list" where
  [gpl_tables]: "gpl_pll_ddr_3_0 =
   [EMIT_MASKWRITE 0xF8000114 0x003FFFF0 0x0012C220,
    EMIT_MASKWRITE 0xF8000104 0x0007F000 0x00020000,
    EMIT_MASKWRITE 0xF8000104 0x00000010 0x00000010,
    EMIT_MASKWRITE 0xF8000104 0x00000001 0x00000001,
    EMIT_MASKWRITE 0xF8000104 0x00000001 0x00000000,
    EMIT_MASKPOLL 0xF800010C 0x00000002,
    EMIT_MASKWRITE 0xF8000104 0x00000010 0x00000000,
    EMIT_MASKWRITE 0xF8000124 0xFFF00003 0x0C200003]"

definition gpl_pll_io_3_0 :: "ps7_op list" where
  [gpl_tables]: "gpl_pll_io_3_0 =
   [EMIT_MASKWRITE 0xF8000118 0x003FFFF0 0x000FA240,
    EMIT_MASKWRITE 0xF8000108 0x0007F000 0x00030000,
    EMIT_MASKWRITE 0xF8000108 0x00000010 0x00000010,
    EMIT_MASKWRITE 0xF8000108 0x00000001 0x00000001,
    EMIT_MASKWRITE 0xF8000108 0x00000001 0x00000000,
    EMIT_MASKPOLL 0xF800010C 0x00000004,
    EMIT_MASKWRITE 0xF8000108 0x00000010 0x00000000,
    EMIT_WRITE 0xF8000004 0x0000767B,
    EMIT_EXIT]"

definition gpl_pll_ops_3_0 :: "ps7_op list" where
  [gpl_tables]: "gpl_pll_ops_3_0 = gpl_pll_arm_3_0 @ gpl_pll_ddr_3_0 @ gpl_pll_io_3_0"

definition gpl_ps7_pll_init_data_3_0 :: "u32 list" where
  [gpl_tables]: "gpl_ps7_pll_init_data_3_0 = gpl_encode_table gpl_pll_ops_3_0"

section \<open>Clock configuration\<close>

definition gpl_clock_3_0_1 :: "ps7_op list" where
  [gpl_tables]: "gpl_clock_3_0_1 =
   [EMIT_WRITE 0xF8000008 0x0000DF0D,
    EMIT_MASKWRITE 0xF8000128 0x03F03F01 0x00700F01,
    EMIT_MASKWRITE 0xF8000138 0x00000011 0x00000001,
    EMIT_MASKWRITE 0xF8000140 0x03F03F71 0x00100821,
    EMIT_MASKWRITE 0xF800014C 0x00003F31 0x00000801,
    EMIT_MASKWRITE 0xF8000150 0x00003F33 0x00001001,
    EMIT_MASKWRITE 0xF8000154 0x00003F33 0x00001003,
    EMIT_MASKWRITE 0xF800015C 0x03F03F33 0x00400401,
    EMIT_MASKWRITE 0xF8000160 0x007F007F 0x00000000,
    EMIT_MASKWRITE 0xF8000168 0x00003F31 0x00000801,
    EMIT_MASKWRITE 0xF8000170 0x03F03F30 0x00200400,
    EMIT_MASKWRITE 0xF8000180 0x03F03F30 0x00400800]"

definition gpl_clock_3_0_2 :: "ps7_op list" where
  [gpl_tables]: "gpl_clock_3_0_2 =
   [EMIT_MASKWRITE 0xF80001C4 0x00000001 0x00000001,
    EMIT_MASKWRITE 0xF800012C 0x01FFCCCD 0x01FD044D,
    EMIT_WRITE 0xF8000004 0x0000767B,
    EMIT_EXIT]"

definition gpl_clock_ops_3_0 :: "ps7_op list" where
  [gpl_tables]: "gpl_clock_ops_3_0 = gpl_clock_3_0_1 @ gpl_clock_3_0_2"

definition gpl_ps7_clock_init_data_3_0 :: "u32 list" where
  [gpl_tables]: "gpl_ps7_clock_init_data_3_0 = gpl_encode_table gpl_clock_ops_3_0"

section \<open>DDR controller and PHY\<close>

definition gpl_ddr_3_0_1 :: "ps7_op list" where
  [gpl_tables]: "gpl_ddr_3_0_1 =
   [EMIT_MASKWRITE 0xF8006000 0x0001FFFF 0x00000080,
    EMIT_MASKWRITE 0xF8006004 0x0007FFFF 0x00001082,
    EMIT_MASKWRITE 0xF8006008 0x03FFFFFF 0x03C0780F,
    EMIT_MASKWRITE 0xF800600C 0x03FFFFFF 0x02001001,
    EMIT_MASKWRITE 0xF8006010 0x03FFFFFF 0x00014001,
    EMIT_MASKWRITE 0xF8006014 0x001FFFFF 0x0004285B,
    EMIT_MASKWRITE 0xF8006018 0xF7FFFFFF 0x44E458D3,
    EMIT_MASKWRITE 0xF800601C 0xFFFFFFFF 0x7282BCE5]"

definition gpl_ddr_3_0_2 :: "ps7_op list" where
  [gpl_tables]: "gpl_ddr_3_0_2 =
   [EMIT_MASKWRITE 0xF8006020 0x7FDFFFFC 0x270872D0,
    EMIT_MASKWRITE 0xF8006024 0x0FFFFFC3 0x00000000,
    EMIT_MASKWRITE 0xF8006028 0x00003FFF 0x00002007,
    EMIT_MASKWRITE 0xF800602C 0xFFFFFFFF 0x00000008,
    EMIT_MASKWRITE 0xF8006030 0xFFFFFFFF 0x00040B30,
    EMIT_MASKWRITE 0xF8006034 0x13FF3FFF 0x000116D4,
    EMIT_MASKWRITE 0xF8006038 0x00000003 0x00000000,
    EMIT_MASKWRITE 0xF800603C 0x000FFFFF 0x00000777,
    EMIT_MASKWRITE 0xF8006040 0xFFFFFFFF 0xFFF00000]"

definition gpl_ddr_3_0_3 :: "ps7_op list" where
  [gpl_tables]: "gpl_ddr_3_0_3 =
   [EMIT_MASKWRITE 0xF8006044 0x0FFFFFFF 0x0F666666,
    EMIT_MASKWRITE 0xF8006048 0x0003F03F 0x0003C008,
    EMIT_MASKWRITE 0xF8006050 0xFF0F8FFF 0x77010800,
    EMIT_MASKWRITE 0xF8006058 0x00010000 0x00000000,
    EMIT_MASKWRITE 0xF800605C 0x0000FFFF 0x00005003,
    EMIT_MASKWRITE 0xF8006060 0x000017FF 0x0000003E,
    EMIT_MASKWRITE 0xF8006064 0x00021FE0 0x00020000,
    EMIT_MASKWRITE 0xF8006068 0x03FFFFFF 0x00284141,
    EMIT_MASKWRITE 0xF800606C 0x0000FFFF 0x00001610]"

definition gpl_ddr_3_0_4 :: "ps7_op list" where
  [gpl_tables]: "gpl_ddr_3_0_4 =
   [EMIT_MASKWRITE 0xF8006078 0x03FFFFFF 0x00466111,
    EMIT_MASKWRITE 0xF800607C 0x000FFFFF 0x00032222,
    EMIT_MASKWRITE 0xF80060A4 0xFFFFFFFF 0x10200802,
    EMIT_MASKWRITE 0xF80060A8 0x0FFFFFFF 0x0690CB73,
    EMIT_MASKWRITE 0xF80060AC 0x000001FF 0x000001FE,
    EMIT_MASKWRITE 0xF80060B0 0x1FFFFFFF 0x1CFFFFFF,
    EMIT_MASKWRITE 0xF80060B4 0x00000200 0x00000200,
    EMIT_MASKWRITE 0xF80060B8 0x01FFFFFF 0x00200066,
    EMIT_MASKWRITE 0xF80060C4 0x00000003 0x00000000,
    EMIT_MASKWRITE 0xF80060C8 0x000000FF 0x00000000,
    EMIT_MASKWRITE 0xF80060DC 0x00000001 0x00000000,
    EMIT_MASKWRITE 0xF80060F0 0x0000FFFF 0x00000000,
    EMIT_MASKWRITE 0xF80060F4 0x0000000F 0x00000008]"

definition gpl_ddr_3_0_5 :: "ps7_op list" where
  [gpl_tables]: "gpl_ddr_3_0_5 =
   [EMIT_MASKWRITE 0xF8006114 0x000000FF 0x00000000,
    EMIT_MASKWRITE 0xF8006118 0x7FFFFFCF 0x40000001,
    EMIT_MASKWRITE 0xF800611C 0x7FFFFFCF 0x40000001,
    EMIT_MASKWRITE 0xF8006120 0x7FFFFFCF 0x40000001,
    EMIT_MASKWRITE 0xF8006124 0x7FFFFFCF 0x40000001,
    EMIT_MASKWRITE 0xF800612C 0x000FFFFF 0x0002A81F,
    EMIT_MASKWRITE 0xF8006130 0x000FFFFF 0x00029822,
    EMIT_MASKWRITE 0xF8006134 0x000FFFFF 0x00026C10,
    EMIT_MASKWRITE 0xF8006138 0x000FFFFF 0x00026013,
    EMIT_MASKWRITE 0xF8006140 0x000FFFFF 0x00000035]"

definition gpl_ddr_3_0_6 :: "ps7_op list" where
  [gpl_tables]: "gpl_ddr_3_0_6 =
   [EMIT_MASKWRITE 0xF8006144 0x000FFFFF 0x00000035,
    EMIT_MASKWRITE 0xF8006148 0x000FFFFF 0x00000035,
    EMIT_MASKWRITE 0xF800614C 0x000FFFFF 0x00000035,
    EMIT_MASKWRITE 0xF8006154 0x000FFFFF 0x0000009F,
    EMIT_MASKWRITE 0xF8006158 0x000FFFFF 0x000000A2,
    EMIT_MASKWRITE 0xF800615C 0x000FFFFF 0x00000090,
    EMIT_MASKWRITE 0xF8006160 0x000FFFFF 0x00000093,
    EMIT_MASKWRITE 0xF8006168 0x001FFFFF 0x000000FF,
    EMIT_MASKWRITE 0xF800616C 0x001FFFFF 0x000000FB,
    EMIT_MASKWRITE 0xF8006170 0x001FFFFF 0x000000F0,
    EMIT_MASKWRITE 0xF8006174 0x001FFFFF 0x000000ED,
    EMIT_MASKWRITE 0xF800617C 0x000FFFFF 0x000000DF,
    EMIT_MASKWRITE 0xF8006180 0x000FFFFF 0x000000E2]"

definition gpl_ddr_3_0_7 :: "ps7_op list" where
  [gpl_tables]: "gpl_ddr_3_0_7 =
   [EMIT_MASKWRITE 0xF8006184 0x000FFFFF 0x000000D0,
    EMIT_MASKWRITE 0xF8006188 0x000FFFFF 0x000000D3,
    EMIT_MASKWRITE 0xF8006190 0x6FFFFEFE 0x00040080,
    EMIT_MASKWRITE 0xF8006194 0x000FFFFF 0x0001FC82,
    EMIT_MASKWRITE 0xF8006204 0xFFFFFFFF 0x00000000,
    EMIT_MASKWRITE 0xF8006208 0x000703FF 0x000003FF,
    EMIT_MASKWRITE 0xF800620C 0x000703FF 0x000003FF,
    EMIT_MASKWRITE 0xF8006210 0x000703FF 0x000003FF,
    EMIT_MASKWRITE 0xF8006214 0x000703FF 0x000003FF]"

definition gpl_ddr_3_0_8 :: "ps7_op list" where
  [gpl_tables]: "gpl_ddr_3_0_8 =
   [EMIT_MASKWRITE 0xF8006218 0x000F03FF 0x000003FF,
    EMIT_MASKWRITE 0xF800621C 0x000F03FF 0x000003FF,
    EMIT_MASKWRITE 0xF8006220 0x000F03FF 0x000003FF,
    EMIT_MASKWRITE 0xF8006224 0x000F03FF 0x000003FF,
    EMIT_MASKWRITE 0xF80062A8 0x00000FF5 0x00000000,
    EMIT_MASKWRITE 0xF80062AC 0xFFFFFFFF 0x00000000,
    EMIT_MASKWRITE 0xF80062B0 0x003FFFFF 0x00005125,
    EMIT_MASKWRITE 0xF80062B4 0x0003FFFF 0x000012A8,
    EMIT_MASKPOLL 0xF8000B74 0x00002000,
    EMIT_MASKWRITE 0xF8006000 0x0001FFFF 0x00000081,
    EMIT_MASKPOLL 0xF8006054 0x00000007,
    EMIT_EXIT]"

definition gpl_ddr_ops_3_0 :: "ps7_op list" where
  [gpl_tables]: "gpl_ddr_ops_3_0 = gpl_ddr_3_0_1 @ gpl_ddr_3_0_2 @ gpl_ddr_3_0_3 @ gpl_ddr_3_0_4 @ gpl_ddr_3_0_5 @ gpl_ddr_3_0_6 @ gpl_ddr_3_0_7 @ gpl_ddr_3_0_8"

definition gpl_ps7_ddr_init_data_3_0 :: "u32 list" where
  [gpl_tables]: "gpl_ps7_ddr_init_data_3_0 = gpl_encode_table gpl_ddr_ops_3_0"

section \<open>Ddr i/o buffers and the mio pins\<close>

definition gpl_mio_3_0_1 :: "ps7_op list" where
  [gpl_tables]: "gpl_mio_3_0_1 =
   [EMIT_WRITE 0xF8000008 0x0000DF0D,
    EMIT_MASKWRITE 0xF8000B40 0x00000FFF 0x00000600,
    EMIT_MASKWRITE 0xF8000B44 0x00000FFF 0x00000600,
    EMIT_MASKWRITE 0xF8000B48 0x00000FFF 0x00000672,
    EMIT_MASKWRITE 0xF8000B4C 0x00000FFF 0x00000672]"

definition gpl_mio_3_0_2 :: "ps7_op list" where
  [gpl_tables]: "gpl_mio_3_0_2 =
   [EMIT_MASKWRITE 0xF8000B50 0x00000FFF 0x00000674,
    EMIT_MASKWRITE 0xF8000B54 0x00000FFF 0x00000674,
    EMIT_MASKWRITE 0xF8000B58 0x00000FFF 0x00000600,
    EMIT_MASKWRITE 0xF8000B5C 0xFFFFFFFF 0x0018C61C,
    EMIT_MASKWRITE 0xF8000B60 0xFFFFFFFF 0x00F9861C,
    EMIT_MASKWRITE 0xF8000B64 0xFFFFFFFF 0x00F9861C]"

definition gpl_mio_3_0_3 :: "ps7_op list" where
  [gpl_tables]: "gpl_mio_3_0_3 =
   [EMIT_MASKWRITE 0xF8000B68 0xFFFFFFFF 0x00F9861C,
    EMIT_MASKWRITE 0xF8000B6C 0x00007FFF 0x00000260,
    EMIT_MASKWRITE 0xF8000B70 0x00000001 0x00000001,
    EMIT_MASKWRITE 0xF8000B70 0x00000021 0x00000020,
    EMIT_MASKWRITE 0xF8000B70 0x07FEFFFF 0x00000823]"

definition gpl_mio_3_0_4 :: "ps7_op list" where
  [gpl_tables]: "gpl_mio_3_0_4 =
   [EMIT_MASKWRITE 0xF8000700 0x00003FFF 0x00001600,
    EMIT_MASKWRITE 0xF8000704 0x00003FFF 0x00000602,
    EMIT_MASKWRITE 0xF8000708 0x00003FFF 0x00000602,
    EMIT_MASKWRITE 0xF800070C 0x00003FFF 0x00000602,
    EMIT_MASKWRITE 0xF8000710 0x00003FFF 0x00000602]"

definition gpl_mio_3_0_5 :: "ps7_op list" where
  [gpl_tables]: "gpl_mio_3_0_5 =
   [EMIT_MASKWRITE 0xF8000714 0x00003FFF 0x00000602,
    EMIT_MASKWRITE 0xF8000718 0x00003FFF 0x00000602,
    EMIT_MASKWRITE 0xF800071C 0x00003FFF 0x00000600,
    EMIT_MASKWRITE 0xF8000720 0x00003FFF 0x00000602,
    EMIT_MASKWRITE 0xF8000724 0x00003FFF 0x00000600]"

definition gpl_mio_3_0_6 :: "ps7_op list" where
  [gpl_tables]: "gpl_mio_3_0_6 =
   [EMIT_MASKWRITE 0xF8000728 0x00003FFF 0x000016E1,
    EMIT_MASKWRITE 0xF800072C 0x00003FFF 0x000016E0,
    EMIT_MASKWRITE 0xF8000730 0x00003FFF 0x00001640,
    EMIT_MASKWRITE 0xF8000734 0x00003FFF 0x00001640,
    EMIT_MASKWRITE 0xF8000738 0x00003FFF 0x00001621]"

definition gpl_mio_3_0_7 :: "ps7_op list" where
  [gpl_tables]: "gpl_mio_3_0_7 =
   [EMIT_MASKWRITE 0xF800073C 0x00003FFF 0x00001620,
    EMIT_MASKWRITE 0xF8000740 0x00003FFF 0x00001202,
    EMIT_MASKWRITE 0xF8000744 0x00003FFF 0x00001202,
    EMIT_MASKWRITE 0xF8000748 0x00003FFF 0x00001202,
    EMIT_MASKWRITE 0xF800074C 0x00003FFF 0x00001202]"

definition gpl_mio_3_0_8 :: "ps7_op list" where
  [gpl_tables]: "gpl_mio_3_0_8 =
   [EMIT_MASKWRITE 0xF8000750 0x00003FFF 0x00001202,
    EMIT_MASKWRITE 0xF8000754 0x00003FFF 0x00001202,
    EMIT_MASKWRITE 0xF8000758 0x00003FFF 0x00001203,
    EMIT_MASKWRITE 0xF800075C 0x00003FFF 0x00001203,
    EMIT_MASKWRITE 0xF8000760 0x00003FFF 0x00001203]"

definition gpl_mio_3_0_9 :: "ps7_op list" where
  [gpl_tables]: "gpl_mio_3_0_9 =
   [EMIT_MASKWRITE 0xF8000764 0x00003FFF 0x00001203,
    EMIT_MASKWRITE 0xF8000768 0x00003FFF 0x00001203,
    EMIT_MASKWRITE 0xF800076C 0x00003FFF 0x00001203,
    EMIT_MASKWRITE 0xF8000770 0x00003FFF 0x00001204,
    EMIT_MASKWRITE 0xF8000774 0x00003FFF 0x00001205]"

definition gpl_mio_3_0_10 :: "ps7_op list" where
  [gpl_tables]: "gpl_mio_3_0_10 =
   [EMIT_MASKWRITE 0xF8000778 0x00003FFF 0x00001204,
    EMIT_MASKWRITE 0xF800077C 0x00003FFF 0x00001205,
    EMIT_MASKWRITE 0xF8000780 0x00003FFF 0x00001204,
    EMIT_MASKWRITE 0xF8000784 0x00003FFF 0x00001204,
    EMIT_MASKWRITE 0xF8000788 0x00003FFF 0x00001204]"

definition gpl_mio_3_0_11 :: "ps7_op list" where
  [gpl_tables]: "gpl_mio_3_0_11 =
   [EMIT_MASKWRITE 0xF800078C 0x00003FFF 0x00001204,
    EMIT_MASKWRITE 0xF8000790 0x00003FFF 0x00001205,
    EMIT_MASKWRITE 0xF8000794 0x00003FFF 0x00001204,
    EMIT_MASKWRITE 0xF8000798 0x00003FFF 0x00001204,
    EMIT_MASKWRITE 0xF800079C 0x00003FFF 0x00001204]"

definition gpl_mio_3_0_12 :: "ps7_op list" where
  [gpl_tables]: "gpl_mio_3_0_12 =
   [EMIT_MASKWRITE 0xF80007A0 0x00003FFF 0x00001280,
    EMIT_MASKWRITE 0xF80007A4 0x00003FFF 0x00001280,
    EMIT_MASKWRITE 0xF80007A8 0x00003FFF 0x00001280,
    EMIT_MASKWRITE 0xF80007AC 0x00003FFF 0x00001280,
    EMIT_MASKWRITE 0xF80007B0 0x00003FFF 0x00001280]"

definition gpl_mio_3_0_13 :: "ps7_op list" where
  [gpl_tables]: "gpl_mio_3_0_13 =
   [EMIT_MASKWRITE 0xF80007B4 0x00003FFF 0x00001280,
    EMIT_MASKWRITE 0xF80007B8 0x00003F01 0x00000201,
    EMIT_MASKWRITE 0xF80007BC 0x00003F01 0x00000201,
    EMIT_MASKWRITE 0xF80007C0 0x00003FFF 0x000012E0,
    EMIT_MASKWRITE 0xF80007C4 0x00003FFF 0x000012E1,
    EMIT_MASKWRITE 0xF80007C8 0x00003FFF 0x00000200]"

definition gpl_mio_3_0_14 :: "ps7_op list" where
  [gpl_tables]: "gpl_mio_3_0_14 =
   [EMIT_MASKWRITE 0xF80007CC 0x00003FFF 0x00000200,
    EMIT_MASKWRITE 0xF80007D0 0x00003FFF 0x00001280,
    EMIT_MASKWRITE 0xF80007D4 0x00003FFF 0x00001280,
    EMIT_MASKWRITE 0xF8000830 0x003F003F 0x002E002F,
    EMIT_WRITE 0xF8000004 0x0000767B,
    EMIT_EXIT]"

definition gpl_mio_ops_3_0 :: "ps7_op list" where
  [gpl_tables]: "gpl_mio_ops_3_0 = gpl_mio_3_0_1 @ gpl_mio_3_0_2 @ gpl_mio_3_0_3 @ gpl_mio_3_0_4 @ gpl_mio_3_0_5 @ gpl_mio_3_0_6 @ gpl_mio_3_0_7 @ gpl_mio_3_0_8 @ gpl_mio_3_0_9 @ gpl_mio_3_0_10 @ gpl_mio_3_0_11 @ gpl_mio_3_0_12 @ gpl_mio_3_0_13 @ gpl_mio_3_0_14"

definition gpl_ps7_mio_init_data_3_0 :: "u32 list" where
  [gpl_tables]: "gpl_ps7_mio_init_data_3_0 = gpl_encode_table gpl_mio_ops_3_0"

section \<open>Peripherals\<close>

definition gpl_periph_3_0_1 :: "ps7_op list" where
  [gpl_tables]: "gpl_periph_3_0_1 =
   [EMIT_WRITE 0xF8000008 0x0000DF0D,
    EMIT_MASKWRITE 0xF8000B48 0x00000180 0x00000180,
    EMIT_MASKWRITE 0xF8000B4C 0x00000180 0x00000180,
    EMIT_MASKWRITE 0xF8000B50 0x00000180 0x00000180,
    EMIT_MASKWRITE 0xF8000B54 0x00000180 0x00000180,
    EMIT_WRITE 0xF8000004 0x0000767B,
    EMIT_MASKWRITE 0xE0001034 0x000000FF 0x00000006,
    EMIT_MASKWRITE 0xE0001018 0x0000FFFF 0x0000007C,
    EMIT_MASKWRITE 0xE0001000 0x000001FF 0x00000017,
    EMIT_MASKWRITE 0xE0001004 0x000003FF 0x00000020,
    EMIT_MASKWRITE 0xE0000034 0x000000FF 0x00000006,
    EMIT_MASKWRITE 0xE0000018 0x0000FFFF 0x0000007C,
    EMIT_MASKWRITE 0xE0000000 0x000001FF 0x00000017]"

definition gpl_periph_3_0_2 :: "ps7_op list" where
  [gpl_tables]: "gpl_periph_3_0_2 =
   [EMIT_MASKWRITE 0xE0000004 0x000003FF 0x00000020,
    EMIT_MASKWRITE 0xE000D000 0x00080000 0x00080000,
    EMIT_MASKWRITE 0xF8007000 0x20000000 0x00000000,
    EMIT_MASKWRITE 0xE000A244 0x003FFFFF 0x00080000,
    EMIT_MASKWRITE 0xE000A00C 0x003F003F 0x00370008,
    EMIT_MASKWRITE 0xE000A248 0x003FFFFF 0x00080000,
    EMIT_MASKWRITE 0xE000A00C 0x003F003F 0x00370000,
    EMIT_MASKDELAY 0xF8F00200 1,
    EMIT_MASKWRITE 0xE000A00C 0x003F003F 0x00370008,
    EMIT_EXIT]"

definition gpl_periph_ops_3_0 :: "ps7_op list" where
  [gpl_tables]: "gpl_periph_ops_3_0 = gpl_periph_3_0_1 @ gpl_periph_3_0_2"

definition gpl_ps7_peripherals_init_data_3_0 :: "u32 list" where
  [gpl_tables]: "gpl_ps7_peripherals_init_data_3_0 = gpl_encode_table gpl_periph_ops_3_0"

section \<open>Post-configuration (level shifters, fpga resets)\<close>

definition gpl_post_3_0_1 :: "ps7_op list" where
  [gpl_tables]: "gpl_post_3_0_1 =
   [EMIT_WRITE 0xF8000008 0x0000DF0D,
    EMIT_MASKWRITE 0xF8000900 0x0000000F 0x0000000F,
    EMIT_MASKWRITE 0xF8000240 0xFFFFFFFF 0x00000000,
    EMIT_WRITE 0xF8000004 0x0000767B,
    EMIT_EXIT]"

definition gpl_post_ops_3_0 :: "ps7_op list" where
  [gpl_tables]: "gpl_post_ops_3_0 = gpl_post_3_0_1"

definition gpl_ps7_post_config_3_0 :: "u32 list" where
  [gpl_tables]: "gpl_ps7_post_config_3_0 = gpl_encode_table gpl_post_ops_3_0"

section \<open>Coresight cross-trigger unlock\<close>

definition gpl_debug_3_0_1 :: "ps7_op list" where
  [gpl_tables]: "gpl_debug_3_0_1 =
   [EMIT_WRITE 0xF8898FB0 0xC5ACCE55,
    EMIT_WRITE 0xF8899FB0 0xC5ACCE55,
    EMIT_WRITE 0xF8809FB0 0xC5ACCE55,
    EMIT_EXIT]"

definition gpl_debug_ops_3_0 :: "ps7_op list" where
  [gpl_tables]: "gpl_debug_ops_3_0 = gpl_debug_3_0_1"

definition gpl_ps7_debug_3_0 :: "u32 list" where
  [gpl_tables]: "gpl_ps7_debug_3_0 = gpl_encode_table gpl_debug_ops_3_0"

end
