(* ===== verification/Ps7_Gpl.thy ===== *)
theory Ps7_Gpl
  imports Ps7_Init Ps7_Gpl_Tables_1_0
begin

text \<open>
  \<^verbatim>\<open>ps7_init_gpl.c\<close>, the second copy of the board initialisation that the tool generates under
  another licence. Its tables and entry points are translated from that file and shown to agree with
  those of \<^verbatim>\<open>ps7_init.c\<close>; its interpreter is in \<^verbatim>\<open>Ps7_Gpl_Config\<close>.
\<close>

section \<open>Entry points\<close>

definition gpl_getPS7MessageInfo :: "nat \<Rightarrow> string" where
  "gpl_getPS7MessageInfo key =
     (if key = gpl_status_code PS7_INIT_SUCCESS then ''PS7 initialization successful''
      else if key = gpl_status_code PS7_INIT_CORRUPT then ''PS7 init Data Corrupted''
      else if key = gpl_status_code PS7_INIT_TIMEOUT then ''PS7 init mask poll timeout''
      else if key = gpl_status_code PS7_POLL_FAILED_DDR_INIT then ''Mask Poll failed for DDR Init''
      else if key = gpl_status_code PS7_POLL_FAILED_DMA then ''Mask Poll failed for PLL Init''
      else if key = gpl_status_code PS7_POLL_FAILED_PLL then ''Mask Poll failed for DMA done bit''
      else ''Undefined error status'')"

definition gpl_ps7GetSiliconVersion :: "env \<Rightarrow> 'a io_scheme \<Rightarrow> u32 \<times> 'a io_scheme" where
  "gpl_ps7GetSiliconVersion E s =
     (drop_bit 28 (ans E (In32 0xF8007080) s AND 0xF0000000), emit E (In32 0xF8007080) s)"

definition gpl_ps7_post_config ::
    "env \<Rightarrow> (nat \<Rightarrow> u32 list) \<Rightarrow> 'a io_scheme \<Rightarrow> (ps7_status \<times> 'a io_scheme) run" where
  "gpl_ps7_post_config E G s =
     (let (si_ver, s) = gpl_ps7GetSiliconVersion E s
      in if_success
           (if si_ver = gpl_PCW_SILICON_VERSION_1 then gpl_ps7_config E (G 0) gpl_ps7_post_config_1_0 s
            else if si_ver = gpl_PCW_SILICON_VERSION_2 then gpl_ps7_config E (G 0) gpl_ps7_post_config_2_0 s
            else gpl_ps7_config E (G 0) gpl_ps7_post_config_3_0 s)
           (\<lambda>s. Ret (PS7_INIT_SUCCESS, s)))"

definition gpl_ps7_debug ::
    "env \<Rightarrow> (nat \<Rightarrow> u32 list) \<Rightarrow> 'a io_scheme \<Rightarrow> (ps7_status \<times> 'a io_scheme) run" where
  "gpl_ps7_debug E G s =
     (let (si_ver, s) = gpl_ps7GetSiliconVersion E s
      in if_success
           (if si_ver = gpl_PCW_SILICON_VERSION_1 then gpl_ps7_config E (G 0) gpl_ps7_debug_1_0 s
            else if si_ver = gpl_PCW_SILICON_VERSION_2 then gpl_ps7_config E (G 0) gpl_ps7_debug_2_0 s
            else gpl_ps7_config E (G 0) gpl_ps7_debug_3_0 s)
           (\<lambda>s. Ret (PS7_INIT_SUCCESS, s)))"

definition gpl_select_tables :: "u32 \<Rightarrow> ps7_table_ptrs" where
  "gpl_select_tables si_ver =
     (if si_ver = gpl_PCW_SILICON_VERSION_1 then
        \<lparr>ps7_mio_init_data = gpl_ps7_mio_init_data_1_0,
         ps7_pll_init_data = gpl_ps7_pll_init_data_1_0,
         ps7_clock_init_data = gpl_ps7_clock_init_data_1_0,
         ps7_ddr_init_data = gpl_ps7_ddr_init_data_1_0,
         ps7_peripherals_init_data = gpl_ps7_peripherals_init_data_1_0\<rparr>
      else if si_ver = gpl_PCW_SILICON_VERSION_2 then
        \<lparr>ps7_mio_init_data = gpl_ps7_mio_init_data_2_0,
         ps7_pll_init_data = gpl_ps7_pll_init_data_2_0,
         ps7_clock_init_data = gpl_ps7_clock_init_data_2_0,
         ps7_ddr_init_data = gpl_ps7_ddr_init_data_2_0,
         ps7_peripherals_init_data = gpl_ps7_peripherals_init_data_2_0\<rparr>
      else
        \<lparr>ps7_mio_init_data = gpl_ps7_mio_init_data_3_0,
         ps7_pll_init_data = gpl_ps7_pll_init_data_3_0,
         ps7_clock_init_data = gpl_ps7_clock_init_data_3_0,
         ps7_ddr_init_data = gpl_ps7_ddr_init_data_3_0,
         ps7_peripherals_init_data = gpl_ps7_peripherals_init_data_3_0\<rparr>)"

definition gpl_ps7_init ::
    "env \<Rightarrow> (nat \<Rightarrow> u32 list) \<Rightarrow> 'a io_scheme \<Rightarrow> (ps7_status \<times> 'a io_scheme) run" where
  "gpl_ps7_init E G s =
     (let (si_ver, s) = gpl_ps7GetSiliconVersion E s; p = gpl_select_tables si_ver
      in if_success (gpl_ps7_config E (G 0) (ps7_mio_init_data p) s) (\<lambda>s.
         if_success (gpl_ps7_config E (G 1) (ps7_pll_init_data p) s) (\<lambda>s.
         if_success (gpl_ps7_config E (G 2) (ps7_clock_init_data p) s) (\<lambda>s.
         if_success (gpl_ps7_config E (G 3) (ps7_ddr_init_data p) s) (\<lambda>s.
         if_success (gpl_ps7_config E (G 4) (ps7_peripherals_init_data p) s) (\<lambda>s.
         Ret (PS7_INIT_SUCCESS, s)))))))"

section \<open>Agreement\<close>

text \<open>Table by table, the two files hold the same words.\<close>

lemma gpl_tables_3_0:
  "gpl_ps7_pll_init_data_3_0 = ps7_pll_init_data_3_0"
  "gpl_ps7_clock_init_data_3_0 = ps7_clock_init_data_3_0"
  "gpl_ps7_ddr_init_data_3_0 = ps7_ddr_init_data_3_0"
  "gpl_ps7_mio_init_data_3_0 = ps7_mio_init_data_3_0"
  "gpl_ps7_peripherals_init_data_3_0 = ps7_peripherals_init_data_3_0"
  "gpl_ps7_post_config_3_0 = ps7_post_config_3_0" "gpl_ps7_debug_3_0 = ps7_debug_3_0"
  by (simp_all only: gpl_tables gpl_encode_table_eq table_defs data_defs)

lemma gpl_tables_2_0:
  "gpl_ps7_pll_init_data_2_0 = ps7_pll_init_data_2_0"
  "gpl_ps7_clock_init_data_2_0 = ps7_clock_init_data_2_0"
  "gpl_ps7_ddr_init_data_2_0 = ps7_ddr_init_data_2_0"
  "gpl_ps7_mio_init_data_2_0 = ps7_mio_init_data_2_0"
  "gpl_ps7_peripherals_init_data_2_0 = ps7_peripherals_init_data_2_0"
  "gpl_ps7_post_config_2_0 = ps7_post_config_2_0" "gpl_ps7_debug_2_0 = ps7_debug_2_0"
  by (simp_all only: gpl_tables gpl_encode_table_eq table_defs data_defs)

lemma gpl_tables_1_0:
  "gpl_ps7_pll_init_data_1_0 = ps7_pll_init_data_1_0"
  "gpl_ps7_clock_init_data_1_0 = ps7_clock_init_data_1_0"
  "gpl_ps7_ddr_init_data_1_0 = ps7_ddr_init_data_1_0"
  "gpl_ps7_mio_init_data_1_0 = ps7_mio_init_data_1_0"
  "gpl_ps7_peripherals_init_data_1_0 = ps7_peripherals_init_data_1_0"
  "gpl_ps7_post_config_1_0 = ps7_post_config_1_0" "gpl_ps7_debug_1_0 = ps7_debug_1_0"
  by (simp_all only: gpl_tables gpl_encode_table_eq table_defs data_defs)

lemmas gpl_tables_agree = gpl_tables_1_0 gpl_tables_2_0 gpl_tables_3_0

text \<open>
  C38: The two generated copies of the board initialisation cannot drift apart unnoticed: for every
  silicon version and any hardware, the entry points of \<^verbatim>\<open>ps7_init_gpl.c\<close>, on the tables of that
  file and with its interpreter, make the same accesses and return the same status as those of \<^verbatim>\<open>ps7_init.c\<close>.
\<close>

theorem ps7_gpl_equiv:
  "gpl_ps7_init E G s = ps7_init E G s \<and> gpl_ps7_post_config E G s = ps7_post_config E G s \<and>
   gpl_ps7_debug E G s = ps7_debug E G s \<and> gpl_getPS7MessageInfo key = getPS7MessageInfo key"
proof -
  have "gpl_ps7GetSiliconVersion E s = ps7GetSiliconVersion E s"
    by (simp only: gpl_ps7GetSiliconVersion_def ps7GetSiliconVersion_def)
  moreover have "gpl_select_tables = select_tables"
    by (rule ext) (simp only: gpl_select_tables_def select_tables_def gpl_tables_agree gpl_macros macro_defs)
  ultimately show ?thesis
    by (simp only: gpl_ps7_init_def ps7_init_def gpl_ps7_post_config_def ps7_post_config_def
        gpl_ps7_debug_def ps7_debug_def gpl_getPS7MessageInfo_def getPS7MessageInfo_def
        gpl_tables_agree gpl_ps7_config_eq gpl_status_code_eq gpl_macros macro_defs simp_thms)
qed

end
