(* ===== verification/Iic_Ctrl.thy ===== *)
theory Iic_Ctrl
  imports Loops
begin

text \<open>
  The I2C master of \<^verbatim>\<open>iic_ctrl.c\<close>. The interrupt handler and the main thread share three volatile
  counters. Interrupts are delivered when the main thread accesses one of them: \<open>irq_point\<close> runs
  \<open>Handler\<close> on every event the environment has pending at that moment. The driver itself
  (\<^verbatim>\<open>xiicps.h\<close>) is outside the repository; what \<open>XIicPs_MasterRecv\<close> stores in the caller's buffer
  is not part of the model.
\<close>

section \<open>State and interrupt handler\<close>

record iic_state = io +
  SendComplete :: u32
  RecvComplete :: u32
  TotalErrorCount :: u32

definition IIC_SLAVE_ADDR_1 :: u8 where [macro_defs]: "IIC_SLAVE_ADDR_1 = 0x0C"
definition IIC_SLAVE_ADDR_2 :: u8 where [macro_defs]: "IIC_SLAVE_ADDR_2 = 0x0D"
definition IIC_SCLK_RATE :: u32 where [macro_defs]: "IIC_SCLK_RATE = 100000"

definition Handler :: "env \<Rightarrow> u32 \<Rightarrow> 'a iic_state_scheme \<Rightarrow> 'a iic_state_scheme" where
  "Handler E Event s =
     (if Event AND XIICPS_EVENT_COMPLETE_RECV E \<noteq> 0 then s\<lparr>RecvComplete := 1\<rparr>
      else if Event AND XIICPS_EVENT_COMPLETE_SEND E \<noteq> 0 then s\<lparr>SendComplete := 1\<rparr>
      else if Event AND XIICPS_EVENT_SLAVE_RDY E = 0 then
        s\<lparr>TotalErrorCount := TotalErrorCount s + 1\<rparr>
      else s)"

definition irq_point :: "env \<Rightarrow> 'a iic_state_scheme \<Rightarrow> 'a iic_state_scheme" where
  "irq_point E s = fold (Handler E) (iic_irqs E (tr s)) (emit E Vaccess s)"

section \<open>Initialisation\<close>

definition XIicPsSmbusMasterInit :: "env \<Rightarrow> u32 \<Rightarrow> 'a iic_state_scheme \<Rightarrow> u32 \<times> 'a iic_state_scheme" where
  "XIicPsSmbusMasterInit E BaseAddress s =
     (let c = Iic (XIicPs_LookupConfig BaseAddress); Config = ans E c s; s = emit E c s
      in if Config = 0 then (XST_FAILURE E, s) else
      let c = Iic (XIicPs_CfgInitialize Config); Status = ans E c s; s = emit E c s
      in if Status \<noteq> XST_SUCCESS E then (XST_FAILURE E, s) else
      let c = Iic XIicPs_SelfTest; Status = ans E c s; s = emit E c s
      in if Status \<noteq> XST_SUCCESS E then (XST_FAILURE E, s) else
      let c = Cpu (XSetupInterruptSystem ISR_Iic_Master); Status = ans E c s; s = emit E c s
      in if Status \<noteq> XST_SUCCESS E then (XST_FAILURE E, s) else
      let s = emit E (Iic XIicPs_SetStatusHandler) s;
          s = emit E (Iic (XIicPs_SetSClk IIC_SCLK_RATE)) s
      in (XST_SUCCESS E, s))"

definition SetupIIC :: "env \<Rightarrow> 'a iic_state_scheme \<Rightarrow> u32 \<times> 'a iic_state_scheme" where
  "SetupIIC E s =
     (let (r, s) = XIicPsSmbusMasterInit E (XIICPS_BASEADDRESS E) s
      in if r \<noteq> XST_SUCCESS E then (XST_FAILURE E, s) else (XST_SUCCESS E, s))"

section \<open>Sending and receiving\<close>

text \<open>
  \<open>while (!SendComplete) { if (0 != TotalErrorCount) break; }\<close>, and the same for receptions. \<open>True\<close>:
  the loop condition ended the loop; \<open>False\<close>: the error count did.
\<close>

partial_function (option) send_wait :: "env \<Rightarrow> 'a iic_state_scheme \<Rightarrow> (bool \<times> 'a iic_state_scheme) option" where
  "send_wait E s =
     (let s = irq_point E s
      in if SendComplete s \<noteq> 0 then Some (True, s) else
      let s = irq_point E s
      in if TotalErrorCount s \<noteq> 0 then Some (False, s) else send_wait E s)"

partial_function (option) recv_wait :: "env \<Rightarrow> 'a iic_state_scheme \<Rightarrow> (bool \<times> 'a iic_state_scheme) option" where
  "recv_wait E s =
     (let s = irq_point E s
      in if RecvComplete s \<noteq> 0 then Some (True, s) else
      let s = irq_point E s
      in if TotalErrorCount s \<noteq> 0 then Some (False, s) else recv_wait E s)"

text \<open>\<open>TotalErrorCount = 0; SendComplete = FALSE;\<close>: both are volatile, an interrupt may come before.\<close>

definition clear_send :: "env \<Rightarrow> 'a iic_state_scheme \<Rightarrow> 'a iic_state_scheme" where
  "clear_send E s =
     (let s = (irq_point E s)\<lparr>TotalErrorCount := 0\<rparr> in (irq_point E s)\<lparr>SendComplete := 0\<rparr>)"

definition clear_recv :: "env \<Rightarrow> 'a iic_state_scheme \<Rightarrow> 'a iic_state_scheme" where
  "clear_recv E s =
     (let s = (irq_point E s)\<lparr>TotalErrorCount := 0\<rparr> in (irq_point E s)\<lparr>RecvComplete := 0\<rparr>)"

text \<open>The message of \<^verbatim>\<open>xil_printf\<close> reads the error count once more before the result is computed.\<close>

definition IicSend :: "env \<Rightarrow> u8 list \<Rightarrow> u32 \<Rightarrow> u16 \<Rightarrow> 'a iic_state_scheme \<Rightarrow>
    (u32 \<times> 'a iic_state_scheme) option" where
  "IicSend E msg byteCnt i2c_addr s =
     (let s = clear_send E s;
          s = emit E (Iic (XIicPs_MasterSend msg byteCnt i2c_addr)) s
      in case send_wait E s of None \<Rightarrow> None | Some (_, s) \<Rightarrow>
      let s = irq_point E s;
          s = irq_point E s
      in Some (if TotalErrorCount s > 0 then XST_FAILURE E else XST_SUCCESS E, s))"

text \<open>The command phase of \<open>IicRecv\<close>; \<open>False\<close>: it returned \<open>XST_FAILURE\<close> from inside the wait.\<close>

definition recv_command :: "env \<Rightarrow> u8 list \<Rightarrow> int \<Rightarrow> u16 \<Rightarrow> 'a iic_state_scheme \<Rightarrow>
    (bool \<times> 'a iic_state_scheme) option" where
  "recv_command E cmd cmdCnt i2c_addr s =
     (if cmdCnt \<le> 0 then Some (True, s) else
      let s = emit E (Iic XIicPs_SetOptions) s;
          s = clear_send E s;
          s = emit E (Iic (XIicPs_MasterSend cmd (word_of_int cmdCnt) i2c_addr)) s
      in case send_wait E s of None \<Rightarrow> None | Some (done, s) \<Rightarrow>
      if \<not> done then Some (False, s) else
      let s = emit E (Iic XIicPs_ClearOptions) s;
          s = emit E (Iic XIicPs_DisableAllInterrupts) s
      in Some (True, emit E (Iic XIicPs_ReadReg) s))"

definition IicRecv :: "env \<Rightarrow> u32 \<Rightarrow> u32 \<Rightarrow> u16 \<Rightarrow> u8 list \<Rightarrow> int \<Rightarrow> 'a iic_state_scheme \<Rightarrow>
    (u32 \<times> 'a iic_state_scheme) option" where
  "IicRecv E msg byteCnt i2c_addr cmd cmdCnt s =
     (case recv_command E cmd cmdCnt i2c_addr s of
        None \<Rightarrow> None
      | Some (False, s) \<Rightarrow> Some (XST_FAILURE E, s)
      | Some (True, s) \<Rightarrow>
      let s = clear_recv E s;
          s = emit E (Iic (XIicPs_MasterRecv msg byteCnt i2c_addr)) s
      in case recv_wait E s of None \<Rightarrow> None | Some (done, s) \<Rightarrow>
      if \<not> done then Some (XST_FAILURE E, s) else
      let s = irq_point E s
      in Some (if TotalErrorCount s > 0 then XST_FAILURE E else XST_SUCCESS E, s))"


section \<open>Events\<close>

definition send_event :: "env \<Rightarrow> u32 \<Rightarrow> bool" where
  "send_event E ev \<longleftrightarrow> ev AND XIICPS_EVENT_COMPLETE_RECV E = 0
     \<and> ev AND XIICPS_EVENT_COMPLETE_SEND E \<noteq> 0"

definition recv_event :: "env \<Rightarrow> u32 \<Rightarrow> bool" where
  "recv_event E ev \<longleftrightarrow> ev AND XIICPS_EVENT_COMPLETE_RECV E \<noteq> 0"

definition error_event :: "env \<Rightarrow> u32 \<Rightarrow> bool" where
  "error_event E ev \<longleftrightarrow> ev AND XIICPS_EVENT_COMPLETE_RECV E = 0
     \<and> ev AND XIICPS_EVENT_COMPLETE_SEND E = 0 \<and> ev AND XIICPS_EVENT_SLAVE_RDY E = 0"

lemma Handler_fields [io_simps]:
  "SendComplete (Handler E ev s) = (if send_event E ev then 1 else SendComplete s)"
  "RecvComplete (Handler E ev s) = (if recv_event E ev then 1 else RecvComplete s)"
  "TotalErrorCount (Handler E ev s) =
     TotalErrorCount s + (if error_event E ev then 1 else 0)"
  "tr (Handler E ev s) = tr s" "mem (Handler E ev s) = mem s"
  "iic_state.more (Handler E ev s) = iic_state.more s"
  by (simp_all add: Handler_def send_event_def recv_event_def error_event_def)

text \<open>What a batch of interrupts does: the order within the batch does not matter.\<close>

lemma Handler_fold [io_simps]:
  "SendComplete (fold (Handler E) evs s) =
     (if list_ex (send_event E) evs then 1 else SendComplete s)"
  "RecvComplete (fold (Handler E) evs s) =
     (if list_ex (recv_event E) evs then 1 else RecvComplete s)"
  "TotalErrorCount (fold (Handler E) evs s) =
     TotalErrorCount s + of_nat (length (filter (error_event E) evs))"
  "tr (fold (Handler E) evs s) = tr s" "mem (fold (Handler E) evs s) = mem s"
  "iic_state.more (fold (Handler E) evs s) = iic_state.more s"
  by (induction evs arbitrary: s) (simp_all add: io_simps)

lemma emit_iic [io_simps]:
  "SendComplete (emit E c s) = SendComplete s" "RecvComplete (emit E c s) = RecvComplete s"
  "TotalErrorCount (emit E c s) = TotalErrorCount s"
  "iic_state.more (emit E c s) = iic_state.more s"
  by (simp_all add: emit_def)

lemma irq_point_fields [io_simps]:
  "SendComplete (irq_point E s) =
     (if list_ex (send_event E) (iic_irqs E (tr s)) then 1 else SendComplete s)"
  "RecvComplete (irq_point E s) =
     (if list_ex (recv_event E) (iic_irqs E (tr s)) then 1 else RecvComplete s)"
  "TotalErrorCount (irq_point E s) =
     TotalErrorCount s + of_nat (length (filter (error_event E) (iic_irqs E (tr s))))"
  "tr (irq_point E s) = tr s @ [(Vaccess, ret E (tr s) Vaccess)]"
  "mem (irq_point E s) = mem s"
  "iic_state.more (irq_point E s) = iic_state.more s"
  by (simp_all add: irq_point_def io_simps)

section \<open>Waiting\<close>

text \<open>The I2C events delivered from position \<open>n\<close> of the trace \<open>t\<close> on.\<close>

abbreviation irqs_from :: "env \<Rightarrow> nat \<Rightarrow> event list \<Rightarrow> u32 list" where
  "irqs_from E \<equiv> delivered (iic_irqs E)"

text \<open>
  \<open>s'\<close> is \<open>s\<close> after the driver calls \<open>cs\<close>, some volatile accesses and the interrupts delivered at
  them: every error among those interrupts has been counted.
\<close>

definition progress :: "env \<Rightarrow> call list \<Rightarrow> 'a iic_state_scheme \<Rightarrow> 'a iic_state_scheme \<Rightarrow> bool" where
  "progress E cs s s' \<longleftrightarrow> prefix (tr s) (tr s')
     \<and> filter (\<lambda>c. c \<noteq> Vaccess) (calls_since s s') = cs
     \<and> mem s' = mem s \<and> iic_state.more s' = iic_state.more s
     \<and> TotalErrorCount s' = TotalErrorCount s
         + of_nat (length (filter (error_event E) (irqs_from E (length (tr s)) (tr s'))))"

lemma progress_trans:
  assumes "progress E cs s s1" and "progress E ds s1 s2"
  shows "progress E (cs @ ds) s s2"
proof -
  obtain u v where u: "tr s1 = tr s @ u" "tr s2 = tr s1 @ v"
    using assms by (auto simp: progress_def prefix_def)
  have "calls_since s s2 = calls_since s s1 @ calls_since s1 s2"
    using assms by (intro calls_since_trans) (auto simp: progress_def)
  then show ?thesis
    using assms u delivered_split [of "length (tr s)" "tr s1" "iic_irqs E" v]
    by (auto simp: progress_def)
qed

lemma progress_irq_point: "progress E [] s (irq_point E s)"
  by (simp add: progress_def io_simps calls_since_def)

lemma progress_irq_points: "progress E [] s (irq_point E (irq_point E s))"
  using progress_trans [OF progress_irq_point progress_irq_point] by simp

lemma progress_emit: "c \<noteq> Vaccess \<Longrightarrow> progress E [c] s (emit E c s)"
  by (simp add: progress_def io_simps calls_since_def)

text \<open>The completion flags are not part of the relation.\<close>

lemma progress_flags [simp]:
  "progress E cs s (s'\<lparr>SendComplete := b\<rparr>) \<longleftrightarrow> progress E cs s s'"
  "progress E cs s (s'\<lparr>RecvComplete := b\<rparr>) \<longleftrightarrow> progress E cs s s'"
  by (simp_all add: progress_def calls_since_def)

lemma progress_waiting:
  assumes "progress E cs s s1" and "progress E [] s1 s2"
  shows "progress E cs s s2"
  using progress_trans [OF assms] by simp

lemma send_wait_progress:
  assumes "send_wait E s = Some r"
  shows "progress E [] s (snd r)"
  by (rule send_wait.raw_induct [where P = "\<lambda>E s r. progress E [] s (snd r)", OF _ assms])
    (fastforce simp: Let_def split: if_splits
      intro: progress_waiting progress_irq_point progress_irq_points)

lemma recv_wait_progress:
  assumes "recv_wait E s = Some r"
  shows "progress E [] s (snd r)"
  by (rule recv_wait.raw_induct [where P = "\<lambda>E s r. progress E [] s (snd r)", OF _ assms])
    (fastforce simp: Let_def split: if_splits
      intro: progress_waiting progress_irq_point progress_irq_points)

text \<open>A completion pending at some later access ends the wait.\<close>

lemma send_wait_returns:
  "list_ex (send_event E) (iic_irqs E (repeated E Vaccess (tr s) k)) \<or> SendComplete s \<noteq> 0 \<Longrightarrow>
   \<exists>r. send_wait E s = Some r"
proof (induction k arbitrary: s rule: less_induct)
  case (less k)
  let ?s1 = "irq_point E s" and ?s2 = "irq_point E (irq_point E s)"
  show ?case
  proof (cases "SendComplete ?s1 \<noteq> 0 \<or> TotalErrorCount ?s2 \<noteq> 0")
    case True
    then show ?thesis by (subst send_wait.simps) (auto simp: Let_def)
  next
    case False
    then have c: "SendComplete s = 0" "\<not> list_ex (send_event E) (iic_irqs E (tr s))"
      by (auto simp: io_simps split: if_splits)
    then have "k \<noteq> 0" using less.prems by (cases k) auto
    then obtain j where j: "k = Suc j" by (cases k) auto
    have "\<exists>r. send_wait E ?s2 = Some r"
    proof (cases j)
      case 0
      with less.prems j c have "SendComplete ?s2 \<noteq> 0" by (simp add: io_simps)
      then show ?thesis by (intro less.IH [of 0]) (auto simp: j 0)
    next
      case (Suc i)
      with less.prems j c show ?thesis
        by (intro less.IH [of i]) (auto simp: io_simps)
    qed
    with False show ?thesis by (subst send_wait.simps) (auto simp: Let_def)
  qed
qed

text \<open>Without a completion or an error the wait never ends.\<close>

lemma send_wait_hangs:
  assumes "\<And>t. \<not> list_ex (\<lambda>ev. send_event E ev \<or> error_event E ev) (iic_irqs E t)"
    and "SendComplete s = 0" and "TotalErrorCount s = 0"
  shows "send_wait E s = None"
proof (rule ccontr)
  have quiet: "\<not> list_ex (send_event E) (iic_irqs E t)" "filter (error_event E) (iic_irqs E t) = []" for t
    using assms(1) [of t] by (auto simp: list_ex_iff filter_empty_conv)
  define P where "P = (\<lambda>E' (s :: 'a iic_state_scheme) (r :: bool \<times> 'a iic_state_scheme).
    \<not> (E' = E \<and> SendComplete s = 0 \<and> TotalErrorCount s = 0))"
  assume "send_wait E s \<noteq> None"
  then obtain r where r: "send_wait E s = Some r" by blast
  have "P E s r"
    by (rule send_wait.raw_induct [where P = P, OF _ r])
      (fastforce simp: P_def Let_def io_simps quiet split: if_splits)
  with assms(2,3) show False by (simp add: P_def)
qed

section \<open>Sending\<close>

lemma clear_send_start:
  "clear_send E s =
     (irq_point E ((irq_point E s)\<lparr>TotalErrorCount := 0\<rparr>))\<lparr>SendComplete := 0\<rparr>"
  by (simp add: clear_send_def Let_def)

lemma IicSend_progress:
  assumes "IicSend E msg n a s = Some (r, s')"
  shows "progress E [Iic (XIicPs_MasterSend msg n a)] ((irq_point E s)\<lparr>TotalErrorCount := 0\<rparr>) s'
    \<and> r = (if TotalErrorCount s' > 0 then XST_FAILURE E else XST_SUCCESS E)"
proof -
  let ?c = "Iic (XIicPs_MasterSend msg n a)" and ?s0 = "(irq_point E s)\<lparr>TotalErrorCount := 0\<rparr>"
  let ?s1 = "emit E ?c (clear_send E s)"
  obtain d s2 where w: "send_wait E ?s1 = Some (d, s2)"
    using assms by (auto simp: IicSend_def Let_def split: option.splits)
  have "progress E [?c] ?s0 ?s1"
    using progress_trans [OF _ progress_emit, of E "[]" ?s0 "clear_send E s" ?c]
    by (simp add: clear_send_start progress_irq_point)
  then have "progress E [?c] ?s0 (irq_point E (irq_point E s2))"
    by (rule progress_waiting [OF progress_waiting progress_irq_points])
      (use send_wait_progress [OF w] in simp)
  then show ?thesis using assms w by (auto simp: IicSend_def Let_def)
qed

text \<open>
  C25: When \<open>IicSend\<close> returns, it has started exactly one transfer, of the caller's bytes, and it
  reports success exactly when no error event (modulo the 32-bit counter) was delivered since it
  cleared the error count; memory and the other components' state are untouched.
\<close>

theorem IicSend_result:
  assumes "IicSend E msg n a s = Some (r, s')"
  shows "filter (\<lambda>c. c \<noteq> Vaccess) (calls_since s s') = [Iic (XIicPs_MasterSend msg n a)] \<and>
    mem s' = mem s \<and> iic_state.more s' = iic_state.more s \<and>
    r = (if (of_nat (length (filter (error_event E)
               (irqs_from E (Suc (length (tr s))) (tr s')))) :: u32) = 0
         then XST_SUCCESS E else XST_FAILURE E)"
proof -
  let ?s0 = "(irq_point E s)\<lparr>TotalErrorCount := 0\<rparr>"
  from IicSend_progress [OF assms]
  have p: "progress E [Iic (XIicPs_MasterSend msg n a)] ?s0 s'"
    and r: "r = (if TotalErrorCount s' > 0 then XST_FAILURE E else XST_SUCCESS E)" by auto
  have t0: "tr ?s0 = tr s @ [(Vaccess, ret E (tr s) Vaccess)]" by (simp add: io_simps)
  have "calls_since s s' = calls_since s ?s0 @ calls_since ?s0 s'"
    using p by (intro calls_since_trans) (auto simp: progress_def io_simps)
  moreover have "calls_since s ?s0 = [Vaccess]" using t0 by (simp add: calls_since_def)
  ultimately show ?thesis
    using p r t0 by (auto simp: progress_def io_simps word_neq_0_conv [symmetric])
qed


lemma IicSend_no_timeout:
  assumes "\<And>t. \<not> list_ex (\<lambda>ev. send_event E ev \<or> error_event E ev) (iic_irqs E t)"
  shows "IicSend E msg n a s = None"
proof -
  have "filter (error_event E) (iic_irqs E t) = []" for t
    using assms [of t] by (auto simp: list_ex_iff filter_empty_conv)
  then have "send_wait E (emit E (Iic (XIicPs_MasterSend msg n a)) (clear_send E s)) = None"
    by (intro send_wait_hangs assms) (simp_all add: clear_send_start io_simps)
  then show ?thesis by (simp add: IicSend_def Let_def)
qed

text \<open>
  \<open>IicSend\<close> has no timeout: if the controller delivers neither a completion nor an error, it
  never returns, and with it the command handler and the main loop.
\<close>

lemma IicSend_hangs:
  assumes "\<And>t. \<not> list_ex (\<lambda>ev. send_event E ev \<or> error_event E ev) (iic_irqs E t)"
  shows "IicSend E msg n a s = None"
  by (rule IicSend_no_timeout [OF assms])

section \<open>Receiving\<close>

lemma progress_filter: "progress E cs s s' \<Longrightarrow> filter (\<lambda>c. c \<noteq> Vaccess) (calls_since s s') = cs"
  by (simp add: progress_def)

text \<open>
  What the two clears do to the count cannot be written as progress; the calls can.
\<close>

definition makes :: "call list \<Rightarrow> 'a iic_state_scheme \<Rightarrow> 'a iic_state_scheme \<Rightarrow> bool" where
  "makes cs s s' \<longleftrightarrow> prefix (tr s) (tr s') \<and> filter (\<lambda>c. c \<noteq> Vaccess) (calls_since s s') = cs
     \<and> mem s' = mem s \<and> iic_state.more s' = iic_state.more s"

lemma makes_trans: "makes cs s s1 \<Longrightarrow> makes ds s1 s2 \<Longrightarrow> makes (cs @ ds) s s2"
  using calls_since_trans [of s s1 s2] by (auto simp: makes_def)

lemma makes_refl: "makes [] s s"
  by (simp add: makes_def)

lemma makes_emit: "c \<noteq> Vaccess \<Longrightarrow> makes [c] s (emit E c s)"
  by (simp add: makes_def calls_since_def io_simps)

lemma makes_progress: "progress E cs s s' \<Longrightarrow> makes cs s s'"
  by (simp add: progress_def makes_def)

lemma makes_clear:
  "makes [] s (clear_send E s)" "makes [] s (clear_recv E s)"
  by (simp_all add: makes_def clear_send_def clear_recv_def calls_since_def io_simps Let_def)

lemma makes_step:
  assumes "makes cs s s1" and "c \<noteq> Vaccess"
  shows "makes (cs @ [c]) s (emit E c s1)"
  by (rule makes_trans [OF assms(1) makes_emit [OF assms(2)]])

lemma makes_send_wait: "makes cs s s1 \<Longrightarrow> send_wait E s1 = Some (d, s2) \<Longrightarrow> makes cs s s2"
  using makes_trans [of cs s s1 "[]" s2] makes_progress [OF send_wait_progress, of E s1 "(d, s2)"]
  by simp

lemma makes_recv_wait: "makes cs s s1 \<Longrightarrow> recv_wait E s1 = Some (d, s2) \<Longrightarrow> makes cs s s2"
  using makes_trans [of cs s s1 "[]" s2] makes_progress [OF recv_wait_progress, of E s1 "(d, s2)"]
  by simp

lemma recv_command_makes:
  assumes "recv_command E cmd cnt a s = Some (ok, s')"
  shows "makes (if cnt \<le> 0 then [] else
      [Iic XIicPs_SetOptions, Iic (XIicPs_MasterSend cmd (word_of_int cnt) a)]
      @ (if ok then [Iic XIicPs_ClearOptions, Iic XIicPs_DisableAllInterrupts, Iic XIicPs_ReadReg]
         else [])) s s' \<and> (cnt \<le> 0 \<longrightarrow> ok)"
proof (cases "cnt \<le> 0")
  case True
  with assms show ?thesis by (simp add: recv_command_def makes_refl)
next
  case False
  let ?c = "Iic (XIicPs_MasterSend cmd (word_of_int cnt) a)"
  let ?s1 = "emit E ?c (clear_send E (emit E (Iic XIicPs_SetOptions) s))"
  have "makes ([Iic XIicPs_SetOptions] @ [] @ [?c]) s ?s1"
    by (intro makes_trans [OF makes_emit makes_trans [OF makes_clear(1) makes_emit]]) simp_all
  moreover from False assms obtain d s2 where w: "send_wait E ?s1 = Some (d, s2)"
    by (auto simp: recv_command_def Let_def split: option.splits)
  ultimately have m: "makes [Iic XIicPs_SetOptions, ?c] s s2"
    using makes_send_wait by simp
  show ?thesis
  proof (cases d)
    case True
    have "makes ((([Iic XIicPs_SetOptions, ?c] @ [Iic XIicPs_ClearOptions])
        @ [Iic XIicPs_DisableAllInterrupts]) @ [Iic XIicPs_ReadReg]) s
        (emit E (Iic XIicPs_ReadReg) (emit E (Iic XIicPs_DisableAllInterrupts)
          (emit E (Iic XIicPs_ClearOptions) s2)))"
      by (intro makes_step m) simp_all
    with False True w assms show ?thesis by (auto simp: recv_command_def Let_def)
  next
    case False
    with \<open>\<not> cnt \<le> 0\<close> w assms m show ?thesis by (auto simp: recv_command_def Let_def)
  qed
qed


section \<open>Memory and the wait\<close>

text \<open>Waiting neither reads nor writes the byte memory, so it commutes with stores.\<close>

lemma Handler_mem: "Handler E ev (s\<lparr>mem := m\<rparr>) = (Handler E ev s)\<lparr>mem := m\<rparr>"
  by (simp add: Handler_def)

lemma irq_point_mem: "irq_point E (s\<lparr>mem := m\<rparr>) = (irq_point E s)\<lparr>mem := m\<rparr>"
proof -
  have "fold (Handler E) evs (s\<lparr>mem := m\<rparr>) = (fold (Handler E) evs s)\<lparr>mem := m\<rparr>" for evs s
    by (induction evs arbitrary: s) (simp_all add: Handler_mem)
  then show ?thesis by (simp add: irq_point_def emit_mem_update)
qed

lemma send_wait_mem_Some:
  assumes "send_wait E s = Some r"
  shows "send_wait E (s\<lparr>mem := m\<rparr>) = Some (fst r, (snd r)\<lparr>mem := m\<rparr>)"
proof -
  define P where "P = (\<lambda>E (s :: 'a iic_state_scheme) (r :: bool \<times> 'a iic_state_scheme).
    send_wait E (s\<lparr>mem := m\<rparr>) = Some (fst r, (snd r)\<lparr>mem := m\<rparr>))"
  have "P E s r"
  proof (rule send_wait.raw_induct [where P = P, OF _ assms])
    fix f E and s :: "'a iic_state_scheme" and r
    assume IH: "\<And>E s r. f E s = Some r \<Longrightarrow> P E s r"
      and eq: "(let s = irq_point E s
        in if SendComplete s \<noteq> 0 then Some (True, s) else
        let s = irq_point E s
        in if TotalErrorCount s \<noteq> 0 then Some (False, s) else f E s) = Some r"
    show "P E s r"
      using eq IH [of E "irq_point E (irq_point E s)" r] unfolding P_def
      by (subst send_wait.simps) (auto simp: Let_def irq_point_mem split: if_splits)
  qed
  then show ?thesis by (simp add: P_def)
qed

lemma send_wait_mem:
  "send_wait E (s\<lparr>mem := m\<rparr>) = map_option (\<lambda>(d, s). (d, s\<lparr>mem := m\<rparr>)) (send_wait E s)"
proof (cases "send_wait E s")
  case None
  have "send_wait E (s\<lparr>mem := m\<rparr>) = None"
  proof (rule ccontr)
    assume "send_wait E (s\<lparr>mem := m\<rparr>) \<noteq> None"
    then obtain r where "send_wait E (s\<lparr>mem := m\<rparr>) = Some r" by blast
    from send_wait_mem_Some [OF this, of "mem s"] None show False by simp
  qed
  with None show ?thesis by simp
next
  case (Some r)
  with send_wait_mem_Some [OF Some, of m] show ?thesis by (cases r) simp
qed

lemma IicSend_mem:
  "IicSend E msg n a (s\<lparr>mem := m\<rparr>) =
     map_option (\<lambda>(r, s). (r, s\<lparr>mem := m\<rparr>)) (IicSend E msg n a s)"
proof -
  have swap: "x\<lparr>mem := m, TotalErrorCount := 0\<rparr> = x\<lparr>TotalErrorCount := 0, mem := m\<rparr>"
      "x\<lparr>mem := m, SendComplete := 0\<rparr> = x\<lparr>SendComplete := 0, mem := m\<rparr>"
    for x :: "'a iic_state_scheme"
    by simp_all
  have "clear_send E (s\<lparr>mem := m\<rparr>) = (clear_send E s)\<lparr>mem := m\<rparr>"
    unfolding clear_send_start irq_point_mem swap by (simp add: swap irq_point_mem)
  then show ?thesis
    by (auto simp: IicSend_def Let_def emit_mem_update send_wait_mem irq_point_mem
        split: option.splits)
qed

section \<open>Initialisation\<close>

text \<open>
  \<open>SetupIIC\<close> reports success only after every step has succeeded, and then the interrupt is
  connected and the status handler registered before the clock is set, in that order.
\<close>

lemma SetupIIC_success:
  assumes "fst (SetupIIC E s) = XST_SUCCESS E" and "XST_SUCCESS E \<noteq> XST_FAILURE E"
  shows "\<exists>Config. Config \<noteq> 0 \<and> calls_since s (snd (SetupIIC E s)) =
    [Iic (XIicPs_LookupConfig (XIICPS_BASEADDRESS E)), Iic (XIicPs_CfgInitialize Config),
     Iic XIicPs_SelfTest, Cpu (XSetupInterruptSystem ISR_Iic_Master),
     Iic XIicPs_SetStatusHandler, Iic (XIicPs_SetSClk 100000)]"
  using assms
  by (auto simp: SetupIIC_def XIicPsSmbusMasterInit_def Let_def macro_defs calls_since_def
      split: if_splits)

section \<open>Examples\<close>

text \<open>A controller that completes every transfer at once, one that reports an error, a dead one.\<close>

definition iic_env :: "u32 list \<Rightarrow> env" where
  "iic_env evs = zynq_env (\<lambda>_ c. if c = Iic (XIicPs_LookupConfig 0xE0005000) then 1 else 0)
     (\<lambda>_. evs) (\<lambda>_. 0)"

definition iic_start :: iic_state where
  "iic_start = \<lparr>tr = [], mem = (\<lambda>_. 0), SendComplete = 0, RecvComplete = 0, TotalErrorCount = 0\<rparr>"

lemma iic_send_at_once:
  "\<exists>s'. IicSend (iic_env [1]) [1, 2, 3] 3 12 iic_start = Some (0, s')"
  by (simp add: IicSend_def clear_send_def Let_def send_wait.simps irq_point_def iic_env_def
      zynq_env_def Handler_def emit_def iic_start_def)

theorem IicSend_result_witness:
  "\<exists>s'. IicSend (iic_env [1]) [1, 2, 3] 3 12 iic_start = Some (0, s') \<and>
     filter (\<lambda>c. c \<noteq> Vaccess) (calls_since iic_start s') = [Iic (XIicPs_MasterSend [1, 2, 3] 3 12)]"
  using iic_send_at_once IicSend_result by blast


lemma IicSend_hangs_witness:
  "IicSend (iic_env []) [1, 2, 3] 3 12 iic_start = None"
  by (rule IicSend_hangs) (simp add: iic_env_def zynq_env_def)

lemma iic_recv_error:
  "\<exists>s'. IicRecv (iic_env [8]) 0 1 12 [5] 1 iic_start = Some (1, s')"
  by (simp add: IicRecv_def recv_command_def clear_send_def Let_def send_wait.simps irq_point_def
      iic_env_def zynq_env_def Handler_def emit_def iic_start_def)


lemma SetupIIC_success_witness:
  "\<exists>Config. Config \<noteq> 0 \<and> calls_since iic_start (snd (SetupIIC (iic_env []) iic_start)) =
    [Iic (XIicPs_LookupConfig 0xE0005000), Iic (XIicPs_CfgInitialize Config),
     Iic XIicPs_SelfTest, Cpu (XSetupInterruptSystem ISR_Iic_Master),
     Iic XIicPs_SetStatusHandler, Iic (XIicPs_SetSClk 100000)]"
  using SetupIIC_success [of "iic_env []" iic_start]
  by (simp add: SetupIIC_def XIicPsSmbusMasterInit_def iic_env_def zynq_env_def iic_start_def
      ans_def Let_def)

end
