(* ===== verification/Platform_Timer.thy ===== *)
theory Platform_Timer
  imports Iic_Ctrl
begin

text \<open>
  The 50 ms platform timer: \<open>timer_callback\<close> of \<^verbatim>\<open>platform.c\<close> (the one this board's build uses) and
  of \<^verbatim>\<open>platform_zynq.c\<close> (the build without a system device tree). The static and volatile counters
  are C \<open>int\<close>s; as mathematical integers they are exact for the first \<open>2 ^ 31\<close> ticks, more than
  three years, after which the C code's increments overflow.
\<close>

section \<open>State and interrupt handler\<close>

record timer_state = iic_state +
  TcpFastTmrFlag :: int
  TcpSlowTmrFlag :: int
  dhcp_timoutcntr :: int
  DetectEthLinkStatus :: int
  Tcp_Fasttimer :: int
  Tcp_Slowtimer :: int
  dhcp_timer :: int
  dhcp_finetimer :: int
  acd_timer :: int
  ResetRxCntr :: int

definition ETH_LINK_DETECT_INTERVAL :: int where "ETH_LINK_DETECT_INTERVAL = 20"
definition RESET_RX_CNTR_LIMIT :: int where "RESET_RX_CNTR_LIMIT = 2000"

text \<open>The counters every tick advances; the DHCP ones only exist when lwIP is built with DHCP.\<close>

definition count_tick :: "env \<Rightarrow> 'a timer_state_scheme \<Rightarrow> 'a timer_state_scheme" where
  "count_tick E s =
     (let s = s\<lparr>DetectEthLinkStatus := DetectEthLinkStatus s + 1,
               Tcp_Fasttimer := Tcp_Fasttimer s + 1, Tcp_Slowtimer := Tcp_Slowtimer s + 1\<rparr>;
          s = (if LWIP_DHCP E then
                 s\<lparr>dhcp_timer := dhcp_timer s + 1, dhcp_finetimer := dhcp_finetimer s + 1,
                   dhcp_timoutcntr := dhcp_timoutcntr s - 1\<rparr> else s)
      in if LWIP_DHCP E \<and> LWIP_DHCP_DOES_ACD_CHECK E then s\<lparr>acd_timer := acd_timer s + 1\<rparr> else s)"

definition raise_tcp_flags :: "'a timer_state_scheme \<Rightarrow> 'a timer_state_scheme" where
  "raise_tcp_flags s =
     (let s = (if Tcp_Fasttimer s mod 5 = 0 then s\<lparr>TcpFastTmrFlag := 1\<rparr> else s)
      in if Tcp_Slowtimer s mod 10 = 0 then s\<lparr>TcpSlowTmrFlag := 1\<rparr> else s)"

definition run_dhcp_timers :: "env \<Rightarrow> 'a timer_state_scheme \<Rightarrow> 'a timer_state_scheme" where
  "run_dhcp_timers E s =
     (if \<not> LWIP_DHCP E then s else
      let s = (if dhcp_finetimer s mod 10 = 0 then emit E (Netif Dhcp_fine_tmr) s else s);
          s = (if dhcp_timer s \<ge> 1200
               then (emit E (Netif Dhcp_coarse_tmr) s)\<lparr>dhcp_timer := 0\<rparr> else s)
      in if LWIP_DHCP_DOES_ACD_CHECK E \<and> acd_timer s mod 2 = 0 then emit E (Netif Acd_tmr) s else s)"

definition detect_link :: "env \<Rightarrow> 'a timer_state_scheme \<Rightarrow> 'a timer_state_scheme" where
  "detect_link E s =
     (if DetectEthLinkStatus s = ETH_LINK_DETECT_INTERVAL
      then (emit E (Netif Eth_link_detect) s)\<lparr>DetectEthLinkStatus := 0\<rparr> else s)"

definition timer_callback :: "env \<Rightarrow> 'a timer_state_scheme \<Rightarrow> 'a timer_state_scheme" where
  "timer_callback E s = detect_link E (run_dhcp_timers E (raise_tcp_flags (count_tick E s)))"

text \<open>The Zynq variant also resets a stuck receive path and acknowledges the private timer.\<close>

definition reset_rx :: "env \<Rightarrow> 'a timer_state_scheme \<Rightarrow> 'a timer_state_scheme" where
  "reset_rx E s =
     (if ResetRxCntr s \<ge> RESET_RX_CNTR_LIMIT
      then (emit E (Netif Xemacpsif_resetrx_on_no_rxdata) s)\<lparr>ResetRxCntr := 0\<rparr> else s)"

definition zynq_timer_callback :: "env \<Rightarrow> 'a timer_state_scheme \<Rightarrow> 'a timer_state_scheme" where
  "zynq_timer_callback E s =
     (let s = s\<lparr>ResetRxCntr := ResetRxCntr s + 1\<rparr>;
          s = run_dhcp_timers E (raise_tcp_flags (count_tick E s));
          s = detect_link E (reset_rx E s)
      in emit E (Cpu XScuTimer_ClearInterruptStatus) s)"

definition TimerCounterHandler :: "env \<Rightarrow> 'a timer_state_scheme \<Rightarrow> 'a timer_state_scheme" where
  "TimerCounterHandler E s = timer_callback E s"

section \<open>Platform set-up\<close>

definition init_timer :: "env \<Rightarrow> 'a io_scheme \<Rightarrow> 'a io_scheme" where
  "init_timer E s = emit E (Cpu XTimer_SetHandler) (emit E (Cpu (XTimer_SetInterval 50)) s)"

text \<open>On the Cortex-A9 \<open>enable_caches\<close> is empty; the model covers the build with \<^verbatim>\<open>SDT\<close> defined.\<close>

definition enable_caches :: "'a io_scheme \<Rightarrow> 'a io_scheme" where
  "enable_caches s = s"

definition init_platform :: "env \<Rightarrow> 'a io_scheme \<Rightarrow> 'a io_scheme" where
  "init_platform E s = init_timer E (enable_caches s)"

definition disable_caches :: "env \<Rightarrow> 'a io_scheme \<Rightarrow> 'a io_scheme" where
  "disable_caches E s = emit E (Cpu Xil_ICacheDisable) (emit E (Cpu Xil_DCacheDisable) s)"

definition cleanup_platform :: "env \<Rightarrow> 'a io_scheme \<Rightarrow> 'a io_scheme" where
  "cleanup_platform E s = disable_caches E s"

text \<open>The main thread accesses a volatile counter: the ticks pending by then are handled first.\<close>

definition timer_point :: "env \<Rightarrow> 'a timer_state_scheme \<Rightarrow> 'a timer_state_scheme" where
  "timer_point E s = (TimerCounterHandler E ^^ timer_irqs E (tr s)) (emit E Vaccess s)"

section \<open>What a tick does\<close>

lemma emit_timer [io_simps]:
  "TcpFastTmrFlag (emit E c s) = TcpFastTmrFlag s" "TcpSlowTmrFlag (emit E c s) = TcpSlowTmrFlag s"
  "dhcp_timoutcntr (emit E c s) = dhcp_timoutcntr s"
  "DetectEthLinkStatus (emit E c s) = DetectEthLinkStatus s"
  "Tcp_Fasttimer (emit E c s) = Tcp_Fasttimer s" "Tcp_Slowtimer (emit E c s) = Tcp_Slowtimer s"
  "dhcp_timer (emit E c s) = dhcp_timer s" "dhcp_finetimer (emit E c s) = dhcp_finetimer s"
  "acd_timer (emit E c s) = acd_timer s" "ResetRxCntr (emit E c s) = ResetRxCntr s"
  "timer_state.more (emit E c s) = timer_state.more s"
  by (simp_all add: emit_def)

lemmas tick_defs = timer_callback_def count_tick_def raise_tcp_flags_def run_dhcp_timers_def
  detect_link_def Let_def

text \<open>The counters after \<open>n\<close> ticks.\<close>

definition timers_at :: "env \<Rightarrow> nat \<Rightarrow> 'a timer_state_scheme \<Rightarrow> bool" where
  "timers_at E n s \<longleftrightarrow> Tcp_Fasttimer s = int n \<and> Tcp_Slowtimer s = int n
     \<and> DetectEthLinkStatus s = int (n mod 20)
     \<and> (LWIP_DHCP E \<longrightarrow> dhcp_finetimer s = int n \<and> dhcp_timer s = int (n mod 1200))
     \<and> (LWIP_DHCP E \<longrightarrow> LWIP_DHCP_DOES_ACD_CHECK E \<longrightarrow> acd_timer s = int n)"

text \<open>The calls of tick number \<open>k\<close>.\<close>

definition tick_calls :: "env \<Rightarrow> nat \<Rightarrow> call list" where
  "tick_calls E k =
     (if LWIP_DHCP E \<and> k mod 10 = 0 then [Netif Dhcp_fine_tmr] else [])
     @ (if LWIP_DHCP E \<and> k mod 1200 = 0 then [Netif Dhcp_coarse_tmr] else [])
     @ (if LWIP_DHCP E \<and> LWIP_DHCP_DOES_ACD_CHECK E \<and> k mod 2 = 0 then [Netif Acd_tmr] else [])
     @ (if k mod 20 = 0 then [Netif Eth_link_detect] else [])"

lemma int_mod_period: "(int n + 1) mod int k = 0 \<longleftrightarrow> Suc n mod k = 0"
proof -
  have "int n + 1 = int (Suc n)" by simp
  then show ?thesis by (simp only: zmod_int [symmetric] of_nat_eq_0_iff)
qed

lemma period_reached: "0 < k \<Longrightarrow> int (n mod k) + 1 = int k \<longleftrightarrow> Suc n mod k = 0"
  by (simp add: mod_Suc)

text \<open>The four stages of a tick, field by field.\<close>

lemma count_tick_fields [io_simps]:
  "tr (count_tick E s) = tr s" "mem (count_tick E s) = mem s"
  "TcpFastTmrFlag (count_tick E s) = TcpFastTmrFlag s"
  "TcpSlowTmrFlag (count_tick E s) = TcpSlowTmrFlag s"
  "DetectEthLinkStatus (count_tick E s) = DetectEthLinkStatus s + 1"
  "Tcp_Fasttimer (count_tick E s) = Tcp_Fasttimer s + 1"
  "Tcp_Slowtimer (count_tick E s) = Tcp_Slowtimer s + 1"
  "dhcp_timoutcntr (count_tick E s) = dhcp_timoutcntr s - (if LWIP_DHCP E then 1 else 0)"
  "dhcp_timer (count_tick E s) = dhcp_timer s + (if LWIP_DHCP E then 1 else 0)"
  "dhcp_finetimer (count_tick E s) = dhcp_finetimer s + (if LWIP_DHCP E then 1 else 0)"
  "acd_timer (count_tick E s) =
     acd_timer s + (if LWIP_DHCP E \<and> LWIP_DHCP_DOES_ACD_CHECK E then 1 else 0)"
  "ResetRxCntr (count_tick E s) = ResetRxCntr s"
  "timer_state.more (count_tick E s) = timer_state.more s"
  by (simp_all add: count_tick_def Let_def)

lemma raise_tcp_flags_fields [io_simps]:
  "tr (raise_tcp_flags s) = tr s" "mem (raise_tcp_flags s) = mem s"
  "TcpFastTmrFlag (raise_tcp_flags s) = (if Tcp_Fasttimer s mod 5 = 0 then 1 else TcpFastTmrFlag s)"
  "TcpSlowTmrFlag (raise_tcp_flags s) = (if Tcp_Slowtimer s mod 10 = 0 then 1 else TcpSlowTmrFlag s)"
  "DetectEthLinkStatus (raise_tcp_flags s) = DetectEthLinkStatus s"
  "Tcp_Fasttimer (raise_tcp_flags s) = Tcp_Fasttimer s"
  "Tcp_Slowtimer (raise_tcp_flags s) = Tcp_Slowtimer s"
  "dhcp_timoutcntr (raise_tcp_flags s) = dhcp_timoutcntr s"
  "dhcp_timer (raise_tcp_flags s) = dhcp_timer s"
  "dhcp_finetimer (raise_tcp_flags s) = dhcp_finetimer s"
  "acd_timer (raise_tcp_flags s) = acd_timer s" "ResetRxCntr (raise_tcp_flags s) = ResetRxCntr s"
  "timer_state.more (raise_tcp_flags s) = timer_state.more s"
  by (simp_all add: raise_tcp_flags_def Let_def)

lemma run_dhcp_timers_fields [io_simps]:
  "mem (run_dhcp_timers E s) = mem s"
  "TcpFastTmrFlag (run_dhcp_timers E s) = TcpFastTmrFlag s"
  "TcpSlowTmrFlag (run_dhcp_timers E s) = TcpSlowTmrFlag s"
  "DetectEthLinkStatus (run_dhcp_timers E s) = DetectEthLinkStatus s"
  "Tcp_Fasttimer (run_dhcp_timers E s) = Tcp_Fasttimer s"
  "Tcp_Slowtimer (run_dhcp_timers E s) = Tcp_Slowtimer s"
  "dhcp_timoutcntr (run_dhcp_timers E s) = dhcp_timoutcntr s"
  "dhcp_timer (run_dhcp_timers E s) =
     (if LWIP_DHCP E \<and> dhcp_timer s \<ge> 1200 then 0 else dhcp_timer s)"
  "dhcp_finetimer (run_dhcp_timers E s) = dhcp_finetimer s"
  "acd_timer (run_dhcp_timers E s) = acd_timer s"
  "ResetRxCntr (run_dhcp_timers E s) = ResetRxCntr s"
  "timer_state.more (run_dhcp_timers E s) = timer_state.more s"
  by (simp_all add: run_dhcp_timers_def Let_def io_simps)

lemma run_dhcp_timers_calls:
  "prefix (tr s) (tr (run_dhcp_timers E s)) \<and> calls_since s (run_dhcp_timers E s) =
     (if LWIP_DHCP E \<and> dhcp_finetimer s mod 10 = 0 then [Netif Dhcp_fine_tmr] else [])
     @ (if LWIP_DHCP E \<and> dhcp_timer s \<ge> 1200 then [Netif Dhcp_coarse_tmr] else [])
     @ (if LWIP_DHCP E \<and> LWIP_DHCP_DOES_ACD_CHECK E \<and> acd_timer s mod 2 = 0
        then [Netif Acd_tmr] else [])"
  by (simp add: run_dhcp_timers_def Let_def io_simps calls_since_def)

lemma detect_link_fields [io_simps]:
  "mem (detect_link E s) = mem s"
  "TcpFastTmrFlag (detect_link E s) = TcpFastTmrFlag s"
  "TcpSlowTmrFlag (detect_link E s) = TcpSlowTmrFlag s"
  "DetectEthLinkStatus (detect_link E s) =
     (if DetectEthLinkStatus s = 20 then 0 else DetectEthLinkStatus s)"
  "Tcp_Fasttimer (detect_link E s) = Tcp_Fasttimer s"
  "Tcp_Slowtimer (detect_link E s) = Tcp_Slowtimer s"
  "dhcp_timoutcntr (detect_link E s) = dhcp_timoutcntr s"
  "dhcp_timer (detect_link E s) = dhcp_timer s"
  "dhcp_finetimer (detect_link E s) = dhcp_finetimer s"
  "acd_timer (detect_link E s) = acd_timer s" "ResetRxCntr (detect_link E s) = ResetRxCntr s"
  "timer_state.more (detect_link E s) = timer_state.more s"
  by (simp_all add: detect_link_def io_simps ETH_LINK_DETECT_INTERVAL_def)

lemma detect_link_calls:
  "prefix (tr s) (tr (detect_link E s)) \<and> calls_since s (detect_link E s) =
     (if DetectEthLinkStatus s = 20 then [Netif Eth_link_detect] else [])"
  by (simp add: detect_link_def calls_since_def ETH_LINK_DETECT_INTERVAL_def)

text \<open>One tick: the counters advance, the flags are raised and the calls are those of that tick.\<close>

lemma timer_callback_flags:
  assumes "timers_at E n s"
  shows "TcpFastTmrFlag (timer_callback E s) = (if Suc n mod 5 = 0 then 1 else TcpFastTmrFlag s)"
    and "TcpSlowTmrFlag (timer_callback E s) = (if Suc n mod 10 = 0 then 1 else TcpSlowTmrFlag s)"
    and "dhcp_timoutcntr (timer_callback E s) = dhcp_timoutcntr s - (if LWIP_DHCP E then 1 else 0)"
    and "mem (timer_callback E s) = mem s"
    and "timer_state.more (timer_callback E s) = timer_state.more s"
proof -
  have "Tcp_Fasttimer s = int n" "Tcp_Slowtimer s = int n"
    using assms by (simp_all add: timers_at_def)
  then show "TcpFastTmrFlag (timer_callback E s) = (if Suc n mod 5 = 0 then 1 else TcpFastTmrFlag s)"
    "TcpSlowTmrFlag (timer_callback E s) = (if Suc n mod 10 = 0 then 1 else TcpSlowTmrFlag s)"
    using int_mod_period [of n 5] int_mod_period [of n 10]
    by (simp_all add: timer_callback_def io_simps)
qed (simp_all add: timer_callback_def io_simps)

lemma timer_callback_counts:
  assumes "timers_at E n s"
  shows "timers_at E (Suc n) (timer_callback E s)"
  using assms mod_less_divisor [of 1200 n] unfolding timers_at_def
  by (auto simp: timer_callback_def io_simps mod_Suc simp del: mod_less_divisor)

lemma timer_callback_calls:
  assumes "timers_at E n s"
  shows "prefix (tr s) (tr (timer_callback E s))
    \<and> calls_since s (timer_callback E s) = tick_calls E (Suc n)"
proof -
  let ?s1 = "raise_tcp_flags (count_tick E s)"
  let ?s2 = "run_dhcp_timers E ?s1"
  have tr1: "tr ?s1 = tr s" by (simp add: io_simps)
  have p: "prefix (tr ?s1) (tr ?s2)" "prefix (tr ?s2) (tr (detect_link E ?s2))"
    using run_dhcp_timers_calls detect_link_calls by blast+
  have fine: "LWIP_DHCP E \<Longrightarrow> dhcp_finetimer ?s1 mod 10 = 0 \<longleftrightarrow> Suc n mod 10 = 0"
    using assms int_mod_period [of n 10] by (simp add: timers_at_def io_simps)
  have coarse: "LWIP_DHCP E \<Longrightarrow> dhcp_timer ?s1 \<ge> 1200 \<longleftrightarrow> Suc n mod 1200 = 0"
    using assms period_reached [of 1200 n] mod_less_divisor [of 1200 n]
    by (auto simp: timers_at_def io_simps simp del: mod_less_divisor)
  have acd: "LWIP_DHCP E \<Longrightarrow> LWIP_DHCP_DOES_ACD_CHECK E \<Longrightarrow> acd_timer ?s1 mod 2 = 0 \<longleftrightarrow> Suc n mod 2 = 0"
    using assms int_mod_period [of n 2] by (simp add: timers_at_def io_simps)
  have link: "DetectEthLinkStatus ?s2 = 20 \<longleftrightarrow> Suc n mod 20 = 0"
    using assms period_reached [of 20 n] by (simp add: timers_at_def io_simps add.commute)
  have "calls_since s (timer_callback E s) = calls_since ?s1 ?s2 @ calls_since ?s2 (detect_link E ?s2)"
    using calls_since_trans [OF p] tr1 by (simp add: timer_callback_def calls_since_def)
  also have "\<dots> = tick_calls E (Suc n)"
    unfolding conjunct2 [OF run_dhcp_timers_calls] conjunct2 [OF detect_link_calls] link tick_calls_def
    using fine coarse acd by (simp cong: if_cong conj_cong)
  finally show ?thesis using p tr1 prefix_order.trans by (simp add: timer_callback_def)
qed

section \<open>Many ticks\<close>

lemma timer_ticks:
  assumes "timers_at E m s"
  shows "timers_at E (m + n) ((timer_callback E ^^ n) s)
    \<and> prefix (tr s) (tr ((timer_callback E ^^ n) s))
    \<and> calls_since s ((timer_callback E ^^ n) s) = concat (map (tick_calls E) [Suc m..<Suc (m + n)])"
proof (induction n)
  case 0
  with assms show ?case by simp
next
  case (Suc n)
  let ?t = "(timer_callback E ^^ n) s"
  from Suc have t: "timers_at E (m + n) ?t" "prefix (tr s) (tr ?t)" by blast+
  note c = timer_callback_calls [OF t(1)]
  have "calls_since s (timer_callback E ?t) = calls_since s ?t @ calls_since ?t (timer_callback E ?t)"
    using t(2) c by (intro calls_since_trans) auto
  then show ?case
    using Suc c timer_callback_counts [OF t(1)] t(2) prefix_order.trans by auto
qed

text \<open>The number of calls of each kind in the first \<open>n\<close> ticks.\<close>

definition timer_calls :: "env \<Rightarrow> nat \<Rightarrow> call \<Rightarrow> nat" where
  "timer_calls E n c = count_list (concat (map (tick_calls E) [1..<Suc n])) c"

lemma timer_calls_Suc:
  "timer_calls E (Suc n) c = timer_calls E n c + count_list (tick_calls E (Suc n)) c"
  by (simp add: timer_calls_def)

lemma timer_calls_0: "timer_calls E 0 c = 0"
  by (simp add: timer_calls_def)

lemma timer_calls_rates:
  "timer_calls E n (Netif Dhcp_fine_tmr) = (if LWIP_DHCP E then n div 10 else 0)"
  "timer_calls E n (Netif Dhcp_coarse_tmr) = (if LWIP_DHCP E then n div 1200 else 0)"
  "timer_calls E n (Netif Acd_tmr) =
     (if LWIP_DHCP E \<and> LWIP_DHCP_DOES_ACD_CHECK E then n div 2 else 0)"
  "timer_calls E n (Netif Eth_link_detect) = n div 20"
  by (induction n; simp add: timer_calls_0 timer_calls_Suc tick_calls_def div_Suc)+


lemma timer_callback_flag_stays:
  "TcpFastTmrFlag s = 1 \<Longrightarrow> TcpFastTmrFlag (timer_callback E s) = 1"
  "TcpSlowTmrFlag s = 1 \<Longrightarrow> TcpSlowTmrFlag (timer_callback E s) = 1"
  by (simp_all add: timer_callback_def io_simps)

lemma flag_raised:
  assumes "timers_at E n s" and "0 < k"
    and raise: "\<And>n s. timers_at E n s \<Longrightarrow> Suc n mod k = 0 \<Longrightarrow> F (timer_callback E s)"
    and stays: "\<And>s. F s \<Longrightarrow> F (timer_callback E s)"
  shows "F ((timer_callback E ^^ k) s)"
proof -
  let ?j = "k - Suc (n mod k)"
  have lt: "n mod k < k" using assms(2) by simp
  then have j: "?j < k" "Suc (n + ?j) mod k = 0"
  proof -
    have "Suc (n + ?j) = k * (n div k) + k"
      using lt mult_div_mod_eq [of k n] by linarith
    then show "Suc (n + ?j) mod k = 0" by simp
  qed (use lt in simp)
  have "F ((timer_callback E ^^ Suc ?j) s)"
    using raise [OF conjunct1 [OF timer_ticks [OF assms(1)]] j(2)] by simp
  then have "F ((timer_callback E ^^ (i + Suc ?j)) s)" for i
    by (induction i) (simp_all add: stays)
  from this [of "k - Suc ?j"] j(1) show ?thesis by simp
qed

text \<open>
  The TCP timers never starve: whatever the flags held and however many ticks have passed, five
  more ticks leave the fast flag raised and ten more the slow one, that is every 250 ms and 500 ms.
\<close>

lemma tcp_flags_raised:
  assumes "timers_at E n s"
  shows "TcpFastTmrFlag ((timer_callback E ^^ 5) s) = 1 \<and>
    TcpSlowTmrFlag ((timer_callback E ^^ 10) s) = 1"
proof
  show "TcpFastTmrFlag ((timer_callback E ^^ 5) s) = 1"
    by (rule flag_raised [OF assms]) (simp_all add: timer_callback_flags timer_callback_flag_stays)
  show "TcpSlowTmrFlag ((timer_callback E ^^ 10) s) = 1"
    by (rule flag_raised [OF assms]) (simp_all add: timer_callback_flags timer_callback_flag_stays)
qed

section \<open>The Zynq variant\<close>

text \<open>Everything but the receive-path counter.\<close>

lemma stages_ResetRxCntr:
  "count_tick E (s\<lparr>ResetRxCntr := r\<rparr>) = (count_tick E s)\<lparr>ResetRxCntr := r\<rparr>"
  "raise_tcp_flags (s\<lparr>ResetRxCntr := r\<rparr>) = (raise_tcp_flags s)\<lparr>ResetRxCntr := r\<rparr>"
  by (simp_all add: count_tick_def raise_tcp_flags_def Let_def)


lemma reset_rx_calls:
  "prefix (tr s) (tr (reset_rx E s)) \<and> calls_since s (reset_rx E s) =
     (if ResetRxCntr s \<ge> 2000 then [Netif Xemacpsif_resetrx_on_no_rxdata] else [])"
  by (simp add: reset_rx_def calls_since_def RESET_RX_CNTR_LIMIT_def)

lemma zynq_tick:
  fixes E :: env and s :: "'a timer_state_scheme"
  defines "t \<equiv> zynq_timer_callback E s"
  shows "prefix (tr s) (tr t)"
    and "ResetRxCntr t = (if ResetRxCntr s + 1 \<ge> 2000 then 0 else ResetRxCntr s + 1)"
    and "count_list (calls_since s t) (Netif Xemacpsif_resetrx_on_no_rxdata) =
      (if ResetRxCntr s + 1 \<ge> 2000 then 1 else 0)"
proof -
  let ?s0 = "s\<lparr>ResetRxCntr := ResetRxCntr s + 1\<rparr>"
  let ?s1 = "raise_tcp_flags (count_tick E ?s0)"
  let ?s2 = "run_dhcp_timers E ?s1" and ?s3 = "reset_rx E (run_dhcp_timers E ?s1)"
  let ?s4 = "detect_link E ?s3"
  have t: "t = emit E (Cpu XScuTimer_ClearInterruptStatus) ?s4"
    by (simp add: t_def zynq_timer_callback_def Let_def)
  have p: "prefix (tr ?s1) (tr ?s2)" "prefix (tr ?s2) (tr ?s3)" "prefix (tr ?s3) (tr ?s4)"
    using run_dhcp_timers_calls reset_rx_calls detect_link_calls by blast+
  have p4: "prefix (tr ?s1) (tr ?s4)" and tr1: "tr ?s1 = tr s"
    using p by (auto simp: io_simps intro: prefix_order.trans)
  show "prefix (tr s) (tr t)" using p4 tr1 t by (auto intro: prefix_append_right)
  show "ResetRxCntr t = (if ResetRxCntr s + 1 \<ge> 2000 then 0 else ResetRxCntr s + 1)"
    by (simp add: t io_simps reset_rx_def RESET_RX_CNTR_LIMIT_def)
  have "calls_since s t = calls_since ?s1 ?s4 @ [Cpu XScuTimer_ClearInterruptStatus]"
    using p4 tr1 t calls_since_emit [OF p4] by (simp add: calls_since_def)
  also have "calls_since ?s1 ?s4 =
      calls_since ?s1 ?s2 @ calls_since ?s2 ?s3 @ calls_since ?s3 ?s4"
    using calls_since_trans [OF p(1) prefix_order.trans [OF p(2,3)]] calls_since_trans [OF p(2,3)]
    by simp
  finally show "count_list (calls_since s t) (Netif Xemacpsif_resetrx_on_no_rxdata) =
      (if ResetRxCntr s + 1 \<ge> 2000 then 1 else 0)"
    by (simp add: conjunct2 [OF run_dhcp_timers_calls] conjunct2 [OF reset_rx_calls]
        conjunct2 [OF detect_link_calls] io_simps)
qed

lemma zynq_ticks:
  assumes "ResetRxCntr s = 0"
  shows "prefix (tr s) (tr ((zynq_timer_callback E ^^ n) s))
    \<and> ResetRxCntr ((zynq_timer_callback E ^^ n) s) = int (n mod 2000)
    \<and> count_list (calls_since s ((zynq_timer_callback E ^^ n) s))
        (Netif Xemacpsif_resetrx_on_no_rxdata) = n div 2000"
proof (induction n)
  case 0
  with assms show ?case by simp
next
  case (Suc n)
  let ?t = "(zynq_timer_callback E ^^ n) s"
  have p: "prefix (tr s) (tr ?t)" "prefix (tr ?t) (tr (zynq_timer_callback E ?t))"
    using Suc zynq_tick(1) by blast+
  have "n mod 2000 < 2000" by simp
  then show ?case
    using Suc calls_since_trans [OF p] zynq_tick(2,3) [where E = E and s = "?t"] prefix_order.trans [OF p]
    by (auto simp: mod_Suc div_Suc simp del: mod_less_divisor)
qed

text \<open>
  The receive-path reset of the Zynq callback runs once in 2000 ticks: every 100 seconds, a
  thousand times more rarely than the comment in the code (every 100 milliseconds) says.
\<close>

lemma zynq_reset_rate:
  assumes "ResetRxCntr s = 0"
  shows "count_list (calls_since s ((zynq_timer_callback E ^^ n) s))
    (Netif Xemacpsif_resetrx_on_no_rxdata) = n div 2000"
  using zynq_ticks [OF assms] by blast

section \<open>Ticks during the main thread's waits\<close>

lemma TimerCounterHandler_eq: "TimerCounterHandler E = timer_callback E"
  by (rule ext) (simp add: TimerCounterHandler_def)

text \<open>The number of ticks delivered from position \<open>n\<close> of the trace on.\<close>

definition ticks_from :: "env \<Rightarrow> nat \<Rightarrow> event list \<Rightarrow> nat" where
  "ticks_from E n t = length (delivered (\<lambda>t. [0..<timer_irqs E t]) n t)"

lemma timer_callback_frame [io_simps]:
  "mem (timer_callback E s) = mem s"
  "dhcp_timoutcntr (timer_callback E s) = dhcp_timoutcntr s - (if LWIP_DHCP E then 1 else 0)"
  "timer_state.more (timer_callback E s) = timer_state.more s"
  by (simp_all add: timer_callback_def io_simps)

text \<open>The calls of a tick are those of lwIP's timers and the link check, whatever the counters hold.\<close>

definition tick_call :: "call \<Rightarrow> bool" where
  "tick_call c \<longleftrightarrow> c \<in> {Netif Dhcp_fine_tmr, Netif Dhcp_coarse_tmr, Netif Acd_tmr, Netif Eth_link_detect}"

lemma timer_callback_tick_calls:
  "prefix (tr s) (tr (timer_callback E s))
   \<and> list_all tick_call (calls_since s (timer_callback E s))"
proof -
  let ?s1 = "raise_tcp_flags (count_tick E s)"
  let ?s2 = "run_dhcp_timers E ?s1"
  have tr1: "tr ?s1 = tr s" by (simp add: io_simps)
  have p: "prefix (tr ?s1) (tr ?s2)" "prefix (tr ?s2) (tr (detect_link E ?s2))"
    using run_dhcp_timers_calls detect_link_calls by blast+
  have "calls_since s (timer_callback E s) = calls_since ?s1 ?s2 @ calls_since ?s2 (detect_link E ?s2)"
    using calls_since_trans [OF p] tr1 by (simp add: timer_callback_def calls_since_def)
  then show ?thesis
    using p tr1 prefix_order.trans [OF p]
    by (auto simp: timer_callback_def tick_call_def conjunct2 [OF run_dhcp_timers_calls]
        conjunct2 [OF detect_link_calls])
qed

lemma ticks_tick_calls:
  "prefix (tr s) (tr ((timer_callback E ^^ n) s))
   \<and> list_all tick_call (calls_since s ((timer_callback E ^^ n) s))
   \<and> mem ((timer_callback E ^^ n) s) = mem s
   \<and> dhcp_timoutcntr ((timer_callback E ^^ n) s) =
       dhcp_timoutcntr s - (if LWIP_DHCP E then int n else 0)
   \<and> timer_state.more ((timer_callback E ^^ n) s) = timer_state.more s"
proof (induction n)
  case 0
  show ?case by simp
next
  case (Suc n)
  let ?t = "(timer_callback E ^^ n) s"
  have p: "prefix (tr s) (tr ?t)" "prefix (tr ?t) (tr (timer_callback E ?t))"
    using Suc timer_callback_tick_calls by blast+
  show ?case
    using Suc timer_callback_tick_calls [of ?t E] calls_since_trans [OF p] prefix_order.trans [OF p]
    by (auto simp: io_simps)
qed

interpretation tick: extends_trace "timer_callback E" for E
  by unfold_locales (use timer_callback_tick_calls in blast)

text \<open>No tick makes a volatile access of the main thread.\<close>

lemma delivered_quiet:
  assumes "prefix t t'" and "list_all (\<lambda>c. c \<noteq> Vaccess) (map fst (drop (length t) t'))"
  shows "delivered f (length t) t' = []"
proof -
  obtain u where u: "t' = t @ u" using assms(1) by (auto simp: prefix_def)
  have "fst (u ! (i - length t)) \<noteq> Vaccess" if "length t \<le> i" "i < length t + length u" for i
    using that assms(2) u by (auto simp: list_all_length)
  then show ?thesis by (auto simp: delivered_def u nth_append)
qed

lemma ticks_from_split:
  assumes "prefix t t'" and "prefix t' t''"
  shows "ticks_from E (length t) t'' = ticks_from E (length t) t' + ticks_from E (length t') t''"
proof -
  obtain v where v: "t'' = t' @ v" using assms(2) by (auto simp: prefix_def)
  have le: "length t \<le> length t'" using assms(1) by (rule prefix_length_le)
  show ?thesis by (simp only: ticks_from_def v delivered_split [OF le] length_append)
qed

lemma ticks_from_quiet:
  assumes "prefix (tr s) (tr s')" and "list_all (\<lambda>c. c \<noteq> Vaccess) (calls_since s s')"
  shows "ticks_from E (length (tr s)) (tr s') = 0"
  using delivered_quiet [OF assms(1)] assms(2)
  by (simp add: ticks_from_def calls_since_def drop_map)

text \<open>
  \<open>s'\<close> is \<open>s\<close> after some main-thread work and the ticks delivered meanwhile: each of them has
  counted the DHCP timeout down.
\<close>

definition counts_down :: "env \<Rightarrow> 'a timer_state_scheme \<Rightarrow> 'a timer_state_scheme \<Rightarrow> bool" where
  "counts_down E s s' \<longleftrightarrow> prefix (tr s) (tr s') \<and> mem s' = mem s
     \<and> timer_state.more s' = timer_state.more s
     \<and> dhcp_timoutcntr s' = dhcp_timoutcntr s
         - (if LWIP_DHCP E then int (ticks_from E (length (tr s)) (tr s')) else 0)"

lemma counts_down_refl: "counts_down E s s"
  by (simp add: counts_down_def ticks_from_def)

lemma counts_down_trans: "counts_down E s s1 \<Longrightarrow> counts_down E s1 s2 \<Longrightarrow> counts_down E s s2"
  using ticks_from_split [of "tr s" "tr s1" "tr s2" E] prefix_order.trans
  by (auto simp: counts_down_def)

lemma counts_down_emit: "c \<noteq> Vaccess \<Longrightarrow> counts_down E s (emit E c s)"
  by (simp add: counts_down_def ticks_from_def io_simps)

lemma counts_down_timer_point: "counts_down E s (timer_point E s)"
proof -
  let ?s1 = "emit E Vaccess s"
  note t = ticks_tick_calls [of ?s1 "timer_irqs E (tr s)" E]
  have "list_all (\<lambda>c. c \<noteq> Vaccess) (calls_since ?s1 (timer_point E s))"
    using t by (auto simp: timer_point_def TimerCounterHandler_eq list_all_iff tick_call_def)
  moreover have p: "prefix (tr s) (tr ?s1)" "prefix (tr ?s1) (tr (timer_point E s))"
    using t by (auto simp: timer_point_def TimerCounterHandler_eq)
  ultimately have "ticks_from E (length (tr ?s1)) (tr (timer_point E s)) = 0"
    by (intro ticks_from_quiet)
  moreover have "ticks_from E (length (tr s)) (tr ?s1) = timer_irqs E (tr s)"
    by (simp add: ticks_from_def)
  ultimately show ?thesis
    using t p ticks_from_split [OF p, of E] prefix_order.trans [OF p]
    by (auto simp: counts_down_def timer_point_def TimerCounterHandler_eq io_simps)
qed

text \<open>The timer is alive: no \<open>B\<close> accesses of the main thread go by without a tick.\<close>

definition ticks_keep_coming :: "env \<Rightarrow> nat \<Rightarrow> bool" where
  "ticks_keep_coming E B \<longleftrightarrow> (\<forall>t n. n \<le> length t \<longrightarrow>
     B \<le> length (filter (\<lambda>e. fst e = Vaccess) (drop n t)) \<longrightarrow> 0 < ticks_from E n t)"

section \<open>Examples\<close>

definition timer_start :: timer_state where
  "timer_start = iic_state.extend iic_start
     \<lparr>TcpFastTmrFlag = 0, TcpSlowTmrFlag = 0, dhcp_timoutcntr = 240, DetectEthLinkStatus = 0,
      Tcp_Fasttimer = 0, Tcp_Slowtimer = 0, dhcp_timer = 0, dhcp_finetimer = 0, acd_timer = 0,
      ResetRxCntr = 0\<rparr>"

lemma timer_start_fields:
  "timers_at E 0 timer_start" "ResetRxCntr timer_start = 0" "tr timer_start = []"
  by (simp_all add: timers_at_def timer_start_def iic_state.defs iic_start_def)


lemma tcp_flags_raised_witness:
  "TcpFastTmrFlag ((timer_callback (iic_env []) ^^ 5) timer_start) = 1 \<and>
   TcpSlowTmrFlag ((timer_callback (iic_env []) ^^ 10) timer_start) = 1"
  by (rule tcp_flags_raised [OF timer_start_fields(1)])


theorem zynq_reset_rate_witness:
  "count_list (calls_since timer_start ((zynq_timer_callback (iic_env []) ^^ 4000) timer_start))
    (Netif Xemacpsif_resetrx_on_no_rxdata) = 2"
  using zynq_reset_rate [OF timer_start_fields(2), where E = "iic_env []" and n = 4000] by simp

end
