(* ===== verification/Platform_Zynq.thy ===== *)
theory Platform_Zynq
  imports Platform_Timer
begin

text \<open>
  The set-up of \<^verbatim>\<open>platform_zynq.c\<close>, the platform of a build without a system device tree: the private
  timer, the interrupt controller, and the order in which they are started. (Its timer callback is
  in \<^verbatim>\<open>Platform_Timer\<close>, beside the one it is compared with.) The device identifiers are constants of
  the board support package and are left out of the calls; the CPU clock is the parameter \<open>freq\<close>.
\<close>

section \<open>Operations\<close>

text \<open>
  The configuration is dereferenced without a check: \<open>None\<close> stands for the access through NULL.
\<close>

definition platform_setup_timer :: "env \<Rightarrow> u32 \<Rightarrow> 'a io_scheme \<Rightarrow> 'a io_scheme option" where
  "platform_setup_timer E freq s =
     (let c = Scu XScuTimer_LookupConfig; ConfigPtr = ans E c s; s = emit E c s
      in if ConfigPtr = 0 then None else
      let c = Scu (XScuTimer_CfgInitialize ConfigPtr); Status = ans E c s; s = emit E c s
      in if Status \<noteq> XST_SUCCESS E then Some s else
      let c = Scu XScuTimer_SelfTest; Status = ans E c s; s = emit E c s
      in if Status \<noteq> XST_SUCCESS E then Some s else
      let s = emit E (Scu XScuTimer_EnableAutoReload) s;
          TimerLoadValue = freq div 40
      in Some (emit E (Scu (XScuTimer_LoadTimer TimerLoadValue)) s))"

definition platform_setup_interrupts :: "env \<Rightarrow> 'a io_scheme \<Rightarrow> 'a io_scheme" where
  "platform_setup_interrupts E s =
     (let s = emit E (Scu Xil_ExceptionInit) s;
          s = emit E (Scu XScuGic_DeviceInitialize) s;
          s = emit E (Scu Xil_ExceptionRegisterHandler) s;
          s = emit E (Scu XScuGic_RegisterHandler) s
      in emit E (Scu XScuGic_EnableIntr) s)"

definition platform_enable_interrupts :: "env \<Rightarrow> 'a io_scheme \<Rightarrow> 'a io_scheme" where
  "platform_enable_interrupts E s =
     (let s = emit E (Scu Xil_ExceptionEnableMask) s;
          s = emit E (Scu XScuTimer_EnableInterrupt) s
      in emit E (Scu XScuTimer_Start) s)"

definition zynq_init_platform :: "env \<Rightarrow> u32 \<Rightarrow> 'a io_scheme \<Rightarrow> 'a io_scheme option" where
  "zynq_init_platform E freq s =
     (case platform_setup_timer E freq s of
        None \<Rightarrow> None | Some s \<Rightarrow> Some (platform_setup_interrupts E s))"

definition zynq_cleanup_platform :: "env \<Rightarrow> 'a io_scheme \<Rightarrow> 'a io_scheme" where
  "zynq_cleanup_platform E s = emit E (Cpu Xil_DCacheDisable) (emit E (Cpu Xil_ICacheDisable) s)"

section \<open>What they do\<close>

text \<open>The interrupt is connected and enabled whether or not the timer could be set up.\<close>

definition interrupt_calls :: "call list" where
  "interrupt_calls = map Scu [Xil_ExceptionInit, XScuGic_DeviceInitialize,
     Xil_ExceptionRegisterHandler, XScuGic_RegisterHandler, XScuGic_EnableIntr]"

lemma zynq_init_platform_calls:
  assumes "zynq_init_platform E freq s = Some s'"
  shows "\<exists>cfg ts. cfg \<noteq> 0 \<and> calls_since s s' =
    map Scu [XScuTimer_LookupConfig, XScuTimer_CfgInitialize cfg] @ ts @ interrupt_calls \<and>
    ts \<in> {[], [Scu XScuTimer_SelfTest], map Scu
      [XScuTimer_SelfTest, XScuTimer_EnableAutoReload, XScuTimer_LoadTimer (freq div 40)]}"
  using assms
  by (auto simp: zynq_init_platform_def platform_setup_timer_def platform_setup_interrupts_def
      interrupt_calls_def Let_def calls_since_def split: if_splits)

text \<open>
  The private timer counts at half the CPU clock, so 50 ms are a fortieth of the clock's frequency:
  the loaded value is that number, rounded down.
\<close>

lemma timer_period: "40 * unat (freq div 40 :: u32) \<le> unat freq \<and> unat freq < 40 * unat (freq div 40) + 40"
  by (simp add: unat_div)

lemma platform_enable_interrupts_calls:
  "calls_since s (platform_enable_interrupts E s) =
     map Scu [Xil_ExceptionEnableMask, XScuTimer_EnableInterrupt, XScuTimer_Start]"
  by (simp add: platform_enable_interrupts_def Let_def calls_since_def)

end
