(* ===== verification/Platform_Builds.thy ===== *)
theory Platform_Builds
  imports Platform_Timer
begin

text \<open>
  \<^verbatim>\<open>platform.c\<close> in all its builds. The preprocessor symbols its set-up code tests are the fields of
  \<open>build\<close>; a symbol that is tested and has a value is an option. For this board's build the
  functions are those of \<^verbatim>\<open>Platform_Timer\<close>.
\<close>

section \<open>Builds\<close>

record build =
  PPC :: bool                                   \<comment> \<open>\<^verbatim>\<open>__PPC__\<close>\<close>
  MICROBLAZE :: bool                            \<comment> \<open>\<^verbatim>\<open>__MICROBLAZE__\<close>\<close>
  USE_ICACHE :: bool                            \<comment> \<open>\<^verbatim>\<open>XPAR_MICROBLAZE_USE_ICACHE\<close>\<close>
  USE_DCACHE :: bool                            \<comment> \<open>\<^verbatim>\<open>XPAR_MICROBLAZE_USE_DCACHE\<close>\<close>
  STDOUT_IS_16550 :: bool
  ETHERNET_MAC_MASK :: "u32 option"             \<comment> \<open>\<^verbatim>\<open>XPAR_ETHERNET_MAC_IP2INTC_IRPT_MASK\<close>\<close>
  LLTEMAC_VEC_ID :: "u32 option"                \<comment> \<open>\<^verbatim>\<open>XPAR_INTC_0_LLTEMAC_0_VEC_ID\<close>\<close>
  AXIETHERNET_VEC_ID :: "u32 option"            \<comment> \<open>\<^verbatim>\<open>XPAR_INTC_0_AXIETHERNET_0_VEC_ID\<close>\<close>
  EMACLITE_VEC_ID :: "u32 option"               \<comment> \<open>\<^verbatim>\<open>XPAR_INTC_0_EMACLITE_0_VEC_ID\<close>\<close>
  TIMER_MASK :: u32                             \<comment> \<open>\<^verbatim>\<open>PLATFORM_TIMER_INTERRUPT_MASK\<close>\<close>
  TIMER_INTR :: u32                             \<comment> \<open>\<^verbatim>\<open>PLATFORM_TIMER_INTERRUPT_INTR\<close>\<close>

section \<open>Operations\<close>

definition emit_if :: "bool \<Rightarrow> env \<Rightarrow> intc_call \<Rightarrow> 'a io_scheme \<Rightarrow> 'a io_scheme" where
  "emit_if b E c s = (if b then emit E (Intc c) s else s)"

text \<open>One of the three optional blocks that enable the timer (guarded by \<open>t\<close>) and a network core.\<close>

definition enable_core :: "bool \<Rightarrow> build \<Rightarrow> env \<Rightarrow> u32 option \<Rightarrow> 'a io_scheme \<Rightarrow> 'a io_scheme" where
  "enable_core t B E vec s =
     (case vec of
        None \<Rightarrow> s
      | Some v \<Rightarrow> emit E (Intc (XIntc_Enable v)) (emit_if t E (XIntc_Enable (TIMER_INTR B)) s))"

definition register_handlers :: "build \<Rightarrow> env \<Rightarrow> 'a io_scheme \<Rightarrow> 'a io_scheme" where
  "register_handlers B E s =
     (if PPC B then emit E (Scu Xil_ExceptionRegisterHandler) (emit E (Scu Xil_ExceptionInit) s)
      else if MICROBLAZE B then emit E (Intc Microblaze_register_handler) s
      else s)"

definition intc_setup_interrupts :: "build \<Rightarrow> env \<Rightarrow> 'a io_scheme \<Rightarrow> 'a io_scheme" where
  "intc_setup_interrupts B E s =
     (let s = emit E (Intc XIntc_Initialize) s;
          s = emit E (Intc XIntc_Start) s;
          s = emit E (Intc XIntc_MasterEnable) s;
          s = register_handlers B E s;
          s = emit E (Intc Platform_setup_timer) s;
          s = (case ETHERNET_MAC_MASK B of
                 None \<Rightarrow> s
               | Some m \<Rightarrow> emit E (Intc (XIntc_EnableIntr (if MICROBLAZE B then TIMER_MASK B OR m else m))) s);
          s = enable_core (MICROBLAZE B) B E (LLTEMAC_VEC_ID B) s;
          s = enable_core True B E (AXIETHERNET_VEC_ID B) s
      in enable_core (MICROBLAZE B) B E (EMACLITE_VEC_ID B) s)"

definition build_enable_caches :: "build \<Rightarrow> env \<Rightarrow> 'a io_scheme \<Rightarrow> 'a io_scheme" where
  "build_enable_caches B E s =
     (if PPC B then emit E (Intc Xil_DCacheEnableRegion) (emit E (Intc Xil_ICacheEnableRegion) s)
      else if MICROBLAZE B then
        emit_if (USE_DCACHE B) E Xil_DCacheEnable (emit_if (USE_ICACHE B) E Xil_ICacheEnable s)
      else s)"

definition build_init_platform :: "build \<Rightarrow> env \<Rightarrow> 'a io_scheme \<Rightarrow> 'a io_scheme" where
  "build_init_platform B E s =
     (let s = build_enable_caches B E s;
          s = (if STDOUT_IS_16550 B
               then emit E (Intc XUartNs550_SetLineControlReg) (emit E (Intc (XUartNs550_SetBaud 9600)) s)
               else s)
      in if \<not> SDT E then intc_setup_interrupts B E s else init_timer E s)"

section \<open>This board\<close>

text \<open>A Cortex-A9 with the UART of the processing system, built from a system device tree.\<close>

definition board_build :: "build \<Rightarrow> env \<Rightarrow> bool" where
  "board_build B E \<longleftrightarrow> \<not> PPC B \<and> \<not> MICROBLAZE B \<and> \<not> STDOUT_IS_16550 B \<and> SDT E"

lemma board_caches: "board_build B E \<Longrightarrow> build_enable_caches B E s = enable_caches s"
  by (simp add: board_build_def build_enable_caches_def enable_caches_def)

lemma board_init_platform: "board_build B E \<Longrightarrow> build_init_platform B E s = init_platform E s"
  by (simp add: board_build_def build_init_platform_def init_platform_def board_caches Let_def)

section \<open>The order of the set-up\<close>

text \<open>The calls that enable single interrupts.\<close>

fun enables :: "call \<Rightarrow> bool" where
  "enables (Intc (XIntc_Enable v)) = True"
| "enables (Intc (XIntc_EnableIntr m)) = True"
| "enables _ = False"

definition handler_calls :: "build \<Rightarrow> call list" where
  "handler_calls B =
     (if PPC B then [Scu Xil_ExceptionInit, Scu Xil_ExceptionRegisterHandler]
      else if MICROBLAZE B then [Intc Microblaze_register_handler] else [])"

lemma register_handlers_calls:
  "prefix (tr s) (tr (register_handlers B E s)) \<and> calls_since s (register_handlers B E s) = handler_calls B"
  by (simp add: register_handlers_def handler_calls_def calls_since_def)

definition enabling :: "'a io_scheme \<Rightarrow> 'a io_scheme \<Rightarrow> bool" where
  "enabling s s' \<longleftrightarrow> prefix (tr s) (tr s') \<and> list_all enables (calls_since s s')"

interpretation enabling: contract enabling
proof
  fix s t u :: "'a io_scheme"
  show "enabling s s" by (simp add: enabling_def)
  assume "enabling s t" "enabling t u"
  then show "enabling s u"
    using calls_since_trans [of s t u] by (auto simp: enabling_def intro: prefix_order.trans)
qed

lemma enabling_emit: "enables c \<Longrightarrow> enabling s (emit E c s)"
  by (simp add: enabling_def calls_since_def)

lemma enable_core_enabling: "enabling s (enable_core t B E vec s)"
  by (auto simp: enable_core_def emit_if_def enabling.idle split: option.split
      intro!: enabling_emit intro: enabling.compose [OF enabling_emit enabling_emit])

text \<open>
  In every build interrupts are enabled only after the controller has been started, the exception
  handler registered and the timer set up.
\<close>

lemma intc_setup_order:
  "\<exists>cs. list_all enables cs \<and> calls_since s (intc_setup_interrupts B E s) =
     map Intc [XIntc_Initialize, XIntc_Start, XIntc_MasterEnable] @ handler_calls B
     @ [Intc Platform_setup_timer] @ cs"
proof -
  let ?s1 = "emit E (Intc XIntc_MasterEnable) (emit E (Intc XIntc_Start) (emit E (Intc XIntc_Initialize) s))"
  let ?s2 = "emit E (Intc Platform_setup_timer) (register_handlers B E ?s1)"
  let ?s3 = "case ETHERNET_MAC_MASK B of None \<Rightarrow> ?s2
    | Some m \<Rightarrow> emit E (Intc (XIntc_EnableIntr (if MICROBLAZE B then TIMER_MASK B OR m else m))) ?s2"
  let ?s' = "intc_setup_interrupts B E s"
  have "enabling ?s2 ?s3" by (auto split: option.split intro: enabling_emit enabling.idle)
  then have e: "enabling ?s2 ?s'"
    unfolding intc_setup_interrupts_def Let_def
    by (intro enabling.compose [OF _ enable_core_enabling])
  have p1: "prefix (tr s) (tr ?s1)" "prefix (tr ?s1) (tr (register_handlers B E ?s1))"
    using register_handlers_calls [of ?s1 B E] by simp_all
  note q = prefix_order.trans [OF p1]
  have p: "prefix (tr s) (tr ?s2)" by (rule prefix_order.trans [OF q]) simp
  have "calls_since s (register_handlers B E ?s1) =
      map Intc [XIntc_Initialize, XIntc_Start, XIntc_MasterEnable] @ handler_calls B"
    unfolding calls_since_trans [OF p1] conjunct2 [OF register_handlers_calls] by (simp add: calls_since_def)
  then have "calls_since s ?s2 = map Intc [XIntc_Initialize, XIntc_Start, XIntc_MasterEnable]
      @ handler_calls B @ [Intc Platform_setup_timer]"
    using q by simp
  with calls_since_trans [OF p, of ?s'] e show ?thesis by (auto simp: enabling_def)
qed

end
