(* ===== verification/Memory.thy ===== *)
theory Memory
  imports Machine
begin

text \<open>
  Byte-addressed memory of the 32-bit, little-endian Cortex-A9: word loads and stores through
  \<open>u32 *\<close> pointers, \<open>memcpy\<close>, and what they do to disjoint buffers. Addresses wrap around at
  \<open>2 ^ 32\<close>, as pointer arithmetic on the target does.
\<close>

type_synonym memory = "u32 \<Rightarrow> u8"

definition load32 :: "memory \<Rightarrow> u32 \<Rightarrow> u32" where
  "load32 m a = ucast (m a) OR push_bit 8 (ucast (m (a + 1)))
     OR push_bit 16 (ucast (m (a + 2))) OR push_bit 24 (ucast (m (a + 3)))"

definition store32 :: "memory \<Rightarrow> u32 \<Rightarrow> u32 \<Rightarrow> memory" where
  "store32 m a v = m(a := ucast v, a + 1 := ucast (drop_bit 8 v),
     a + 2 := ucast (drop_bit 16 v), a + 3 := ucast (drop_bit 24 v))"

definition memcpy :: "memory \<Rightarrow> u32 \<Rightarrow> u32 \<Rightarrow> nat \<Rightarrow> memory" where
  "memcpy m dst src n = (\<lambda>a. if unat (a - dst) < n then m (src + (a - dst)) else m a)"

definition bytes_at :: "memory \<Rightarrow> u32 \<Rightarrow> nat \<Rightarrow> u8 list" where
  "bytes_at m a n = map (\<lambda>i. m (a + of_nat i)) [0..<n]"

text \<open>\<open>n\<close> bytes at \<open>a\<close> and \<open>n\<close> bytes at \<open>b\<close> do not overlap (modulo wrap-around).\<close>

definition apart :: "nat \<Rightarrow> u32 \<Rightarrow> u32 \<Rightarrow> bool" where
  "apart n a b \<longleftrightarrow> n \<le> unat (a - b) \<and> n \<le> unat (b - a)"

lemma apart_sym: "apart n a b \<longleftrightarrow> apart n b a"
  by (auto simp: apart_def)

lemma apart_mono: "apart n a b \<Longrightarrow> k \<le> n \<Longrightarrow> apart k a b"
  by (auto simp: apart_def)

section \<open>Loads and stores\<close>

lemma load32_store32_same: "load32 (store32 m a v) a = v"
proof (rule bit_word_eqI)
  fix n assume "n < LENGTH(32)"
  then consider "n < 8" | "8 \<le> n" "n < 16" | "16 \<le> n" "n < 24" | "24 \<le> n" "n < 32"
    by fastforce
  then show "bit (load32 (store32 m a v) a) n = bit v n"
    by cases (simp_all add: load32_def store32_def bit_simps, auto)
qed

lemma apart_neq:
  assumes "apart n a b" and "unat i < n" and "unat j < n"
  shows "a + i \<noteq> b + j"
proof
  assume "a + i = b + j"
  then have "a - b = j - i" and "b - a = i - j" by (simp_all add: algebra_simps)
  with assms have "unat (j - i) \<ge> n" "unat (i - j) \<ge> n" by (auto simp: apart_def)
  then show False
    using assms(2,3) by (cases "i \<le> j") (auto simp: unat_sub word_le_nat_alt)
qed

lemma load32_store32_apart: "apart 4 a b \<Longrightarrow> load32 (store32 m b v) a = load32 m a"
proof -
  assume ap: "apart 4 a b"
  have "a + i \<noteq> b + j" if "i \<in> {0, 1, 2, 3}" "j \<in> {0, 1, 2, 3}" for i j :: u32
    using that by (intro apart_neq [OF ap]) auto
  from this [of 0 0] this [of 0 1] this [of 0 2] this [of 0 3]
    this [of 1 0] this [of 1 1] this [of 1 2] this [of 1 3]
    this [of 2 0] this [of 2 1] this [of 2 2] this [of 2 3]
    this [of 3 0] this [of 3 1] this [of 3 2] this [of 3 3]
  show ?thesis by (simp add: load32_def store32_def)
qed

section \<open>Arrays of words in separate buffers\<close>

lemma uint_unat: "uint (x :: u32) = int (unat x)"
  by simp

lemma uint_lt_u32: "uint (x :: u32) < 4294967296"
  using uint_bounded [of x] by simp

lemma uint_scaled: "uint (4 * i :: u32) = 4 * uint i" if "4 * unat i < 4294967296"
proof -
  have "4 * uint i < 4294967296" using that uint_unat [of i] by linarith
  then show ?thesis by (simp add: uint_word_ariths(3))
qed

lemma uint_wrap:
  fixes d x y :: u32
  assumes "0 \<le> uint d + uint x - uint y" "uint d + uint x - uint y < 2 ^ 32"
  shows "uint (d + x - y) = uint d + uint x - uint y"
  using assms by (simp add: uint_word_ariths mod_simps)

lemma uint_minus_swap:
  fixes a b :: u32
  assumes "a \<noteq> b"
  shows "uint (b - a) = 2 ^ 32 - uint (a - b)"
proof -
  have "uint (a - b) \<noteq> 0" using assms by (simp add: uint_0_iff)
  moreover have "0 \<le> uint (a - b)" "uint (a - b) < 2 ^ 32"
    using uint_bounded [of "a - b"] by simp_all
  ultimately have "(- uint (a - b)) mod 2 ^ 32 = 2 ^ 32 - uint (a - b)"
    by (simp add: zmod_zminus1_eq_if)
  moreover have "uint (b - a) = (- uint (a - b)) mod 2 ^ 32"
    using uint_word_ariths(4) [of "a - b"] by simp
  ultimately show ?thesis by simp
qed

text \<open>A distance of at least \<open>n\<close> both ways stays positive after moving by less than \<open>n\<close>.\<close>

lemma gap_shift:
  fixes d x y :: u32
  assumes "int n \<le> uint d" "uint d + int n \<le> 4294967296" "uint x + 4 \<le> int n" "uint y + 4 \<le> int n"
  shows "4 \<le> unat (d + x - y)"
proof -
  have "0 \<le> uint d + uint x - uint y" "uint d + uint x - uint y < 4294967296"
    using assms uint_unat [of x] uint_unat [of y] by linarith+
  then have "uint (d + x - y) = uint d + uint x - uint y"
    by (intro uint_wrap) simp_all
  then have "4 \<le> uint (d + x - y)" using assms uint_unat [of x] by linarith
  then show ?thesis using uint_unat [of "d + x - y"] by linarith
qed

lemma apart_words:
  fixes a b i j :: u32
  assumes ap: "apart n a b" and i: "4 * unat i + 4 \<le> n" and j: "4 * unat j + 4 \<le> n"
  shows "apart 4 (a + 4 * i) (b + 4 * j)"
proof -
  have n: "int n \<le> uint (a - b)" "int n \<le> uint (b - a)"
    using ap uint_unat [of "a - b"] uint_unat [of "b - a"] unfolding apart_def by linarith+
  have ij: "4 * uint i + 4 \<le> int n" "4 * uint j + 4 \<le> int n"
    using i j uint_unat [of i] uint_unat [of j] by linarith+
  have "a \<noteq> b"
  proof
    assume "a = b"
    with n(1) have "int n \<le> 0" by simp
    with ij(1) uint_unat [of i] show False by linarith
  qed
  from uint_minus_swap [OF this] have neg: "uint (b - a) = 4294967296 - uint (a - b)" by simp
  have "4 * unat i < 4294967296" "4 * unat j < 4294967296"
    using n(1) ij uint_lt_u32 [of "a - b"] uint_unat [of i] uint_unat [of j] by linarith+
  then have ij4: "uint (4 * i) = 4 * uint i" "uint (4 * j) = 4 * uint j"
    by (simp_all add: uint_scaled)
  have "4 \<le> unat ((a - b) + 4 * i - 4 * j)" "4 \<le> unat ((b - a) + 4 * j - 4 * i)"
    by (rule gap_shift [of n]; use n ij neg ij4 in linarith)+
  moreover have "(a - b) + 4 * i - 4 * j = (a + 4 * i) - (b + 4 * j)"
    "(b - a) + 4 * j - 4 * i = (b + 4 * j) - (a + 4 * i)" by simp_all
  ultimately show ?thesis unfolding apart_def by simp
qed

lemma apart_same_array:
  fixes a i j :: u32
  assumes i: "4 * unat i + 4 \<le> 4294967296" and j: "4 * unat j + 4 \<le> 4294967296" and ne: "i \<noteq> j"
  shows "apart 4 (a + 4 * i) (a + 4 * j)"
proof -
  have ij: "4 * uint i + 4 \<le> 4294967296" "4 * uint j + 4 \<le> 4294967296"
    using i j uint_unat [of i] uint_unat [of j] by linarith+
  have *: "4 \<le> unat (4 * x - 4 * y) \<and> 4 \<le> unat (4 * y - 4 * x)"
    if le: "uint y < uint x" "4 * uint x + 4 \<le> 4294967296" for x y :: u32
  proof -
    have "4 * unat x < 4294967296" "4 * unat y < 4294967296"
      using le uint_unat [of x] uint_unat [of y] by linarith+
    then have xy: "uint (4 * x) = 4 * uint x" "uint (4 * y) = 4 * uint y"
      by (simp_all add: uint_scaled)
    have "0 \<le> 4 * uint x - 4 * uint y" "4 * uint x - 4 * uint y < 4294967296"
      using le uint_unat [of y] by linarith+
    then have d: "uint (4 * x - 4 * y) = 4 * uint x - 4 * uint y"
      using uint_wrap [of 0 "4 * x" "4 * y"] xy by simp
    have "4 * x \<noteq> 4 * y"
    proof
      assume "4 * x = 4 * y"
      with xy le(1) show False by simp
    qed
    from uint_minus_swap [OF this] d
    have "uint (4 * y - 4 * x) = 4294967296 - (4 * uint x - 4 * uint y)" by simp
    then show ?thesis
      using d le uint_unat [of "4 * x - 4 * y"] uint_unat [of "4 * y - 4 * x"] uint_unat [of y]
      by linarith
  qed
  have "uint i \<noteq> uint j" using ne by (simp add: word_uint_eq_iff)
  then consider "uint i < uint j" | "uint j < uint i" by linarith
  then have "4 \<le> unat (4 * i - 4 * j) \<and> 4 \<le> unat (4 * j - 4 * i)"
    using * [of i j] * [of j i] ij by cases blast+
  then show ?thesis unfolding apart_def by simp
qed

section \<open>The interface of a word-addressed memory\<close>

text \<open>
  What the code that fills buffers relies on: a store is seen by a load of the same word and by
  no load of a word apart from it.
\<close>

locale word_memory =
  fixes load :: "'m \<Rightarrow> u32 \<Rightarrow> u32"
    and store :: "'m \<Rightarrow> u32 \<Rightarrow> u32 \<Rightarrow> 'm"
  assumes load_same: "load (store m a v) a = v"
    and load_other: "apart 4 a b \<Longrightarrow> load (store m b v) a = load m a"
begin

lemma load_store_indexed:
  "4 * unat i + 4 \<le> 4294967296 \<Longrightarrow> 4 * unat j + 4 \<le> 4294967296 \<Longrightarrow>
   load (store m (a + 4 * j) v) (a + 4 * i) = (if i = j then v else load m (a + 4 * i))"
  by (auto simp: load_same load_other apart_same_array)

end

text \<open>A loop that copies words one by one, as \<open>for (i = 0; i < n; i++) dst[i] = src[i]\<close> does.\<close>

locale word_copy = word_memory load store
  for load :: "'m \<Rightarrow> u32 \<Rightarrow> u32" and store :: "'m \<Rightarrow> u32 \<Rightarrow> u32 \<Rightarrow> 'm" +
  fixes copy :: "u32 \<Rightarrow> u32 \<Rightarrow> u32 \<Rightarrow> u32 \<Rightarrow> 'm \<Rightarrow> 'm"
  assumes copy_unfold: "copy dst src n i m =
    (if i < n then copy dst src n (i + 1) (store m (dst + 4 * i) (load m (src + 4 * i))) else m)"
begin

lemma copy_done: "\<not> i < n \<Longrightarrow> copy dst src n i m = m"
  by (subst copy_unfold) simp

lemma copy_step:
  "i < n \<Longrightarrow> copy dst src n i m = copy dst src n (i + 1) (store m (dst + 4 * i) (load m (src + 4 * i)))"
  by (subst copy_unfold) simp

lemma copy_other:
  assumes "\<And>k. i \<le> k \<Longrightarrow> k < n \<Longrightarrow> apart 4 a (dst + 4 * k)"
  shows "load (copy dst src n i m) a = load m a"
  using assms
proof (induction "unat n - unat i" arbitrary: i m)
  case 0
  then have "\<not> i < n" by (simp add: word_less_nat_alt)
  then show ?case by (simp add: copy_done)
next
  case (Suc x)
  then have "i < n" by (simp add: word_less_nat_alt)
  then have s: "unat (i + 1) = Suc (unat i)" by (rule unat_Suc_below)
  have "load (copy dst src n (i + 1) (store m (dst + 4 * i) (load m (src + 4 * i)))) a =
      load (store m (dst + 4 * i) (load m (src + 4 * i))) a"
    using Suc.hyps(2) s by (intro Suc.hyps(1) Suc.prems) (auto simp: word_le_nat_alt)
  also have "\<dots> = load m a" using \<open>i < n\<close> by (intro load_other Suc.prems) auto
  finally show ?case using \<open>i < n\<close> by (simp add: copy_step)
qed

lemma copy_word:
  assumes "apart N dst src" and "4 * unat n \<le> N" and "4 * unat n \<le> 4294967296"
    and "i \<le> k" and "k < n"
  shows "load (copy dst src n i m) (dst + 4 * k) = load m (src + 4 * k)"
  using assms(4)
proof (induction "unat n - unat i" arbitrary: i m)
  case 0
  then show ?case using assms(5) by (simp add: word_le_nat_alt word_less_nat_alt)
next
  case (Suc x)
  then have "i < n" using assms(5) by simp
  then have s: "unat (i + 1) = Suc (unat i)" by (rule unat_Suc_below)
  let ?m = "store m (dst + 4 * i) (load m (src + 4 * i))"
  have in_n: "4 * unat j + 4 \<le> N \<and> 4 * unat j + 4 \<le> 4294967296" if "j < n" for j
    using that assms(2,3) by (simp add: word_less_nat_alt)
  show ?case
  proof (cases "i = k")
    case True
    have "apart 4 (dst + 4 * k) (dst + 4 * j)" if "i + 1 \<le> j" "j < n" for j
      using that in_n [of k] in_n [of j] assms(5) s True
      by (intro apart_same_array) (auto simp: word_le_nat_alt)
    then have "load (copy dst src n (i + 1) ?m) (dst + 4 * k) = load ?m (dst + 4 * k)"
      by (rule copy_other)
    then show ?thesis using True \<open>i < n\<close> by (simp add: copy_step load_same)
  next
    case False
    with Suc.prems s have "i + 1 \<le> k" by (simp add: word_le_nat_alt)
      (metis le_neq_implies_less not_less_eq_eq word_unat_eq_iff not_less)
    then have "load (copy dst src n (i + 1) ?m) (dst + 4 * k) = load ?m (src + 4 * k)"
      using Suc.hyps(2) s by (intro Suc.hyps(1)) auto
    also have "\<dots> = load m (src + 4 * k)"
      using in_n [OF assms(5)] in_n [OF \<open>i < n\<close>] assms(1)
      by (intro load_other apart_words [of N]) (auto simp: apart_sym)
    finally show ?thesis using \<open>i < n\<close> by (simp add: copy_step)
  qed
qed

end

interpretation ram: word_memory load32 store32
  by unfold_locales (rule load32_store32_same, rule load32_store32_apart)

section \<open>memcpy\<close>

lemma length_bytes_at [simp]: "length (bytes_at m a n) = n"
  by (simp add: bytes_at_def)

lemma bytes_at_memcpy:
  assumes "n \<le> 2 ^ 32"
  shows "bytes_at (memcpy m dst src n) dst n = bytes_at m src n"
  using assms by (auto simp: bytes_at_def memcpy_def unat_of_nat)

lemma memcpy_outside: "n \<le> unat (a - dst) \<Longrightarrow> memcpy m dst src n a = m a"
  by (simp add: memcpy_def)

text \<open>A word copied with the block it lies in.\<close>

lemma load32_memcpy:
  assumes "4 * unat i + 4 \<le> n" and "n \<le> 4294967296"
  shows "load32 (memcpy m dst src n) (dst + 4 * i) = load32 m (src + 4 * i)"
proof -
  have i4: "unat (4 * i) = 4 * unat i"
  proof -
    have "4 * unat i < 4294967296" using assms by linarith
    from uint_scaled [OF this] uint_unat [of i] uint_unat [of "4 * i"] show ?thesis by linarith
  qed
  have "unat (4 * i + j) < n \<and> unat (4 * i + j) = 4 * unat i + unat j" if "unat j < 4" for j
  proof -
    have "unat (4 * i) + unat j < 2 ^ LENGTH(32)" using assms i4 that by simp
    then have "unat (4 * i + j) = unat (4 * i) + unat j" by (rule unat_add_lem [THEN iffD1])
    with i4 that assms show ?thesis by linarith
  qed
  from this [of 0] this [of 1] this [of 2] this [of 3]
  have "unat (4 * i) < n" "unat (4 * i + 1) < n" "unat (4 * i + 2) < n" "unat (4 * i + 3) < n"
    by simp_all
  then show ?thesis by (simp add: load32_def memcpy_def add.assoc)
qed

text \<open>The bytes of a word, as they are sent.\<close>

definition le_bytes :: "u32 \<Rightarrow> u8 list" where
  "le_bytes w = [ucast w, ucast (drop_bit 8 w), ucast (drop_bit 16 w), ucast (drop_bit 24 w)]"

lemma le_bytes_load32: "le_bytes (load32 m a) = [m a, m (a + 1), m (a + 2), m (a + 3)]"
  unfolding le_bytes_def load32_def
  by (intro list.inject [THEN iffD2] conjI refl; rule bit_word_eqI)
    (auto simp: bit_simps dest: bit_imp_le_length)

lemma bytes_at_words: "bytes_at m a 8 = le_bytes (load32 m a) @ le_bytes (load32 m (a + 4))"
proof -
  have "[0..<8] = [0, 1, 2, 3, 4, 5, 6, 7 :: nat]" by (simp add: upt_rec)
  then show ?thesis by (simp add: bytes_at_def le_bytes_load32 ac_simps)
qed

end
