(* ===== verification/Cmd_Handler.thy ===== *)
theory Cmd_Handler
  imports Memory Iic_Ctrl
begin

text \<open>
  The command handler of \<^verbatim>\<open>helper.c\<close>: it decodes a request from the receive buffer, performs the
  register access or I2C transfer it asks for, and leaves the reply in the transmit buffer. The
  handler works on byte-addressed memory; the abstract specification is on request words.
\<close>

section \<open>Constants of helper.h\<close>

definition I2C_PACKET :: u32 where [macro_defs]: "I2C_PACKET = 0x00433249"
definition SPI_PACKET :: u32 where [macro_defs]: "SPI_PACKET = 0x00495053"
definition QPIX_PACKET :: u32 where [macro_defs]: "QPIX_PACKET = 0x58495051"
definition CTRL_PACKET :: u32 where [macro_defs]: "CTRL_PACKET = 0x4C525443"

definition CTRL_SHDN :: u32 where [macro_defs]: "CTRL_SHDN = 0x4C520000"
definition CTRL_MASK :: u32 where [macro_defs]: "CTRL_MASK = 0x4C520001"
definition CTRL_PLEN :: u32 where [macro_defs]: "CTRL_PLEN = 0x4C520010"
definition CTRL_FPGA_ID :: u32 where [macro_defs]: "CTRL_FPGA_ID = 0x4C520011"
definition CTRL_FORCE_VALID :: u32 where [macro_defs]: "CTRL_FORCE_VALID = 0x4C520100"

definition QPIX_NUM_REGS :: u32 where [macro_defs]: "QPIX_NUM_REGS = 10"
definition GOOD_PACKET :: u32 where [macro_defs]: "GOOD_PACKET = 0xc0decafe"
definition BAD_PACKET :: u32 where [macro_defs]: "BAD_PACKET = 0xabadadd5"

definition TREG_QPIX_ADDR :: "env \<Rightarrow> u32" where
  [macro_defs]: "TREG_QPIX_ADDR E = TREG_ADDR E + 0x0004"
definition TREG_CTRL_ADDR :: "env \<Rightarrow> u32" where
  [macro_defs]: "TREG_CTRL_ADDR E = TREG_ADDR E + 0x1000"
definition VCOMP1_ADDR :: "env \<Rightarrow> u32" where
  [macro_defs]: "VCOMP1_ADDR E = TREG_ADDR E + 0x100C"
definition VCOMP2_ADDR :: "env \<Rightarrow> u32" where
  [macro_defs]: "VCOMP2_ADDR E = TREG_ADDR E + 0x1010"

section \<open>The handler\<close>

definition rd :: "'a io_scheme \<Rightarrow> u32 \<Rightarrow> u32 \<Rightarrow> u32" where
  "rd s buf i = load32 (mem s) (buf + 4 * i)"

definition wr :: "u32 \<Rightarrow> u32 \<Rightarrow> u32 \<Rightarrow> 'a io_scheme \<Rightarrow> 'a io_scheme" where
  "wr buf i v s = s\<lparr>mem := store32 (mem s) (buf + 4 * i) v\<rparr>"

text \<open>\<open>IicSend\<close> is the only call that may not return; its result is discarded.\<close>

definition handle_qpix :: "env \<Rightarrow> u32 \<Rightarrow> u32 \<Rightarrow> u32 \<Rightarrow> 'a io_scheme \<Rightarrow> 'a io_scheme" where
  "handle_qpix E RxBuf TxBuf TransferSize s =
     (let s = wr TxBuf 0 QPIX_PACKET s;
          s = wr TxBuf 1 GOOD_PACKET s;
          qpix_reg = rd s RxBuf 1;
          isRead = rd s RxBuf 1 AND push_bit 31 1;
          qpix_reg = qpix_reg - isRead
      in if TransferSize \<noteq> 4 * 3 \<or> qpix_reg > QPIX_NUM_REGS then wr TxBuf 1 BAD_PACKET s
         else let addr = TREG_QPIX_ADDR E + 0x04 * qpix_reg;
                  data = rd s RxBuf 2
           in if isRead \<noteq> 0 then wr TxBuf 1 (ans E (In32 addr) s) (emit E (In32 addr) s)
              else emit E (Out32 addr data) s)"

definition handle_spi :: "env \<Rightarrow> u32 \<Rightarrow> u32 \<Rightarrow> 'a io_scheme \<Rightarrow> 'a io_scheme" where
  "handle_spi E RxBuf TxBuf s =
     (let s = wr TxBuf 0 SPI_PACKET s;
          s = wr TxBuf 1 GOOD_PACKET s;
          is_vcomp1 = rd s RxBuf 1 AND push_bit 31 1 > 0;
          dac_val = (ucast (rd s RxBuf 1 AND 0xffff) :: u16)
      in if is_vcomp1 then emit E (Out32 (VCOMP1_ADDR E) (ucast dac_val)) s
         else emit E (Out32 (VCOMP2_ADDR E) (ucast dac_val)) s)"

text \<open>The three bytes sent over I2C, with C's promotion to \<open>int\<close> and truncation to \<open>u8\<close>.\<close>

definition i2c_addr_of :: "u32 \<Rightarrow> u8" where
  "i2c_addr_of w = ucast (drop_bit 20 (w AND 0xff00000))"

definition i2c_bytes :: "u32 \<Rightarrow> u8 list" where
  "i2c_bytes w =
     (let pointer = (ucast (drop_bit 16 (w AND 0x30000)) :: u8);
          ctrl = (ucast (drop_bit 12 (w AND 0xf000)) :: u8);
          dac_value = (ucast (w AND 0x0fff) :: u16);
          dac1 = (ucast (push_bit 4 (ucast ctrl :: u32)
                   OR drop_bit 8 (ucast dac_value AND 0x0f00)) :: u8);
          dac2 = (ucast (dac_value AND 0xff) :: u8)
      in [pointer, dac1, dac2])"

definition handle_i2c :: "env \<Rightarrow> u32 \<Rightarrow> u32 \<Rightarrow> u32 \<Rightarrow> 'a iic_state_scheme \<Rightarrow> 'a iic_state_scheme option" where
  "handle_i2c E RxBuf TxBuf TransferSize s =
     (let s = wr TxBuf 0 I2C_PACKET s;
          s = wr TxBuf 1 GOOD_PACKET s;
          addr = i2c_addr_of (rd s RxBuf 1);
          SendBuffer1 = i2c_bytes (rd s RxBuf 1)
      in if TransferSize = 4 * 2 \<and> addr = IIC_SLAVE_ADDR_1 then
           (case IicSend E SendBuffer1 3 (ucast IIC_SLAVE_ADDR_1) s of
              None \<Rightarrow> None | Some (_, s) \<Rightarrow> Some s)
         else if TransferSize = 4 * 2 \<and> addr = IIC_SLAVE_ADDR_2 then
           (case IicSend E SendBuffer1 3 (ucast IIC_SLAVE_ADDR_2) s of
              None \<Rightarrow> None | Some (_, s) \<Rightarrow> Some s)
         else Some (wr TxBuf 1 BAD_PACKET s))"

definition handle_ctrl :: "env \<Rightarrow> u32 \<Rightarrow> u32 \<Rightarrow> u32 \<Rightarrow> 'a io_scheme \<Rightarrow> 'a io_scheme" where
  "handle_ctrl E RxBuf TxBuf TransferSize s =
     (let s = wr TxBuf 0 CTRL_PACKET s;
          s = wr TxBuf 1 GOOD_PACKET s;
          ctrl_cmd = rd s RxBuf 1
      in if TransferSize \<noteq> 4 * 3 then wr TxBuf 1 BAD_PACKET s
         else if ctrl_cmd = CTRL_SHDN then emit E (Out32 (TREG_CTRL_ADDR E + 0x00) (rd s RxBuf 2)) s
         else if ctrl_cmd = CTRL_MASK then emit E (Out32 (TREG_CTRL_ADDR E + 0x04) (rd s RxBuf 2)) s
         else if ctrl_cmd = CTRL_PLEN then emit E (Out32 (TREG_CTRL_ADDR E + 0x08) (rd s RxBuf 2)) s
         else if ctrl_cmd = CTRL_FORCE_VALID then
           emit E (Out32 (TREG_CTRL_ADDR E + 0x14) (rd s RxBuf 2)) s
         else if ctrl_cmd = CTRL_FPGA_ID then
           (let c = In32 (TREG_CTRL_ADDR E + 0x18) in wr TxBuf 1 (ans E c s) (emit E c s))
         else wr TxBuf 1 BAD_PACKET s)"

text \<open>\<open>for (u32 Index = 0; Index < TransferSize/4; Index++) TxBuf[Index] = RxBuf[Index];\<close>\<close>

function echo_loop :: "u32 \<Rightarrow> u32 \<Rightarrow> u32 \<Rightarrow> u32 \<Rightarrow> memory \<Rightarrow> memory" where
  "echo_loop TxBuf RxBuf n Index m =
     (if Index < n
      then echo_loop TxBuf RxBuf n (Index + 1)
             (store32 m (TxBuf + 4 * Index) (load32 m (RxBuf + 4 * Index)))
      else m)"
  by pat_completeness auto
termination
  by (relation "measure (\<lambda>(d, b, n, i, m). unat n - unat i)")
    (auto simp: unat_Suc_below word_less_nat_alt)

declare echo_loop.simps [simp del]

text \<open>The result is the size of the reply; \<open>TxBuf\<close> is \<open>*TxLoc\<close>, which the handler never changes.\<close>

definition HandleCmdRequest :: "env \<Rightarrow> u32 \<Rightarrow> u32 \<Rightarrow> u32 \<Rightarrow> 'a iic_state_scheme \<Rightarrow>
    (u32 \<times> 'a iic_state_scheme) option" where
  "HandleCmdRequest E RxBuf TxBuf TransferSize s =
     (let RxCmd = rd s RxBuf 0
      in if RxCmd = QPIX_PACKET then Some (8, handle_qpix E RxBuf TxBuf TransferSize s)
         else if RxCmd = SPI_PACKET then Some (8, handle_spi E RxBuf TxBuf s)
         else if RxCmd = I2C_PACKET then
           (case handle_i2c E RxBuf TxBuf TransferSize s of None \<Rightarrow> None | Some s \<Rightarrow> Some (8, s))
         else if RxCmd = CTRL_PACKET then Some (8, handle_ctrl E RxBuf TxBuf TransferSize s)
         else Some (TransferSize, s\<lparr>mem := echo_loop TxBuf RxBuf (TransferSize div 4) 0 (mem s)\<rparr>))"

interpretation echo: word_copy load32 store32 echo_loop
  by unfold_locales (subst echo_loop.simps, simp)

section \<open>Abstract specification\<close>

text \<open>
  What a request asks for, as a function of its words alone: one register read, one register write,
  one I2C transfer, nothing because it is malformed, or (\<open>None\<close>) to be echoed.
\<close>

datatype request =
    Reg_Read u32
  | Reg_Write u32 u32
  | I2c_Transfer u8 "u8 list"
  | Malformed

definition qpix_request :: "env \<Rightarrow> u32 \<Rightarrow> u32 \<Rightarrow> u32 \<Rightarrow> request" where
  "qpix_request E w1 w2 len =
     (let reg = take_bit 31 w1
      in if len \<noteq> 12 \<or> reg > QPIX_NUM_REGS then Malformed
         else if bit w1 31 then Reg_Read (TREG_QPIX_ADDR E + 4 * reg)
         else Reg_Write (TREG_QPIX_ADDR E + 4 * reg) w2)"

definition spi_request :: "env \<Rightarrow> u32 \<Rightarrow> request" where
  "spi_request E w1 =
     Reg_Write (if bit w1 31 then VCOMP1_ADDR E else VCOMP2_ADDR E) (w1 AND 0xFFFF)"

definition i2c_request :: "u32 \<Rightarrow> u32 \<Rightarrow> request" where
  "i2c_request w1 len =
     (if len = 8 \<and> i2c_addr_of w1 \<in> {IIC_SLAVE_ADDR_1, IIC_SLAVE_ADDR_2}
      then I2c_Transfer (i2c_addr_of w1) (i2c_bytes w1) else Malformed)"

definition ctrl_offset :: "u32 \<Rightarrow> u32 option" where
  "ctrl_offset cmd =
     map_of [(CTRL_SHDN, 0), (CTRL_MASK, 4), (CTRL_PLEN, 8), (CTRL_FORCE_VALID, 0x14)] cmd"

definition ctrl_request :: "env \<Rightarrow> u32 \<Rightarrow> u32 \<Rightarrow> u32 \<Rightarrow> request" where
  "ctrl_request E w1 w2 len =
     (if len \<noteq> 12 then Malformed
      else case ctrl_offset w1 of
          Some d \<Rightarrow> Reg_Write (TREG_CTRL_ADDR E + d) w2
        | None \<Rightarrow> if w1 = CTRL_FPGA_ID then Reg_Read (TREG_CTRL_ADDR E + 0x18) else Malformed)"

definition request_of :: "env \<Rightarrow> u32 \<Rightarrow> u32 \<Rightarrow> u32 \<Rightarrow> u32 \<Rightarrow> request option" where
  "request_of E w0 w1 w2 len =
     (if w0 = QPIX_PACKET then Some (qpix_request E w1 w2 len)
      else if w0 = SPI_PACKET then Some (spi_request E w1)
      else if w0 = I2C_PACKET then Some (i2c_request w1 len)
      else if w0 = CTRL_PACKET then Some (ctrl_request E w1 w2 len)
      else None)"

text \<open>Performing a request yields the second word of the reply.\<close>

primrec perform :: "env \<Rightarrow> request \<Rightarrow> 'a iic_state_scheme \<Rightarrow> (u32 \<times> 'a iic_state_scheme) option" where
  "perform E (Reg_Read a) s = Some (ans E (In32 a) s, emit E (In32 a) s)"
| "perform E (Reg_Write a v) s = Some (GOOD_PACKET, emit E (Out32 a v) s)"
| "perform E (I2c_Transfer a bs) s =
     map_option (\<lambda>(_, s). (GOOD_PACKET, s)) (IicSend E bs 3 (ucast a) s)"
| "perform E Malformed s = Some (BAD_PACKET, s)"

definition serve :: "env \<Rightarrow> u32 \<Rightarrow> u32 \<Rightarrow> u32 \<Rightarrow> 'a iic_state_scheme \<Rightarrow>
    (u32 \<times> 'a iic_state_scheme) option" where
  "serve E RxBuf TxBuf len s =
     (case request_of E (rd s RxBuf 0) (rd s RxBuf 1) (rd s RxBuf 2) len of
        None \<Rightarrow> Some (len, s\<lparr>mem := echo_loop TxBuf RxBuf (len div 4) 0 (mem s)\<rparr>)
      | Some req \<Rightarrow>
          map_option (\<lambda>(reply, s'). (8, wr TxBuf 1 reply (wr TxBuf 0 (rd s RxBuf 0) s')))
            (perform E req s))"

section \<open>Refinement\<close>

lemma rd_wr_reply:
  assumes "apart 12 RxBuf TxBuf" and "i < 3" and "j < 2"
  shows "rd (wr TxBuf j v s) RxBuf i = rd s RxBuf i"
proof -
  have "apart 4 (RxBuf + 4 * i) (TxBuf + 4 * j)"
    using assms by (intro apart_words [of 12]) (auto simp: word_less_nat_alt)
  then show ?thesis by (simp add: rd_def wr_def load32_store32_apart)
qed

lemma wr_wr_same [simp]: "wr a i v (wr a i w s) = wr a i v s"
  by (simp add: wr_def store32_def fun_upd_twist)

lemma emit_wr: "emit E c (wr a i v s) = wr a i v (emit E c s)"
  by (simp add: wr_def emit_mem_update)

lemma ans_wr: "ans E c (wr a i v s) = ans E c s"
  by (simp add: wr_def ans_def)

lemma IicSend_wr:
  "IicSend E msg n a (wr b i v s) = map_option (\<lambda>(r, s). (r, wr b i v s)) (IicSend E msg n a s)"
proof -
  have "mem s' = mem s" if "IicSend E msg n a s = Some (r, s')" for r s'
    using IicSend_progress [OF that] by (simp add: progress_def io_simps)
  then show ?thesis
    by (auto simp: wr_def IicSend_mem split: option.splits)
      (cases "IicSend E msg n a s"; auto)
qed

text \<open>The read flag and the register number of a QPIX request.\<close>

lemmas read_bit = and_push_bit_1_eq_0 [where 'a = 32 and k = 31, simplified]
lemmas clear_read_bit = minus_top_bit [where 'a = 32 and k = 31, simplified]

lemma low_half: "(ucast (ucast (w AND 0xFFFF) :: u16) :: u32) = w AND 0xFFFF" for w :: u32
proof -
  have "w AND 0xFFFF = take_bit 16 w" by (simp add: take_bit_eq_mask mask_eq_exp_minus_1)
  then show ?thesis by (simp only:) (rule bit_word_eqI, auto simp: bit_simps)
qed

lemmas reply_simps = emit_wr ans_wr IicSend_wr rd_wr_reply

text \<open>Each branch of the handler is the corresponding request, performed and answered.\<close>

definition answer :: "u32 \<Rightarrow> u32 \<Rightarrow> (u32 \<times> 'a iic_state_scheme) option \<Rightarrow> 'a iic_state_scheme option" where
  "answer TxBuf w0 = map_option (\<lambda>(reply, s). wr TxBuf 1 reply (wr TxBuf 0 w0 s))"

lemma handle_qpix_answer:
  assumes "apart 12 RxBuf TxBuf"
  shows "Some (handle_qpix E RxBuf TxBuf len s) = answer TxBuf QPIX_PACKET
    (perform E (qpix_request E (rd s RxBuf 1) (rd s RxBuf 2) len) s)"
  using assms
  by (simp add: handle_qpix_def qpix_request_def answer_def Let_def reply_simps clear_read_bit
      read_bit)

lemma handle_spi_answer:
  assumes "apart 12 RxBuf TxBuf"
  shows "Some (handle_spi E RxBuf TxBuf s) = answer TxBuf SPI_PACKET
    (perform E (spi_request E (rd s RxBuf 1)) s)"
  using assms
  by (simp add: handle_spi_def spi_request_def answer_def Let_def reply_simps read_bit low_half
      word_neq_0_conv [symmetric])

lemma handle_i2c_answer:
  assumes "apart 12 RxBuf TxBuf"
  shows "handle_i2c E RxBuf TxBuf len s = answer TxBuf I2C_PACKET
    (perform E (i2c_request (rd s RxBuf 1) len) s)"
  using assms
  by (auto simp: handle_i2c_def i2c_request_def answer_def Let_def reply_simps option.map_comp
      split: option.splits)

lemma handle_ctrl_answer:
  assumes "apart 12 RxBuf TxBuf"
  shows "Some (handle_ctrl E RxBuf TxBuf len s) = answer TxBuf CTRL_PACKET
    (perform E (ctrl_request E (rd s RxBuf 1) (rd s RxBuf 2) len) s)"
  using assms
  by (auto simp: handle_ctrl_def ctrl_request_def ctrl_offset_def answer_def Let_def reply_simps
      macro_defs)

lemma handle_serves:
  assumes "apart 12 RxBuf TxBuf"
  shows "HandleCmdRequest E RxBuf TxBuf len s = serve E RxBuf TxBuf len s"
  using handle_qpix_answer [OF assms, of E len s, symmetric]
    handle_spi_answer [OF assms, of E s, symmetric] handle_i2c_answer [OF assms, of E len s]
    handle_ctrl_answer [OF assms, of E len s, symmetric]
  by (auto simp: HandleCmdRequest_def serve_def request_of_def answer_def Let_def
      split: option.splits)

text \<open>
  C1: The command handler implements its specification: when the buffers do not overlap, the
  request words alone decide which register is accessed or which transfer is started, the access
  happens exactly once, and the two-word reply carries the request's header and the outcome; every
  malformed request is answered with \<open>BAD_PACKET\<close> and touches no register; anything else is echoed.
\<close>

theorem HandleCmdRequest_refines:
  assumes "apart 12 RxBuf TxBuf"
  shows "HandleCmdRequest E RxBuf TxBuf len s = serve E RxBuf TxBuf len s"
  by (rule handle_serves [OF assms])

text \<open>The words of a reply.\<close>

lemma rd_wr_same [simp]: "rd (wr a i v s) a i = v"
  by (simp add: rd_def wr_def load32_store32_same)

lemma rd_reply [simp]:
  "rd (wr a 1 v (wr a 0 w s)) a 0 = w"
  using apart_same_array [of 0 1 a] by (simp add: rd_def wr_def load32_store32_apart load32_store32_same)

lemma tr_wr [simp]: "tr (wr a i v s) = tr s"
  by (simp add: wr_def)

lemma serve_reply:
  assumes "request_of E (rd s RxBuf 0) (rd s RxBuf 1) (rd s RxBuf 2) len = Some req"
    and "perform E req s = Some (reply, s1)"
  shows "\<exists>s'. serve E RxBuf TxBuf len s = Some (8, s') \<and> tr s' = tr s1
    \<and> rd s' TxBuf 0 = rd s RxBuf 0 \<and> rd s' TxBuf 1 = reply"
  using assms by (simp add: serve_def)

section \<open>The echo\<close>

text \<open>
  C32: A request with an unknown header is echoed: the reply has the size of the request, its words
  are those of the receive buffer, and no register and no driver is touched.
\<close>

theorem HandleCmdRequest_echo:
  assumes "rd s RxBuf 0 \<notin> {QPIX_PACKET, SPI_PACKET, I2C_PACKET, CTRL_PACKET}"
    and "apart (unat len) TxBuf RxBuf"
  shows "\<exists>s'. HandleCmdRequest E RxBuf TxBuf len s = Some (len, s') \<and> tr s' = tr s \<and>
    (\<forall>k. k < len div 4 \<longrightarrow> rd s' TxBuf k = rd s RxBuf k)"
proof -
  let ?m = "echo_loop TxBuf RxBuf (len div 4) 0 (mem s)"
  have n: "4 * unat (len div 4) \<le> unat len" by (simp add: unat_div)
  have "load32 ?m (TxBuf + 4 * k) = load32 (mem s) (RxBuf + 4 * k)" if "k < len div 4" for k
    using that n unsigned_less [of len, where ?'a = nat]
    by (intro echo.copy_word [OF assms(2) n]) simp_all
  then show ?thesis
    using assms(1) by (auto simp: HandleCmdRequest_def Let_def rd_def)
qed

section \<open>What a request can reach\<close>

text \<open>The registers of the transaction map that requests may access.\<close>

definition in_register_map :: "env \<Rightarrow> u32 \<Rightarrow> bool" where
  "in_register_map E a \<longleftrightarrow> (\<exists>r\<le>QPIX_NUM_REGS. a = TREG_QPIX_ADDR E + 4 * r)
     \<or> a \<in> {TREG_CTRL_ADDR E, TREG_CTRL_ADDR E + 4, TREG_CTRL_ADDR E + 8,
             TREG_CTRL_ADDR E + 0x14, TREG_CTRL_ADDR E + 0x18, VCOMP1_ADDR E, VCOMP2_ADDR E}"

fun permitted :: "env \<Rightarrow> call \<Rightarrow> bool" where
  "permitted E (In32 a) = in_register_map E a"
| "permitted E (Out32 a v) = in_register_map E a"
| "permitted E (Iic (XIicPs_MasterSend bs n a)) = (n = 3 \<and> length bs = 3 \<and> a \<in> {0x0C, 0x0D})"
| "permitted E Vaccess = True"
| "permitted E _ = False"

text \<open>At most one permitted call besides volatile accesses.\<close>

definition reaches :: "env \<Rightarrow> 'a io_scheme \<Rightarrow> 'a io_scheme \<Rightarrow> bool" where
  "reaches E s s' \<longleftrightarrow> prefix (tr s) (tr s') \<and> list_all (permitted E) (calls_since s s')
     \<and> length (filter (\<lambda>c. c \<noteq> Vaccess) (calls_since s s')) \<le> 1"

lemma reaches_same: "tr s' = tr s \<Longrightarrow> reaches E s s'"
  by (simp add: reaches_def calls_since_def)

lemma tr_handlers:
  "tr (handle_qpix E rx tx len s) = tr s \<or>
     (\<exists>r c x. r \<le> QPIX_NUM_REGS \<and> (c = In32 (TREG_QPIX_ADDR E + 4 * r) \<or>
        (\<exists>v. c = Out32 (TREG_QPIX_ADDR E + 4 * r) v)) \<and>
        tr (handle_qpix E rx tx len s) = tr s @ [(c, x)])"
  "\<exists>v x. tr (handle_spi E rx tx s) = tr s @ [(Out32 (VCOMP1_ADDR E) v, x)] \<or>
     tr (handle_spi E rx tx s) = tr s @ [(Out32 (VCOMP2_ADDR E) v, x)]"
  by (auto simp: handle_qpix_def handle_spi_def Let_def not_less)

lemma reaches_qpix: "reaches E s (handle_qpix E rx tx len s)"
  using tr_handlers(1) [of E rx tx len s]
  by (auto simp: in_register_map_def reaches_def calls_since_def)

lemma reaches_spi: "reaches E s (handle_spi E rx tx s)"
  using tr_handlers(2) [of E rx tx s]
  by (auto simp: in_register_map_def reaches_def calls_since_def)

lemma reaches_ctrl: "reaches E s (handle_ctrl E rx tx len s)"
  by (auto simp: handle_ctrl_def Let_def in_register_map_def reaches_def calls_since_def)

lemma reaches_IicSend:
  assumes "IicSend E bs 3 a s1 = Some (r, s')" and "tr s1 = tr s" and "length bs = 3"
    and "a \<in> {0x0C, 0x0D}"
  shows "reaches E s s'"
proof -
  let ?c = "Iic (XIicPs_MasterSend bs 3 a)" and ?s0 = "(irq_point E s1)\<lparr>TotalErrorCount := 0\<rparr>"
  have p: "progress E [?c] ?s0 s'" using IicSend_progress [OF assms(1)] by blast
  have pre: "prefix (tr s1) (tr ?s0)" by (simp add: io_simps)
  have c: "calls_since s s' = calls_since s1 ?s0 @ calls_since ?s0 s'"
    using calls_since_trans [OF pre, of s'] p assms(2) by (simp add: progress_def calls_since_def)
  have v: "calls_since s1 ?s0 = [Vaccess]" by (simp add: calls_since_def io_simps)
  have "permitted E x" if "x \<in> set (calls_since ?s0 s')" for x
  proof (cases "x = Vaccess")
    case False
    with that have "x \<in> set (filter (\<lambda>c. c \<noteq> Vaccess) (calls_since ?s0 s'))" by simp
    with p assms(3,4) show ?thesis by (simp add: progress_def)
  qed simp
  then show ?thesis
    using p pre assms(2) unfolding reaches_def c v
    by (auto simp: progress_def list_all_iff intro: prefix_order.trans)
qed

lemma handle_confined:
  assumes "HandleCmdRequest E RxBuf TxBuf len s = Some (n, s')"
  shows "reaches E s s'"
proof -
  have i2c: "reaches E s s'" if "handle_i2c E RxBuf TxBuf len s = Some s'" for s'
    using that
    by (auto simp: handle_i2c_def Let_def i2c_bytes_def macro_defs
        split: if_splits option.splits intro: reaches_IicSend reaches_same)
  show ?thesis
    using assms i2c reaches_qpix reaches_spi reaches_ctrl
    by (auto simp: HandleCmdRequest_def Let_def split: if_splits option.splits
        intro: reaches_same)
qed

text \<open>
  C12: Whatever bytes a client sends, and however long the packet claims to be, one request makes at
  most one access, and only to the QPIX, control and comparator registers of the transaction map
  or to the two DACs on the I2C bus: no request reaches any other address.
\<close>

theorem HandleCmdRequest_confined:
  assumes "HandleCmdRequest E RxBuf TxBuf len s = Some (n, s')"
  shows "reaches E s s'"
  by (rule handle_confined [OF assms])

section \<open>End to end\<close>

text \<open>The two words of the reply, once the request is performed.\<close>

lemma HandleCmdRequest_reply:
  assumes "apart 12 RxBuf TxBuf"
    and "request_of E (rd s RxBuf 0) (rd s RxBuf 1) (rd s RxBuf 2) len = Some req"
    and "perform E req s = Some (reply, s1)"
  shows "\<exists>s'. HandleCmdRequest E RxBuf TxBuf len s = Some (8, s') \<and> tr s' = tr s1
    \<and> rd s' TxBuf 0 = rd s RxBuf 0 \<and> rd s' TxBuf 1 = reply"
  unfolding handle_serves [OF assms(1)] by (rule serve_reply [OF assms(2,3)])


text \<open>
  C36: A valid I2C request is answered with \<open>GOOD_PACKET\<close> whatever \<open>IicSend\<close> reported: a client cannot
  tell a failed transfer from a successful one.
\<close>

theorem i2c_reply_ignores_result:
  assumes "apart 12 RxBuf TxBuf" and "rd s RxBuf 0 = I2C_PACKET"
    and "i2c_addr_of (rd s RxBuf 1) \<in> {IIC_SLAVE_ADDR_1, IIC_SLAVE_ADDR_2}"
    and "IicSend E (i2c_bytes (rd s RxBuf 1)) 3 (ucast (i2c_addr_of (rd s RxBuf 1))) s = Some (r, s1)"
  shows "\<exists>s'. HandleCmdRequest E RxBuf TxBuf 8 s = Some (8, s') \<and> rd s' TxBuf 1 = GOOD_PACKET"
proof -
  let ?w = "rd s RxBuf 1"
  have "request_of E (rd s RxBuf 0) ?w (rd s RxBuf 2) 8 = Some (I2c_Transfer (i2c_addr_of ?w) (i2c_bytes ?w))"
    using assms(2,3) by (auto simp: request_of_def i2c_request_def macro_defs)
  from HandleCmdRequest_reply [OF assms(1) this, of GOOD_PACKET s1] assms(4)
  show ?thesis by auto
qed

text \<open>
  The word a client builds: address, pointer bits, control bits and DAC value in the fields the
  comments of \<open>HandleCmdRequest\<close> name.
\<close>

definition i2c_word :: "8 word \<Rightarrow> 2 word \<Rightarrow> 4 word \<Rightarrow> 12 word \<Rightarrow> u32" where
  "i2c_word addr pointer ctrl dac =
     push_bit 20 (ucast addr) OR push_bit 16 (ucast pointer) OR push_bit 12 (ucast ctrl) OR ucast dac"

lemma field_masks:
  "(0xff00000 :: u32) = push_bit 20 (mask 8)" "(0x30000 :: u32) = push_bit 16 (mask 2)"
  "(0xf000 :: u32) = push_bit 12 (mask 4)" "(0x0fff :: u32) = mask 12"
  "(0x0f00 :: u32) = push_bit 8 (mask 4)" "(0xff :: u16) = mask 8"
  by (simp_all add: mask_eq_exp_minus_1)

text \<open>
  C31: No field of an I2C request is lost or mixed up: the bytes on the bus are the pointer, the
  control bits above the upper four DAC bits, and the lower eight DAC bits, and the slave address is
  the one in the request.
\<close>

theorem i2c_fields:
  "i2c_addr_of (i2c_word addr pointer ctrl dac) = addr \<and>
   i2c_bytes (i2c_word addr pointer ctrl dac) =
     [ucast pointer, push_bit 4 (ucast ctrl) OR ucast (drop_bit 8 dac), ucast dac]"
proof
  show "i2c_addr_of (i2c_word addr pointer ctrl dac) = addr"
    unfolding i2c_addr_of_def i2c_word_def field_masks
    by (rule bit_word_eqI) (auto simp: bit_simps dest: bit_imp_le_length)
  show "i2c_bytes (i2c_word addr pointer ctrl dac) =
      [ucast pointer, push_bit 4 (ucast ctrl) OR ucast (drop_bit 8 dac), ucast dac]"
    unfolding i2c_bytes_def i2c_word_def field_masks Let_def list.inject
    by (intro conjI refl bit_word_eqI; auto simp: bit_simps dest: bit_imp_le_length)
qed

section \<open>Examples\<close>

text \<open>
  The board with registers that keep what is written to them and an I2C bus that completes every
  transfer, and a request in the receive buffer.
\<close>

definition board_env :: "u32 list \<Rightarrow> env" where
  "board_env evs = zynq_env (\<lambda>t c. case c of In32 a \<Rightarrow> last_out a 0 t | _ \<Rightarrow> 0) (\<lambda>_. evs) (\<lambda>_. 0)"

definition put_request :: "u32 \<Rightarrow> u32 \<Rightarrow> u32 \<Rightarrow> memory" where
  "put_request w0 w1 w2 =
     store32 (store32 (store32 (\<lambda>_. 0) 0x0E000000 w0) 0x0E000004 w1) 0x0E000008 w2"

definition with_request :: "u32 \<Rightarrow> u32 \<Rightarrow> u32 \<Rightarrow> iic_state" where
  "with_request w0 w1 w2 = iic_start\<lparr>mem := put_request w0 w1 w2\<rparr>"

lemma load_request:
  "load32 (put_request w0 w1 w2) 0x0E000000 = w0" "load32 (put_request w0 w1 w2) 0x0E000004 = w1"
  "load32 (put_request w0 w1 w2) 0x0E000008 = w2"
  by (simp_all add: put_request_def load32_store32_apart load32_store32_same apart_def)

lemma rd_request [simp]:
  "rd (s\<lparr>mem := put_request w0 w1 w2\<rparr>) 0x0E000000 0 = w0"
  "rd (s\<lparr>mem := put_request w0 w1 w2\<rparr>) 0x0E000000 1 = w1"
  "rd (s\<lparr>mem := put_request w0 w1 w2\<rparr>) 0x0E000000 2 = w2"
  by (simp_all add: rd_def load_request)

lemma buffers_apart: "n \<le> 0x1000000 \<Longrightarrow> apart n 0x0E000000 0x0F000000"
  "n \<le> 0x1000000 \<Longrightarrow> apart n 0x0F000000 0x0E000000"
  by (simp_all add: apart_def)

lemma board_stores: "stores (board_env evs) a 0"
  by (simp add: stores_def board_env_def zynq_env_def)

theorem HandleCmdRequest_refines_witness:
  "HandleCmdRequest (board_env [1]) 0x0E000000 0x0F000000 12 (with_request QPIX_PACKET 3 7) =
     serve (board_env [1]) 0x0E000000 0x0F000000 12 (with_request QPIX_PACKET 3 7)"
  by (rule HandleCmdRequest_refines) (simp add: buffers_apart)

theorem HandleCmdRequest_echo_witness:
  "\<exists>s'. HandleCmdRequest (board_env []) 0x0E000000 0x0F000000 12 (with_request 1 2 3) = Some (12, s') \<and>
     rd s' 0x0F000000 2 = 3"
  using HandleCmdRequest_echo [where s = "with_request 1 2 3" and RxBuf = "0x0E000000"
      and TxBuf = "0x0F000000" and len = 12 and E = "board_env []"]
  by (auto simp: with_request_def macro_defs buffers_apart dest: spec [of _ 2])

lemma spi_request_served:
  "\<exists>s'. HandleCmdRequest (board_env []) 0x0E000000 0x0F000000 8 (with_request SPI_PACKET 5 0) = Some (8, s')"
  by (simp add: HandleCmdRequest_def with_request_def macro_defs)

theorem HandleCmdRequest_confined_witness:
  "\<exists>s'. HandleCmdRequest (board_env []) 0x0E000000 0x0F000000 8 (with_request SPI_PACKET 5 0) =
     Some (8, s') \<and> reaches (board_env []) (with_request SPI_PACKET 5 0) s'"
  using spi_request_served HandleCmdRequest_confined by blast


lemma failed_send:
  "\<exists>s'. IicSend (board_env [8]) bs 3 a (iic_start\<lparr>mem := m\<rparr>) = Some (1, s')"
  by (simp add: IicSend_def clear_send_def Let_def send_wait.simps irq_point_def board_env_def
      zynq_env_def Handler_def emit_def iic_start_def)

theorem i2c_reply_ignores_result_witness:
  "\<exists>s1 s'. IicSend (board_env [8]) (i2c_bytes 0x00C30123) 3 0x0C (with_request I2C_PACKET 0x00C30123 0) =
       Some (XST_FAILURE (board_env [8]), s1) \<and>
     HandleCmdRequest (board_env [8]) 0x0E000000 0x0F000000 8 (with_request I2C_PACKET 0x00C30123 0) =
       Some (8, s') \<and> rd s' 0x0F000000 1 = GOOD_PACKET"
proof -
  have addr: "i2c_addr_of 0x00C30123 = 0x0C" by (simp add: i2c_addr_of_def)
  obtain s1 where s1: "IicSend (board_env [8]) (i2c_bytes 0x00C30123) 3 0x0C
      (with_request I2C_PACKET 0x00C30123 0) = Some (1, s1)"
    using failed_send [of "i2c_bytes 0x00C30123" "0x0C" "put_request I2C_PACKET 0x00C30123 0"]
    unfolding with_request_def by blast
  with i2c_reply_ignores_result [where RxBuf = "0x0E000000" and TxBuf = "0x0F000000"
      and s = "with_request I2C_PACKET 0x00C30123 0" and E = "board_env [8]" and r = 1 and ?s1.0 = s1]
  show ?thesis
    by (auto simp: addr buffers_apart with_request_def macro_defs board_env_def zynq_env_def)
qed

end
