(* ===== verification/Udp_Server.thy ===== *)
theory Udp_Server
  imports Memory Platform_Timer Loops
begin

text \<open>
  The UDP side of \<^verbatim>\<open>udp_server.c\<close>: the socket that streams detector data, with its bounded retry,
  and the echo that tells the firmware where to stream to. lwIP (\<^verbatim>\<open>pbuf\<close>s and \<^verbatim>\<open>udp_\<close> functions) is
  outside the repository: each of its calls is an event, and \<open>payload_of\<close> gives the address of an
  allocated buffer's payload.
\<close>

section \<open>State and operations\<close>

record udp_state = timer_state +
  pcb :: u32                          \<comment> \<open>0 is NULL\<close>
  remote :: "u32 \<Rightarrow> u32 \<times> u16"          \<comment> \<open>\<^verbatim>\<open>remote_ip\<close> and \<^verbatim>\<open>remote_port\<close> of each PCB\<close>

definition UDP_CONN_PORT :: u32 where [macro_defs]: "UDP_CONN_PORT = 8"
definition MAX_SEND_RETRY :: u8 where [macro_defs]: "MAX_SEND_RETRY = 10"

definition send_call :: "env \<Rightarrow> u32 \<Rightarrow> u16 \<Rightarrow> 'a udp_state_scheme \<Rightarrow> call" where
  "send_call E packet n s = Udp (Udp_send (pcb s) (bytes_at (mem s) (payload_of E packet) (unat n)))"

text \<open>
  \<open>while (retries) { err = udp_send(pcb, packet); ... }\<close>, by the value of \<open>retries\<close>: the bytes sent
  are the payload at that moment. The result says whether an attempt succeeded, which the C code
  does not look at.
\<close>

primrec send_loop :: "env \<Rightarrow> u32 \<Rightarrow> u16 \<Rightarrow> nat \<Rightarrow> 'a udp_state_scheme \<Rightarrow> bool \<times> 'a udp_state_scheme" where
  "send_loop E packet n 0 s = (False, s)"
| "send_loop E packet n (Suc retries) s =
     (let c = send_call E packet n s; err = ans E c s; s = emit E c s
      in if err \<noteq> ERR_OK E then send_loop E packet n retries (emit E (Udp (Usleep 100)) s)
         else (True, s))"

definition udp_packet_send :: "env \<Rightarrow> u32 \<Rightarrow> u16 \<Rightarrow> 'a udp_state_scheme \<Rightarrow> 'a udp_state_scheme" where
  "udp_packet_send E txData size_t s =
     (let c = Udp (Pbuf_alloc size_t); packet = ans E c s; s = emit E c s
      in if packet = 0 then s else
      let s = s\<lparr>mem := memcpy (mem s) (payload_of E packet) txData (unat size_t)\<rparr>;
          (_, s) = send_loop E packet size_t (unat MAX_SEND_RETRY) s
      in emit E (Udp (Pbuf_free packet)) s)"

text \<open>The callback of the socket: \<open>addr\<close> is the address \<^verbatim>\<open>*addr\<close>, \<open>upcb\<close> the socket it arrived on.\<close>

definition udp_echo_recv :: "env \<Rightarrow> u32 \<Rightarrow> u32 \<Rightarrow> u32 \<Rightarrow> u16 \<Rightarrow> 'a udp_state_scheme \<Rightarrow> 'a udp_state_scheme" where
  "udp_echo_recv E upcb p addr port s =
     (if p \<noteq> 0 then
        let s = emit E (Udp (Udp_sendto upcb p addr port)) s;
            s = s\<lparr>remote := (remote s)(upcb := (addr, port))\<rparr>
        in emit E (Udp (Pbuf_free p)) s
      else s)"

definition udp_start_application :: "env \<Rightarrow> 'a udp_state_scheme \<Rightarrow> 'a udp_state_scheme" where
  "udp_start_application E s =
     (let c = Udp Udp_new; new = ans E c s; s = (emit E c s)\<lparr>pcb := new\<rparr>
      in if pcb s = 0 then s else
      let c = Udp (Udp_bind (pcb s) UDP_CONN_PORT); err = ans E c s; s = emit E c s
      in if err \<noteq> ERR_OK E then emit E (Udp (Udp_remove (pcb s))) s
         else emit E (Udp (Udp_recv (pcb s))) s)"

lemma emit_udp [io_simps]:
  "pcb (emit E c s) = pcb s" "remote (emit E c s) = remote s"
  "udp_state.more (emit E c s) = udp_state.more s"
  by (simp_all add: emit_def)

section \<open>The retry loop\<close>

definition failed_attempt :: "env \<Rightarrow> u32 \<Rightarrow> u16 \<Rightarrow> 'a udp_state_scheme \<Rightarrow> 'a udp_state_scheme" where
  "failed_attempt E packet n s = emit E (Udp (Usleep 100)) (emit E (send_call E packet n s) s)"

interpretation udp_retry: bounded_wait "send_loop E packet n"
    "\<lambda>s. ans E (send_call E packet n s) s = ERR_OK E"
    "\<lambda>s. emit E (send_call E packet n s) s" "failed_attempt E packet n" for E packet n
  by unfold_locales (simp_all add: Let_def failed_attempt_def)

lemma emit_iff [simp]: "send_call E packet n (emit E c s) = send_call E packet n s"
  by (simp add: send_call_def io_simps)

lemma failed_attempts:
  "send_call E packet n ((failed_attempt E packet n ^^ k) s) = send_call E packet n s
   \<and> prefix (tr s) (tr ((failed_attempt E packet n ^^ k) s))
   \<and> calls_since s ((failed_attempt E packet n ^^ k) s) =
       concat (replicate k [send_call E packet n s, Udp (Usleep 100)])
   \<and> mem ((failed_attempt E packet n ^^ k) s) = mem s
   \<and> pcb ((failed_attempt E packet n ^^ k) s) = pcb s
   \<and> udp_state.more ((failed_attempt E packet n ^^ k) s) = udp_state.more s"
proof (induction k)
  case 0
  show ?case by simp
next
  case (Suc k)
  have snoc: "concat (replicate k [c, d]) @ [c, d] = [c, d] @ concat (replicate k [c, d])" for c d :: call
    by (induction k) auto
  let ?t = "(failed_attempt E packet n ^^ k) s"
  have "prefix (tr s) (tr (emit E (send_call E packet n s) ?t))"
    using Suc by (auto intro: prefix_append_right)
  with Suc snoc show ?case
    by (auto simp: failed_attempt_def io_simps intro: prefix_append_right)
qed

text \<open>
  The calls of the loop from a budget of \<open>r\<close>: some failed attempts, each followed by a pause, then
  a successful one unless the budget is exhausted.
\<close>

definition retry_calls :: "nat \<Rightarrow> call \<Rightarrow> nat \<Rightarrow> call list" where
  "retry_calls r c k = concat (replicate k [c, Udp (Usleep 100)]) @ (if k < r then [c] else [])"

lemma send_loop_calls:
  assumes "send_loop E packet n r s = (ok, s')"
  shows "\<exists>k\<le>r. ok = (k < r) \<and> prefix (tr s) (tr s') \<and> mem s' = mem s \<and> pcb s' = pcb s
    \<and> udp_state.more s' = udp_state.more s
    \<and> calls_since s s' = retry_calls r (send_call E packet n s) k"
proof (cases ok)
  case True
  with assms have "fst (send_loop E packet n r s)" by simp
  from udp_retry.loop_hit [OF this] obtain k where "k < r"
      "s' = emit E (send_call E packet n ((failed_attempt E packet n ^^ k) s))
         ((failed_attempt E packet n ^^ k) s)"
    using assms by auto
  with True failed_attempts [of E packet n k s] show ?thesis
    by (intro exI [of _ k]) (auto simp: io_simps retry_calls_def intro: prefix_append_right)
next
  case False
  with assms udp_retry.loop_fails [of E packet n r s]
  have "s' = (failed_attempt E packet n ^^ r) s" by simp
  with False failed_attempts [of E packet n r s] show ?thesis
    by (intro exI [of _ r]) (auto simp: retry_calls_def)
qed

section \<open>Sending a packet\<close>

lemma udp_packet_send_cases:
  fixes E s n
  defines "packet \<equiv> ans E (Udp (Pbuf_alloc n)) s"
  shows "prefix (tr s) (tr (udp_packet_send E txData n s))
    \<and> pcb (udp_packet_send E txData n s) = pcb s
    \<and> udp_state.more (udp_packet_send E txData n s) = udp_state.more s
    \<and> (if packet = 0 then calls_since s (udp_packet_send E txData n s) = [Udp (Pbuf_alloc n)]
       else \<exists>k\<le>10. calls_since s (udp_packet_send E txData n s) =
         [Udp (Pbuf_alloc n)]
         @ retry_calls 10 (Udp (Udp_send (pcb s) (bytes_at (mem s) txData (unat n)))) k
         @ [Udp (Pbuf_free packet)])"
proof -
  let ?s1 = "emit E (Udp (Pbuf_alloc n)) s"
  let ?s2 = "?s1\<lparr>mem := memcpy (mem ?s1) (payload_of E packet) txData (unat n)\<rparr>"
  obtain ok s3 where l: "send_loop E packet n (unat MAX_SEND_RETRY) ?s2 = (ok, s3)" by fastforce
  have len: "unat n \<le> 2 ^ 32" using unsigned_less [of n, where ?'a = nat] by simp
  have c: "send_call E packet n ?s2 = Udp (Udp_send (pcb s) (bytes_at (mem s) txData (unat n)))"
    by (simp add: send_call_def io_simps bytes_at_memcpy [OF len])
  from send_loop_calls [OF l] obtain k where k: "k \<le> 10" "prefix (tr ?s2) (tr s3)" "pcb s3 = pcb s"
      "udp_state.more s3 = udp_state.more s"
      "calls_since ?s2 s3 = retry_calls 10 (send_call E packet n ?s2) k"
    by (auto simp: MAX_SEND_RETRY_def io_simps)
  have p: "prefix (tr s) (tr ?s2)" by simp
  have "calls_since s (emit E (Udp (Pbuf_free packet)) s3) =
      calls_since s ?s2 @ calls_since ?s2 s3 @ [Udp (Pbuf_free packet)]"
    using p k(2) calls_since_trans [OF p k(2)] by (simp add: prefix_order.trans [OF p k(2)])
  moreover have "calls_since s ?s2 = [Udp (Pbuf_alloc n)]" by (simp add: calls_since_def)
  ultimately show ?thesis
    using k c l prefix_order.trans [OF p k(2)]
    by (auto simp: udp_packet_send_def packet_def Let_def io_simps intro: prefix_append_right)
qed


section \<open>Starting the server\<close>

text \<open>
  C39: \<open>udp_start_application\<close> installs the receive callback exactly when the socket could be created
  and bound; when binding fails it removes the PCB but leaves the global pointer to it, so that the
  next packet is sent through a PCB that has been given back to lwIP.
\<close>

theorem udp_start_application_outcome:
  fixes E s
  defines "new \<equiv> ans E (Udp Udp_new) s"
    and "err \<equiv> ans E (Udp (Udp_bind (ans E (Udp Udp_new) s) 8)) (emit E (Udp Udp_new) s)"
    and "s' \<equiv> udp_start_application E s"
  shows "pcb s' = new \<and> calls_since s s' =
    (if new = 0 then [Udp Udp_new]
     else if err = ERR_OK E then [Udp Udp_new, Udp (Udp_bind new 8), Udp (Udp_recv new)]
     else [Udp Udp_new, Udp (Udp_bind new 8), Udp (Udp_remove new)])"
proof -
  have "ans E c ((emit E d s)\<lparr>pcb := p\<rparr>) = ans E c (emit E d s)" for c d p by (simp add: ans_def)
  then show ?thesis
    by (auto simp: s'_def new_def err_def udp_start_application_def Let_def io_simps calls_since_def
        UDP_CONN_PORT_def)
qed

end
