(* ===== verification/Eth_Control.thy ===== *)
theory Eth_Control
  imports Cmd_Handler Udp_Server
begin

text \<open>
  The network side of \<^verbatim>\<open>ethControl.c\<close>: bringing up the interface (with DHCP and its fallback
  address), the TCP server, and the receive callback that hands requests to the command handler
  and sends its replies.
\<close>

section \<open>State and data\<close>

record eth_state = udp_state +
  tcp_connection :: int

text \<open>A packet buffer as lwIP passes it: its address (0 is NULL), and the fields the code reads.\<close>

record pbuf =
  p_addr :: u32
  payload :: u32
  len :: u16
  tot_len :: u16

definition TCP_PORT :: u32 where [macro_defs]: "TCP_PORT = 7"
definition RX_ETH_BUFFER_BASE :: u32 where [macro_defs]: "RX_ETH_BUFFER_BASE = 0x0E000000"
definition TX_ETH_BUFFER_BASE :: u32 where [macro_defs]: "TX_ETH_BUFFER_BASE = 0x0F000000"

text \<open>\<^verbatim>\<open>IP4_ADDR\<close> on the little-endian target: the first byte of the address is the lowest.\<close>

definition IP4_ADDR :: "u8 \<Rightarrow> u8 \<Rightarrow> u8 \<Rightarrow> u8 \<Rightarrow> u32" where
  "IP4_ADDR a b c d =
     ucast a OR push_bit 8 (ucast b) OR push_bit 16 (ucast c) OR push_bit 24 (ucast d)"

section \<open>The TCP server\<close>

definition start_application :: "env \<Rightarrow> 'a io_scheme \<Rightarrow> int \<times> 'a io_scheme" where
  "start_application E s =
     (let c = Tcp Tcp_new_ip_type; tpcb = ans E c s; s = emit E c s
      in if tpcb = 0 then (-1, s) else
      let c = Tcp (Tcp_bind tpcb TCP_PORT); err = ans E c s; s = emit E c s
      in if err \<noteq> ERR_OK E then (-2, s) else
      let s = emit E (Tcp (Tcp_arg tpcb 0)) s;
          c = Tcp (Tcp_listen tpcb); tpcb = ans E c s; s = emit E c s
      in if tpcb = 0 then (-3, s) else
      let s = emit E (Tcp (Tcp_accept tpcb)) s
      in (0, s))"

definition accept_callback :: "env \<Rightarrow> u32 \<Rightarrow> 'a eth_state_scheme \<Rightarrow> u32 \<times> 'a eth_state_scheme" where
  "accept_callback E newpcb s =
     (let s = emit E (Tcp (Tcp_recv newpcb True)) s;
          s = s\<lparr>tcp_connection := tcp_connection s + 1\<rparr>;
          s = emit E (Tcp (Tcp_arg newpcb (word_of_int (tcp_connection s)))) s
      in (ERR_OK E, s))"

text \<open>The size of a request, rounded up to whole words; \<open>rxp\<close> and \<open>txp\<close> are the buffer pointers.\<close>

definition recv_size_of :: "u16 \<Rightarrow> u32" where
  "recv_size_of n =
     (let recv_size = (ucast n :: u32)
      in if recv_size mod 4 \<noteq> 0 then recv_size + (4 - recv_size mod 4) else recv_size)"

definition recv_callback :: "env \<Rightarrow> u32 \<Rightarrow> u32 \<Rightarrow> u32 \<Rightarrow> pbuf \<Rightarrow> 'a eth_state_scheme \<Rightarrow>
    (u32 \<times> 'a eth_state_scheme) option" where
  "recv_callback E rxp txp tpcb p s =
     (if p_addr p = 0 then
        let s = emit E (Tcp (Tcp_close tpcb)) s;
            s = emit E (Tcp (Tcp_recv tpcb False)) s
        in Some (ERR_OK E, s)
      else
        let s = emit E (Tcp (Tcp_recved tpcb (len p))) s;
            c = Tcp (Tcp_sndbuf tpcb); sndbuf = ans E c s; s = emit E c s
        in if sndbuf > ucast (len p) then
             let recv_size = recv_size_of (tot_len p);
                 s = s\<lparr>mem := memcpy (mem s) rxp (payload p) (unat recv_size)\<rparr>;
                 s = emit E (Cpu (Xil_DCacheFlushRange rxp recv_size)) s
             in case HandleCmdRequest E rxp txp recv_size s of
                  None \<Rightarrow> None
                | Some (n, s) \<Rightarrow>
                    let s = emit E (Cpu (Xil_DCacheFlushRange txp n)) s;
                        s = emit E (Tcp (Tcp_write tpcb (bytes_at (mem s) txp (unat n)))) s
                    in Some (ERR_OK E, emit E (Udp (Pbuf_free (p_addr p))) s)
           else Some (ERR_OK E, emit E (Udp (Pbuf_free (p_addr p))) s))"

definition transfer_data :: "'a io_scheme \<Rightarrow> int \<times> 'a io_scheme" where
  "transfer_data s = (0, s)"

section \<open>Bringing up the interface\<close>

text \<open>
  \<open>while (((echo_netif->ip_addr.addr) == 0) && (dhcp_timoutcntr > 0)) xemacif_input(echo_netif);\<close>
  The address is read from lwIP's structure; the counter is volatile and runs down in the timer
  interrupt.
\<close>

partial_function (option) dhcp_wait :: "env \<Rightarrow> 'a timer_state_scheme \<Rightarrow> 'a timer_state_scheme option" where
  "dhcp_wait E s =
     (let c = Netif Netif_ip_addr; addr = ans E c s; s = emit E c s
      in if addr \<noteq> 0 then Some s else
      let s = timer_point E s
      in if dhcp_timoutcntr s > 0 then dhcp_wait E (emit E (Netif Xemacif_input) s) else Some s)"

definition mac_of :: "u8 list \<Rightarrow> u8 list" where
  "mac_of a = 0 # map (\<lambda>i. a ! i) [1..<6]"

text \<open>The DHCP part, when lwIP is built with it: the fallback is 192.168.1.10/24 via 192.168.1.1.\<close>

definition dhcp_address :: "env \<Rightarrow> 'a timer_state_scheme \<Rightarrow> 'a timer_state_scheme option" where
  "dhcp_address E s =
     (let s = emit E (Netif Dhcp_start) s;
          s = (timer_point E s)\<lparr>dhcp_timoutcntr := 240\<rparr>
      in case dhcp_wait E s of None \<Rightarrow> None | Some s \<Rightarrow>
      let s = timer_point E s
      in if dhcp_timoutcntr s \<le> 0 then
           let c = Netif Netif_ip_addr; addr = ans E c s; s = emit E c s
           in if addr = 0
              then Some (emit E (Netif (Netif_assign (IP4_ADDR 192 168 1 10) (IP4_ADDR 255 255 255 0)
                     (IP4_ADDR 192 168 1 1))) s)
              else Some s
         else Some s)"

definition SetupEthernet :: "env \<Rightarrow> u8 list \<Rightarrow> 'a eth_state_scheme \<Rightarrow> (int \<times> 'a eth_state_scheme) option" where
  "SetupEthernet E a s =
     (let mac_ethernet_address = mac_of a;
          s = init_platform E s;
          (ip, netmask, gw) = (if LWIP_DHCP E then (0, 0, 0)
            else (IP4_ADDR 192 168 1 10, IP4_ADDR 255 255 255 0, IP4_ADDR 192 168 1 1));
          s = emit E (Netif Lwip_init) s;
          c = Netif (Xemac_add ip netmask gw mac_ethernet_address); added = ans E c s; s = emit E c s
      in if added = 0 then Some (-1, s) else
      let s = emit E (Netif Netif_set_default) s;
          s = (if \<not> SDT E then emit E (Cpu Platform_enable_interrupts) s else s);
          s = emit E (Netif Netif_set_up) s
      in case (if LWIP_DHCP E then dhcp_address E s else Some s) of None \<Rightarrow> None | Some s \<Rightarrow>
      let s = (if LWIP_DHCP E then emit E (Netif Netif_netmask) (emit E (Netif Netif_gw)
                 (emit E (Netif Netif_ip_addr) s)) else s);
          (_, s) = start_application E s;
          s = udp_start_application E s
      in Some (0, s))"

section \<open>Request sizes\<close>

lemma unat_ucast_u16: "unat (ucast n :: u32) = unat n" for n :: u16
  using unsigned_less [of n, where ?'a = nat]
  by (simp add: unsigned_ucast_eq take_bit_nat_eq_self_iff)

lemma unat_recv_size: "unat (recv_size_of n) = 4 * ((unat n + 3) div 4)"
proof -
  have n: "unat n < 65536" using unsigned_less [of n, where ?'a = nat] by simp
  note u = unat_ucast_u16 [of n]
  let ?w = "ucast n :: u32" and ?r = "unat n mod 4"
  have m: "unat (?w mod 4) = ?r" by (simp add: unat_mod u)
  show ?thesis
  proof (cases "?r = 0")
    case True
    then have "?w mod 4 = 0" using m by (simp add: unat_eq_zero [symmetric])
    then have "recv_size_of n = ?w" by (simp add: recv_size_of_def Let_def)
    moreover have "unat n = 4 * ((unat n + 3) div 4)" using True by presburger
    ultimately show ?thesis using u by simp
  next
    case False
    have "?w mod 4 \<noteq> 0"
    proof
      assume "?w mod 4 = 0"
      then have "unat (?w mod 4) = 0" by (simp only: unat_0)
      with m False show False by simp
    qed
    then have r: "recv_size_of n = ?w + (4 - ?w mod 4)" by (simp add: recv_size_of_def Let_def)
    have "?w mod 4 \<le> 4" using m by (simp add: word_le_nat_alt)
    then have d: "unat (4 - ?w mod 4) = 4 - ?r" using m by (simp add: unat_sub)
    have "unat ?w + unat (4 - ?w mod 4) < 2 ^ LENGTH(32)" using n u d by simp
    then have "unat (recv_size_of n) = unat n + (4 - ?r)"
      using u d r by (simp add: unat_add_lem [THEN iffD1])
    moreover have "unat n + (4 - ?r) = 4 * ((unat n + 3) div 4)" using False by presburger
    ultimately show ?thesis by simp
  qed
qed

text \<open>
  The size handed to the command handler is the packet length rounded up to whole words: never
  less than what was received, always a multiple of four, and up to three bytes more, which
  \<open>memcpy\<close> reads from behind the packet's data.
\<close>

lemma recv_size_of_bounds:
  "unat (recv_size_of n) mod 4 = 0 \<and> unat n \<le> unat (recv_size_of n) \<and>
   unat (recv_size_of n) \<le> unat n + 3 \<and> (unat n mod 4 = 0 \<longleftrightarrow> recv_size_of n = ucast n)"
proof -
  have "unat (recv_size_of n) = unat n \<longleftrightarrow> unat n mod 4 = 0"
    unfolding unat_recv_size by presburger
  then have "unat n mod 4 = 0 \<longleftrightarrow> recv_size_of n = ucast n"
    by (simp add: word_unat_eq_iff unat_ucast_u16)
  moreover have "unat n \<le> 4 * ((unat n + 3) div 4)" "4 * ((unat n + 3) div 4) \<le> unat n + 3"
    by presburger+
  ultimately show ?thesis unfolding unat_recv_size by simp
qed

section \<open>The receive callback\<close>

text \<open>The state in which a received packet is handed to the command handler.\<close>

definition announced :: "env \<Rightarrow> u32 \<Rightarrow> pbuf \<Rightarrow> 'a io_scheme \<Rightarrow> 'a io_scheme" where
  "announced E tpcb p s = emit E (Tcp (Tcp_sndbuf tpcb)) (emit E (Tcp (Tcp_recved tpcb (len p))) s)"

definition received :: "env \<Rightarrow> u32 \<Rightarrow> u32 \<Rightarrow> pbuf \<Rightarrow> 'a io_scheme \<Rightarrow> 'a io_scheme" where
  "received E rxp tpcb p s =
     (let n = recv_size_of (tot_len p); s = announced E tpcb p s
      in emit E (Cpu (Xil_DCacheFlushRange rxp n))
           (s\<lparr>mem := memcpy (mem s) rxp (payload p) (unat n)\<rparr>))"

definition has_space :: "env \<Rightarrow> u32 \<Rightarrow> pbuf \<Rightarrow> 'a io_scheme \<Rightarrow> bool" where
  "has_space E tpcb p s \<longleftrightarrow>
     ans E (Tcp (Tcp_sndbuf tpcb)) (emit E (Tcp (Tcp_recved tpcb (len p))) s) > ucast (len p)"

lemma tr_received:
  "prefix (tr s) (tr (received E rxp tpcb p s))"
  "calls_since s (received E rxp tpcb p s) =
     [Tcp (Tcp_recved tpcb (len p)), Tcp (Tcp_sndbuf tpcb),
      Cpu (Xil_DCacheFlushRange rxp (recv_size_of (tot_len p)))]"
  by (simp_all add: received_def announced_def Let_def calls_since_def)

lemma recv_callback_unfold:
  assumes "p_addr p \<noteq> 0"
  shows "recv_callback E rxp txp tpcb p s =
    (if has_space E tpcb p s then
       case HandleCmdRequest E rxp txp (recv_size_of (tot_len p)) (received E rxp tpcb p s) of
         None \<Rightarrow> None
       | Some (n, s) \<Rightarrow> Some (ERR_OK E, emit E (Udp (Pbuf_free (p_addr p)))
           (emit E (Tcp (Tcp_write tpcb (bytes_at (mem s) txp (unat n))))
             (emit E (Cpu (Xil_DCacheFlushRange txp n)) s)))
     else Some (ERR_OK E, emit E (Udp (Pbuf_free (p_addr p))) (announced E tpcb p s)))"
  using assms
  by (simp add: recv_callback_def Let_def has_space_def received_def announced_def split: option.splits)

text \<open>What the callback does around the handler: everything except \<open>hs\<close>, the handler's own calls.\<close>

definition callback_calls :: "u32 \<Rightarrow> u32 \<Rightarrow> u32 \<Rightarrow> pbuf \<Rightarrow> call list \<Rightarrow> u32 \<Rightarrow> u8 list \<Rightarrow> call list" where
  "callback_calls rxp txp tpcb p hs n bs =
     [Tcp (Tcp_recved tpcb (len p)), Tcp (Tcp_sndbuf tpcb),
      Cpu (Xil_DCacheFlushRange rxp (recv_size_of (tot_len p)))] @ hs
     @ [Cpu (Xil_DCacheFlushRange txp n), Tcp (Tcp_write tpcb bs), Udp (Pbuf_free (p_addr p))]"

lemma calls_around_handler:
  assumes "HandleCmdRequest E rxp txp (recv_size_of (tot_len p)) (received E rxp tpcb p s) = Some (n, s1)"
  shows "calls_since s (emit E (Udp (Pbuf_free (p_addr p))) (emit E (Tcp (Tcp_write tpcb bs))
      (emit E (Cpu (Xil_DCacheFlushRange txp n)) s1))) =
    callback_calls rxp txp tpcb p (calls_since (received E rxp tpcb p s) s1) n bs
    \<and> prefix (tr s) (tr s1) \<and> reaches E (received E rxp tpcb p s) s1"
proof -
  have r: "reaches E (received E rxp tpcb p s) s1" using assms by (rule handle_confined)
  then have p1: "prefix (tr (received E rxp tpcb p s)) (tr s1)" by (simp add: reaches_def)
  note p = prefix_order.trans [OF tr_received(1) p1]
  have c: "calls_since s s1 = calls_since s (received E rxp tpcb p s) @ calls_since (received E rxp tpcb p s) s1"
    by (rule calls_since_trans [OF tr_received(1) p1])
  have "calls_since s (emit E (Udp (Pbuf_free (p_addr p))) (emit E (Tcp (Tcp_write tpcb bs))
      (emit E (Cpu (Xil_DCacheFlushRange txp n)) s1))) =
      calls_since s s1 @ [Cpu (Xil_DCacheFlushRange txp n), Tcp (Tcp_write tpcb bs), Udp (Pbuf_free (p_addr p))]"
    using p by (simp add: prefix_append_right)
  then have "calls_since s (emit E (Udp (Pbuf_free (p_addr p))) (emit E (Tcp (Tcp_write tpcb bs))
      (emit E (Cpu (Xil_DCacheFlushRange txp n)) s1))) =
      callback_calls rxp txp tpcb p (calls_since (received E rxp tpcb p s) s1) n bs"
    unfolding c tr_received(2) callback_calls_def by simp
  with p r show ?thesis by blast
qed

text \<open>
  C26: The receive callback handles every packet completely: it acknowledges the bytes to lwIP and
  frees the packet buffer exactly once, as its last call, on every path; if lwIP has room for an
  answer it runs the command handler, whose accesses are confined, and writes exactly one reply;
  if not, the packet is dropped without touching anything.
\<close>

theorem recv_callback_calls:
  assumes "recv_callback E rxp txp tpcb p s = Some (r, s')" and "p_addr p \<noteq> 0"
  shows "r = ERR_OK E \<and>
    (if has_space E tpcb p s then
       \<exists>hs n bs. calls_since s s' = callback_calls rxp txp tpcb p hs n bs \<and>
         list_all (permitted E) hs \<and> length (filter (\<lambda>c. c \<noteq> Vaccess) hs) \<le> 1 \<and>
         length bs = unat n
     else calls_since s s' =
       [Tcp (Tcp_recved tpcb (len p)), Tcp (Tcp_sndbuf tpcb), Udp (Pbuf_free (p_addr p))])"
proof (cases "has_space E tpcb p s")
  case True
  with assms obtain n s1
    where h: "HandleCmdRequest E rxp txp (recv_size_of (tot_len p)) (received E rxp tpcb p s) = Some (n, s1)"
    by (auto simp: recv_callback_unfold split: option.splits)
  let ?bs = "bytes_at (mem s1) txp (unat n)"
  have "r = ERR_OK E" "calls_since s s' =
      callback_calls rxp txp tpcb p (calls_since (received E rxp tpcb p s) s1) n ?bs"
    using assms True h conjunct1 [OF calls_around_handler [OF h, of ?bs]]
    by (auto simp: recv_callback_unfold)
  moreover have "reaches E (received E rxp tpcb p s) s1" using h by (rule handle_confined)
  ultimately show ?thesis using True unfolding reaches_def by (metis length_bytes_at)
next
  case False
  with assms show ?thesis
    by (auto simp: recv_callback_unfold announced_def calls_since_def)
qed

text \<open>
  C7: A request over TCP, end to end: for a three-word request in a single packet, the reply
  written to the connection is the request's header followed by the outcome of performing exactly
  the access the words of the packet ask for, in the byte order of the wire.
\<close>

theorem recv_callback_serves:
  assumes "p_addr p \<noteq> 0" and "has_space E tpcb p s" and "tot_len p = 12" and "apart 12 rxp txp"
    and "request_of E (load32 (mem s) (payload p)) (load32 (mem s) (payload p + 4))
      (load32 (mem s) (payload p + 8)) 12 = Some req"
    and "perform E req (received E rxp tpcb p s) = Some (reply, s1)"
  shows "\<exists>s'. recv_callback E rxp txp tpcb p s = Some (ERR_OK E, s') \<and>
    calls_since s s' = callback_calls rxp txp tpcb p (calls_since (received E rxp tpcb p s) s1) 8
      (le_bytes (load32 (mem s) (payload p)) @ le_bytes reply)"
proof -
  let ?s = "received E rxp tpcb p s"
  have size: "recv_size_of (tot_len p) = 12" using assms(3) by (simp add: recv_size_of_def)
  have "mem ?s = memcpy (mem s) rxp (payload p) 12"
    by (simp add: received_def announced_def Let_def size)
  then have rd: "rd ?s rxp 0 = load32 (mem s) (payload p)" "rd ?s rxp 1 = load32 (mem s) (payload p + 4)"
    "rd ?s rxp 2 = load32 (mem s) (payload p + 8)"
    using load32_memcpy [of 0 12 "mem s" rxp "payload p"] load32_memcpy [of 1 12 "mem s" rxp "payload p"]
      load32_memcpy [of 2 12 "mem s" rxp "payload p"]
    by (simp_all add: rd_def)
  from HandleCmdRequest_reply [of rxp txp E ?s 12, unfolded rd, OF assms(4-6)]
  obtain s2 where s2: "HandleCmdRequest E rxp txp 12 ?s = Some (8, s2)" "tr s2 = tr s1"
      "rd s2 txp 0 = load32 (mem s) (payload p)" "rd s2 txp 1 = reply" by blast
  then have bytes: "bytes_at (mem s2) txp 8 = le_bytes (load32 (mem s) (payload p)) @ le_bytes reply"
    by (simp add: bytes_at_words rd_def)
  have "calls_since ?s s2 = calls_since ?s s1" using s2(2) by (simp add: calls_since_def)
  with calls_around_handler [of E rxp txp p tpcb s 8 s2 "bytes_at (mem s2) txp 8"] assms(1,2) s2(1) bytes
  show ?thesis by (simp add: recv_callback_unfold size)
qed

section \<open>Starting the TCP server\<close>

text \<open>
  \<open>start_application\<close> accepts connections exactly when it returns 0; each failure of lwIP (no
  PCB, port in use, no memory to listen) has its own code and stops the start-up at that call.
\<close>

lemma start_application_outcome:
  "let (r, s') = start_application E s; cs = calls_since s s' in
   (r = 0 \<and> (\<exists>tpcb lpcb. tpcb \<noteq> 0 \<and> lpcb \<noteq> 0 \<and>
      cs = [Tcp Tcp_new_ip_type, Tcp (Tcp_bind tpcb 7), Tcp (Tcp_arg tpcb 0), Tcp (Tcp_listen tpcb),
            Tcp (Tcp_accept lpcb)])) \<or>
   (r = -1 \<and> cs = [Tcp Tcp_new_ip_type]) \<or>
   (r = -2 \<and> (\<exists>tpcb. tpcb \<noteq> 0 \<and> cs = [Tcp Tcp_new_ip_type, Tcp (Tcp_bind tpcb 7)])) \<or>
   (r = -3 \<and> (\<exists>tpcb. tpcb \<noteq> 0 \<and>
      cs = [Tcp Tcp_new_ip_type, Tcp (Tcp_bind tpcb 7), Tcp (Tcp_arg tpcb 0), Tcp (Tcp_listen tpcb)]))"
  by (simp add: start_application_def Let_def calls_since_def TCP_PORT_def)

section \<open>The address of the interface\<close>

text \<open>The address lwIP last reported or the code last assigned.\<close>

fun address_after :: "u32 \<Rightarrow> event \<Rightarrow> u32" where
  "address_after r (Netif Netif_ip_addr, x) = x"
| "address_after r (Netif (Netif_assign ip netmask gw), x) = ip"
| "address_after r _ = r"

definition interface_address :: "event list \<Rightarrow> u32" where
  "interface_address = foldl address_after 0"

lemma interface_address_append [simp]:
  "interface_address (t @ u) = foldl address_after (interface_address t) u"
  by (simp add: interface_address_def)

lemma address_after_other:
  "(\<And>x y z. c \<noteq> Netif Netif_ip_addr \<and> c \<noteq> Netif (Netif_assign x y z)) \<Longrightarrow> address_after r (c, v) = r"
  by (cases "(r, (c, v))" rule: address_after.cases) auto

lemma interface_address_quiet:
  assumes "prefix (tr s) (tr s')" and "list_all (\<lambda>c. tick_call c \<or> c = Vaccess) (calls_since s s')"
  shows "interface_address (tr s') = interface_address (tr s)"
proof -
  obtain u where u: "tr s' = tr s @ u" using assms(1) by (auto simp: prefix_def)
  have "list_all (\<lambda>e. tick_call (fst e) \<or> fst e = Vaccess) u"
    using assms(2) u by (simp add: calls_since_def list_all_iff)
  then have "foldl address_after r u = r" for r
    by (induction u arbitrary: r) (auto simp: tick_call_def)
  then show ?thesis by (simp add: interface_address_def u)
qed

lemma interface_address_timer_point:
  "interface_address (tr (timer_point E s)) = interface_address (tr s)"
proof -
  let ?s1 = "emit E Vaccess s"
  note t = ticks_tick_calls [of ?s1 "timer_irqs E (tr s)" E]
  have "interface_address (tr (timer_point E s)) = interface_address (tr ?s1)"
    using t by (intro interface_address_quiet)
      (auto simp: timer_point_def TimerCounterHandler_eq list_all_iff)
  then show ?thesis by simp
qed

lemma dhcp_wait_address:
  assumes "dhcp_wait E s = Some s'"
  shows "interface_address (tr s') \<noteq> 0 \<or> dhcp_timoutcntr s' \<le> 0"
  by (rule dhcp_wait.raw_induct [where
        P = "\<lambda>E s s'. interface_address (tr s') \<noteq> 0 \<or> dhcp_timoutcntr s' \<le> 0", OF _ assms])
    (auto simp: Let_def ans_def not_less split: if_splits)

text \<open>
  The DHCP phase ends with an address: when it returns, either lwIP has reported a nonzero
  address or the fallback 192.168.1.10 has been assigned, whatever the timer and the server did.
\<close>

lemma dhcp_address_assigned:
  assumes "dhcp_address E s = Some s'"
  shows "interface_address (tr s') \<noteq> 0"
proof -
  let ?s0 = "(timer_point E (emit E (Netif Dhcp_start) s))\<lparr>dhcp_timoutcntr := 240\<rparr>"
  obtain s1 where s1: "dhcp_wait E ?s0 = Some s1"
    using assms by (auto simp: dhcp_address_def Let_def split: option.splits)
  let ?s2 = "timer_point E s1"
  have le: "dhcp_timoutcntr ?s2 \<le> dhcp_timoutcntr s1"
    using counts_down_timer_point [of E s1] by (simp add: counts_down_def)
  have "IP4_ADDR 192 168 1 10 \<noteq> 0" by (simp add: IP4_ADDR_def)
  with assms s1 dhcp_wait_address [OF s1] le show ?thesis
    by (auto simp: dhcp_address_def Let_def ans_def interface_address_timer_point split: if_splits)
qed

section \<open>Termination of the DHCP wait\<close>

definition dhcp_body :: "env \<Rightarrow> 'a timer_state_scheme \<Rightarrow> 'a timer_state_scheme" where
  "dhcp_body E s = emit E (Netif Xemacif_input) (timer_point E (emit E (Netif Netif_ip_addr) s))"

lemma dhcp_wait_None:
  assumes "dhcp_wait E s = None"
  shows "dhcp_wait E (dhcp_body E s) = None \<and> dhcp_timoutcntr (dhcp_body E s) > 0"
  using assms dhcp_wait.simps [of E s]
  by (auto simp: Let_def dhcp_body_def io_simps split: if_splits)

lemma dhcp_body_counts: "counts_down E s (dhcp_body E s)"
  unfolding dhcp_body_def
  by (rule counts_down_trans [OF counts_down_trans [OF counts_down_emit counts_down_timer_point]
        counts_down_emit]) simp_all

lemma timer_point_access:
  "1 \<le> length (filter (\<lambda>e. fst e = Vaccess) (drop (length (tr s)) (tr (timer_point E s))))"
proof -
  obtain u where "tr (timer_point E s) = tr (emit E Vaccess s) @ u"
    using ticks_tick_calls [of "emit E Vaccess s" "timer_irqs E (tr s)" E]
    unfolding timer_point_def TimerCounterHandler_eq prefix_def by blast
  then show ?thesis by simp
qed

lemma dhcp_body_iterate:
  "counts_down E s ((dhcp_body E ^^ j) s)
   \<and> j \<le> length (filter (\<lambda>e. fst e = Vaccess) (drop (length (tr s)) (tr ((dhcp_body E ^^ j) s))))"
proof (induction j)
  case 0
  show ?case by (simp add: counts_down_refl)
next
  case (Suc j)
  let ?t = "(dhcp_body E ^^ j) s" and ?e = "emit E (Netif Netif_ip_addr) ((dhcp_body E ^^ j) s)"
  obtain u where u: "tr ?t = tr s @ u" using Suc by (auto simp: counts_down_def prefix_def)
  obtain v where v: "tr (timer_point E ?e) = tr ?e @ v"
    using counts_down_timer_point [of E ?e] by (auto simp: counts_down_def prefix_def)
  have "1 \<le> length (filter (\<lambda>e. fst e = Vaccess) v)"
    using timer_point_access [of ?e E] v by simp
  moreover have "\<exists>x y. tr (dhcp_body E ?t) = tr s @ u @ [x] @ v @ [y]"
    using u v by (simp add: dhcp_body_def)
  ultimately have "Suc j \<le> length (filter (\<lambda>e. fst e = Vaccess) (drop (length (tr s)) (tr (dhcp_body E ?t))))"
    using Suc u by auto
  moreover have "counts_down E s (dhcp_body E ?t)"
    by (rule counts_down_trans [OF conjunct1 [OF Suc] dhcp_body_counts])
  ultimately show ?case by simp
qed

lemma dhcp_counter_falls:
  assumes "ticks_keep_coming E B" and "LWIP_DHCP E"
  shows "dhcp_timoutcntr ((dhcp_body E ^^ (B * k)) s) \<le> dhcp_timoutcntr s - int k"
proof (induction k)
  case 0
  show ?case by simp
next
  case (Suc k)
  let ?t = "(dhcp_body E ^^ (B * k)) s"
  let ?t' = "(dhcp_body E ^^ B) ?t"
  have c: "counts_down E ?t ?t'"
    and "B \<le> length (filter (\<lambda>e. fst e = Vaccess) (drop (length (tr ?t)) (tr ?t')))"
    using dhcp_body_iterate [of E ?t B] by auto
  moreover from c have "length (tr ?t) \<le> length (tr ?t')"
    by (auto simp: counts_down_def intro: prefix_length_le)
  ultimately have "0 < ticks_from E (length (tr ?t)) (tr ?t')"
    using assms(1) by (auto simp: ticks_keep_coming_def)
  with c assms(2) have "dhcp_timoutcntr ?t' \<le> dhcp_timoutcntr ?t - 1"
    by (auto simp: counts_down_def)
  moreover have "(dhcp_body E ^^ (B * Suc k)) s = ?t'" by (simp add: funpow_add)
  ultimately show ?case using Suc by simp
qed

text \<open>
  The DHCP phase always ends while the timer is alive: the counter runs down by one in every
  tick, so after at most 240 ticks (12 s) the wait is over even if no server answers.
\<close>

lemma dhcp_address_returns:
  assumes "ticks_keep_coming E B" and "LWIP_DHCP E"
  shows "\<exists>s'. dhcp_address E s = Some s'"
proof -
  let ?s0 = "(timer_point E (emit E (Netif Dhcp_start) s))\<lparr>dhcp_timoutcntr := 240\<rparr>"
  have "dhcp_wait E ?s0 \<noteq> None"
  proof
    assume none: "dhcp_wait E ?s0 = None"
    have "dhcp_wait E ((dhcp_body E ^^ j) ?s0) = None \<and> (0 < j \<longrightarrow> dhcp_timoutcntr ((dhcp_body E ^^ j) ?s0) > 0)"
      for j
      by (induction j) (use none dhcp_wait_None in auto)
    from this [of "B * 240"] dhcp_counter_falls [OF assms, of 240 ?s0]
    have "B = 0" by auto
    moreover from this have "0 < ticks_from E 0 []"
      using assms(1) by (auto simp: ticks_keep_coming_def)
    ultimately show False by (simp add: ticks_from_def delivered_def)
  qed
  then obtain s1 where "dhcp_wait E ?s0 = Some s1" by blast
  then show ?thesis by (simp add: dhcp_address_def Let_def)
qed

section \<open>Sessions\<close>

text \<open>
  The contract between the network code and what handles its packets: a handler may only make the
  calls in \<open>ok\<close>. Whole sessions then keep to them.
\<close>

primrec serve_all :: "('x \<Rightarrow> 's \<Rightarrow> 's option) \<Rightarrow> 'x list \<Rightarrow> 's \<Rightarrow> 's option" where
  "serve_all step [] s = Some s"
| "serve_all step (x # xs) s =
     (case step x s of None \<Rightarrow> None | Some s \<Rightarrow> serve_all step xs s)"

locale confined_service =
  fixes step :: "'x \<Rightarrow> 'a io_scheme \<Rightarrow> 'a io_scheme option"
    and ok :: "call \<Rightarrow> bool"
  assumes step_confined:
    "step x s = Some s' \<Longrightarrow> prefix (tr s) (tr s') \<and> list_all ok (calls_since s s')"
begin

lemma serve_all_confined:
  "serve_all step xs s = Some s' \<Longrightarrow> prefix (tr s) (tr s') \<and> list_all ok (calls_since s s')"
proof (induction xs arbitrary: s)
  case Nil
  then show ?case by simp
next
  case (Cons x xs)
  then obtain s1 where s1: "step x s = Some s1" "serve_all step xs s1 = Some s'"
    by (auto split: option.splits)
  note p = conjunct1 [OF step_confined [OF s1(1)]] conjunct1 [OF Cons.IH [OF s1(2)]]
  show ?case
    using step_confined [OF s1(1)] Cons.IH [OF s1(2)] calls_since_trans [OF p]
      prefix_order.trans [OF p] by simp
qed

end

text \<open>A packet arrives: lwIP has put its bytes somewhere in memory (\<open>m\<close>) and calls the callback.\<close>

definition packet_step :: "env \<Rightarrow> u32 \<Rightarrow> u32 \<Rightarrow> u32 \<times> pbuf \<times> memory \<Rightarrow> 'a eth_state_scheme \<Rightarrow>
    'a eth_state_scheme option" where
  "packet_step E rxp txp x s =
     (case x of (tpcb, p, m) \<Rightarrow> map_option snd (recv_callback E rxp txp tpcb p (s\<lparr>mem := m\<rparr>)))"

text \<open>The calls of the callback that do not touch the board's registers or buses.\<close>

fun network_call :: "call \<Rightarrow> bool" where
  "network_call (Tcp _) = True"
| "network_call (Udp (Pbuf_free _)) = True"
| "network_call (Cpu (Xil_DCacheFlushRange _ _)) = True"
| "network_call _ = False"

lemma recv_callback_confined:
  assumes "recv_callback E rxp txp tpcb p s = Some (r, s')"
  shows "prefix (tr s) (tr s')
    \<and> list_all (\<lambda>c. permitted E c \<or> network_call c) (calls_since s s')"
proof (cases "p_addr p \<noteq> 0 \<and> has_space E tpcb p s")
  case True
  with assms obtain n s1
    where h: "HandleCmdRequest E rxp txp (recv_size_of (tot_len p)) (received E rxp tpcb p s) = Some (n, s1)"
    by (auto simp: recv_callback_unfold split: option.splits)
  have s': "s' = emit E (Udp (Pbuf_free (p_addr p)))
      (emit E (Tcp (Tcp_write tpcb (bytes_at (mem s1) txp (unat n))))
        (emit E (Cpu (Xil_DCacheFlushRange txp n)) s1))"
    using True assms h by (auto simp: recv_callback_unfold)
  note c = calls_around_handler [OF h, of "bytes_at (mem s1) txp (unat n)", folded s']
  have "list_all (permitted E) (calls_since (received E rxp tpcb p s) s1)"
    using c by (simp add: reaches_def)
  then have "list_all (\<lambda>c. permitted E c \<or> network_call c) (calls_since s s')"
    unfolding conjunct1 [OF c] callback_calls_def by (auto simp: list_all_iff)
  moreover have "prefix (tr s) (tr s')"
    using c by (simp add: s' prefix_append_right)
  ultimately show ?thesis by blast
next
  case False
  show ?thesis
  proof (cases "p_addr p = 0")
    case True
    with assms show ?thesis by (auto simp: recv_callback_def calls_since_def Let_def)
  next
    case False
    with \<open>\<not> (p_addr p \<noteq> 0 \<and> has_space E tpcb p s)\<close> assms show ?thesis
      by (auto simp: recv_callback_unfold announced_def calls_since_def)
  qed
qed

interpretation session: confined_service "packet_step E rxp txp" "\<lambda>c. permitted E c \<or> network_call c"
  for E rxp txp
proof
  fix x :: "u32 \<times> pbuf \<times> memory" and s s' :: "'a eth_state_scheme"
  assume "packet_step E rxp txp x s = Some s'"
  then obtain tpcb p m r where "recv_callback E rxp txp tpcb p (s\<lparr>mem := m\<rparr>) = Some (r, s')"
    by (cases x) (auto simp: packet_step_def)
  from recv_callback_confined [OF this]
  show "prefix (tr s) (tr s') \<and> list_all (\<lambda>c. permitted E c \<or> network_call c) (calls_since s s')"
    by (simp add: calls_since_def)
qed

text \<open>
  A whole TCP session is confined: whatever packets clients send, in any order and with any
  contents and lengths, the only registers and bus slaves the firmware accesses on their behalf are
  those of the transaction map and the two DACs.
\<close>

lemma session_confined:
  assumes "serve_all (packet_step E rxp txp) packets s = Some s'"
  shows "list_all (\<lambda>c. permitted E c \<or> network_call c) (calls_since s s')"
  using session.serve_all_confined [OF assms] by blast

section \<open>Examples\<close>

text \<open>
  A board whose registers keep their values, whose lwIP has room for every reply, gives out packet
  buffers and reports no DHCP address, with one tick at every access.
\<close>

definition net_env :: env where
  "net_env = zynq_env
     (\<lambda>t c. case c of In32 a \<Rightarrow> last_out a 0 t | Tcp (Tcp_sndbuf _) \<Rightarrow> 4096 | _ \<Rightarrow> 0)
     (\<lambda>_. [1]) (\<lambda>_. 1)"

definition eth_start :: eth_state where
  "eth_start = udp_state.extend (timer_state.extend timer_start \<lparr>pcb = 0, remote = (\<lambda>_. (0, 0))\<rparr>)
     \<lparr>tcp_connection = 0\<rparr>"

definition demo_pbuf :: "u16 \<Rightarrow> pbuf" where
  "demo_pbuf n = \<lparr>p_addr = 64, payload = 0x0E000000, len = n, tot_len = n\<rparr>"

lemma demo_space: "has_space net_env tpcb (demo_pbuf 12) s"
  by (simp add: has_space_def net_env_def zynq_env_def demo_pbuf_def ans_def)

lemma demo_request:
  "request_of net_env SPI_PACKET 5 0 12 = Some (Reg_Write (VCOMP2_ADDR net_env) 5)"
  by (simp add: request_of_def spi_request_def macro_defs) 

theorem recv_callback_serves_witness:
  "\<exists>s' hs. recv_callback net_env 0x0E000000 0x0F000000 1 (demo_pbuf 12)
       (eth_start\<lparr>mem := put_request SPI_PACKET 5 0\<rparr>) = Some (0, s') \<and>
     calls_since (eth_start\<lparr>mem := put_request SPI_PACKET 5 0\<rparr>) s' =
       callback_calls 0x0E000000 0x0F000000 1 (demo_pbuf 12) hs 8
         (le_bytes SPI_PACKET @ le_bytes GOOD_PACKET)"
proof -
  let ?s = "eth_start\<lparr>mem := put_request SPI_PACKET 5 0\<rparr>"
  have "ERR_OK net_env = 0" by (simp add: net_env_def zynq_env_def)
  with recv_callback_serves [OF _ demo_space, where ?s = ?s and tpcb = 1 and rxp = "0x0E000000"
      and txp = "0x0F000000" and reply = GOOD_PACKET and req = "Reg_Write (VCOMP2_ADDR net_env) 5"]
  show ?thesis
    by (auto simp: demo_pbuf_def load_request demo_request buffers_apart)
qed

theorem recv_callback_calls_witness:
  "\<exists>s' hs. recv_callback net_env 0x0E000000 0x0F000000 1 (demo_pbuf 12)
       (eth_start\<lparr>mem := put_request SPI_PACKET 5 0\<rparr>) = Some (0, s') \<and>
     list_all (permitted net_env) hs \<and>
     filter (\<lambda>c. c = Udp (Pbuf_free 64)) (calls_since (eth_start\<lparr>mem := put_request SPI_PACKET 5 0\<rparr>) s')
       = filter (\<lambda>c. c = Udp (Pbuf_free 64)) hs @ [Udp (Pbuf_free 64)]"
proof -
  let ?s = "eth_start\<lparr>mem := put_request SPI_PACKET 5 0\<rparr>"
  have p: "p_addr (demo_pbuf 12) = 64" by (simp add: demo_pbuf_def)
  have "\<exists>n s1. HandleCmdRequest net_env 0x0E000000 0x0F000000 (recv_size_of (tot_len (demo_pbuf 12)))
      (received net_env 0x0E000000 1 (demo_pbuf 12) ?s) = Some (n, s1)"
    by (simp add: HandleCmdRequest_def rd_def received_def announced_def Let_def demo_pbuf_def
        recv_size_of_def load32_memcpy [of 0, simplified] load_request macro_defs)
  then obtain r s' where s': "recv_callback net_env 0x0E000000 0x0F000000 1 (demo_pbuf 12) ?s = Some (r, s')"
    using demo_space [of 1 ?s] p by (auto simp: recv_callback_unfold)
  have "ERR_OK net_env = 0" by (simp add: net_env_def zynq_env_def)
  with recv_callback_calls [OF s'] demo_space [of 1 ?s] p s' show ?thesis
    by (auto simp: callback_calls_def)
qed

lemma null_packet:
  "\<exists>s'. serve_all (packet_step net_env 0x0E000000 0x0F000000)
     [(1, (demo_pbuf 0)\<lparr>p_addr := 0\<rparr>, \<lambda>_. 0)] eth_start = Some s'"
  by (simp add: packet_step_def recv_callback_def)

theorem session_confined_witness:
  "\<exists>s'. serve_all (packet_step net_env 0x0E000000 0x0F000000)
     [(1, (demo_pbuf 0)\<lparr>p_addr := 0\<rparr>, \<lambda>_. 0)] eth_start = Some s' \<and>
     list_all (\<lambda>c. permitted net_env c \<or> network_call c) (calls_since eth_start s')"
  using null_packet session_confined by blast

lemma net_ticks: "ticks_keep_coming net_env 1"
  unfolding ticks_keep_coming_def
proof (intro allI impI)
  fix t :: "event list" and n
  assume n: "n \<le> length t" and "1 \<le> length (filter (\<lambda>e. fst e = Vaccess) (drop n t))"
  then have "filter (\<lambda>e. fst e = Vaccess) (drop n t) \<noteq> []" by auto
  then obtain e where "e \<in> set (drop n t)" "fst e = Vaccess"
    by (auto simp: filter_empty_conv)
  then obtain i where "i < length t - n" "fst (t ! (n + i)) = Vaccess"
    using n by (auto simp: in_set_conv_nth)
  then have i: "n + i \<in> set [n..<length t]" "fst (t ! (n + i)) = Vaccess" by simp_all
  have "0 \<in> set (if fst (t ! (n + i)) = Vaccess then [0..<timer_irqs net_env (take (n + i) t)] else [])"
    using i(2) by (simp add: net_env_def zynq_env_def)
  with i(1) have "0 \<in> set (delivered (\<lambda>t. [0..<timer_irqs net_env t]) n t)"
    unfolding delivered_def set_concat set_map by blast
  then show "0 < ticks_from net_env n t" by (auto simp: ticks_from_def)
qed

lemma dhcp_address_returns_witness:
  "\<exists>s'. dhcp_address net_env eth_start = Some s'"
  by (rule dhcp_address_returns [OF net_ticks]) (simp add: net_env_def zynq_env_def)

lemma dhcp_wait_done:
  "ans E (Netif Netif_ip_addr) s \<noteq> 0 \<Longrightarrow> dhcp_wait E s = Some (emit E (Netif Netif_ip_addr) s)"
  by (subst dhcp_wait.simps) (simp add: Let_def)

lemma dhcp_at_once:
  "\<exists>s'. dhcp_address (zynq_env (\<lambda>_ _. 5) (\<lambda>_. []) (\<lambda>_. 0)) eth_start = Some s'"
  by (simp add: dhcp_address_def Let_def dhcp_wait_done ans_def zynq_env_def timer_point_def)

lemma dhcp_address_assigned_witness:
  "\<exists>s'. dhcp_address (zynq_env (\<lambda>_ _. 5) (\<lambda>_. []) (\<lambda>_. 0)) eth_start = Some s' \<and>
     interface_address (tr s') \<noteq> 0"
  using dhcp_at_once dhcp_address_assigned by blast

end
