(* ===== verification/Dma_Control.thy ===== *)
theory Dma_Control
  imports Eth_Control
begin

text \<open>
  The AXI DMA of \<^verbatim>\<open>dmaControl.c\<close> that brings detector data into memory: its initialisation and
  the interrupt handlers, with the bounded reset loop and the hand-over of a finished block to the
  UDP stream. The DMA driver (\<^verbatim>\<open>xaxidma.h\<close>) is outside the repository; the registers the code
  accesses itself are events.
\<close>

section \<open>State and constants\<close>

record dma_state = eth_state +
  Error :: u32
  TxDone :: u32
  RxDone :: u32
  recv_packets :: int

definition RX_DMA_BUFFER_BASE :: u32 where [macro_defs]: "RX_DMA_BUFFER_BASE = 0x0C000000"
definition TX_DMA_BUFFER_BASE :: u32 where [macro_defs]: "TX_DMA_BUFFER_BASE = 0x0D000000"
definition MAX_PKT_LEN_TX :: u32 where [macro_defs]: "MAX_PKT_LEN_TX = 1000"
definition RESET_TIMEOUT_COUNTER :: nat where "RESET_TIMEOUT_COUNTER = 10000"

section \<open>Initialisation\<close>

definition RxArmDMA :: "env \<Rightarrow> u32 \<Rightarrow> u32 \<Rightarrow> 'a io_scheme \<Rightarrow> 'a io_scheme" where
  "RxArmDMA E src_addr dest_addr s =
     (let ctrl = 0x00001001;
          s = emit E (Out32 (src_addr + 0x30) ctrl) s;
          s = emit E (Out32 (src_addr + 0x48) dest_addr) s;
          s = emit E (Out32 (src_addr + 0x4c) (dest_addr + 0x2FFFFFF)) s
      in emit E (Out32 (src_addr + 0x58) 0xFFFFF) s)"

definition TxArmDMA :: "env \<Rightarrow> u32 \<Rightarrow> u32 \<Rightarrow> 'a io_scheme \<Rightarrow> 'a io_scheme" where
  "TxArmDMA E src_addr dest_addr s = emit E (Out32 (src_addr + 0x18) dest_addr) s"

text \<open>\<open>Status\<close> is a C \<open>int\<close>; its bit pattern is what is returned.\<close>

definition InitDMA :: "env \<Rightarrow> u32 \<Rightarrow> u32 \<Rightarrow> u32 \<Rightarrow> 'a io_scheme \<Rightarrow> u32 \<times> 'a io_scheme" where
  "InitDMA E base_addr rxBase txBase s =
     (let c = Dma (XAxiDma_LookupConfig base_addr); Config = ans E c s; s = emit E c s
      in if Config = 0 then (XST_FAILURE E, s) else
      let c = Dma (XAxiDma_CfgInitialize Config); Status = ans E c s; s = emit E c s
      in if Status \<noteq> XST_SUCCESS E then (XST_FAILURE E, s) else
      let c = Cpu (XSetupInterruptSystem ISR_Rx_Dma); Status = ans E c s; s = emit E c s
      in if Status \<noteq> XST_SUCCESS E then (XST_FAILURE E, s) else
      let s = emit E (Dma (XAxiDma_IntrDisable (XAXIDMA_IRQ_ALL_MASK E) (XAXIDMA_DMA_TO_DEVICE E))) s;
          s = emit E (Dma (XAxiDma_IntrEnable (XAXIDMA_IRQ_ALL_MASK E) (XAXIDMA_DMA_TO_DEVICE E))) s;
          s = emit E (Cpu (Xil_DCacheFlushRange rxBase (MAX_PKT_LEN_TX * 8))) s;
          s = RxArmDMA E base_addr rxBase s
      in (Status, s))"

definition Init_Qpix_DMA :: "env \<Rightarrow> u32 \<Rightarrow> u32 \<Rightarrow> u32 \<Rightarrow> 'a io_scheme \<Rightarrow> u32 \<times> 'a io_scheme" where
  "Init_Qpix_DMA E base_addr rxBase txBase s = InitDMA E base_addr rxBase txBase s"

section \<open>Interrupt handlers\<close>

text \<open>
  \<open>while (TimeOut) { if (XAxiDma_ResetIsDone(dma)) { ...; break; } TimeOut -= 1; }\<close>, by the value of
  \<open>TimeOut\<close>; the result says whether the reset was seen to finish.
\<close>

primrec reset_loop :: "env \<Rightarrow> nat \<Rightarrow> 'a io_scheme \<Rightarrow> bool \<times> 'a io_scheme" where
  "reset_loop E 0 s = (False, s)"
| "reset_loop E (Suc TimeOut) s =
     (let c = Dma XAxiDma_ResetIsDone; done = ans E c s; s = emit E c s
      in if done \<noteq> 0 then (True, s) else reset_loop E TimeOut s)"

definition RxUDPIntrHandler :: "env \<Rightarrow> u32 \<Rightarrow> u32 \<Rightarrow> 'a dma_state_scheme \<Rightarrow> 'a dma_state_scheme" where
  "RxUDPIntrHandler E base_addr rx_addr s =
     (let c = In32 (base_addr + 0x34); reg_stat = ans E c s; s = emit E c s;
          s = emit E (Dma (XAxiDma_IntrAckIrq reg_stat (XAXIDMA_DEVICE_TO_DMA E))) s
      in if reg_stat AND XAXIDMA_IRQ_ALL_MASK E = 0 then s
      else if reg_stat AND XAXIDMA_IRQ_ERROR_MASK E \<noteq> 0 then
        let s = s\<lparr>Error := 1\<rparr>;
            s = emit E (Dma XAxiDma_Reset) s;
            (done, s) = reset_loop E RESET_TIMEOUT_COUNTER s
        in if done then
             emit E (Out32 (base_addr + 0x58) 0xFFFF) (emit E (Out32 (base_addr + 0x34) reg_stat) s)
           else s
      else if reg_stat AND XAXIDMA_IRQ_IOC_MASK E \<noteq> 0 then
        let s = s\<lparr>recv_packets := recv_packets s + 1\<rparr>;
            c = In32 (base_addr + 0x58); RxDataLen = ans E c s; s = emit E c s;
            s = emit E (Cpu (Xil_DCacheFlushRange rx_addr RxDataLen)) s;
            s = (if tcp_connection s \<noteq> 0 then udp_packet_send E rx_addr (ucast RxDataLen) s else s);
            s = emit E (Out32 (base_addr + 0x58) 0xFFFFF) s;
            s = s\<lparr>RxDone := 1\<rparr>
        in emit E (Out32 (TREG_ADDR E) (word_of_int (recv_packets s))) s
      else s)"

definition RxIntrHandler :: "env \<Rightarrow> 'a dma_state_scheme \<Rightarrow> 'a dma_state_scheme" where
  "RxIntrHandler E s = RxUDPIntrHandler E (XPAR_AXI_DMA_0_BASEADDR E) RX_DMA_BUFFER_BASE s"

definition TxIntrHandler :: "env \<Rightarrow> 'a dma_state_scheme \<Rightarrow> 'a dma_state_scheme" where
  "TxIntrHandler E s =
     (let c = Dma (XAxiDma_IntrGetIrq (XAXIDMA_DMA_TO_DEVICE E)); IrqStatus = ans E c s; s = emit E c s;
          s = emit E (Dma (XAxiDma_IntrAckIrq IrqStatus (XAXIDMA_DMA_TO_DEVICE E))) s
      in if IrqStatus AND XAXIDMA_IRQ_ALL_MASK E = 0 then s
      else if IrqStatus AND XAXIDMA_IRQ_ERROR_MASK E \<noteq> 0 then
        let s = s\<lparr>Error := 1\<rparr>;
            s = emit E (Dma XAxiDma_Reset) s
        in snd (reset_loop E RESET_TIMEOUT_COUNTER s)
      else if IrqStatus AND XAXIDMA_IRQ_IOC_MASK E \<noteq> 0 then s\<lparr>TxDone := 1\<rparr>
      else s)"

section \<open>The reset loop\<close>

interpretation reset: bounded_wait "reset_loop E" "\<lambda>s. ans E (Dma XAxiDma_ResetIsDone) s \<noteq> 0"
    "emit E (Dma XAxiDma_ResetIsDone)" "emit E (Dma XAxiDma_ResetIsDone)" for E
  by unfold_locales (simp_all add: Let_def)

lemma emit_dma [io_simps]:
  "Error (emit E c s) = Error s" "TxDone (emit E c s) = TxDone s" "RxDone (emit E c s) = RxDone s"
  "recv_packets (emit E c s) = recv_packets s" "tcp_connection (emit E c u) = tcp_connection u"
  "dma_state.more (emit E c s) = dma_state.more s"
  by (simp_all add: emit_def)

lemma reset_loop_state:
  assumes "reset_loop E n s = (ok, s')"
  shows "\<exists>k\<le>n. s' = (emit E (Dma XAxiDma_ResetIsDone) ^^ k) s \<and> (\<not> ok \<longrightarrow> k = n)"
proof (cases ok)
  case True
  with assms have "fst (reset_loop E n s)" by simp
  from reset.loop_hit [OF this] obtain k where "k < n"
      "s' = (emit E (Dma XAxiDma_ResetIsDone) ^^ Suc k) s"
    using assms by auto
  then show ?thesis using True by (intro exI [of _ "Suc k"]) (simp del: funpow.simps)
next
  case False
  with assms reset.loop_fails [of E n s] show ?thesis by (intro exI [of _ n]) simp
qed

lemma calls_since_funpow_emit:
  "prefix (tr s) (tr ((emit E c ^^ k) s)) \<and> calls_since s ((emit E c ^^ k) s) = replicate k c"
proof (induction k)
  case 0
  show ?case by simp
next
  case (Suc k)
  then show ?case by (simp add: prefix_append_right replicate_append_same)
qed

text \<open>The other fields are untouched by repeated calls.\<close>

lemma funpow_emit_fields [io_simps]:
  "mem ((emit E c ^^ k) s) = mem s" "Error ((emit E c ^^ k) t) = Error t"
  "RxDone ((emit E c ^^ k) t) = RxDone t" "TxDone ((emit E c ^^ k) t) = TxDone t"
  "recv_packets ((emit E c ^^ k) t) = recv_packets t"
  "tcp_connection ((emit E c ^^ k) u) = tcp_connection u"
  by (induction k; simp add: io_simps)+

section \<open>What the receive interrupt does\<close>

text \<open>The state after the status was read and acknowledged.\<close>

definition acked :: "env \<Rightarrow> u32 \<Rightarrow> 'a io_scheme \<Rightarrow> 'a io_scheme" where
  "acked E base s = emit E (Dma (XAxiDma_IntrAckIrq (ans E (In32 (base + 0x34)) s) (XAXIDMA_DEVICE_TO_DMA E)))
     (emit E (In32 (base + 0x34)) s)"

lemma acked_fields [io_simps]:
  "tcp_connection (acked E base t) = tcp_connection t" "recv_packets (acked E base u) = recv_packets u"
  by (simp_all add: acked_def io_simps)

lemma calls_since_RxDone [simp]: "calls_since s (t\<lparr>RxDone := b\<rparr>) = calls_since s t"
  by (simp add: calls_since_def)

abbreviation s2mm_status :: "env \<Rightarrow> u32 \<Rightarrow> 'a io_scheme \<Rightarrow> u32" where
  "s2mm_status E base s \<equiv> ans E (In32 (base + 0x34)) s"

text \<open>The error path, with the reads of the reset loop.\<close>

definition recovery_calls :: "env \<Rightarrow> u32 \<Rightarrow> u32 \<Rightarrow> bool \<Rightarrow> nat \<Rightarrow> call list" where
  "recovery_calls E base st done k =
     [In32 (base + 0x34), Dma (XAxiDma_IntrAckIrq st (XAXIDMA_DEVICE_TO_DMA E)), Dma XAxiDma_Reset]
     @ replicate k (Dma XAxiDma_ResetIsDone)
     @ (if done then [Out32 (base + 0x34) st, Out32 (base + 0x58) 0xFFFF] else [])"

lemma RxUDPIntrHandler_error_cases:
  assumes "s2mm_status E base s AND XAXIDMA_IRQ_ALL_MASK E \<noteq> 0"
    and "s2mm_status E base s AND XAXIDMA_IRQ_ERROR_MASK E \<noteq> 0"
  shows "let s' = RxUDPIntrHandler E base rx s in prefix (tr s) (tr s') \<and>
    Error s' = 1 \<and> RxDone s' = RxDone s \<and> recv_packets s' = recv_packets s \<and>
    tcp_connection s' = tcp_connection s \<and> mem s' = mem s \<and>
    (\<exists>k\<le>10000. \<exists>done. (\<not> done \<longrightarrow> k = 10000) \<and>
       calls_since s s' = recovery_calls E base (s2mm_status E base s) done k)"
proof -
  let ?s1 = "emit E (Dma XAxiDma_Reset) ((acked E base s)\<lparr>Error := 1\<rparr>)"
  obtain ok s2 where l: "reset_loop E RESET_TIMEOUT_COUNTER ?s1 = (ok, s2)" by fastforce
  then obtain k where k: "k \<le> 10000" "\<not> ok \<longrightarrow> k = 10000"
      and s2: "s2 = (emit E (Dma XAxiDma_ResetIsDone) ^^ k) ?s1"
    using reset_loop_state [OF l] by (auto simp: RESET_TIMEOUT_COUNTER_def)
  note c = calls_since_funpow_emit [where s = ?s1 and E = E and c = "Dma XAxiDma_ResetIsDone" and k = k, folded s2]
  have c1: "prefix (tr s) (tr ?s1)" "calls_since s ?s1 = [In32 (base + 0x34),
      Dma (XAxiDma_IntrAckIrq (s2mm_status E base s) (XAXIDMA_DEVICE_TO_DMA E)), Dma XAxiDma_Reset]"
    by (simp_all add: acked_def calls_since_def)
  have p: "prefix (tr s) (tr s2)" using c1(1) c prefix_order.trans by blast
  have "calls_since s s2 = calls_since s ?s1 @ replicate k (Dma XAxiDma_ResetIsDone)"
    using calls_since_trans [OF c1(1) conjunct1 [OF c]] c by simp
  then have calls: "calls_since s (if ok then emit E (Out32 (base + 0x58) 0xFFFF)
        (emit E (Out32 (base + 0x34) (s2mm_status E base s)) s2) else s2) =
      recovery_calls E base (s2mm_status E base s) ok k"
    using p by (simp add: recovery_calls_def c1(2) prefix_append_right)
  have eq: "RxUDPIntrHandler E base rx s = (if ok then emit E (Out32 (base + 0x58) 0xFFFF)
        (emit E (Out32 (base + 0x34) (s2mm_status E base s)) s2) else s2)"
    using assms l by (simp add: RxUDPIntrHandler_def Let_def acked_def)
  have "prefix (tr s) (tr (RxUDPIntrHandler E base rx s))"
    using p by (simp add: eq prefix_append_right)
  moreover have "Error s2 = 1" "RxDone s2 = RxDone s" "recv_packets s2 = recv_packets s"
      "tcp_connection s2 = tcp_connection s" "mem s2 = mem s"
    by (simp_all add: s2 io_simps acked_def)
  ultimately show ?thesis
    using k calls unfolding Let_def eq [symmetric]
    by (auto simp: eq io_simps intro!: exI [of _ k] exI [of _ ok])
qed

text \<open>
  C28: A DMA error never blocks the interrupt handler: it raises the error flag, resets the engine
  and looks for the end of the reset at most 10000 times; only if it saw it does it write the status
  and the length register, and it never sets the control or address registers again, nor counts or
  sends a packet.
\<close>

theorem RxUDPIntrHandler_error:
  assumes "s2mm_status E base s AND XAXIDMA_IRQ_ALL_MASK E \<noteq> 0"
    and "s2mm_status E base s AND XAXIDMA_IRQ_ERROR_MASK E \<noteq> 0"
  shows "let s' = RxUDPIntrHandler E base rx s in
    Error s' = 1 \<and> RxDone s' = RxDone s \<and> recv_packets s' = recv_packets s \<and>
    (\<exists>k\<le>10000. \<exists>done. (\<not> done \<longrightarrow> k = 10000) \<and>
       calls_since s s' = recovery_calls E base (s2mm_status E base s) done k)"
  using RxUDPIntrHandler_error_cases [OF assms] unfolding Let_def by blast

text \<open>The calls of one UDP packet: no buffer, or a bounded number of attempts with these bytes.\<close>

definition packet_calls :: "u32 \<Rightarrow> u16 \<Rightarrow> u8 list \<Rightarrow> call list \<Rightarrow> bool" where
  "packet_calls upcb n bs cs \<longleftrightarrow> cs = [Udp (Pbuf_alloc n)] \<or>
     (\<exists>k\<le>10. \<exists>packet. packet \<noteq> 0 \<and>
        cs = [Udp (Pbuf_alloc n)] @ retry_calls 10 (Udp (Udp_send upcb bs)) k @ [Udp (Pbuf_free packet)])"

lemma udp_packet_send_dma:
  "prefix (tr s) (tr (udp_packet_send E rx n s))
   \<and> packet_calls (pcb s) n (bytes_at (mem s) rx (unat n)) (calls_since s (udp_packet_send E rx n s))
   \<and> tcp_connection (udp_packet_send E rx n s) = tcp_connection s
   \<and> recv_packets (udp_packet_send E rx n s) = recv_packets s
   \<and> Error (udp_packet_send E rx n s) = Error s"
  for s :: "'a dma_state_scheme"
proof -
  have more: "udp_state.more (udp_packet_send E rx n s) = udp_state.more s"
    using udp_packet_send_cases [where E = E and s = s and n = n and txData = rx] by blast
  show ?thesis
    using udp_packet_send_cases [where E = E and s = s and n = n and txData = rx] more
    by (cases s; cases "udp_packet_send E rx n s") (auto simp: packet_calls_def split: if_splits)
qed

text \<open>The state in which the length of a finished block has been read and its cache lines flushed.\<close>

definition block_length :: "env \<Rightarrow> u32 \<Rightarrow> 'a io_scheme \<Rightarrow> u32" where
  "block_length E base s = ans E (In32 (base + 0x58)) (acked E base s)"

definition block_ready :: "env \<Rightarrow> u32 \<Rightarrow> u32 \<Rightarrow> 'a dma_state_scheme \<Rightarrow> 'a dma_state_scheme" where
  "block_ready E base rx s =
     emit E (Cpu (Xil_DCacheFlushRange rx (block_length E base s)))
       (emit E (In32 (base + 0x58)) ((acked E base s)\<lparr>recv_packets := recv_packets s + 1\<rparr>))"

lemma block_ready_fields:
  "prefix (tr s) (tr (block_ready E base rx s))"
  "calls_since s (block_ready E base rx s) = [In32 (base + 0x34),
     Dma (XAxiDma_IntrAckIrq (s2mm_status E base s) (XAXIDMA_DEVICE_TO_DMA E)),
     In32 (base + 0x58), Cpu (Xil_DCacheFlushRange rx (block_length E base s))]"
  "recv_packets (block_ready E base rx s) = recv_packets s + 1"
  "tcp_connection (block_ready E base rx s) = tcp_connection s"
  "Error (block_ready E base rx s) = Error s"
  "pcb (block_ready E base rx s) = pcb s" "mem (block_ready E base rx s) = mem s"
  by (simp_all add: block_ready_def acked_def calls_since_def io_simps)

lemma RxUDPIntrHandler_done_eq:
  assumes "s2mm_status E base s AND XAXIDMA_IRQ_ALL_MASK E \<noteq> 0"
    and "s2mm_status E base s AND XAXIDMA_IRQ_ERROR_MASK E = 0"
    and "s2mm_status E base s AND XAXIDMA_IRQ_IOC_MASK E \<noteq> 0"
  shows "RxUDPIntrHandler E base rx s =
    (let t = block_ready E base rx s;
         t = (if tcp_connection s \<noteq> 0 then udp_packet_send E rx (ucast (block_length E base s)) t else t)
     in emit E (Out32 (TREG_ADDR E) (word_of_int (recv_packets s + 1)))
          ((emit E (Out32 (base + 0x58) 0xFFFFF) t)\<lparr>RxDone := 1\<rparr>))"
proof -
  have "ans E c (u\<lparr>recv_packets := x\<rparr>) = ans E c u" for c x and u :: "'a dma_state_scheme"
    by (simp add: ans_def)
  moreover have "recv_packets (udp_packet_send E rx n (block_ready E base rx s)) = recv_packets s + 1" for n
    by (simp add: udp_packet_send_dma block_ready_fields)
  ultimately show ?thesis
    using assms
    by (simp add: RxUDPIntrHandler_def Let_def acked_def [symmetric] block_length_def [symmetric]
        block_ready_def [symmetric] block_ready_fields io_simps)
qed

definition completion_calls :: "env \<Rightarrow> u32 \<Rightarrow> u32 \<Rightarrow> u32 \<Rightarrow> u32 \<Rightarrow> call list \<Rightarrow> int \<Rightarrow> call list" where
  "completion_calls E base rx st n us count =
     [In32 (base + 0x34), Dma (XAxiDma_IntrAckIrq st (XAXIDMA_DEVICE_TO_DMA E)),
      In32 (base + 0x58), Cpu (Xil_DCacheFlushRange rx n)] @ us
     @ [Out32 (base + 0x58) 0xFFFFF, Out32 (TREG_ADDR E) (word_of_int count)]"

lemma RxUDPIntrHandler_done_cases:
  assumes "s2mm_status E base s AND XAXIDMA_IRQ_ALL_MASK E \<noteq> 0"
    and "s2mm_status E base s AND XAXIDMA_IRQ_ERROR_MASK E = 0"
    and "s2mm_status E base s AND XAXIDMA_IRQ_IOC_MASK E \<noteq> 0"
  shows "let s' = RxUDPIntrHandler E base rx s; n = block_length E base s in
    prefix (tr s) (tr s') \<and> RxDone s' = 1 \<and> recv_packets s' = recv_packets s + 1 \<and>
    Error s' = Error s \<and> tcp_connection s' = tcp_connection s \<and>
    (\<exists>us. calls_since s s' =
         completion_calls E base rx (s2mm_status E base s) n us (recv_packets s + 1) \<and>
       (if tcp_connection s = 0 then us = []
        else packet_calls (pcb s) (ucast n) (bytes_at (mem s) rx (unat n mod 65536)) us))"
proof -
  let ?n = "block_length E base s" and ?t = "block_ready E base rx s"
  let ?t' = "if tcp_connection s \<noteq> 0 then udp_packet_send E rx (ucast ?n) ?t else ?t"
  have n: "unat (ucast ?n :: u16) = unat ?n mod 65536"
    by (simp add: unsigned_ucast_eq take_bit_eq_mod)
  note u = udp_packet_send_dma [where s = ?t and E = E and rx = rx and n = "ucast ?n"]
  have p: "prefix (tr ?t) (tr ?t')" "prefix (tr s) (tr ?t)"
    using u block_ready_fields(1) by auto
  have "calls_since s ?t' = calls_since s ?t @ calls_since ?t ?t'"
    by (rule calls_since_trans [OF p(2,1)])
  moreover have "if tcp_connection s = 0 then calls_since ?t ?t' = []
      else packet_calls (pcb s) (ucast ?n) (bytes_at (mem s) rx (unat ?n mod 65536)) (calls_since ?t ?t')"
    using u by (simp add: n block_ready_fields)
  moreover have "recv_packets ?t' = recv_packets s + 1" "Error ?t' = Error s"
      "tcp_connection ?t' = tcp_connection s"
    using u by (simp_all add: block_ready_fields)
  moreover have "prefix (tr s) (tr ?t')" using prefix_order.trans [OF p(2,1)] .
  ultimately show ?thesis
    unfolding Let_def RxUDPIntrHandler_done_eq [OF assms]
    by (intro conjI exI [of _ "calls_since ?t ?t'"])
      (simp_all add: io_simps completion_calls_def block_ready_fields(2) prefix_append_right)
qed

text \<open>
  C13: A finished block is counted, streamed and the engine armed again: the handler reads the
  length, sends one UDP packet exactly if a client has ever connected, arms the length register for
  the next block on every path, raises \<open>RxDone\<close> and reports the new count to the FPGA. The packet
  holds only the low 16 bits' worth of bytes: blocks of 64 KiB or more are truncated.
\<close>

theorem RxUDPIntrHandler_done:
  assumes "s2mm_status E base s AND XAXIDMA_IRQ_ALL_MASK E \<noteq> 0"
    and "s2mm_status E base s AND XAXIDMA_IRQ_ERROR_MASK E = 0"
    and "s2mm_status E base s AND XAXIDMA_IRQ_IOC_MASK E \<noteq> 0"
  shows "let s' = RxUDPIntrHandler E base rx s; n = block_length E base s in
    RxDone s' = 1 \<and> recv_packets s' = recv_packets s + 1 \<and> Error s' = Error s \<and>
    (\<exists>us. calls_since s s' =
         completion_calls E base rx (s2mm_status E base s) n us (recv_packets s + 1) \<and>
       (if tcp_connection s = 0 then us = []
        else packet_calls (pcb s) (ucast n) (bytes_at (mem s) rx (unat n mod 65536)) us))"
  using RxUDPIntrHandler_done_cases [OF assms] unfolding Let_def by blast

section \<open>Initialisation\<close>


section \<open>The transmit interrupt\<close>

text \<open>
  The transmit handler keeps its flags apart: an error raises \<open>Error\<close> after at most 10000 looks
  at the reset, a completion without an error raises \<open>TxDone\<close>, anything else leaves both alone; the
  receive side and memory are never touched.
\<close>

lemma TxIntrHandler_outcome:
  fixes E :: env and s :: "'a dma_state_scheme"
  defines "st \<equiv> ans E (Dma (XAxiDma_IntrGetIrq (XAXIDMA_DMA_TO_DEVICE E))) s"
    and "s' \<equiv> TxIntrHandler E s"
  shows "Error s' = (if st AND XAXIDMA_IRQ_ALL_MASK E \<noteq> 0 \<and> st AND XAXIDMA_IRQ_ERROR_MASK E \<noteq> 0
      then 1 else Error s) \<and>
    TxDone s' = (if st AND XAXIDMA_IRQ_ALL_MASK E \<noteq> 0 \<and> st AND XAXIDMA_IRQ_ERROR_MASK E = 0 \<and>
      st AND XAXIDMA_IRQ_IOC_MASK E \<noteq> 0 then 1 else TxDone s) \<and>
    RxDone s' = RxDone s \<and> recv_packets s' = recv_packets s \<and> mem s' = mem s \<and>
    length (tr s') \<le> length (tr s) + 10003"
proof -
  let ?s1 = "emit E (Dma (XAxiDma_IntrAckIrq st (XAXIDMA_DMA_TO_DEVICE E)))
      (emit E (Dma (XAxiDma_IntrGetIrq (XAXIDMA_DMA_TO_DEVICE E))) s)"
  let ?s2 = "emit E (Dma XAxiDma_Reset) (?s1\<lparr>Error := 1\<rparr>)"
  obtain ok s3 where l: "reset_loop E RESET_TIMEOUT_COUNTER ?s2 = (ok, s3)" by fastforce
  then obtain k where "k \<le> 10000" and s3: "s3 = (emit E (Dma XAxiDma_ResetIsDone) ^^ k) ?s2"
    using reset_loop_state [OF l] by (auto simp: RESET_TIMEOUT_COUNTER_def)
  have len: "length (tr ((emit E c ^^ k) t)) = length (tr t) + k" for c and t :: "'a dma_state_scheme"
    by (induction k) simp_all
  have "length (tr s3) \<le> length (tr s) + 10003" using \<open>k \<le> 10000\<close> by (simp add: s3 len)
  with l s3 show ?thesis
    by (simp add: s'_def TxIntrHandler_def Let_def st_def [symmetric] io_simps)
qed

section \<open>Examples\<close>

definition dma_env :: "u32 \<Rightarrow> env" where
  "dma_env st = zynq_env
     (\<lambda>t c. if c = In32 0x40400034 then st else if c = In32 0x40400058 then 0x10010
        else if c = Udp (Pbuf_alloc 16) \<or> c = Dma (XAxiDma_LookupConfig 0x40400000) then 64 else 0)
     (\<lambda>_. []) (\<lambda>_. 0)"

definition dma_start :: dma_state where
  "dma_start = eth_state.extend eth_start \<lparr>Error = 0, TxDone = 0, RxDone = 0, recv_packets = 4\<rparr>"

lemma dma_env_consts:
  "XAXIDMA_IRQ_ALL_MASK (dma_env st) = 0x7000" "XAXIDMA_IRQ_ERROR_MASK (dma_env st) = 0x4000"
  "XAXIDMA_IRQ_IOC_MASK (dma_env st) = 0x1000" "ans (dma_env st) (In32 0x40400034) s = st"
  "XST_SUCCESS (dma_env st) = 0" "XST_FAILURE (dma_env st) = 1"
  "block_length (dma_env st) 0x40400000 s = 0x10010"
  by (simp_all add: dma_env_def zynq_env_def ans_def block_length_def)

text \<open>A block of 64 KiB and 16 bytes reaches the client as 16 bytes.\<close>

theorem RxUDPIntrHandler_done_witness:
  "\<exists>us. calls_since (dma_start\<lparr>tcp_connection := 1\<rparr>)
       (RxUDPIntrHandler (dma_env 0x1000) 0x40400000 0x0C000000 (dma_start\<lparr>tcp_connection := 1\<rparr>)) =
     completion_calls (dma_env 0x1000) 0x40400000 0x0C000000 0x1000 0x10010 us 5 \<and>
     packet_calls (pcb dma_start) 16 (bytes_at (mem dma_start) 0x0C000000 16) us"
proof -
  let ?s = "dma_start\<lparr>tcp_connection := 1\<rparr>"
  have "recv_packets ?s = 4" by (simp add: dma_start_def eth_state.defs)
  with RxUDPIntrHandler_done [where E = "dma_env 0x1000" and base = "0x40400000" and s = ?s
      and rx = "0x0C000000"]
  obtain us where us: "calls_since ?s (RxUDPIntrHandler (dma_env 0x1000) 0x40400000 0x0C000000 ?s) =
      completion_calls (dma_env 0x1000) 0x40400000 0x0C000000 0x1000 0x10010 us 5"
    "packet_calls (pcb dma_start) 0x10010 (bytes_at (mem dma_start) 0x0C000000 16) us"
    by (auto simp: dma_env_consts Let_def)
  moreover have "(0x10010 :: u16) = 16" by simp
  ultimately show ?thesis by metis
qed

theorem RxUDPIntrHandler_error_witness:
  "Error (RxUDPIntrHandler (dma_env 0x4000) 0x40400000 0x0C000000 dma_start) = 1"
  using RxUDPIntrHandler_error [where E = "dma_env 0x4000" and base = "0x40400000" and s = dma_start
      and rx = "0x0C000000"]
  by (simp add: dma_env_consts Let_def)


end
