(* ===== verification/Behaviour.thy ===== *)
theory Behaviour
  imports Dma_Control
begin

text \<open>
  What every part of the firmware may do to the state all parts share: a contract on pairs of
  states that each operation of the components keeps, interrupt handlers included. The properties
  of the whole program in \<^verbatim>\<open>Firmware_Main\<close> rest on it.
\<close>

section \<open>The contract\<close>

text \<open>The registers of the receive engine that the firmware itself accesses.\<close>

definition dma_registers :: "env \<Rightarrow> u32 list" where
  "dma_registers E = map (\<lambda>d. XPAR_AXI_DMA_0_BASEADDR E + d) [0x30, 0x34, 0x48, 0x4c, 0x58]"

text \<open>
  The accesses the whole firmware may make: requests stay in the register map, interrupts use the
  DMA registers and the first word of the transaction block, the I2C master only talks to the DACs.
\<close>

fun sanctioned :: "env \<Rightarrow> call \<Rightarrow> bool" where
  "sanctioned E (In32 a) = (in_register_map E a \<or> a \<in> set (dma_registers E))"
| "sanctioned E (Out32 a v) = (in_register_map E a \<or> a \<in> set (dma_registers E) \<or> a = TREG_ADDR E)"
| "sanctioned E (Iic (XIicPs_MasterSend bs n a)) = (n = 3 \<and> length bs = 3 \<and> a \<in> {0x0C, 0x0D})"
| "sanctioned E (Iic (XIicPs_MasterRecv b n a)) = False"
| "sanctioned E _ = True"

text \<open>The calls that are sanctioned and neither report a packet count nor run a TCP timer.\<close>

definition background :: "env \<Rightarrow> call \<Rightarrow> bool" where
  "background E c \<longleftrightarrow> sanctioned E c \<and> (\<forall>v. c \<noteq> Out32 (TREG_ADDR E) v)
     \<and> c \<noteq> Tcp Tcp_fasttmr \<and> c \<noteq> Tcp Tcp_slowtmr"

text \<open>The packet count the FPGA was last told is the one the firmware holds.\<close>

definition reported :: "env \<Rightarrow> 'a dma_state_scheme \<Rightarrow> bool" where
  "reported E s \<longleftrightarrow> last_out (TREG_ADDR E) 0 (tr s) = word_of_int (recv_packets s)"

text \<open>A flag stays raised, and is only ever raised in a tick whose number is a multiple of \<open>k\<close>.\<close>

definition raised_on_time :: "int \<Rightarrow> int \<times> int \<Rightarrow> int \<times> int \<Rightarrow> bool" where
  "raised_on_time k x y \<longleftrightarrow> (case x of (flag, n) \<Rightarrow> case y of (flag', n') \<Rightarrow>
     n \<le> n' \<and> (flag \<noteq> 0 \<longrightarrow> flag' \<noteq> 0) \<and> (flag' \<noteq> 0 \<longrightarrow> flag \<noteq> 0 \<or> n div k < n' div k))"

definition is_tcp_timer :: "call \<Rightarrow> bool" where
  "is_tcp_timer c \<longleftrightarrow> c = Tcp Tcp_fasttmr \<or> c = Tcp Tcp_slowtmr"

definition behaves :: "env \<Rightarrow> 'a dma_state_scheme \<Rightarrow> 'a dma_state_scheme \<Rightarrow> bool" where
  "behaves E s s' \<longleftrightarrow> prefix (tr s) (tr s')
     \<and> list_all (\<lambda>c. sanctioned E c \<and> \<not> is_tcp_timer c) (calls_since s s')
     \<and> (reported E s \<longrightarrow> reported E s')
     \<and> tcp_connection s \<le> tcp_connection s'
     \<and> raised_on_time 5 (TcpFastTmrFlag s, Tcp_Fasttimer s) (TcpFastTmrFlag s', Tcp_Fasttimer s')
     \<and> raised_on_time 10 (TcpSlowTmrFlag s, Tcp_Slowtimer s) (TcpSlowTmrFlag s', Tcp_Slowtimer s')"

lemma raised_on_time_refl: "raised_on_time k x x"
  by (cases x) (simp add: raised_on_time_def)

lemma raised_on_time_trans:
  assumes "0 < k" and "raised_on_time k x y" and "raised_on_time k y z"
  shows "raised_on_time k x z"
proof -
  have "n \<le> n' \<Longrightarrow> n div k \<le> n' div k" for n n' using assms(1) by (rule zdiv_mono1 [rotated])
  with assms(2,3) show ?thesis
    by (cases x; cases y; cases z) (fastforce simp: raised_on_time_def)
qed

lemma behaves_refl: "behaves E s s"
  by (simp add: behaves_def raised_on_time_refl)

lemma behaves_trans:
  assumes "behaves E s t" and "behaves E t u"
  shows "behaves E s u"
proof -
  have p: "prefix (tr s) (tr t)" "prefix (tr t) (tr u)" using assms by (auto simp: behaves_def)
  show ?thesis
    using assms calls_since_trans [OF p] prefix_order.trans [OF p]
    by (auto simp: behaves_def intro: raised_on_time_trans [rotated])
qed

interpretation behaves: contract "behaves E" for E
  by unfold_locales (auto intro: behaves_refl behaves_trans)

section \<open>Calls in the background\<close>

text \<open>What the contract says about besides the trace.\<close>

definition shared :: "'a dma_state_scheme \<Rightarrow> (int \<times> int) \<times> (int \<times> int) \<times> int \<times> int" where
  "shared s = ((TcpFastTmrFlag s, Tcp_Fasttimer s), (TcpSlowTmrFlag s, Tcp_Slowtimer s),
     recv_packets s, tcp_connection s)"

lemma last_out_background:
  "list_all (background E) (map fst u) \<Longrightarrow> last_out (TREG_ADDR E) r u = r"
proof (induction u arbitrary: r)
  case Nil
  show ?case by simp
next
  case (Cons e u)
  then show ?case by (cases e) (auto simp: background_def split: call.splits)
qed

lemma behaves_background:
  assumes "prefix (tr s) (tr s')" and "list_all (background E) (calls_since s s')"
    and "shared s' = shared s"
  shows "behaves E s s'"
proof -
  obtain u where u: "tr s' = tr s @ u" using assms(1) by (auto simp: prefix_def)
  have "last_out (TREG_ADDR E) 0 (tr s') = last_out (TREG_ADDR E) 0 (tr s)"
    using assms(2) u last_out_background by (simp add: calls_since_def)
  with assms show ?thesis
    by (auto simp: behaves_def shared_def reported_def raised_on_time_refl list_all_iff
        background_def is_tcp_timer_def)
qed

lemma shared_emit [simp]: "shared (emit E c s) = shared s"
  by (simp add: shared_def emit_def)

lemma shared_mem [simp]: "shared (s\<lparr>mem := m\<rparr>) = shared s"
  by (simp add: shared_def)

lemma shared_iic: "iic_state.more s' = iic_state.more s \<Longrightarrow> shared s' = shared s"
  by (cases s; cases s') (simp add: shared_def)

lemma behaves_emit: "background E c \<Longrightarrow> behaves E s (emit E c s)"
  by (rule behaves_background) (simp_all add: calls_since_def)

lemma behaves_then: "behaves E s t \<Longrightarrow> background E c \<Longrightarrow> behaves E s (emit E c t)"
  by (rule behaves_trans [OF _ behaves_emit])

lemma behaves_first: "behaves E (emit E c s) t \<Longrightarrow> background E c \<Longrightarrow> behaves E s t"
  by (rule behaves_trans [OF behaves_emit])

lemma behaves_mem: "behaves E s (s\<lparr>mem := m\<rparr>)"
  by (rule behaves_background) (simp_all add: calls_since_def)

lemma behaves_silent: "tr s' = tr s \<Longrightarrow> shared s' = shared s \<Longrightarrow> behaves E s s'"
  by (rule behaves_background) (simp_all add: calls_since_def)

lemma behaves_then_silent:
  "behaves E s t \<Longrightarrow> tr t' = tr t \<Longrightarrow> shared t' = shared t \<Longrightarrow> behaves E s t'"
  by (rule behaves_trans [OF _ behaves_silent])

section \<open>Interrupt handlers\<close>

lemma raised_on_time_tick:
  assumes "0 < k"
  shows "raised_on_time k (flag, n) (if (n + 1) mod k = 0 then 1 else flag, n + 1)"
proof -
  have "n div k < (n + 1) div k" if "(n + 1) mod k = 0"
  proof (rule ccontr)
    assume "\<not> n div k < (n + 1) div k"
    with zdiv_mono1 [of n "n + 1" k] assms have eq: "(n + 1) div k = n div k" by simp
    have "n + 1 = k * (n div k)" using that eq div_mult_mod_eq [of "n + 1" k] by (simp add: mult.commute)
    moreover have "k * (n div k) \<le> n"
      using mult_div_mod_eq [of k n] pos_mod_sign [OF assms, of n] by linarith
    ultimately show False by simp
  qed
  then show ?thesis by (simp add: raised_on_time_def)
qed

lemma tick_call_background: "tick_call c \<Longrightarrow> background E c \<and> \<not> is_tcp_timer c"
  by (auto simp: tick_call_def background_def is_tcp_timer_def)

lemma last_out_quiet:
  assumes "prefix (tr s) (tr s')" and "list_all (background E) (calls_since s s')"
  shows "last_out (TREG_ADDR E) 0 (tr s') = last_out (TREG_ADDR E) 0 (tr s)"
proof -
  obtain u where u: "tr s' = tr s @ u" using assms(1) by (auto simp: prefix_def)
  with assms(2) last_out_background [of E u] show ?thesis by (simp add: calls_since_def)
qed

lemma behaves_tick: "behaves E s (timer_callback E s)"
proof -
  let ?t = "timer_callback E s"
  have c: "prefix (tr s) (tr ?t)" "list_all tick_call (calls_since s ?t)"
    using timer_callback_tick_calls by blast+
  then have b: "list_all (background E) (calls_since s ?t)"
    by (auto simp: list_all_iff dest: tick_call_background)
  have "timer_state.more ?t = timer_state.more s" by (simp add: io_simps)
  then have "recv_packets ?t = recv_packets s" "tcp_connection ?t = tcp_connection s"
    by (cases s; cases ?t; simp)+
  moreover have "TcpFastTmrFlag ?t = (if (Tcp_Fasttimer s + 1) mod 5 = 0 then 1 else TcpFastTmrFlag s)"
    "TcpSlowTmrFlag ?t = (if (Tcp_Slowtimer s + 1) mod 10 = 0 then 1 else TcpSlowTmrFlag s)"
    "Tcp_Fasttimer ?t = Tcp_Fasttimer s + 1" "Tcp_Slowtimer ?t = Tcp_Slowtimer s + 1"
    by (simp_all add: timer_callback_def io_simps)
  ultimately show ?thesis
    using c b last_out_quiet [OF c(1) b] raised_on_time_tick [of 5 "TcpFastTmrFlag s" "Tcp_Fasttimer s"]
      raised_on_time_tick [of 10 "TcpSlowTmrFlag s" "Tcp_Slowtimer s"]
    unfolding behaves_def reported_def
    by (auto simp: list_all_iff background_def is_tcp_timer_def)
qed

lemma behaves_TimerCounterHandler: "behaves E s (TimerCounterHandler E s)"
  by (simp add: TimerCounterHandler_eq behaves_tick)

lemma background_driver [simp]:
  "background E (Dma dc)" "background E (Cpu cc)" "background E (Udp uc)" "background E (Netif nc)"
  "background E Vaccess"
  by (simp_all add: background_def)

lemma behaves_timer_point: "behaves E s (timer_point E s)"
  unfolding timer_point_def
  by (rule behaves_trans [OF behaves_emit behaves.iterated])
    (simp_all add: behaves_TimerCounterHandler)

lemma behaves_Handler: "behaves E s (Handler E ev s)"
  by (rule behaves_silent) (auto simp: io_simps intro: shared_iic)

text \<open>The DMA engine and the transaction block are different devices.\<close>

definition devices_apart :: "env \<Rightarrow> bool" where
  "devices_apart E \<longleftrightarrow> TREG_ADDR E \<notin> set (dma_registers E)"

lemma background_dma:
  assumes "devices_apart E" and "d \<in> {0x30, 0x34, 0x48, 0x4c, 0x58}"
  shows "background E (Out32 (XPAR_AXI_DMA_0_BASEADDR E + d) v)"
    and "background E (In32 (XPAR_AXI_DMA_0_BASEADDR E + d))"
  using assms by (auto simp: background_def devices_apart_def dma_registers_def)

lemma behaves_reset_loop: "behaves E s (snd (reset_loop E n s))"
  by (rule reset.loop_keeps [where P = "behaves E s"]) (simp_all add: behaves_refl behaves_then)

lemma behaves_send_loop: "behaves E s (snd (send_loop E packet n r s))"
  by (rule udp_retry.loop_keeps [where P = "behaves E s"])
    (simp_all add: behaves_refl behaves_then send_call_def failed_attempt_def)

lemma behaves_udp_packet_send: "behaves E s (udp_packet_send E rx n s)"
proof -
  let ?packet = "ans E (Udp (Pbuf_alloc n)) s" and ?s1 = "emit E (Udp (Pbuf_alloc n)) s"
  let ?s2 = "?s1\<lparr>mem := memcpy (mem ?s1) (payload_of E ?packet) rx (unat n)\<rparr>"
  have "behaves E s ?s2" by (rule behaves_then_silent [OF behaves_emit]) simp_all
  then have "behaves E s (emit E (Udp (Pbuf_free ?packet)) (snd (send_loop E ?packet n (unat MAX_SEND_RETRY) ?s2)))"
    by (intro behaves_then behaves_trans [OF _ behaves_send_loop]) simp_all
  then show ?thesis
    by (auto simp: udp_packet_send_def Let_def intro: behaves_emit split: prod.splits)
qed

lemma behaves_report:
  assumes "behaves E (s\<lparr>recv_packets := r\<rparr>) t"
  shows "behaves E s (emit E (Out32 (TREG_ADDR E) (word_of_int (recv_packets t))) t)"
  using assms
  by (auto simp: behaves_def reported_def calls_since_def is_tcp_timer_def io_simps prefix_append_right)
    (auto simp: prefix_def)

text \<open>The receive interrupt does one of three things.\<close>

lemma RxUDPIntrHandler_forms:
  obtains (idle) "RxUDPIntrHandler E base rx s = acked E base s"
  | (error) l where "l = snd (reset_loop E RESET_TIMEOUT_COUNTER
        (emit E (Dma XAxiDma_Reset) ((acked E base s)\<lparr>Error := 1\<rparr>)))"
      "RxUDPIntrHandler E base rx s \<in> {l, emit E (Out32 (base + 0x58) 0xFFFF)
        (emit E (Out32 (base + 0x34) (s2mm_status E base s)) l)}"
  | (finished) t where "t = (if tcp_connection s \<noteq> 0
        then udp_packet_send E rx (ucast (block_length E base s)) (block_ready E base rx s)
        else block_ready E base rx s)"
      "RxUDPIntrHandler E base rx s = emit E (Out32 (TREG_ADDR E) (word_of_int (recv_packets s + 1)))
        ((emit E (Out32 (base + 0x58) 0xFFFFF) t)\<lparr>RxDone := 1\<rparr>)"
proof -
  let ?st = "s2mm_status E base s"
  consider "?st AND XAXIDMA_IRQ_ALL_MASK E = 0 \<or>
      ?st AND XAXIDMA_IRQ_ERROR_MASK E = 0 \<and> ?st AND XAXIDMA_IRQ_IOC_MASK E = 0"
    | "?st AND XAXIDMA_IRQ_ALL_MASK E \<noteq> 0" "?st AND XAXIDMA_IRQ_ERROR_MASK E \<noteq> 0"
    | "?st AND XAXIDMA_IRQ_ALL_MASK E \<noteq> 0" "?st AND XAXIDMA_IRQ_ERROR_MASK E = 0"
        "?st AND XAXIDMA_IRQ_IOC_MASK E \<noteq> 0"
    by blast
  then show ?thesis
  proof cases
    case 1
    then have "RxUDPIntrHandler E base rx s = acked E base s"
      by (auto simp: RxUDPIntrHandler_def acked_def Let_def)
    then show ?thesis by (rule idle)
  next
    case 2
    then show ?thesis
      by (intro error [OF refl]) (simp add: RxUDPIntrHandler_def acked_def Let_def split: prod.splits)
  next
    case 3
    from RxUDPIntrHandler_done_eq [OF this, of rx] show ?thesis
      by (intro finished [OF refl]) (simp add: Let_def)
  qed
qed

lemma behaves_RxIntrHandler:
  assumes "devices_apart E"
  shows "behaves E s (RxIntrHandler E s)"
proof -
  let ?base = "XPAR_AXI_DMA_0_BASEADDR E" and ?rx = RX_DMA_BUFFER_BASE
  note dma = background_dma [OF assms]
  have acked: "behaves E u (acked E ?base u)" for u :: "'a dma_state_scheme"
    unfolding acked_def by (intro behaves_then behaves_refl) (simp_all add: dma)
  show ?thesis
  proof (cases rule: RxUDPIntrHandler_forms [where E = E and base = ?base and rx = ?rx and s = s])
    case idle
    then show ?thesis by (simp add: RxIntrHandler_def acked)
  next
    case (error l)
    have "behaves E s ((acked E ?base s)\<lparr>Error := 1\<rparr>)"
      by (rule behaves_then_silent [OF acked]) (simp_all add: shared_def)
    then have "behaves E s l"
      unfolding error(1) by (intro behaves_trans [OF behaves_then behaves_reset_loop]) simp_all
    with error(2) show ?thesis by (auto simp: RxIntrHandler_def dma intro!: behaves_then)
  next
    case (finished t)
    let ?s0 = "s\<lparr>recv_packets := recv_packets s + 1\<rparr>"
    let ?v = "(emit E (Out32 (?base + 0x58) 0xFFFFF) t)\<lparr>RxDone := 1\<rparr>"
    have "(acked E ?base s)\<lparr>recv_packets := recv_packets s + 1\<rparr> = acked E ?base ?s0"
      by (simp add: acked_def emit_def ans_def)
    then have "behaves E ?s0 (block_ready E ?base ?rx s)"
      unfolding block_ready_def by (intro behaves_then) (simp_all add: acked dma)
    then have "behaves E ?s0 t" unfolding finished(1) by (auto intro: behaves_trans behaves_udp_packet_send)
    then have "behaves E ?s0 (emit E (Out32 (?base + 0x58) 0xFFFFF) t)"
      by (rule behaves_then) (simp add: dma)
    then have v: "behaves E ?s0 ?v" by (rule behaves_then_silent) (simp_all add: shared_def)
    have "recv_packets ?v = recv_packets s + 1"
      by (simp add: finished(1) udp_packet_send_dma block_ready_fields io_simps)
    with behaves_report [OF v] finished(2) show ?thesis by (simp add: RxIntrHandler_def)
  qed
qed

section \<open>The network callbacks\<close>

lemma permitted_background: "permitted E c \<Longrightarrow> background E c"
proof (cases c)
  case (Out32 a v)
  have "4 + 4 * r \<noteq> (0 :: u32)" if "r \<le> QPIX_NUM_REGS" for r
  proof -
    have "unat r \<le> 10" using that by (simp add: macro_defs word_le_nat_alt)
    then have "unat (4 + 4 * r) = 4 + 4 * unat r" by (simp add: unat_word_ariths)
    then show ?thesis by (metis add_is_0 unat_0 zero_neq_numeral)
  qed
  then have "\<not> in_register_map E (TREG_ADDR E)"
    by (auto simp: in_register_map_def macro_defs)
  moreover assume "permitted E c"
  ultimately show ?thesis using Out32 by (auto simp: background_def)
next
  case (Iic ic)
  then show "permitted E c \<Longrightarrow> background E c" by (cases ic) (auto simp: background_def)
qed (auto simp: background_def)

lemma handle_more:
  assumes "HandleCmdRequest E rx tx n s = Some (r, s')"
  shows "iic_state.more s' = iic_state.more s"
proof -
  have wr: "iic_state.more (wr a i v u) = iic_state.more u" for a i v and u :: "'a iic_state_scheme"
    by (simp add: wr_def)
  have send: "iic_state.more u' = iic_state.more u" if "IicSend E bs k a u = Some (x, u')"
    for bs k a x and u u' :: "'a iic_state_scheme"
    using IicSend_progress [OF that] by (simp add: progress_def io_simps)
  show ?thesis
    using assms
    by (auto simp: HandleCmdRequest_def handle_qpix_def handle_spi_def handle_i2c_def handle_ctrl_def
        Let_def wr io_simps split: if_splits option.splits dest!: send)
qed

lemma behaves_HandleCmdRequest:
  assumes "HandleCmdRequest E rx tx n s = Some (r, s')"
  shows "behaves E s s'"
proof (rule behaves_background)
  show "prefix (tr s) (tr s')" "list_all (background E) (calls_since s s')"
    using handle_confined [OF assms] permitted_background by (auto simp: reaches_def list_all_iff)
  show "shared s' = shared s" by (rule shared_iic [OF handle_more [OF assms]])
qed

lemma background_tcp [simp]:
  "background E (Tcp tc) \<longleftrightarrow> tc \<noteq> Tcp_fasttmr \<and> tc \<noteq> Tcp_slowtmr"
  by (simp add: background_def)

lemma behaves_recv_callback:
  assumes "recv_callback E rxp txp tpcb p s = Some (r, s')"
  shows "behaves E s s'"
proof (cases "p_addr p = 0")
  case True
  with assms show ?thesis
    by (auto simp: recv_callback_def Let_def intro!: behaves_then behaves_refl)
next
  case False
  have announced: "behaves E s (announced E tpcb p s)"
    unfolding announced_def by (intro behaves_then behaves_refl) simp_all
  show ?thesis
  proof (cases "has_space E tpcb p s")
    case True
    let ?n = "recv_size_of (tot_len p)"
    from False True assms obtain n s1
      where h: "HandleCmdRequest E rxp txp ?n (received E rxp tpcb p s) = Some (n, s1)"
        and s': "s' = emit E (Udp (Pbuf_free (p_addr p)))
          (emit E (Tcp (Tcp_write tpcb (bytes_at (mem s1) txp (unat n))))
            (emit E (Cpu (Xil_DCacheFlushRange txp n)) s1))"
      by (auto simp: recv_callback_unfold split: option.splits)
    have "behaves E s (received E rxp tpcb p s)"
      unfolding received_def Let_def
      by (intro behaves_then behaves_trans [OF announced behaves_mem]) simp
    then have "behaves E s s1" by (rule behaves_trans [OF _ behaves_HandleCmdRequest [OF h]])
    then show ?thesis unfolding s' by (intro behaves_then) simp_all
  next
    case no_space: False
    with False assms have "s' = emit E (Udp (Pbuf_free (p_addr p))) (announced E tpcb p s)"
      by (simp add: recv_callback_unfold)
    then show ?thesis by (simp add: behaves_then [OF announced])
  qed
qed

lemma behaves_accept_callback: "behaves E s (snd (accept_callback E newpcb s))"
proof -
  let ?t = "(emit E (Tcp (Tcp_recv newpcb True)) s)\<lparr>tcp_connection := tcp_connection s + 1\<rparr>"
  have "behaves E s ?t"
    by (simp add: behaves_def reported_def calls_since_def raised_on_time_refl is_tcp_timer_def io_simps)
  then have "behaves E s (emit E (Tcp (Tcp_arg newpcb (word_of_int (tcp_connection s + 1)))) ?t)"
    by (rule behaves_then) simp
  then show ?thesis by (simp add: accept_callback_def Let_def io_simps)
qed

lemma behaves_udp_echo_recv: "behaves E s (udp_echo_recv E upcb p addr port s)"
proof (cases "p = 0")
  case False
  let ?t = "emit E (Udp (Udp_sendto upcb p addr port)) s"
  have "behaves E s (?t\<lparr>remote := (remote ?t)(upcb := (addr, port))\<rparr>)"
    by (rule behaves_then_silent [OF behaves_emit]) (simp_all add: shared_def io_simps)
  then have "behaves E s (emit E (Udp (Pbuf_free p)) (?t\<lparr>remote := (remote ?t)(upcb := (addr, port))\<rparr>))"
    by (rule behaves_then) simp
  with False show ?thesis by (simp add: udp_echo_recv_def Let_def)
qed (simp add: udp_echo_recv_def behaves_refl)

section \<open>Starting up\<close>

lemma behaves_init_platform: "behaves E s (init_platform E s)"
  unfolding init_platform_def init_timer_def enable_caches_def
  by (intro behaves_then behaves_refl) simp_all

lemma behaves_Init_Qpix_DMA:
  assumes "devices_apart E"
  shows "behaves E s (snd (Init_Qpix_DMA E (XPAR_AXI_DMA_0_BASEADDR E) rx tx s))"
  unfolding Init_Qpix_DMA_def InitDMA_def RxArmDMA_def Let_def
  by (auto simp: background_dma [OF assms] intro!: behaves_then behaves_refl)

lemma background_iic [simp]:
  "background E (Iic (XIicPs_LookupConfig a))" "background E (Iic (XIicPs_CfgInitialize a))"
  "background E (Iic XIicPs_SelfTest)" "background E (Iic XIicPs_SetStatusHandler)"
  "background E (Iic (XIicPs_SetSClk r))"
  by (simp_all add: background_def)

lemma behaves_SetupIIC: "behaves E s (snd (SetupIIC E s))"
  unfolding SetupIIC_def XIicPsSmbusMasterInit_def Let_def
  by (auto intro!: behaves_then behaves_refl split: prod.splits)

lemma behaves_dhcp_wait:
  assumes "dhcp_wait E s = Some s'"
  shows "behaves E s s'"
proof (rule dhcp_wait.raw_induct [where P = "\<lambda>E s s'. behaves E s s'", OF _ assms])
  fix f E and s s' :: "'a dma_state_scheme"
  let ?s1 = "emit E (Netif Netif_ip_addr) s"
  let ?s2 = "timer_point E ?s1"
  assume IH: "\<And>E s s'. f E s = Some s' \<Longrightarrow> behaves E s s'"
    and eq: "(let c = Netif Netif_ip_addr; addr = ans E c s; s = emit E c s
      in if addr \<noteq> 0 then Some s else
      let s = timer_point E s
      in if dhcp_timoutcntr s > 0 then f E (emit E (Netif Xemacif_input) s) else Some s) = Some s'"
  have one: "behaves E s ?s1" by (rule behaves_emit) simp
  have two: "behaves E s ?s2" by (rule behaves_trans [OF one behaves_timer_point])
  have three: "behaves E s (emit E (Netif Xemacif_input) ?s2)" by (rule behaves_then [OF two]) simp
  show "behaves E s s'"
  proof (cases "ans E (Netif Netif_ip_addr) s \<noteq> 0")
    case True
    with eq one show ?thesis by (simp add: Let_def)
  next
    case a: False
    show ?thesis
    proof (cases "dhcp_timoutcntr ?s2 > 0")
      case True
      with a eq have "f E (emit E (Netif Xemacif_input) ?s2) = Some s'" by (simp add: Let_def)
      from behaves_trans [OF three IH [OF this]] show ?thesis .
    next
      case False
      with a eq two show ?thesis by (simp add: Let_def)
    qed
  qed
qed

lemma behaves_dhcp_address:
  assumes "dhcp_address E s = Some s'"
  shows "behaves E s s'"
proof -
  let ?s0 = "(timer_point E (emit E (Netif Dhcp_start) s))\<lparr>dhcp_timoutcntr := 240\<rparr>"
  obtain s1 where s1: "dhcp_wait E ?s0 = Some s1"
    using assms by (auto simp: dhcp_address_def Let_def split: option.splits)
  have "behaves E s (timer_point E (emit E (Netif Dhcp_start) s))"
    by (rule behaves_trans [OF behaves_emit behaves_timer_point]) simp
  then have "behaves E s ?s0" by (rule behaves_then_silent) (simp_all add: shared_def)
  then have "behaves E s (timer_point E s1)"
    by (rule behaves_trans [OF behaves_trans [OF _ behaves_dhcp_wait [OF s1]] behaves_timer_point])
  with assms s1 show ?thesis
    by (auto simp: dhcp_address_def Let_def split: if_splits intro!: behaves_then)
qed

lemma behaves_start_application: "behaves E s (snd (start_application E s))"
  unfolding start_application_def Let_def by (auto intro!: behaves_then behaves_refl)

lemma behaves_udp_start_application: "behaves E s (udp_start_application E s)"
proof -
  let ?t = "(emit E (Udp Udp_new) s)\<lparr>pcb := ans E (Udp Udp_new) s\<rparr>"
  have "behaves E s ?t"
    by (rule behaves_then_silent [OF behaves_emit]) (simp_all add: shared_def)
  then show ?thesis
    unfolding udp_start_application_def Let_def by (auto intro!: behaves_then)
qed

lemma behaves_SetupEthernet:
  assumes "SetupEthernet E a s = Some (r, s')"
  shows "behaves E s s'"
proof -
  let ?added = "\<lambda>s ip nm gw. emit E (Netif (Xemac_add ip nm gw (mac_of a))) (emit E (Netif Lwip_init) (init_platform E s))"
  let ?up = "\<lambda>t. emit E (Netif Netif_set_up) (if \<not> SDT E then emit E (Cpu Platform_enable_interrupts)
    (emit E (Netif Netif_set_default) t) else emit E (Netif Netif_set_default) t)"
  let ?named = "\<lambda>t. if LWIP_DHCP E then emit E (Netif Netif_netmask) (emit E (Netif Netif_gw)
    (emit E (Netif Netif_ip_addr) t)) else t"
  have added: "behaves E s (?added s ip nm gw)" for ip nm gw
    by (intro behaves_then behaves_init_platform) simp_all
  have up: "behaves E t (?up t)" for t :: "'a dma_state_scheme"
    by (auto intro!: behaves_then behaves_refl)
  have addr: "behaves E t t'" if "(if LWIP_DHCP E then dhcp_address E t else Some t) = Some t'"
    for t t' :: "'a dma_state_scheme"
    using that by (auto intro: behaves_dhcp_address behaves_refl split: if_splits)
  have start: "behaves E t (udp_start_application E (snd (start_application E (?named t))))"
    for t :: "'a dma_state_scheme"
    by (intro behaves_trans [OF behaves_trans [OF _ behaves_start_application] behaves_udp_start_application])
      (auto intro!: behaves_then behaves_refl)
  obtain ip nm gw where ip: "(if LWIP_DHCP E then (0, 0, 0) else (IP4_ADDR 192 168 1 10,
      IP4_ADDR 255 255 255 0, IP4_ADDR 192 168 1 1)) = (ip, nm, gw)" by (metis surj_pair)
  consider "s' = ?added s ip nm gw"
    | t where "(if LWIP_DHCP E then dhcp_address E (?up (?added s ip nm gw)) else Some (?up (?added s ip nm gw))) = Some t"
      "s' = udp_start_application E (snd (start_application E (?named t)))"
    using assms unfolding SetupEthernet_def Let_def ip
    by (auto split: if_splits option.splits prod.splits)
  then show ?thesis
  proof cases
    case 1
    then show ?thesis using added by simp
  next
    case (2 t)
    have "behaves E s t" by (rule behaves_trans [OF behaves_trans [OF added up] addr [OF 2(1)]])
    then show ?thesis unfolding 2(2) by (rule behaves_trans [OF _ start])
  qed
qed

end
