(* ===== verification/Firmware_Main.thy ===== *)
theory Firmware_Main
  imports Behaviour
begin

text \<open>
  \<^verbatim>\<open>main.c\<close> and the system it makes of the components: the main thread runs one statement after the
  other, lwIP calls back into the firmware from inside \<^verbatim>\<open>xemacif_input\<close>, interrupts arrive between the
  statements and the callbacks, and hardware writes memory at any time. A statement that never
  returns leads to the control point \<open>Hung\<close>, where only interrupts still run.
\<close>

section \<open>The main thread\<close>

text \<open>Control points of \<^verbatim>\<open>main\<close>, in the order of its statements.\<close>

datatype pc =
    Boot_Platform | Boot_Dma | Boot_Iic | Boot_Ethernet
  | Test_Fast | Run_Fast | Clear_Fast
  | Test_Slow | Run_Slow | Clear_Slow
  | Poll_Input | In_Lwip | Transfer | Hung

text \<open>The order in which control first reaches them; the four of the boot come before the loop.\<close>

primrec position :: "pc \<Rightarrow> nat" where
  "position Boot_Platform = 0"
| "position Boot_Dma = 1"
| "position Boot_Iic = 2"
| "position Boot_Ethernet = 3"
| "position Test_Fast = 4"
| "position Run_Fast = 5"
| "position Clear_Fast = 6"
| "position Test_Slow = 7"
| "position Run_Slow = 8"
| "position Clear_Slow = 9"
| "position Poll_Input = 10"
| "position In_Lwip = 11"
| "position Transfer = 12"
| "position Hung = 13"

lemma position_inject: "position l = position l' \<Longrightarrow> l = l'"
  by (cases l; cases l') simp_all

instantiation pc :: linorder
begin

definition less_eq_pc :: "pc \<Rightarrow> pc \<Rightarrow> bool" where "less_eq_pc l l' \<longleftrightarrow> position l \<le> position l'"
definition less_pc :: "pc \<Rightarrow> pc \<Rightarrow> bool" where "less_pc l l' \<longleftrightarrow> position l < position l'"

instance
  by standard (auto simp: less_eq_pc_def less_pc_def intro: position_inject)

end

definition mac_addr :: "u8 list" where
  "mac_addr = [0x00, 0x12, 0x34, 0x33, 0x1, 0x2]"

text \<open>One statement of \<^verbatim>\<open>main\<close>; inside lwIP and after a hang the main thread makes none of its own.\<close>

fun main_statement :: "env \<Rightarrow> pc \<Rightarrow> 'a dma_state_scheme \<Rightarrow> (pc \<times> 'a dma_state_scheme) option" where
  "main_statement E Boot_Platform s = Some (Boot_Dma, init_platform E s)"
| "main_statement E Boot_Dma s = Some (Boot_Iic, snd
     (Init_Qpix_DMA E (XPAR_AXI_DMA_0_BASEADDR E) RX_DMA_BUFFER_BASE TX_DMA_BUFFER_BASE s))"
| "main_statement E Boot_Iic s = Some (Boot_Ethernet, snd (SetupIIC E s))"
| "main_statement E Boot_Ethernet s =
     (case SetupEthernet E mac_addr s of
        None \<Rightarrow> Some (Hung, s) | Some (_, s) \<Rightarrow> Some (Test_Fast, s))"
| "main_statement E Test_Fast s =
     Some (if TcpFastTmrFlag s \<noteq> 0 then Run_Fast else Test_Slow, emit E Vaccess s)"
| "main_statement E Run_Fast s = Some (Clear_Fast, emit E (Tcp Tcp_fasttmr) s)"
| "main_statement E Clear_Fast s = Some (Test_Slow, (emit E Vaccess s)\<lparr>TcpFastTmrFlag := 0\<rparr>)"
| "main_statement E Test_Slow s =
     Some (if TcpSlowTmrFlag s \<noteq> 0 then Run_Slow else Poll_Input, emit E Vaccess s)"
| "main_statement E Run_Slow s = Some (Clear_Slow, emit E (Tcp Tcp_slowtmr) s)"
| "main_statement E Clear_Slow s = Some (Poll_Input, (emit E Vaccess s)\<lparr>TcpSlowTmrFlag := 0\<rparr>)"
| "main_statement E Poll_Input s = Some (In_Lwip, emit E (Netif Xemacif_input) s)"
| "main_statement E In_Lwip s = None"
| "main_statement E Transfer s = Some (Test_Fast, snd (transfer_data s))"
| "main_statement E Hung s = None"

text \<open>The unused I2C test of \<^verbatim>\<open>main.c\<close>.\<close>

definition test_iic :: "env \<Rightarrow> 'a iic_state_scheme \<Rightarrow> (u32 \<times> 'a iic_state_scheme) option" where
  "test_iic E s =
     (case IicSend E [0x03, 0x2f, 0x55] 3 (ucast IIC_SLAVE_ADDR_1) s of None \<Rightarrow> None | Some (_, s) \<Rightarrow>
      case IicSend E [0x03, 0x2f, 0x55] 3 (ucast IIC_SLAVE_ADDR_2) s of None \<Rightarrow> None | Some (_, s) \<Rightarrow>
      Some (XST_SUCCESS E, s))"

section \<open>The system\<close>

inductive step :: "env \<Rightarrow> pc \<times> 'a dma_state_scheme \<Rightarrow> pc \<times> 'a dma_state_scheme \<Rightarrow> bool" for E where
  main: "main_statement E l s = Some (l', s') \<Longrightarrow> step E (l, s) (l', s')"
| accept: "accept_callback E newpcb s = (r, s') \<Longrightarrow> step E (In_Lwip, s) (In_Lwip, s')"
| receive: "recv_callback E RX_ETH_BUFFER_BASE TX_ETH_BUFFER_BASE tpcb p s = Some (r, s') \<Longrightarrow>
    step E (In_Lwip, s) (In_Lwip, s')"
| receive_hangs: "recv_callback E RX_ETH_BUFFER_BASE TX_ETH_BUFFER_BASE tpcb p s = None \<Longrightarrow>
    step E (In_Lwip, s) (Hung, s)"
| udp_packet: "step E (In_Lwip, s) (In_Lwip, udp_echo_recv E upcb p addr port s)"
| input_done: "step E (In_Lwip, s) (Transfer, s)"
| timer_irq: "step E (l, s) (l, TimerCounterHandler E s)"
| dma_irq: "step E (l, s) (l, RxIntrHandler E s)"
| iic_irq: "step E (l, s) (l, Handler E ev s)"
| hardware: "step E (l, s) (l, s\<lparr>mem := m\<rparr>)"

inductive_cases hungE: "step E (Hung, s) (l', s')"

text \<open>The state at the start: the C objects with their initial values, memory as the loader left it.\<close>

definition firmware_start :: "memory \<Rightarrow> dma_state" where
  "firmware_start m =
     \<lparr>tr = [], mem = m, SendComplete = 0, RecvComplete = 0, TotalErrorCount = 0,
      TcpFastTmrFlag = 0, TcpSlowTmrFlag = 0, dhcp_timoutcntr = 240, DetectEthLinkStatus = 0,
      Tcp_Fasttimer = 0, Tcp_Slowtimer = 0, dhcp_timer = 0, dhcp_finetimer = 0, acd_timer = 0,
      ResetRxCntr = 0, pcb = 0, remote = (\<lambda>_. (0, 0)), tcp_connection = 0,
      Error = 0, TxDone = 0, RxDone = 0, recv_packets = 0\<rparr>"

definition reachable :: "env \<Rightarrow> memory \<Rightarrow> pc \<Rightarrow> dma_state \<Rightarrow> bool" where
  "reachable E m l s \<longleftrightarrow> (step E)\<^sup>*\<^sup>* (Boot_Platform, firmware_start m) (l, s)"

text \<open>The boot happens once: no step leads back to it, so each part is initialised at most once.\<close>

lemma main_statement_over:
  assumes "main_statement E l s = Some (l', s')" and "Test_Fast \<le> l"
  shows "Test_Fast \<le> l'"
  using assms by (cases l) (auto simp: less_eq_pc_def split: option.splits)

lemma boot_is_over:
  assumes "(step E)\<^sup>*\<^sup>* x y" and "Test_Fast \<le> fst x"
  shows "Test_Fast \<le> fst y"
  using assms
proof (induction rule: rtranclp_induct)
  case base
  then show ?case .
next
  case (step y z)
  from step.hyps(2) have "Test_Fast \<le> fst y \<longrightarrow> Test_Fast \<le> fst z"
    by (cases rule: step.cases) (auto dest: main_statement_over simp: less_eq_pc_def)
  with step show ?case by simp
qed

section \<open>Steps of the system keep the contract\<close>

text \<open>Everything but the calls of the two TCP timers.\<close>

definition runs :: "env \<Rightarrow> 'a dma_state_scheme \<Rightarrow> 'a dma_state_scheme \<Rightarrow> bool" where
  "runs E s s' \<longleftrightarrow> prefix (tr s) (tr s') \<and> list_all (sanctioned E) (calls_since s s')
     \<and> (reported E s \<longrightarrow> reported E s') \<and> tcp_connection s \<le> tcp_connection s'"

lemma runs_refl: "runs E s s"
  by (simp add: runs_def)

lemma runs_trans:
  assumes "runs E s t" and "runs E t u"
  shows "runs E s u"
proof -
  have p: "prefix (tr s) (tr t)" "prefix (tr t) (tr u)" using assms by (auto simp: runs_def)
  show ?thesis
    using assms calls_since_trans [OF p] prefix_order.trans [OF p] by (auto simp: runs_def)
qed

interpretation runs: contract "runs E" for E
  by unfold_locales (auto intro: runs_refl runs_trans)

lemma behaves_runs: "behaves E s s' \<Longrightarrow> runs E s s'"
  by (auto simp: behaves_def runs_def list_all_iff)

text \<open>The statements that are not part of the contract of the components.\<close>

definition own_statement :: "pc \<Rightarrow> bool" where
  "own_statement l \<longleftrightarrow> l \<in> {Run_Fast, Clear_Fast, Run_Slow, Clear_Slow}"

lemma main_behaves:
  assumes "devices_apart E" and "main_statement E l s = Some (l', s')" and "\<not> own_statement l"
  shows "behaves E s s'"
  using assms(2,3)
  by (cases l)
    (auto simp: own_statement_def transfer_data_def split: option.splits
      intro: behaves_init_platform behaves_Init_Qpix_DMA [OF assms(1)] behaves_SetupIIC
        behaves_SetupEthernet behaves_refl behaves_emit)

text \<open>A step is a statement of the main thread or keeps the contract.\<close>

lemma step_behaves:
  assumes "devices_apart E" and "step E (l, s) (l', s')"
  shows "main_statement E l s = Some (l', s') \<and> own_statement l
    \<or> behaves E s s' \<and> (l' = l \<or> main_statement E l s = Some (l', s') \<or> l = In_Lwip \<and> l' \<in> {Transfer, Hung})"
  using assms(2)
proof (cases rule: step.cases)
  case main
  then show ?thesis using main_behaves [OF assms(1)] by blast
next
  case (accept newpcb r)
  then show ?thesis using behaves_accept_callback [of E s newpcb] by simp
qed (auto intro: behaves_recv_callback behaves_refl behaves_udp_echo_recv behaves_TimerCounterHandler
    behaves_RxIntrHandler [OF assms(1)] behaves_Handler behaves_mem)

lemma step_runs:
  assumes "devices_apart E" and "step E (l, s) (l', s')"
  shows "runs E s s'"
proof -
  have "runs E s s'" if "main_statement E l s = Some (l', s')" "own_statement l"
    using that
    by (cases l) (auto simp: own_statement_def runs_def calls_since_def reported_def io_simps)
  with step_behaves [OF assms] show ?thesis by (auto intro: behaves_runs)
qed

lemma steps_run:
  assumes "devices_apart E" and "(step E)\<^sup>*\<^sup>* (l, s) (l', s')"
  shows "runs E s s'"
  using runs.run [OF step_runs [OF assms(1)] assms(2)] by simp

lemma start_reported: "reported E (firmware_start m)"
  by (simp add: reported_def firmware_start_def)

text \<open>
  In every state the firmware can reach, under any interleaving of main thread, network callbacks
  and interrupts, the packet count last written to the FPGA is the number of finished blocks, modulo
  32 bits: no completion goes unreported and nothing else ever writes that register.
\<close>

lemma packets_reported:
  assumes "devices_apart E" and "reachable E m l s"
  shows "last_out (TREG_ADDR E) 0 (tr s) = word_of_int (recv_packets s)"
  using steps_run [OF assms(1)] start_reported [of E m] assms(2)
  unfolding reachable_def runs_def reported_def by blast

text \<open>
  The firmware as a whole is confined: in every reachable state, every register that has ever been
  accessed is one of the transaction map or of the receive engine, and every I2C transfer was a
  three-byte message to one of the two DACs.
\<close>

lemma firmware_confined:
  assumes "devices_apart E" and "reachable E m l s"
  shows "list_all (sanctioned E) (map fst (tr s))"
proof -
  have "runs E (firmware_start m) s"
    using steps_run [OF assms(1)] assms(2) unfolding reachable_def by blast
  then show ?thesis by (simp add: runs_def calls_since_def firmware_start_def)
qed

section \<open>The pace of the TCP timers\<close>

text \<open>
  How the calls of a TCP timer relate to the ticks: \<open>run\<close> and \<open>clear\<close> say whether the main thread is
  about to call it and about to clear its flag. A raised flag stands for a call that is still to come.
\<close>

definition paced :: "int \<Rightarrow> call \<Rightarrow> bool \<Rightarrow> bool \<Rightarrow> int \<Rightarrow> int \<Rightarrow> event list \<Rightarrow> bool" where
  "paced k c run clear flag n t \<longleftrightarrow>
     int (count_list (map fst t) c) + (if flag \<noteq> 0 \<and> \<not> clear then 1 else 0) \<le> n div k
     \<and> (run \<longrightarrow> flag \<noteq> 0)"

definition tcp_paced :: "pc \<Rightarrow> 'a dma_state_scheme \<Rightarrow> bool" where
  "tcp_paced l s \<longleftrightarrow>
     paced 5 (Tcp Tcp_fasttmr) (l = Run_Fast) (l = Clear_Fast) (TcpFastTmrFlag s) (Tcp_Fasttimer s) (tr s)
     \<and> paced 10 (Tcp Tcp_slowtmr) (l = Run_Slow) (l = Clear_Slow) (TcpSlowTmrFlag s) (Tcp_Slowtimer s) (tr s)"

lemma paced_on_time:
  assumes "paced k c run clear flag n t" and "raised_on_time k (flag, n) (flag', n')" and "0 < k"
    and "count_list (map fst t') c = count_list (map fst t) c"
  shows "paced k c run clear flag' n' t'"
proof -
  have "n div k \<le> n' div k" using assms(2,3) by (auto simp: raised_on_time_def intro: zdiv_mono1)
  then show ?thesis using assms(1,2,4) by (auto simp: paced_def raised_on_time_def split: if_splits)
qed

lemma behaves_count:
  assumes "behaves E s s'" and "is_tcp_timer c"
  shows "count_list (map fst (tr s')) c = count_list (map fst (tr s)) c"
proof -
  obtain u where u: "tr s' = tr s @ u" using assms(1) by (auto simp: behaves_def prefix_def)
  have "c \<notin> set (map fst u)"
    using assms u by (auto simp: behaves_def calls_since_def list_all_iff)
  then show ?thesis by (simp add: u count_notin)
qed

lemma tcp_paced_behaves:
  assumes "tcp_paced l s" and "behaves E s s'"
  shows "tcp_paced l s'"
  using assms behaves_count [OF assms(2)]
  unfolding tcp_paced_def
  by (auto simp: behaves_def is_tcp_timer_def intro: paced_on_time)

text \<open>Moving on changes what a flag stands for only at the four statements that use it.\<close>

lemma tcp_paced_moved:
  assumes "tcp_paced l s" and "main_statement E l s = Some (l', s')" and "\<not> own_statement l"
    and "behaves E s s'"
  shows "tcp_paced l' s'"
proof -
  have "l' \<noteq> Clear_Fast" "l' \<noteq> Clear_Slow" "l' = Run_Fast \<longrightarrow> TcpFastTmrFlag s' \<noteq> 0"
      "l' = Run_Slow \<longrightarrow> TcpSlowTmrFlag s' \<noteq> 0"
    using assms(2,3)
    by (cases l; auto simp: own_statement_def io_simps split: if_splits option.splits)+
  moreover have "l \<noteq> Clear_Fast" "l \<noteq> Clear_Slow" using assms(3) by (auto simp: own_statement_def)
  ultimately show ?thesis
    using tcp_paced_behaves [OF assms(1,4)] by (auto simp: tcp_paced_def paced_def)
qed

lemma tcp_paced_own:
  assumes "tcp_paced l s" and "main_statement E l s = Some (l', s')" and "own_statement l"
  shows "tcp_paced l' s'"
  using assms by (cases l) (auto simp: own_statement_def tcp_paced_def paced_def io_simps)

lemma tcp_paced_step:
  assumes "devices_apart E" and "step E (l, s) (l', s')" and "tcp_paced l s"
  shows "tcp_paced l' s'"
proof -
  consider "main_statement E l s = Some (l', s')" "own_statement l"
    | "main_statement E l s = Some (l', s')" "\<not> own_statement l"
    | "behaves E s s'" "l' = l" | "behaves E s s'" "l = In_Lwip" "l' \<in> {Transfer, Hung}"
    using step_behaves [OF assms(1,2)] by blast
  then show ?thesis
  proof cases
    case 1
    then show ?thesis using tcp_paced_own [OF assms(3)] by blast
  next
    case 2
    then show ?thesis using tcp_paced_moved [OF assms(3)] main_behaves [OF assms(1)] by blast
  next
    case 3
    then show ?thesis using tcp_paced_behaves [OF assms(3)] by simp
  next
    case 4
    then show ?thesis using tcp_paced_behaves [OF assms(3) 4(1)] by (auto simp: tcp_paced_def)
  qed
qed

text \<open>
  lwIP's TCP timers never run too fast: in every reachable state, \<open>tcp_fasttmr\<close> has been called at
  most once for every 5 ticks (250 ms) and \<open>tcp_slowtmr\<close> at most once for every 10 (500 ms), although
  the flags are set by the interrupt and cleared by the main thread without any lock.
\<close>

lemma tcp_timers_paced:
  assumes "devices_apart E" and "reachable E m l s"
  shows "int (count_list (map fst (tr s)) (Tcp Tcp_fasttmr)) \<le> Tcp_Fasttimer s div 5 \<and>
    int (count_list (map fst (tr s)) (Tcp Tcp_slowtmr)) \<le> Tcp_Slowtimer s div 10"
proof -
  have "tcp_paced (fst x) (snd x)" if "(step E)\<^sup>*\<^sup>* (Boot_Platform, firmware_start m) x" for x
    using that
  proof (induction rule: rtranclp_induct)
    case base
    show ?case by (simp add: tcp_paced_def paced_def firmware_start_def)
  next
    case (step y z)
    then show ?case using tcp_paced_step [OF assms(1), of "fst y" "snd y" "fst z" "snd z"] by simp
  qed
  from this [of "(l, s)"] assms(2) show ?thesis
    by (auto simp: reachable_def tcp_paced_def paced_def split: if_splits)
qed

section \<open>Consequences\<close>

text \<open>
  Streaming never stops: once a client has been accepted, every finished block in every later
  state is handed to UDP, whatever happened to the connection in between, because closing it never
  lowers the count.
\<close>

lemma streaming_never_stops:
  fixes E :: env and s' :: "'a dma_state_scheme"
  defines "st \<equiv> s2mm_status E (XPAR_AXI_DMA_0_BASEADDR E) s'"
  assumes "devices_apart E" and "0 < tcp_connection s" and "(step E)\<^sup>*\<^sup>* (l, s) (l', s')"
    and "st AND XAXIDMA_IRQ_ALL_MASK E \<noteq> 0" and "st AND XAXIDMA_IRQ_ERROR_MASK E = 0"
    and "st AND XAXIDMA_IRQ_IOC_MASK E \<noteq> 0"
  shows "Udp (Pbuf_alloc (ucast (block_length E (XPAR_AXI_DMA_0_BASEADDR E) s')))
    \<in> set (calls_since s' (RxIntrHandler E s'))"
proof -
  have "tcp_connection s' \<noteq> 0"
    using steps_run [OF assms(2,4)] assms(3) by (simp add: runs_def)
  with RxUDPIntrHandler_done_cases [OF assms(5-7) [unfolded st_def], of RX_DMA_BUFFER_BASE]
  show ?thesis
    by (auto simp: Let_def RxIntrHandler_def completion_calls_def packet_calls_def)
qed

lemma hung_stays:
  assumes "devices_apart E" and "(step E)\<^sup>*\<^sup>* (Hung, s) y"
  shows "fst y = Hung \<and> behaves E s (snd y)"
  using assms(2)
proof (induction rule: rtranclp_induct)
  case base
  show ?case by (simp add: behaves_refl)
next
  case (step y z)
  obtain l t l' t' where yz: "y = (l, t)" "z = (l', t')" by (metis surj_pair)
  with step have "step E (Hung, t) (l', t')" by simp
  then have "l' = Hung" by (rule hungE) auto
  moreover have "behaves E t t'"
    using step_behaves [OF assms(1) \<open>step E (Hung, t) (l', t')\<close>] by (auto simp: own_statement_def)
  ultimately show ?case using step yz by (auto intro: behaves_trans)
qed

lemma received_words:
  assumes "tot_len p = 8"
  shows "rd (received E rxp tpcb p s) rxp 0 = load32 (mem s) (payload p)"
    and "rd (received E rxp tpcb p s) rxp 1 = load32 (mem s) (payload p + 4)"
proof -
  have "mem (received E rxp tpcb p s) = memcpy (mem s) rxp (payload p) 8"
    using assms by (simp add: received_def announced_def Let_def recv_size_of_def)
  then show "rd (received E rxp tpcb p s) rxp 0 = load32 (mem s) (payload p)"
    "rd (received E rxp tpcb p s) rxp 1 = load32 (mem s) (payload p + 4)"
    using load32_memcpy [of 0 8 "mem s" rxp "payload p"] load32_memcpy [of 1 8 "mem s" rxp "payload p"]
    by (simp_all add: rd_def)
qed

text \<open>
  One request on a dead I2C bus stops the firmware for good: if the controller never interrupts, a
  valid I2C request makes the receive callback wait forever; from then on the main thread makes no
  step any more and the TCP timers are never run again, whatever interrupts still arrive.
\<close>

lemma dead_bus_stops_main:
  assumes "devices_apart E" and "\<And>t. iic_irqs E t = []"
    and "p_addr p \<noteq> 0" and "tot_len p = 8" and "has_space E tpcb p s"
    and "load32 (mem s) (payload p) = I2C_PACKET"
    and "i2c_addr_of (load32 (mem s) (payload p + 4)) \<in> {IIC_SLAVE_ADDR_1, IIC_SLAVE_ADDR_2}"
  shows "recv_callback E RX_ETH_BUFFER_BASE TX_ETH_BUFFER_BASE tpcb p s = None \<and>
    step E (In_Lwip, s) (Hung, s) \<and>
    (\<forall>l' s'. (step E)\<^sup>*\<^sup>* (Hung, s) (l', s') \<longrightarrow>
       l' = Hung \<and> list_all (\<lambda>c. \<not> is_tcp_timer c) (calls_since s s'))"
proof -
  let ?r = "received E RX_ETH_BUFFER_BASE tpcb p s"
  have apart: "apart 12 RX_ETH_BUFFER_BASE TX_ETH_BUFFER_BASE"
    using buffers_apart by (simp add: macro_defs)
  have "IicSend E bs n a u = None" for bs n a and u :: "'a dma_state_scheme"
    by (rule IicSend_no_timeout) (simp add: assms(2))
  then have "HandleCmdRequest E RX_ETH_BUFFER_BASE TX_ETH_BUFFER_BASE 8 ?r = None"
    unfolding handle_serves [OF apart] serve_def received_words [OF assms(4)] assms(6)
    using assms(7) by (auto simp: request_of_def i2c_request_def macro_defs)
  then have none: "recv_callback E RX_ETH_BUFFER_BASE TX_ETH_BUFFER_BASE tpcb p s = None"
    using assms(3-5) by (simp add: recv_callback_unfold recv_size_of_def)
  then have "step E (In_Lwip, s) (Hung, s)" by (rule step.receive_hangs)
  with none hung_stays [OF assms(1), of s] show ?thesis
    by (auto simp: behaves_def list_all_iff)
qed

section \<open>Examples\<close>

text \<open>A receive engine with a finished block of 65552 bytes, and a bus on which nothing answers.\<close>

definition blank :: memory where "blank = (\<lambda>_. 0)"

definition one_block :: dma_state where
  "one_block = RxIntrHandler (dma_env 0x1000) (firmware_start blank)"

lemma dma_env_apart: "devices_apart (dma_env st)"
  by (simp add: devices_apart_def dma_registers_def dma_env_def zynq_env_def)

lemma dma_env_base:
  "XPAR_AXI_DMA_0_BASEADDR (dma_env st) = 0x40400000" "TREG_ADDR (dma_env st) = 0x43C00000"
  by (simp_all add: dma_env_def zynq_env_def)

lemma one_block_reachable: "reachable (dma_env 0x1000) blank Boot_Platform one_block"
  unfolding reachable_def one_block_def by (rule r_into_rtranclp, rule step.dma_irq)

lemma one_block_counted: "recv_packets one_block = 1"
  using RxUDPIntrHandler_done_cases [where E = "dma_env 0x1000" and base = "0x40400000"
      and s = "firmware_start blank" and rx = RX_DMA_BUFFER_BASE]
  by (simp add: one_block_def RxIntrHandler_def dma_env_base dma_env_consts Let_def firmware_start_def)

lemma packets_reported_witness: "last_out 0x43C00000 0 (tr one_block) = 1"
  using packets_reported [OF dma_env_apart one_block_reachable]
  by (simp add: dma_env_base one_block_counted)

lemma firmware_confined_witness:
  "list_all (sanctioned (dma_env 0x1000)) (map fst (tr one_block))"
  by (rule firmware_confined [OF dma_env_apart one_block_reachable])

definition ten_ticks :: dma_state where
  "ten_ticks = (TimerCounterHandler (dma_env 0) ^^ 10) (firmware_start blank)"

lemma ten_ticks_reachable: "reachable (dma_env 0) blank Boot_Platform ten_ticks"
proof -
  have "reachable (dma_env 0) blank Boot_Platform ((TimerCounterHandler (dma_env 0) ^^ n) (firmware_start blank))"
    for n
    by (induction n) (auto simp: reachable_def intro: rtranclp.rtrancl_into_rtrancl step.timer_irq)
  then show ?thesis by (simp add: ten_ticks_def)
qed

lemma ten_ticks_counted: "Tcp_Fasttimer ten_ticks = 10" "Tcp_Slowtimer ten_ticks = 10"
proof -
  have "timers_at (dma_env 0) 0 (firmware_start blank)"
    by (simp add: timers_at_def firmware_start_def)
  from conjunct1 [OF timer_ticks [OF this, of 10]]
  show "Tcp_Fasttimer ten_ticks = 10" "Tcp_Slowtimer ten_ticks = 10"
    by (simp_all add: ten_ticks_def TimerCounterHandler_eq timers_at_def)
qed

lemma tcp_timers_paced_witness:
  "count_list (map fst (tr ten_ticks)) (Tcp Tcp_fasttmr) \<le> 2 \<and>
   count_list (map fst (tr ten_ticks)) (Tcp Tcp_slowtmr) \<le> 1"
  using tcp_timers_paced [OF dma_env_apart ten_ticks_reachable]
  by (simp add: ten_ticks_counted)

lemma streaming_never_stops_witness:
  "Udp (Pbuf_alloc 16) \<in> set (calls_since ((firmware_start blank)\<lparr>tcp_connection := 1, mem := blank\<rparr>)
     (RxIntrHandler (dma_env 0x1000) ((firmware_start blank)\<lparr>tcp_connection := 1, mem := blank\<rparr>)))"
proof -
  let ?s = "(firmware_start blank)\<lparr>tcp_connection := 1\<rparr>"
  let ?s' = "(firmware_start blank)\<lparr>tcp_connection := 1, mem := blank\<rparr>"
  have "(step (dma_env 0x1000))\<^sup>*\<^sup>* (Test_Fast, ?s) (Test_Fast, ?s')"
    by (rule r_into_rtranclp, rule step.hardware)
  from streaming_never_stops [OF dma_env_apart _ this, unfolded dma_env_base]
  have "Udp (Pbuf_alloc 0x10010) \<in> set (calls_since ?s' (RxIntrHandler (dma_env 0x1000) ?s'))"
    by (simp add: dma_env_consts)
  moreover have "(0x10010 :: u16) = 16" by simp
  ultimately show ?thesis by metis
qed

definition dead_env :: env where
  "dead_env = zynq_env (\<lambda>t c. case c of Tcp (Tcp_sndbuf _) \<Rightarrow> 4096 | _ \<Rightarrow> 0) (\<lambda>_. []) (\<lambda>_. 1)"

lemma dead_bus_stops_main_witness:
  "step dead_env (In_Lwip, firmware_start (put_request I2C_PACKET 0x00C00000 0))
     (Hung, firmware_start (put_request I2C_PACKET 0x00C00000 0))"
proof -
  let ?s = "firmware_start (put_request I2C_PACKET 0x00C00000 0)"
  have "devices_apart dead_env"
    by (simp add: devices_apart_def dma_registers_def dead_env_def zynq_env_def)
  moreover have "iic_irqs dead_env t = []" for t by (simp add: dead_env_def zynq_env_def)
  moreover have "has_space dead_env 1 (demo_pbuf 8) ?s"
    by (simp add: has_space_def dead_env_def zynq_env_def demo_pbuf_def ans_def)
  moreover have "mem ?s = put_request I2C_PACKET 0x00C00000 0" by (simp add: firmware_start_def)
  moreover have "i2c_addr_of 0x00C00000 = IIC_SLAVE_ADDR_1" by (simp add: i2c_addr_of_def macro_defs)
  ultimately show ?thesis
    using dead_bus_stops_main [where E = dead_env and p = "demo_pbuf 8" and tpcb = 1 and s = ?s]
    by (simp add: demo_pbuf_def load_request)
qed

end
