(* ===== verification/Well_Formed.thy ===== *)
theory Well_Formed
  imports Firmware_Main
begin

text \<open>
  What the variables of the firmware hold beyond their C types: flags that are only ever 0 or 1, counters that
  stay in their ranges and agree with each other. Every operation keeps them, so they hold in every
  reachable state of the firmware, and with them the premises of the timer theorems.
\<close>

section \<open>The invariant\<close>

abbreviation (input) flag :: "'b::zero_neq_one \<Rightarrow> bool" where
  "flag x \<equiv> x = 0 \<or> x = 1"

definition iic_flags :: "'a iic_state_scheme \<Rightarrow> bool" where
  "iic_flags s \<longleftrightarrow> flag (SendComplete s) \<and> flag (RecvComplete s)"

text \<open>The counters after \<open>n\<close> ticks; the DHCP timeout is set to 240 and counted down at most once a tick.\<close>

definition ticked :: "env \<Rightarrow> nat \<Rightarrow> 'a timer_state_scheme \<Rightarrow> bool" where
  "ticked E n s \<longleftrightarrow> timers_at E n s \<and> 240 - int n \<le> dhcp_timoutcntr s \<and> dhcp_timoutcntr s \<le> 240"

definition upper_ok :: "env \<Rightarrow> 'a dma_state_scheme \<Rightarrow> bool" where
  "upper_ok E s \<longleftrightarrow> flag (TcpFastTmrFlag s) \<and> flag (TcpSlowTmrFlag s) \<and> (\<exists>n. ticked E n s)
     \<and> 0 \<le> tcp_connection s \<and> flag (Error s) \<and> flag (TxDone s) \<and> flag (RxDone s) \<and> 0 \<le> recv_packets s"

definition well_formed :: "env \<Rightarrow> 'a dma_state_scheme \<Rightarrow> bool" where
  "well_formed E s \<longleftrightarrow> iic_flags s \<and> upper_ok E s"

definition keeps_form :: "env \<Rightarrow> 'a dma_state_scheme \<Rightarrow> 'a dma_state_scheme \<Rightarrow> bool" where
  "keeps_form E s s' \<longleftrightarrow> (well_formed E s \<longrightarrow> well_formed E s')"

interpretation form: contract "keeps_form E" for E
  by unfold_locales (simp_all add: keeps_form_def)

lemma keeps_formI: "(well_formed E s \<Longrightarrow> well_formed E s') \<Longrightarrow> keeps_form E s s'"
  by (simp add: keeps_form_def)

lemma keeps_formD: "keeps_form E s s' \<Longrightarrow> well_formed E s \<Longrightarrow> well_formed E s'"
  by (simp add: keeps_form_def)

text \<open>Calls, memory and the sockets play no part in it.\<close>

lemma iic_flags_frame [frame_simps]:
  "iic_flags (emit E c s) = iic_flags s" "iic_flags (s\<lparr>mem := m\<rparr>) = iic_flags s"
  by (simp_all add: iic_flags_def io_simps)

lemma ticked_frame [frame_simps]:
  "ticked E n (emit F c s) = ticked E n s" "ticked E n (s\<lparr>mem := m\<rparr>) = ticked E n s"
  "ticked E n (s\<lparr>TcpFastTmrFlag := f\<rparr>) = ticked E n s"
  "ticked E n (s\<lparr>TcpSlowTmrFlag := f\<rparr>) = ticked E n s"
  "ticked E n (u\<lparr>pcb := p\<rparr>) = ticked E n u" "ticked E n (u\<lparr>remote := r\<rparr>) = ticked E n u"
  "ticked E n (t\<lparr>tcp_connection := k\<rparr>) = ticked E n t"
  by (simp_all add: ticked_def timers_at_def io_simps)

lemma ticked_restart: "ticked E n s \<Longrightarrow> ticked E n (s\<lparr>dhcp_timoutcntr := 240\<rparr>)"
  by (simp add: ticked_def timers_at_def)

lemma ticked_tick: "ticked E n s \<Longrightarrow> ticked E (Suc n) (timer_callback E s)"
  using timer_callback_counts [of E n s] timer_callback_flags(3) [of E n s] by (auto simp: ticked_def)

lemma well_formed_frame [frame_simps]:
  "well_formed E (emit F c s) = well_formed E s" "well_formed E (s\<lparr>mem := m\<rparr>) = well_formed E s"
  "well_formed E (s\<lparr>pcb := p\<rparr>) = well_formed E s" "well_formed E (s\<lparr>remote := r\<rparr>) = well_formed E s"
  by (simp_all add: well_formed_def upper_ok_def iic_flags_def io_simps frame_simps)

lemma well_formed_restart: "well_formed E s \<Longrightarrow> well_formed E (s\<lparr>dhcp_timoutcntr := 240\<rparr>)"
  using ticked_restart by (auto simp: well_formed_def upper_ok_def iic_flags_def)

lemma upper_ok_more: "iic_state.more s' = iic_state.more s \<Longrightarrow> upper_ok E s' = upper_ok E s"
  by (cases s; cases s') (simp add: upper_ok_def ticked_def timers_at_def)

section \<open>The interrupt handlers\<close>

lemma form_Handler: "keeps_form E s (Handler E ev s)"
proof (rule keeps_formI)
  assume "well_formed E s"
  moreover have "upper_ok E (Handler E ev s) = upper_ok E s" by (rule upper_ok_more) (simp add: io_simps)
  ultimately show "well_formed E (Handler E ev s)"
    by (auto simp: well_formed_def iic_flags_def io_simps)
qed

lemma iic_flags_irq_point: "iic_flags s \<Longrightarrow> iic_flags (irq_point E s)"
  by (auto simp: iic_flags_def io_simps)

text \<open>The stages of a tick leave the flags of the I2C master alone.\<close>

lemma stages_iic_flags:
  "iic_flags (count_tick E s) = iic_flags s" "iic_flags (raise_tcp_flags s) = iic_flags s"
  "iic_flags (run_dhcp_timers E s) = iic_flags s" "iic_flags (detect_link E s) = iic_flags s"
  by (simp_all add: iic_flags_def count_tick_def raise_tcp_flags_def run_dhcp_timers_def
      detect_link_def Let_def io_simps)

lemma tick_frame:
  "iic_flags (timer_callback E s) = iic_flags s"
  "tcp_connection (timer_callback E u) = tcp_connection u" "Error (timer_callback E v) = Error v"
  "TxDone (timer_callback E v) = TxDone v" "RxDone (timer_callback E v) = RxDone v"
  "recv_packets (timer_callback E v) = recv_packets v"
proof -
  show "iic_flags (timer_callback E s) = iic_flags s"
    by (simp add: timer_callback_def stages_iic_flags)
  have "timer_state.more (timer_callback E u) = timer_state.more u" by (simp add: io_simps)
  then show "tcp_connection (timer_callback E u) = tcp_connection u"
    by (cases u; cases "timer_callback E u") simp
  have "timer_state.more (timer_callback E v) = timer_state.more v" by (simp add: io_simps)
  then show "Error (timer_callback E v) = Error v" "TxDone (timer_callback E v) = TxDone v"
      "RxDone (timer_callback E v) = RxDone v" "recv_packets (timer_callback E v) = recv_packets v"
    by (cases v; cases "timer_callback E v"; simp)+
qed

lemma form_tick: "keeps_form E s (timer_callback E s)"
proof (rule keeps_formI)
  assume wf: "well_formed E s"
  then obtain n where n: "ticked E n s" "timers_at E n s"
    by (auto simp: well_formed_def upper_ok_def ticked_def)
  from ticked_tick [OF n(1)] timer_callback_flags(1,2) [OF n(2)] wf
  show "well_formed E (timer_callback E s)"
    by (auto simp: well_formed_def upper_ok_def tick_frame)
qed

lemma form_TimerCounterHandler: "keeps_form E s (TimerCounterHandler E s)"
  by (simp add: TimerCounterHandler_eq form_tick)

lemma form_timer_point: "well_formed E s \<Longrightarrow> well_formed E (timer_point E s)"
  unfolding timer_point_def
  by (rule keeps_formD [OF form.iterated]) (simp_all add: form_TimerCounterHandler frame_simps)

lemma form_reset_loop: "well_formed E s \<Longrightarrow> well_formed E (snd (reset_loop E n s))"
  by (rule reset.loop_keeps [where P = "well_formed E"]) (simp_all add: frame_simps)

lemma form_udp_packet_send: "well_formed E s \<Longrightarrow> well_formed E (udp_packet_send E rx n s)"
proof -
  assume wf: "well_formed E s"
  have "well_formed E (snd (send_loop E packet n r t))" if "well_formed E t"
    for packet r and t :: "'a dma_state_scheme"
    using that
    by (rule udp_retry.loop_keeps [where P = "well_formed E"])
      (simp_all add: failed_attempt_def frame_simps)
  with wf show ?thesis
    by (auto simp: udp_packet_send_def Let_def frame_simps split: prod.splits)
      (metis frame_simps snd_conv)
qed

lemma well_formed_dma:
  "well_formed E s \<Longrightarrow> well_formed E (s\<lparr>Error := 1\<rparr>)" "well_formed E s \<Longrightarrow> well_formed E (s\<lparr>RxDone := 1\<rparr>)"
  "well_formed E s \<Longrightarrow> well_formed E (s\<lparr>recv_packets := recv_packets s + 1\<rparr>)"
  by (simp_all add: well_formed_def upper_ok_def iic_flags_def ticked_def timers_at_def)

lemma form_RxIntrHandler: "keeps_form E s (RxIntrHandler E s)"
proof (rule keeps_formI)
  assume wf: "well_formed E s"
  let ?base = "XPAR_AXI_DMA_0_BASEADDR E"
  have acked: "well_formed E (acked E ?base s)" using wf by (simp add: acked_def frame_simps)
  have reset: "well_formed E (snd (reset_loop E n (emit E c ((acked E ?base s)\<lparr>Error := 1\<rparr>))))" for n c
    by (intro form_reset_loop) (simp add: frame_simps well_formed_dma acked)
  have "(acked E ?base s)\<lparr>recv_packets := recv_packets s + 1\<rparr> =
      (acked E ?base s)\<lparr>recv_packets := recv_packets (acked E ?base s) + 1\<rparr>"
    by (simp add: io_simps)
  then have ready: "well_formed E (block_ready E ?base rx s)" for rx
    by (simp add: block_ready_def frame_simps well_formed_dma acked)
  then have sent: "well_formed E (udp_packet_send E rx n (block_ready E ?base rx s))" for rx n
    by (rule form_udp_packet_send)
  show "well_formed E (RxIntrHandler E s)"
  proof (cases rule: RxUDPIntrHandler_forms [where E = E and base = ?base and rx = RX_DMA_BUFFER_BASE and s = s])
    case idle
    then show ?thesis by (simp add: RxIntrHandler_def acked)
  next
    case (error l)
    with error show ?thesis by (auto simp: RxIntrHandler_def reset frame_simps)
  next
    case (finished t)
    have "well_formed E t" unfolding finished(1) using sent ready by simp
    with finished(2) show ?thesis by (simp add: RxIntrHandler_def frame_simps well_formed_dma)
  qed
qed

section \<open>The network\<close>

lemma iic_flags_send_wait: "send_wait E s = Some r \<Longrightarrow> iic_flags s \<Longrightarrow> iic_flags (snd r)"
proof -
  assume "send_wait E s = Some r"
  then have "iic_flags s \<longrightarrow> iic_flags (snd r)"
    by (rule send_wait.raw_induct [where P = "\<lambda>E s r. iic_flags s \<longrightarrow> iic_flags (snd r)", rotated])
      (fastforce simp: Let_def split: if_splits intro: iic_flags_irq_point)
  then show "iic_flags s \<Longrightarrow> iic_flags (snd r)" by blast
qed

lemma iic_flags_update [frame_simps]:
  "iic_flags (s\<lparr>TotalErrorCount := x\<rparr>) = iic_flags s"
  by (simp add: iic_flags_def)

lemma iic_flags_clear: "iic_flags s \<Longrightarrow> iic_flags (s\<lparr>SendComplete := 0\<rparr>)"
  by (simp add: iic_flags_def)

lemma iic_flags_IicSend:
  assumes "IicSend E msg n a s = Some (r, s')" and "iic_flags s"
  shows "iic_flags s'"
proof -
  let ?s1 = "emit E (Iic (XIicPs_MasterSend msg n a)) (clear_send E s)"
  have "iic_flags (clear_send E s)"
    unfolding clear_send_start
    by (intro iic_flags_clear iic_flags_irq_point) (simp add: frame_simps iic_flags_irq_point assms(2))
  then have "iic_flags ?s1" by (simp add: frame_simps)
  moreover obtain d s2 where "send_wait E ?s1 = Some (d, s2)" "s' = irq_point E (irq_point E s2)"
    using assms(1) by (auto simp: IicSend_def Let_def split: option.splits)
  ultimately show ?thesis
    using iic_flags_send_wait [of E ?s1 "(d, s2)"] by (simp add: iic_flags_irq_point)
qed

lemma iic_flags_handle:
  assumes "HandleCmdRequest E rx tx n s = Some (r, s')" and "iic_flags s"
  shows "iic_flags s'"
proof -
  have wr: "iic_flags (wr a i v u) = iic_flags u" for a i v and u :: "'a iic_state_scheme"
    by (simp add: wr_def frame_simps)
  show ?thesis
    using assms
    by (auto simp: HandleCmdRequest_def handle_qpix_def handle_spi_def handle_i2c_def handle_ctrl_def
        Let_def wr frame_simps split: if_splits option.splits dest!: iic_flags_IicSend)
qed

lemma form_HandleCmdRequest:
  assumes "HandleCmdRequest E rx tx n s = Some (r, s')" and "well_formed E s"
  shows "well_formed E s'"
  using iic_flags_handle [OF assms(1)] upper_ok_more [OF handle_more [OF assms(1)]] assms(2)
  by (simp add: well_formed_def)

lemma form_recv_callback:
  assumes "recv_callback E rxp txp tpcb p s = Some (r, s')" and "well_formed E s"
  shows "well_formed E s'"
proof (cases "p_addr p = 0")
  case True
  with assms show ?thesis by (auto simp: recv_callback_def Let_def frame_simps)
next
  case False
  have "well_formed E (received E rxp tpcb p s)" "well_formed E (announced E tpcb p s)"
    using assms(2) by (simp_all add: received_def announced_def Let_def frame_simps)
  with False assms(1) show ?thesis
    by (auto simp: recv_callback_unfold frame_simps split: if_splits option.splits
        dest: form_HandleCmdRequest)
qed

lemma well_formed_connected:
  "well_formed E s \<Longrightarrow> well_formed E (s\<lparr>tcp_connection := tcp_connection s + 1\<rparr>)"
  by (simp add: well_formed_def upper_ok_def iic_flags_def frame_simps)

lemma form_accept_callback: "well_formed E s \<Longrightarrow> well_formed E (snd (accept_callback E newpcb s))"
proof -
  assume "well_formed E s"
  then have "well_formed E (emit E (Tcp (Tcp_recv newpcb True)) s)" by (simp add: frame_simps)
  from well_formed_connected [OF this] show ?thesis
    by (simp add: accept_callback_def Let_def frame_simps)
qed

section \<open>Starting up\<close>

lemma form_dhcp_wait:
  assumes "dhcp_wait E s = Some s'"
  shows "keeps_form E s s'"
proof (rule dhcp_wait.raw_induct [where P = "keeps_form", OF _ assms])
  fix f E and s s' :: "'a dma_state_scheme"
  let ?s1 = "emit E (Netif Netif_ip_addr) s"
  assume IH: "\<And>E s s'. f E s = Some s' \<Longrightarrow> keeps_form E s s'"
    and eq: "(let c = Netif Netif_ip_addr; addr = ans E c s; s = emit E c s
      in if addr \<noteq> 0 then Some s else
      let s = timer_point E s
      in if dhcp_timoutcntr s > 0 then f E (emit E (Netif Xemacif_input) s) else Some s) = Some s'"
  show "keeps_form E s s'"
  proof (rule keeps_formI)
    assume "well_formed E s"
    then have two: "well_formed E ?s1" "well_formed E (timer_point E ?s1)"
      by (simp_all add: frame_simps form_timer_point)
    then have three: "well_formed E (emit E (Netif Xemacif_input) (timer_point E ?s1))"
      by (simp add: frame_simps)
    show "well_formed E s'"
    proof (cases "ans E (Netif Netif_ip_addr) s = 0 \<and> dhcp_timoutcntr (timer_point E ?s1) > 0")
      case True
      with eq have "f E (emit E (Netif Xemacif_input) (timer_point E ?s1)) = Some s'" by (simp add: Let_def)
      from keeps_formD [OF IH [OF this] three] show ?thesis .
    next
      case False
      with eq have "s' \<in> {?s1, timer_point E ?s1}" by (auto simp: Let_def split: if_splits)
      with two show ?thesis by auto
    qed
  qed
qed

lemma form_dhcp_address:
  assumes "dhcp_address E s = Some s'" and "well_formed E s"
  shows "well_formed E s'"
proof -
  let ?s0 = "(timer_point E (emit E (Netif Dhcp_start) s))\<lparr>dhcp_timoutcntr := 240\<rparr>"
  obtain s1 where s1: "dhcp_wait E ?s0 = Some s1"
    using assms by (auto simp: dhcp_address_def Let_def split: option.splits)
  have "well_formed E ?s0"
    using assms(2) by (intro well_formed_restart form_timer_point) (simp add: frame_simps)
  then have "well_formed E (timer_point E s1)"
    by (intro form_timer_point keeps_formD [OF form_dhcp_wait [OF s1]])
  with assms(1) s1 show ?thesis
    by (auto simp: dhcp_address_def Let_def frame_simps split: if_splits)
qed

lemma form_servers:
  assumes "start_application E s = (r, t)" and "well_formed E s"
  shows "well_formed E (udp_start_application E t)"
proof -
  have "well_formed E (snd (start_application E s))"
    using assms(2) by (simp add: start_application_def Let_def frame_simps)
  with assms(1) show ?thesis by (auto simp: udp_start_application_def Let_def frame_simps)
qed

lemma form_SetupEthernet:
  assumes "SetupEthernet E a s = Some (r, s')" and "well_formed E s"
  shows "well_formed E s'"
  using assms
  by (auto simp: SetupEthernet_def Let_def init_platform_def init_timer_def enable_caches_def frame_simps
      split: if_splits option.splits prod.splits dest!: form_dhcp_address intro!: form_servers)

lemma form_main_statement:
  assumes "main_statement E l s = Some (l', s')" and "well_formed E s"
  shows "well_formed E s'"
proof -
  have dma: "well_formed E (snd (Init_Qpix_DMA E base rx tx s))" for base rx tx
    using assms(2) by (simp add: Init_Qpix_DMA_def InitDMA_def RxArmDMA_def Let_def frame_simps)
  have iic: "well_formed E (snd (SetupIIC E s))"
    using assms(2)
    by (auto simp: SetupIIC_def XIicPsSmbusMasterInit_def Let_def frame_simps split: prod.splits)
  have flags: "well_formed E (t\<lparr>TcpFastTmrFlag := 0\<rparr>)" "well_formed E (t\<lparr>TcpSlowTmrFlag := 0\<rparr>)"
    if "well_formed E t" for t :: "'a dma_state_scheme"
    using that by (simp_all add: well_formed_def upper_ok_def iic_flags_def frame_simps)
  show ?thesis
    using assms
    by (cases l) (auto simp: init_platform_def init_timer_def enable_caches_def transfer_data_def
        frame_simps dma iic flags split: option.splits intro: form_SetupEthernet)
qed

lemma form_step: "step E (l, s) (l', s') \<Longrightarrow> keeps_form E s s'"
proof (rule keeps_formI)
  assume "step E (l, s) (l', s')" and wf: "well_formed E s"
  then show "well_formed E s'"
  proof (cases rule: step.cases)
    case main
    then show ?thesis using form_main_statement wf by blast
  next
    case (accept newpcb r)
    then show ?thesis using form_accept_callback [OF wf, of newpcb] by simp
  next
    case (udp_packet upcb p addr port)
    then show ?thesis using wf by (simp add: udp_echo_recv_def Let_def frame_simps)
  qed (use wf in \<open>auto simp: frame_simps intro: form_recv_callback keeps_formD [OF form_TimerCounterHandler]
      keeps_formD [OF form_RxIntrHandler] keeps_formD [OF form_Handler]\<close>)
qed

section \<open>Every reachable state is well formed\<close>

text \<open>The state the loader leaves is well formed.\<close>

lemma start_well_formed: "well_formed E (firmware_start m)"
proof -
  have "ticked E 0 (firmware_start m)" by (simp add: ticked_def timers_at_def firmware_start_def)
  then show ?thesis by (auto simp: well_formed_def upper_ok_def iic_flags_def firmware_start_def)
qed

lemma reachable_well_formed:
  assumes "reachable E m l s"
  shows "well_formed E s"
proof -
  have "keeps_form E (firmware_start m) s"
    using form.run [OF form_step] assms by (fastforce simp: reachable_def)
  then show ?thesis using start_well_formed by (rule keeps_formD)
qed

end
