(* ===== verification/Fine_Steps.thy ===== *)
theory Fine_Steps
  imports Well_Formed
begin

text \<open>
  The firmware at the grain of its accesses to volatile variables. In \<^verbatim>\<open>Firmware_Main\<close> the bring-up of
  the network and a request from a client are single steps. Here the two waits inside them, for an
  address from DHCP and for the end of an I2C transfer, are control points of their own, and every
  interrupt may arrive at each of them, in any number and order. An access to a volatile
  variable is marked in the trace when control reaches it; the value is read or written in the
  next step of the main thread, so interrupts come in between.
\<close>

section \<open>Control points\<close>

text \<open>Inside \<^verbatim>\<open>SetupEthernet\<close>, once the interface is up.\<close>

datatype dhcp_stage = Set_Timeout | Test_Address | Test_Counter | Test_Expired | Servers

text \<open>Inside \<^verbatim>\<open>IicSend\<close>, and the rest of the receive callback that called it.\<close>

datatype send_stage =
    Clear_Count | Clear_Complete | Start_Transfer | Test_Complete | Test_Errors
  | Print_Count | Read_Result | Reply

text \<open>The request being served: connection, packet, and the request word that \<^verbatim>\<open>helper.c\<close> decodes.\<close>

record transfer =
  conn :: u32
  packet :: u32
  request_word :: u32

datatype control = At pc | Dhcp dhcp_stage | Sending transfer send_stage

abbreviation mark :: "env \<Rightarrow> 'a io_scheme \<Rightarrow> 'a io_scheme" where
  "mark E \<equiv> emit E Vaccess"

section \<open>Bringing up the network\<close>

text \<open>\<^verbatim>\<open>SetupEthernet\<close> up to DHCP (\<open>False\<close>: it returned -1), and its end.\<close>

definition raise_interface :: "env \<Rightarrow> u8 list \<Rightarrow> 'a timer_state_scheme \<Rightarrow> bool \<times> 'a timer_state_scheme" where
  "raise_interface E a s =
     (let mac_ethernet_address = mac_of a;
          s = init_platform E s;
          (ip, netmask, gw) = (if LWIP_DHCP E then (0, 0, 0)
            else (IP4_ADDR 192 168 1 10, IP4_ADDR 255 255 255 0, IP4_ADDR 192 168 1 1));
          s = emit E (Netif Lwip_init) s;
          c = Netif (Xemac_add ip netmask gw mac_ethernet_address); added = ans E c s; s = emit E c s
      in if added = 0 then (False, s) else
      let s = emit E (Netif Netif_set_default) s;
          s = (if \<not> SDT E then emit E (Cpu Platform_enable_interrupts) s else s)
      in (True, emit E (Netif Netif_set_up) s))"

definition start_servers :: "env \<Rightarrow> 'a udp_state_scheme \<Rightarrow> 'a udp_state_scheme" where
  "start_servers E s =
     (let s = (if LWIP_DHCP E then emit E (Netif Netif_netmask) (emit E (Netif Netif_gw)
                 (emit E (Netif Netif_ip_addr) s)) else s);
          (_, s) = start_application E s
      in udp_start_application E s)"

text \<open>The statement at each control point from \<open>dhcp_start\<close> on.\<close>

definition enter_dhcp :: "env \<Rightarrow> 'a timer_state_scheme \<Rightarrow> control \<times> 'a timer_state_scheme" where
  "enter_dhcp E s =
     (let (added, s) = raise_interface E mac_addr s
      in if \<not> added then (At Test_Fast, s)
         else if LWIP_DHCP E then (Dhcp Set_Timeout, mark E (emit E (Netif Dhcp_start) s))
         else (Dhcp Servers, s))"

fun dhcp_statement :: "env \<Rightarrow> dhcp_stage \<Rightarrow> 'a udp_state_scheme \<Rightarrow> control \<times> 'a udp_state_scheme" where
  "dhcp_statement E Set_Timeout s = (Dhcp Test_Address, s\<lparr>dhcp_timoutcntr := 240\<rparr>)"
| "dhcp_statement E Test_Address s =
     (let c = Netif Netif_ip_addr; addr = ans E c s; s = emit E c s
      in (Dhcp (if addr \<noteq> 0 then Test_Expired else Test_Counter), mark E s))"
| "dhcp_statement E Test_Counter s =
     (if dhcp_timoutcntr s > 0 then (Dhcp Test_Address, emit E (Netif Xemacif_input) s)
      else (Dhcp Test_Expired, mark E s))"
| "dhcp_statement E Test_Expired s =
     (Dhcp Servers,
      if dhcp_timoutcntr s \<le> 0 then
        let c = Netif Netif_ip_addr; addr = ans E c s; s = emit E c s
        in if addr = 0
           then emit E (Netif (Netif_assign (IP4_ADDR 192 168 1 10) (IP4_ADDR 255 255 255 0)
                  (IP4_ADDR 192 168 1 1))) s
           else s
      else s)"
| "dhcp_statement E Servers s = (At Test_Fast, start_servers E s)"

section \<open>An I2C request\<close>

text \<open>The state in which \<^verbatim>\<open>helper.c\<close> has written the two words of the reply and calls \<open>IicSend\<close>.\<close>

definition answered :: "env \<Rightarrow> u32 \<Rightarrow> pbuf \<Rightarrow> 'a iic_state_scheme \<Rightarrow> 'a iic_state_scheme" where
  "answered E tpcb p s =
     wr TX_ETH_BUFFER_BASE 1 GOOD_PACKET (wr TX_ETH_BUFFER_BASE 0 I2C_PACKET
       (received E RX_ETH_BUFFER_BASE tpcb p s))"

text \<open>A packet that makes the receive callback start a transfer.\<close>

definition starts_transfer :: "env \<Rightarrow> u32 \<Rightarrow> pbuf \<Rightarrow> 'a iic_state_scheme \<Rightarrow> bool" where
  "starts_transfer E tpcb p s \<longleftrightarrow>
     p_addr p \<noteq> 0 \<and> has_space E tpcb p s \<and> recv_size_of (tot_len p) = 4 * 2
     \<and> rd (received E RX_ETH_BUFFER_BASE tpcb p s) RX_ETH_BUFFER_BASE 0 = I2C_PACKET
     \<and> i2c_addr_of (rd (answered E tpcb p s) RX_ETH_BUFFER_BASE 1) \<in> {IIC_SLAVE_ADDR_1, IIC_SLAVE_ADDR_2}"

definition transfer_for :: "env \<Rightarrow> u32 \<Rightarrow> pbuf \<Rightarrow> 'a iic_state_scheme \<Rightarrow> transfer" where
  "transfer_for E tpcb p s =
     \<lparr>conn = tpcb, packet = p_addr p,
      request_word = rd (answered E tpcb p s) RX_ETH_BUFFER_BASE 1\<rparr>"

text \<open>The call of the driver: the slave is one of the two DACs, the message always three bytes.\<close>

definition slave_of :: "transfer \<Rightarrow> u16" where
  "slave_of x = ucast (if i2c_addr_of (request_word x) = IIC_SLAVE_ADDR_1
     then IIC_SLAVE_ADDR_1 else IIC_SLAVE_ADDR_2)"

abbreviation master_send :: "transfer \<Rightarrow> call" where
  "master_send x \<equiv> Iic (XIicPs_MasterSend (i2c_bytes (request_word x)) 3 (slave_of x))"

text \<open>Flush the reply, hand it to TCP, free the packet.\<close>

definition reply :: "env \<Rightarrow> transfer \<Rightarrow> 'a io_scheme \<Rightarrow> 'a io_scheme" where
  "reply E x s =
     (let s = emit E (Cpu (Xil_DCacheFlushRange TX_ETH_BUFFER_BASE 8)) s;
          s = emit E (Tcp (Tcp_write (conn x) (bytes_at (mem s) TX_ETH_BUFFER_BASE 8))) s
      in emit E (Udp (Pbuf_free (packet x))) s)"

fun send_statement :: "env \<Rightarrow> transfer \<Rightarrow> send_stage \<Rightarrow> 'a iic_state_scheme \<Rightarrow>
    control \<times> 'a iic_state_scheme" where
  "send_statement E x Clear_Count s = (Sending x Clear_Complete, mark E (s\<lparr>TotalErrorCount := 0\<rparr>))"
| "send_statement E x Clear_Complete s = (Sending x Start_Transfer, s\<lparr>SendComplete := 0\<rparr>)"
| "send_statement E x Start_Transfer s = (Sending x Test_Complete, mark E (emit E (master_send x) s))"
| "send_statement E x Test_Complete s =
     (Sending x (if SendComplete s \<noteq> 0 then Print_Count else Test_Errors), mark E s)"
| "send_statement E x Test_Errors s =
     (Sending x (if TotalErrorCount s \<noteq> 0 then Print_Count else Test_Complete), mark E s)"
| "send_statement E x Print_Count s = (Sending x Read_Result, mark E s)"
| "send_statement E x Read_Result s = (Sending x Reply, s)"
| "send_statement E x Reply s = (At In_Lwip, reply E x s)"

section \<open>The system\<close>

text \<open>The main thread, wherever it is.\<close>

fun statement :: "env \<Rightarrow> control \<Rightarrow> 'a dma_state_scheme \<Rightarrow> (control \<times> 'a dma_state_scheme) option" where
  "statement E (At l) s =
     (if l = Boot_Ethernet then Some (enter_dhcp E s)
      else map_option (\<lambda>(l', s'). (At l', s')) (main_statement E l s))"
| "statement E (Dhcp d) s = Some (dhcp_statement E d s)"
| "statement E (Sending x n) s = Some (send_statement E x n s)"

text \<open>Who makes a step: the main thread, lwIP by calling back, an interrupt, or hardware writing memory.\<close>

datatype agent = Main | Lwip | Timer_Irq | Dma_Irq | Iic_Irq | Hardware

inductive fine :: "env \<Rightarrow> agent \<Rightarrow> control \<times> 'a dma_state_scheme \<Rightarrow> control \<times> 'a dma_state_scheme \<Rightarrow> bool"
  for E where
  main: "statement E g s = Some (g', s') \<Longrightarrow> fine E Main (g, s) (g', s')"
| accept: "accept_callback E newpcb s = (r, s') \<Longrightarrow> fine E Lwip (At In_Lwip, s) (At In_Lwip, s')"
| receive: "recv_callback E RX_ETH_BUFFER_BASE TX_ETH_BUFFER_BASE tpcb p s = Some (r, s') \<Longrightarrow>
    \<not> starts_transfer E tpcb p s \<Longrightarrow> fine E Lwip (At In_Lwip, s) (At In_Lwip, s')"
| receive_i2c: "starts_transfer E tpcb p s \<Longrightarrow>
    fine E Lwip (At In_Lwip, s) (Sending (transfer_for E tpcb p s) Clear_Count, mark E (answered E tpcb p s))"
| udp_packet: "fine E Lwip (At In_Lwip, s) (At In_Lwip, udp_echo_recv E upcb p addr port s)"
| input_done: "fine E Lwip (At In_Lwip, s) (At Transfer, s)"
| timer_irq: "fine E Timer_Irq (g, s) (g, TimerCounterHandler E s)"
| dma_irq: "fine E Dma_Irq (g, s) (g, RxIntrHandler E s)"
| iic_irq: "fine E Iic_Irq (g, s) (g, Handler E ev s)"
| hardware: "fine E Hardware (g, s) (g, s\<lparr>mem := m\<rparr>)"

text \<open>Runs in which only the given agents take part.\<close>

definition move :: "env \<Rightarrow> agent set \<Rightarrow> control \<times> 'a dma_state_scheme \<Rightarrow> control \<times> 'a dma_state_scheme \<Rightarrow> bool" where
  "move E A x y \<longleftrightarrow> (\<exists>a\<in>A. fine E a x y)"

definition fine_reachable :: "env \<Rightarrow> memory \<Rightarrow> control \<Rightarrow> dma_state \<Rightarrow> bool" where
  "fine_reachable E m g s \<longleftrightarrow> (move E UNIV)\<^sup>*\<^sup>* (At Boot_Platform, firmware_start m) (g, s)"

lemma moveI: "fine E a x y \<Longrightarrow> a \<in> A \<Longrightarrow> move E A x y"
  by (auto simp: move_def)

lemma move_main:
  "statement E g s = Some (g', s') \<Longrightarrow> Main \<in> A \<Longrightarrow> (move E A)\<^sup>*\<^sup>* (g, s) (g', s')"
  by (intro r_into_rtranclp moveI [OF fine.main])

lemma move_one: "fine E a x y \<Longrightarrow> a \<in> A \<Longrightarrow> (move E A)\<^sup>*\<^sup>* x y"
  by (intro r_into_rtranclp moveI)

text \<open>Interrupts arrive in any number where control is.\<close>

lemma move_iic: "Iic_Irq \<in> A \<Longrightarrow> (move E A)\<^sup>*\<^sup>* (g, s) (g, fold (Handler E) evs s)"
proof (induction evs arbitrary: s)
  case (Cons ev evs)
  then show ?case
    using move_one [OF fine.iic_irq [of E g s ev], of A] by (auto intro: rtranclp_trans)
qed simp

lemma move_ticks: "Timer_Irq \<in> A \<Longrightarrow> (move E A)\<^sup>*\<^sup>* (g, s) (g, (TimerCounterHandler E ^^ n) s)"
proof (induction n)
  case (Suc n)
  then show ?case
    using move_one [OF fine.timer_irq [of E g "(TimerCounterHandler E ^^ n) s"], of A]
    by (auto intro: rtranclp_trans)
qed simp

end
