(* ===== verification/Fine_Refines.thy ===== *)
theory Fine_Refines
  imports Fine_Steps
begin

text \<open>
  The coarse steps of \<^verbatim>\<open>Firmware_Main\<close> are runs of the fine system: the bring-up of the network and
  every request are sequences of statements with interrupts in between, from the same state to the
  same state. So whatever holds of every run of the fine system holds of the coarse one.
\<close>

section \<open>The parts of the coarse steps\<close>

lemma SetupEthernet_phases:
  "SetupEthernet E a s =
     (let (added, s) = raise_interface E a s
      in if \<not> added then Some (-1, s)
         else map_option (\<lambda>s. (0, start_servers E s))
           (if LWIP_DHCP E then dhcp_address E s else Some s))"
  by (simp add: SetupEthernet_def raise_interface_def start_servers_def Let_def split: prod.splits option.splits)

lemma handle_transfer:
  assumes "starts_transfer E tpcb p s"
  shows "HandleCmdRequest E RX_ETH_BUFFER_BASE TX_ETH_BUFFER_BASE (recv_size_of (tot_len p))
      (received E RX_ETH_BUFFER_BASE tpcb p s) =
    (let x = transfer_for E tpcb p s
     in map_option (\<lambda>(r, s). (8, s))
       (IicSend E (i2c_bytes (request_word x)) 3 (slave_of x) (answered E tpcb p s)))"
proof -
  have "I2C_PACKET \<noteq> QPIX_PACKET" "I2C_PACKET \<noteq> SPI_PACKET" "IIC_SLAVE_ADDR_1 \<noteq> IIC_SLAVE_ADDR_2"
    by (simp_all add: macro_defs)
  with assms show ?thesis
    unfolding HandleCmdRequest_def handle_i2c_def Let_def answered_def [symmetric] starts_transfer_def
    by (auto simp: transfer_for_def slave_of_def answered_def [symmetric] split: option.splits)
qed

lemma recv_callback_transfer:
  assumes "starts_transfer E tpcb p s"
  shows "recv_callback E RX_ETH_BUFFER_BASE TX_ETH_BUFFER_BASE tpcb p s =
    (let x = transfer_for E tpcb p s
     in map_option (\<lambda>(r, s). (ERR_OK E, reply E x s))
       (IicSend E (i2c_bytes (request_word x)) 3 (slave_of x) (answered E tpcb p s)))"
proof -
  have "p_addr p \<noteq> 0" "has_space E tpcb p s" using assms by (simp_all add: starts_transfer_def)
  then show ?thesis
    by (auto simp: recv_callback_unfold handle_transfer [OF assms] Let_def reply_def transfer_for_def
        split: option.splits)
qed

text \<open>Only a transfer can keep the callback from returning.\<close>

lemma recv_callback_returns:
  assumes "\<not> starts_transfer E tpcb p s"
  shows "\<exists>r s'. recv_callback E RX_ETH_BUFFER_BASE TX_ETH_BUFFER_BASE tpcb p s = Some (r, s')"
proof (cases "p_addr p \<noteq> 0 \<and> has_space E tpcb p s")
  case True
  let ?s = "received E RX_ETH_BUFFER_BASE tpcb p s"
  have "HandleCmdRequest E RX_ETH_BUFFER_BASE TX_ETH_BUFFER_BASE (recv_size_of (tot_len p)) ?s \<noteq> None"
    using assms True
    unfolding HandleCmdRequest_def handle_i2c_def Let_def answered_def [symmetric] starts_transfer_def
    by auto
  with True show ?thesis by (auto simp: recv_callback_unfold split: option.splits)
next
  case False
  then show ?thesis
    by (cases "p_addr p = 0") (auto simp: recv_callback_unfold, auto simp: recv_callback_def Let_def)
qed

section \<open>The wait for a transfer\<close>

lemma send_stage_move:
  "Main \<in> A \<Longrightarrow> (move E A)\<^sup>*\<^sup>* (Sending x n, s) (fst (send_statement E x n s), snd (send_statement E x n s))"
  by (rule move_main) simp_all

lemma send_wait_run:
  assumes "send_wait E s = Some r" and "Main \<in> A" and "Iic_Irq \<in> A"
  shows "(move E A)\<^sup>*\<^sup>* (Sending x Test_Complete, mark E s) (Sending x Print_Count, mark E (snd r))"
proof (rule send_wait.raw_induct [where P =
      "\<lambda>E s r. (move E A)\<^sup>*\<^sup>* (Sending x Test_Complete, mark E s) (Sending x Print_Count, mark E (snd r))",
      OF _ assms(1)])
  fix f E and s :: "'a dma_state_scheme" and r
  let ?s1 = "irq_point E s" and ?s2 = "irq_point E (irq_point E s)"
  let ?to = "(move E A)\<^sup>*\<^sup>*"
  assume IH: "\<And>E s r. f E s = Some r \<Longrightarrow>
      (move E A)\<^sup>*\<^sup>* (Sending x Test_Complete, mark E s) (Sending x Print_Count, mark E (snd r))"
    and eq: "(let s = irq_point E s
        in if SendComplete s \<noteq> 0 then Some (True, s) else
        let s = irq_point E s
        in if TotalErrorCount s \<noteq> 0 then Some (False, s) else f E s) = Some r"
  have at1: "?to (Sending x Test_Complete, mark E s) (Sending x Test_Complete, ?s1)"
    unfolding irq_point_def by (rule move_iic [OF assms(3)])
  note then1 = rtranclp_trans [OF at1 send_stage_move [OF assms(2), of E x Test_Complete ?s1]]
  show "?to (Sending x Test_Complete, mark E s) (Sending x Print_Count, mark E (snd r))"
  proof (cases "SendComplete ?s1 \<noteq> 0")
    case True
    with eq then1 show ?thesis by (auto simp: Let_def)
  next
    case False
    have "?to (Sending x Test_Errors, mark E ?s1) (Sending x Test_Errors, ?s2)"
      unfolding irq_point_def [of E "irq_point E s"] by (rule move_iic [OF assms(3)])
    with then1 False have "?to (Sending x Test_Complete, mark E s) (Sending x Test_Errors, ?s2)"
      by (auto intro: rtranclp_trans)
    note then2 = rtranclp_trans [OF this send_stage_move [OF assms(2), of E x Test_Errors ?s2]]
    show ?thesis
    proof (cases "TotalErrorCount ?s2 \<noteq> 0")
      case True
      with False eq then2 show ?thesis by (auto simp: Let_def)
    next
      case no_error: False
      with False eq have "f E ?s2 = Some r" by (simp add: Let_def)
      from IH [OF this] then2 no_error show ?thesis by (auto intro: rtranclp_trans)
    qed
  qed
qed

lemma IicSend_run:
  assumes "IicSend E (i2c_bytes (request_word x)) 3 (slave_of x) s = Some (r, s')"
    and "Main \<in> A" and "Iic_Irq \<in> A"
  shows "(move E A)\<^sup>*\<^sup>* (Sending x Clear_Count, mark E s) (At In_Lwip, reply E x s')"
proof -
  let ?to = "(move E A)\<^sup>*\<^sup>*"
  note main = send_stage_move [OF assms(2)]
  have irqs: "?to (Sending x n, mark E t) (Sending x n, irq_point E t)" for n t
    unfolding irq_point_def by (rule move_iic [OF assms(3)])
  have served: "?to (Sending x n, mark E t)
      (fst (send_statement E x n (irq_point E t)), snd (send_statement E x n (irq_point E t)))" for n t
    by (rule rtranclp_trans [OF irqs main])
  let ?s1 = "(irq_point E s)\<lparr>TotalErrorCount := 0\<rparr>"
  let ?s2 = "emit E (master_send x) (clear_send E s)"
  obtain d s3 where w: "send_wait E ?s2 = Some (d, s3)" and s': "s' = irq_point E (irq_point E s3)"
    using assms(1) by (auto simp: IicSend_def Let_def split: option.splits)
  have "?to (Sending x Clear_Count, mark E s) (Sending x Clear_Complete, mark E ?s1)"
    using served [of Clear_Count s] by simp
  also have "?to \<dots> (Sending x Start_Transfer, clear_send E s)"
    using served [of Clear_Complete ?s1]
    by (simp add: clear_send_start)
  also have "?to \<dots> (Sending x Test_Complete, mark E ?s2)"
    using main [of E x Start_Transfer "clear_send E s"] by simp
  also have "?to \<dots> (Sending x Print_Count, mark E s3)"
    using send_wait_run [OF w assms(2,3), of x] by simp
  also have "?to \<dots> (Sending x Read_Result, mark E (irq_point E s3))"
    using served [of Print_Count s3] by simp
  also have "?to \<dots> (Sending x Reply, s')"
    using served [of Read_Result "irq_point E s3"] by (simp add: s')
  also have "?to \<dots> (At In_Lwip, reply E x s')"
    using main [of E x Reply s'] by simp
  finally show ?thesis .
qed

section \<open>The wait for an address\<close>

lemma dhcp_stage_move:
  "Main \<in> A \<Longrightarrow> (move E A)\<^sup>*\<^sup>* (Dhcp d, s) (fst (dhcp_statement E d s), snd (dhcp_statement E d s))"
  by (rule move_main) simp_all

lemma mark_ticks:
  "Timer_Irq \<in> A \<Longrightarrow> (move E A)\<^sup>*\<^sup>* (g, mark E s) (g, timer_point E s)"
  unfolding timer_point_def by (rule move_ticks)

lemma dhcp_wait_run:
  assumes "dhcp_wait E s = Some s'" and "Main \<in> A" and "Timer_Irq \<in> A"
  shows "(move E A)\<^sup>*\<^sup>* (Dhcp Test_Address, s) (Dhcp Test_Expired, mark E s')"
proof (rule dhcp_wait.raw_induct [where P =
      "\<lambda>E s s'. (move E A)\<^sup>*\<^sup>* (Dhcp Test_Address, s) (Dhcp Test_Expired, mark E s')", OF _ assms(1)])
  fix f E and s s' :: "'a dma_state_scheme"
  let ?s1 = "emit E (Netif Netif_ip_addr) s"
  let ?s2 = "timer_point E ?s1"
  let ?to = "(move E A)\<^sup>*\<^sup>*"
  assume IH: "\<And>E s s'. f E s = Some s' \<Longrightarrow>
      (move E A)\<^sup>*\<^sup>* (Dhcp Test_Address, s) (Dhcp Test_Expired, mark E s')"
    and eq: "(let c = Netif Netif_ip_addr; addr = ans E c s; s = emit E c s
      in if addr \<noteq> 0 then Some s else
      let s = timer_point E s
      in if dhcp_timoutcntr s > 0 then f E (emit E (Netif Xemacif_input) s) else Some s) = Some s'"
  note main = dhcp_stage_move [OF assms(2), of E]
  show "?to (Dhcp Test_Address, s) (Dhcp Test_Expired, mark E s')"
  proof (cases "ans E (Netif Netif_ip_addr) s \<noteq> 0")
    case True
    with eq main [of Test_Address s] show ?thesis by (simp add: Let_def)
  next
    case False
    then have "?to (Dhcp Test_Address, s) (Dhcp Test_Counter, mark E ?s1)"
      using main [of Test_Address s] by (simp add: Let_def)
    also have "?to \<dots> (Dhcp Test_Counter, ?s2)" by (rule mark_ticks [OF assms(3)])
    finally have tested: "?to (Dhcp Test_Address, s) (Dhcp Test_Counter, ?s2)" .
    note then1 = rtranclp_trans [OF tested main]
    show ?thesis
    proof (cases "dhcp_timoutcntr ?s2 > 0")
      case True
      with False eq have "f E (emit E (Netif Xemacif_input) ?s2) = Some s'" by (simp add: Let_def)
      from IH [OF this] then1 True show ?thesis by (auto intro: rtranclp_trans)
    next
      case expired: False
      with False eq then1 show ?thesis by (simp add: Let_def)
    qed
  qed
qed

lemma dhcp_address_run:
  assumes "dhcp_address E s = Some s'" and "Main \<in> A" and "Timer_Irq \<in> A"
  shows "(move E A)\<^sup>*\<^sup>* (Dhcp Set_Timeout, mark E (emit E (Netif Dhcp_start) s)) (Dhcp Servers, s')"
proof -
  let ?to = "(move E A)\<^sup>*\<^sup>*" and ?s1 = "timer_point E (emit E (Netif Dhcp_start) s)"
  note main = dhcp_stage_move [OF assms(2), of E]
  obtain s2 where s2: "dhcp_wait E (?s1\<lparr>dhcp_timoutcntr := 240\<rparr>) = Some s2"
    using assms(1) by (auto simp: dhcp_address_def Let_def split: option.splits)
  have "?to (Dhcp Set_Timeout, mark E (emit E (Netif Dhcp_start) s)) (Dhcp Set_Timeout, ?s1)"
    by (rule mark_ticks [OF assms(3)])
  also have "?to \<dots> (Dhcp Test_Address, ?s1\<lparr>dhcp_timoutcntr := 240\<rparr>)"
    using main [of Set_Timeout ?s1] by simp
  also have "?to \<dots> (Dhcp Test_Expired, mark E s2)" by (rule dhcp_wait_run [OF s2 assms(2,3)])
  also have "?to \<dots> (Dhcp Test_Expired, timer_point E s2)" by (rule mark_ticks [OF assms(3)])
  also have "?to \<dots> (Dhcp Servers, s')"
    using main [of Test_Expired "timer_point E s2"] assms(1) s2
    by (auto simp: dhcp_address_def Let_def split: if_splits)
  finally show ?thesis .
qed

lemma SetupEthernet_run:
  assumes "SetupEthernet E mac_addr s = Some (r, s')" and "Main \<in> A" and "Timer_Irq \<in> A"
  shows "(move E A)\<^sup>*\<^sup>* (At Boot_Ethernet, s) (At Test_Fast, s')"
proof -
  obtain added t where t: "raise_interface E mac_addr s = (added, t)" by (metis surj_pair)
  have enter: "(move E A)\<^sup>*\<^sup>* (At Boot_Ethernet, s) (fst (enter_dhcp E s), snd (enter_dhcp E s))"
    by (rule move_main [OF _ assms(2)]) simp
  consider "\<not> added" "s' = t" | "added" "\<not> LWIP_DHCP E" "s' = start_servers E t"
    | u where "added" "LWIP_DHCP E" "dhcp_address E t = Some u" "s' = start_servers E u"
    using assms(1) t by (auto simp: SetupEthernet_phases split: if_splits)
  then show ?thesis
  proof cases
    case 1
    with enter t show ?thesis by (simp add: enter_dhcp_def)
  next
    case 2
    with enter t have "(move E A)\<^sup>*\<^sup>* (At Boot_Ethernet, s) (Dhcp Servers, t)" by (simp add: enter_dhcp_def)
    from rtranclp_trans [OF this dhcp_stage_move [OF assms(2)]] 2 show ?thesis by simp
  next
    case (3 u)
    with enter t have "(move E A)\<^sup>*\<^sup>* (At Boot_Ethernet, s)
        (Dhcp Set_Timeout, mark E (emit E (Netif Dhcp_start) t))" by (simp add: enter_dhcp_def)
    from rtranclp_trans [OF rtranclp_trans [OF this dhcp_address_run [OF 3(3) assms(2,3)]]
        dhcp_stage_move [OF assms(2)]] 3
    show ?thesis by simp
  qed
qed

section \<open>Refinement\<close>

lemma main_statement_run:
  assumes "main_statement E l s = Some (l', s')" and "l' \<noteq> Hung"
  shows "(move E UNIV)\<^sup>*\<^sup>* (At l, s) (At l', s')"
proof (cases "l = Boot_Ethernet")
  case True
  with assms obtain r where "SetupEthernet E mac_addr s = Some (r, s')" "l' = Test_Fast"
    by (auto split: option.splits)
  with True show ?thesis by (auto intro: SetupEthernet_run)
next
  case False
  with assms(1) show ?thesis by (auto intro: move_main)
qed

lemma step_run:
  assumes "step E (l, s) (l', s')" and "l' \<noteq> Hung"
  shows "(move E UNIV)\<^sup>*\<^sup>* (At l, s) (At l', s')"
  using assms(1)
proof (cases rule: step.cases)
  case main
  then show ?thesis using main_statement_run assms(2) by blast
next
  case (accept newpcb r)
  then show ?thesis by (auto intro: move_one [OF fine.accept])
next
  case (receive tpcb p r)
  show ?thesis
  proof (cases "starts_transfer E tpcb p s")
    case False
    with receive show ?thesis by (auto intro: move_one [OF fine.receive])
  next
    case True
    let ?x = "transfer_for E tpcb p s"
    from receive recv_callback_transfer [OF True] obtain r' t
      where t: "IicSend E (i2c_bytes (request_word ?x)) 3 (slave_of ?x) (answered E tpcb p s) = Some (r', t)"
        and s': "s' = reply E ?x t"
      by (auto simp: Let_def)
    have "(move E UNIV)\<^sup>*\<^sup>* (At In_Lwip, s) (Sending ?x Clear_Count, mark E (answered E tpcb p s))"
      by (rule move_one [OF fine.receive_i2c [OF True]]) simp
    also have "(move E UNIV)\<^sup>*\<^sup>* \<dots> (At In_Lwip, s')" using IicSend_run [OF t] s' by simp
    finally show ?thesis using receive by simp
  qed
next
  case (receive_hangs tpcb p)
  with assms(2) show ?thesis by simp
qed (auto intro: move_one [OF fine.udp_packet] move_one [OF fine.input_done] move_one [OF fine.timer_irq]
    move_one [OF fine.dma_irq] move_one [OF fine.iic_irq] move_one [OF fine.hardware])


end
