(* ===== verification/Fine_Safety.thy ===== *)
theory Fine_Safety
  imports Fine_Steps
begin

text \<open>
  What holds in every state the firmware can reach when interrupts arrive at every access to a
  volatile variable: the reported packet count, the confinement of all accesses, the pace of the
  TCP timers, and the well-formedness of all variables.
\<close>

section \<open>The statements keep the contract\<close>

text \<open>The statement of \<^verbatim>\<open>main\<close> in which control is.\<close>

primrec point :: "control \<Rightarrow> pc" where
  "point (At l) = l"
| "point (Dhcp d) = Boot_Ethernet"
| "point (Sending x n) = In_Lwip"

lemma behaves_raise_interface: "behaves E s (snd (raise_interface E a s))"
  unfolding raise_interface_def Let_def
  by (auto intro!: behaves_then behaves_init_platform split: prod.splits)

lemma behaves_start_servers: "behaves E s (start_servers E s)"
proof -
  let ?t = "if LWIP_DHCP E then emit E (Netif Netif_netmask) (emit E (Netif Netif_gw)
    (emit E (Netif Netif_ip_addr) s)) else s"
  have "start_servers E s = udp_start_application E (snd (start_application E ?t))"
    unfolding start_servers_def Let_def by (rule case_prod_beta)
  moreover have "behaves E s ?t" by (auto intro!: behaves_then behaves_refl)
  ultimately show ?thesis
    by (metis behaves_trans behaves_start_application behaves_udp_start_application)
qed

lemma behaves_enter_dhcp: "behaves E s (snd (enter_dhcp E s))"
  using behaves_raise_interface [of E s mac_addr]
  by (auto simp: enter_dhcp_def intro!: behaves_then split: prod.splits)

text \<open>The volatile variables of the two waits are not part of the contract.\<close>

lemma behaves_write:
  "behaves E s (s\<lparr>dhcp_timoutcntr := d\<rparr>)" "behaves E s (s\<lparr>TotalErrorCount := k\<rparr>)"
  "behaves E s (s\<lparr>SendComplete := b\<rparr>)"
  by (rule behaves_silent; simp add: shared_def)+

lemma behaves_dhcp_statement: "behaves E s (snd (dhcp_statement E d s))"
  by (cases d) (auto simp: Let_def
      intro!: behaves_then behaves_refl behaves_start_servers behaves_write)

lemma background_master_send: "background E (master_send x)"
proof -
  have "length (i2c_bytes w) = 3" for w by (simp add: i2c_bytes_def Let_def)
  then show ?thesis by (simp add: background_def slave_of_def macro_defs)
qed

lemma behaves_reply: "behaves E s (reply E x s)"
  unfolding reply_def Let_def by (intro behaves_then behaves_refl) simp_all

lemma behaves_send_statement: "behaves E s (snd (send_statement E x n s))"
  by (cases n) (auto intro!: behaves_then behaves_refl behaves_write behaves_reply background_master_send)

lemma behaves_answered: "behaves E s (answered E tpcb p s)"
proof -
  have wr: "behaves E s (wr a i v t)" if "behaves E s t" for a i v and t :: "'a dma_state_scheme"
    unfolding wr_def by (rule behaves_trans [OF that behaves_mem])
  have "behaves E s (announced E tpcb p s)"
    unfolding announced_def by (intro behaves_then behaves_refl) simp_all
  then have "behaves E s (received E RX_ETH_BUFFER_BASE tpcb p s)"
    unfolding received_def Let_def by (intro behaves_then behaves_trans [OF _ behaves_mem]) simp_all
  then show ?thesis unfolding answered_def by (intro wr)
qed

text \<open>
  A step is a statement of the main loop, or it keeps the contract and does not move control to or
  from the four statements that use the flags of the TCP timers.
\<close>

lemma fine_forms:
  assumes "devices_apart E" and "fine E a (g, s) (g', s')"
  obtains (statement) l l' where "g = At l" "g' = At l'" "main_statement E l s = Some (l', s')"
  | (same) "behaves E s s'" "g' = g"
  | (inside) "behaves E s s'" "\<not> own_statement (point g)" "\<not> own_statement (point g')"
  using assms(2)
proof (cases rule: fine.cases)
  case main
  show ?thesis
  proof (cases g)
    case (At l)
    show ?thesis
    proof (cases "l = Boot_Ethernet")
      case True
      with At main have e: "enter_dhcp E s = (g', s')" by simp
      then have "g' \<in> {At Test_Fast, Dhcp Set_Timeout, Dhcp Servers}"
        by (auto simp: enter_dhcp_def split: prod.splits if_splits)
      moreover have "behaves E s s'" using behaves_enter_dhcp [of E s] e by simp
      ultimately show ?thesis using At True by (intro inside) (auto simp: own_statement_def)
    next
      case False
      with At main show ?thesis by (auto intro: statement)
    qed
  next
    case (Dhcp d)
    with main have e: "dhcp_statement E d s = (g', s')" by simp
    then have "point g' \<in> {Test_Fast, Boot_Ethernet}" by (cases d) (auto simp: Let_def split: if_splits)
    moreover have "behaves E s s'" using behaves_dhcp_statement [of E s d] e by simp
    ultimately show ?thesis using Dhcp by (intro inside) (auto simp: own_statement_def)
  next
    case (Sending x n)
    with main have e: "send_statement E x n s = (g', s')" by simp
    then have "point g' = In_Lwip" by (cases n) auto
    moreover have "behaves E s s'" using behaves_send_statement [of E s x n] e by simp
    ultimately show ?thesis using Sending by (intro inside) (auto simp: own_statement_def)
  qed
next
  case (accept newpcb r)
  then show ?thesis using behaves_accept_callback [of E s newpcb] by (intro same) simp_all
next
  case (receive_i2c tpcb p)
  then show ?thesis
    using behaves_then [OF behaves_answered [of E s tpcb p], of Vaccess]
    by (intro inside) (simp_all add: own_statement_def)
next
  case input_done
  then show ?thesis by (intro inside) (simp_all add: own_statement_def behaves_refl)
qed (rule same; auto intro: behaves_recv_callback behaves_udp_echo_recv behaves_TimerCounterHandler
    behaves_RxIntrHandler [OF assms(1)] behaves_Handler behaves_mem)+

lemma fine_runs:
  assumes "devices_apart E" and "fine E a (g, s) (g', s')"
  shows "runs E s s'"
  using assms
proof (cases rule: fine_forms)
  case (statement l l')
  from step_runs [OF assms(1) step.main [OF statement(3)]] show ?thesis .
qed (auto intro: behaves_runs)

lemma move_runs:
  assumes "devices_apart E" and "(move E A)\<^sup>*\<^sup>* (g, s) (g', s')"
  shows "runs E s s'"
  using runs.run [OF _ assms(2)] fine_runs [OF assms(1)] by (fastforce simp: move_def)

lemma fine_paced:
  assumes "devices_apart E" and "fine E a (g, s) (g', s')" and "tcp_paced (point g) s"
  shows "tcp_paced (point g') s'"
  using assms(1,2)
proof (cases rule: fine_forms)
  case (statement l l')
  from tcp_paced_step [OF assms(1) step.main [OF statement(3)]] assms(3) statement show ?thesis by simp
next
  case same
  with tcp_paced_behaves assms(3) show ?thesis by blast
next
  case inside
  with tcp_paced_behaves [OF assms(3)] show ?thesis by (auto simp: tcp_paced_def own_statement_def)
qed

text \<open>A property of control points and states that every step keeps holds in every reachable state.\<close>

lemma fine_invariant:
  assumes "fine_reachable E m g s" and "I (At Boot_Platform) (firmware_start m)"
    and "\<And>a g s g' s'. fine E a (g, s) (g', s') \<Longrightarrow> I g s \<Longrightarrow> I g' s'"
  shows "I g s"
proof -
  have "I (fst y) (snd y)" if "(move E UNIV)\<^sup>*\<^sup>* (At Boot_Platform, firmware_start m) y" for y
    using that
  proof (induction rule: rtranclp_induct)
    case base
    show ?case using assms(2) by simp
  next
    case (step y z)
    then show ?case using assms(3) [of _ "fst y" "snd y" "fst z" "snd z"] by (auto simp: move_def)
  qed
  from this [of "(g, s)"] assms(1) show ?thesis by (simp add: fine_reachable_def)
qed

section \<open>Every reachable state\<close>


text \<open>
  C5: The firmware as a whole is confined: in every reachable state, under every interleaving, every
  register that has ever been accessed is one of the transaction map or of the receive engine, and
  every I2C transfer was a three-byte message to one of the two DACs.
\<close>

theorem accesses_always_confined:
  assumes "devices_apart E" and "fine_reachable E m g s"
  shows "list_all (sanctioned E) (map fst (tr s))"
proof -
  have "runs E (firmware_start m) s"
    using move_runs [OF assms(1)] assms(2) unfolding fine_reachable_def by blast
  then show ?thesis by (simp add: runs_def calls_since_def firmware_start_def)
qed


section \<open>Every reachable state is well formed\<close>

lemma well_formed_flags:
  "well_formed E s \<Longrightarrow> well_formed E (s\<lparr>SendComplete := 0\<rparr>)"
  "well_formed E (s\<lparr>TotalErrorCount := k\<rparr>) = well_formed E s"
  by (auto simp: well_formed_def upper_ok_def iic_flags_def ticked_def timers_at_def)

lemma form_start_servers:
  assumes "well_formed E s"
  shows "well_formed E (start_servers E s)"
  using assms by (auto simp: start_servers_def Let_def frame_simps split: prod.splits intro: form_servers)

lemma form_enter_dhcp: "well_formed E s \<Longrightarrow> well_formed E (snd (enter_dhcp E s))"
  by (auto simp: enter_dhcp_def raise_interface_def init_platform_def init_timer_def enable_caches_def
      Let_def frame_simps)

lemma form_dhcp_statement: "well_formed E s \<Longrightarrow> well_formed E (snd (dhcp_statement E d s))"
  by (cases d) (simp_all add: Let_def frame_simps well_formed_restart form_start_servers)

lemma form_send_statement: "well_formed E s \<Longrightarrow> well_formed E (snd (send_statement E x n s))"
  by (cases n) (simp_all add: frame_simps well_formed_flags reply_def Let_def)

lemma form_answered: "well_formed E (answered E tpcb p s) = well_formed E s"
  by (simp add: answered_def wr_def received_def announced_def Let_def frame_simps)

lemma form_statement:
  assumes "statement E g s = Some (g', s')" and "well_formed E s"
  shows "well_formed E s'"
proof (cases g)
  case (At l)
  with assms show ?thesis
    using form_enter_dhcp [OF assms(2)] by (auto split: if_splits dest: form_main_statement)
next
  case (Dhcp d)
  with assms form_dhcp_statement [OF assms(2), of d] show ?thesis by simp
next
  case (Sending x n)
  with assms form_send_statement [OF assms(2), of x n] show ?thesis by simp
qed

lemma form_fine:
  assumes "fine E a (g, s) (g', s')" and wf: "well_formed E s"
  shows "well_formed E s'"
  using assms(1)
proof (cases rule: fine.cases)
  case main
  then show ?thesis using form_statement wf by blast
next
  case (accept newpcb r)
  then show ?thesis using form_accept_callback [OF wf, of newpcb] by simp
next
  case (udp_packet upcb p addr port)
  then show ?thesis using wf by (simp add: udp_echo_recv_def Let_def frame_simps)
qed (use wf in \<open>auto simp: frame_simps form_answered intro: form_recv_callback
    keeps_formD [OF form_TimerCounterHandler] keeps_formD [OF form_RxIntrHandler]
    keeps_formD [OF form_Handler]\<close>)


end
