(* ===== verification/Fine_Progress.thy ===== *)
theory Fine_Progress
  imports Fine_Safety
begin

text \<open>
  How the two waits of the firmware end, whatever interrupts arrive in between: a completed transfer
  is answered and an expired DHCP wait is left within a bounded number of statements of the main
  thread; without I2C interrupts a transfer is never left; and from every reachable state the
  main loop can be reached again.
\<close>

section \<open>Labelled runs\<close>

text \<open>A run with the agents of its steps, in order.\<close>

inductive run :: "env \<Rightarrow> agent list \<Rightarrow> control \<times> 'a dma_state_scheme \<Rightarrow> control \<times> 'a dma_state_scheme \<Rightarrow> bool"
  for E where
  nil: "run E [] x x"
| cons: "fine E a x y \<Longrightarrow> run E as y z \<Longrightarrow> run E (a # as) x z"

inductive_cases run_nilE [elim!]: "run E [] x y"
inductive_cases run_consE: "run E (a # as) x z"

lemma run_move: "run E as x y \<Longrightarrow> set as \<subseteq> A \<Longrightarrow> (move E A)\<^sup>*\<^sup>* x y"
  by (induction rule: run.induct) (auto intro: converse_rtranclp_into_rtranclp moveI)

lemma run_runs: "devices_apart E \<Longrightarrow> run E as (g, s) (g', s') \<Longrightarrow> runs E s s'"
  using move_runs [OF _ run_move [of E as _ _ UNIV]] by blast

section \<open>What the waits look at\<close>

text \<open>The volatile variables of the two waits; only their own interrupts write them.\<close>

definition watched :: "'a timer_state_scheme \<Rightarrow> u32 \<times> u32 \<times> int" where
  "watched s = (SendComplete s, TotalErrorCount s, dhcp_timoutcntr s)"

lemma watched_frame [frame_simps]:
  "watched (emit E c s) = watched s" "watched (s\<lparr>mem := m\<rparr>) = watched s"
  "watched (t\<lparr>recv_packets := n\<rparr>) = watched t" "watched (t\<lparr>RxDone := d\<rparr>) = watched t"
  "watched (t\<lparr>Error := e\<rparr>) = watched t"
  by (simp_all add: watched_def io_simps)

lemma watched_reset_loop: "watched (snd (reset_loop E n s)) = watched s"
  by (rule reset.loop_keeps [where P = "\<lambda>t. watched t = watched s"]) (simp_all add: frame_simps)

lemma watched_udp_packet_send: "watched (udp_packet_send E rx n s) = watched s"
proof -
  have "watched (snd (send_loop E packet n r t)) = watched t" for packet r and t :: "'a udp_state_scheme"
    by (rule udp_retry.loop_keeps [where P = "\<lambda>u. watched u = watched t"])
      (simp_all add: failed_attempt_def frame_simps)
  then show ?thesis
    by (auto simp: udp_packet_send_def Let_def frame_simps split: prod.splits) (metis frame_simps snd_conv)
qed

lemma watched_RxIntrHandler: "watched (RxIntrHandler E s) = watched s"
proof (cases rule: RxUDPIntrHandler_forms [where E = E and base = "XPAR_AXI_DMA_0_BASEADDR E"
      and rx = RX_DMA_BUFFER_BASE and s = s])
  case idle
  then show ?thesis by (simp add: RxIntrHandler_def acked_def frame_simps)
next
  case (error l)
  then show ?thesis by (auto simp: RxIntrHandler_def watched_reset_loop acked_def frame_simps)
next
  case (finished t)
  have "watched t = watched s"
    unfolding finished(1) by (simp add: watched_udp_packet_send block_ready_def acked_def frame_simps)
  with finished(2) show ?thesis by (simp add: RxIntrHandler_def frame_simps)
qed

text \<open>The stages of a tick leave the I2C master alone.\<close>

lemma stages_master [frame_simps]:
  "SendComplete (count_tick E s) = SendComplete s" "TotalErrorCount (count_tick E s) = TotalErrorCount s"
  "SendComplete (raise_tcp_flags s) = SendComplete s" "TotalErrorCount (raise_tcp_flags s) = TotalErrorCount s"
  "SendComplete (run_dhcp_timers E s) = SendComplete s"
  "TotalErrorCount (run_dhcp_timers E s) = TotalErrorCount s"
  "SendComplete (detect_link E s) = SendComplete s" "TotalErrorCount (detect_link E s) = TotalErrorCount s"
  by (simp_all add: count_tick_def raise_tcp_flags_def run_dhcp_timers_def detect_link_def Let_def io_simps)

lemma tick_watched:
  "SendComplete (TimerCounterHandler E s) = SendComplete s"
  "TotalErrorCount (TimerCounterHandler E s) = TotalErrorCount s"
  "dhcp_timoutcntr (TimerCounterHandler E s) = dhcp_timoutcntr s - (if LWIP_DHCP E then 1 else 0)"
  by (simp_all add: TimerCounterHandler_eq timer_callback_def frame_simps io_simps)

text \<open>While control is inside one of the waits, every step is a statement or an interrupt.\<close>

definition waiting :: "control \<Rightarrow> bool" where
  "waiting g \<longleftrightarrow> (\<forall>l. g \<noteq> At l)"

lemma waiting_simps [simp]: "waiting (Dhcp d)" "waiting (Sending x n)" "\<not> waiting (At l)"
  by (simp_all add: waiting_def)

lemma fine_waiting:
  assumes "fine E a (g, s) (g', s')" and "waiting g"
  obtains (main) "a = Main" "statement E g s = Some (g', s')"
  | (tick) "a = Timer_Irq" "g' = g" "s' = TimerCounterHandler E s"
  | (iic) ev where "a = Iic_Irq" "g' = g" "s' = Handler E ev s"
  | (other) "a \<in> {Dma_Irq, Hardware}" "g' = g" "watched s' = watched s"
  using assms(1)
proof (cases rule: fine.cases)
  case dma_irq
  then show ?thesis by (intro other) (simp_all add: watched_RxIntrHandler)
next
  case hardware
  then show ?thesis by (intro other) (simp_all add: frame_simps)
qed (use assms(2) main tick iic in auto)

section \<open>The end of a transfer\<close>

text \<open>
  Statements of the main thread until the reply is sent, once the completion has been signalled
  (\<open>c\<close>) or only errors have.
\<close>

primrec statements_left :: "bool \<Rightarrow> send_stage \<Rightarrow> nat" where
  "statements_left c Clear_Count = 0"
| "statements_left c Clear_Complete = 0"
| "statements_left c Start_Transfer = 6"
| "statements_left c Test_Complete = (if c then 4 else 5)"
| "statements_left c Test_Errors = (if c then 5 else 4)"
| "statements_left c Print_Count = 3"
| "statements_left c Read_Result = 2"
| "statements_left c Reply = 1"

definition signalled :: "bool \<Rightarrow> 'a iic_state_scheme \<Rightarrow> bool" where
  "signalled c s \<longleftrightarrow> (if c then SendComplete s \<noteq> 0 else SendComplete s = 0 \<and> TotalErrorCount s \<noteq> 0)"

definition replied :: "transfer \<Rightarrow> 'a io_scheme \<Rightarrow> 'a io_scheme \<Rightarrow> bool" where
  "replied x s s' \<longleftrightarrow> (\<exists>bs. Tcp (Tcp_write (conn x) bs) \<in> set (calls_since s s'))"

lemma replied_later: "replied x t u \<Longrightarrow> runs E s t \<Longrightarrow> runs E t u \<Longrightarrow> replied x s u"
  using calls_since_trans [of s t u] by (auto simp: replied_def runs_def)

lemma replied_before: "replied x s t \<Longrightarrow> runs E s t \<Longrightarrow> runs E t u \<Longrightarrow> replied x s u"
  using calls_since_trans [of s t u] by (auto simp: replied_def runs_def)

lemma reply_replied: "replied x s (reply E x s)"
  by (auto simp: replied_def reply_def Let_def calls_since_def)

text \<open>A statement of a signalled transfer sends the reply or is one of those that are left.\<close>

lemma send_statement_left:
  assumes "signalled c s" and "0 < statements_left c n" and "send_statement E x n s = (g', s')"
  shows "replied x s s' \<or> (\<exists>n'. g' = Sending x n' \<and> signalled c s'
    \<and> 0 < statements_left c n' \<and> statements_left c n' < statements_left c n)"
  using assms by (cases n) (auto simp: signalled_def io_simps reply_replied split: if_splits)

lemma signalled_run:
  assumes "devices_apart E"
  shows "run E as (Sending x n, s) (g', s') \<Longrightarrow> signalled c s \<Longrightarrow> c \<or> Iic_Irq \<notin> set as \<Longrightarrow>
    0 < statements_left c n \<Longrightarrow> statements_left c n \<le> count_list as Main \<Longrightarrow> replied x s s'"
proof (induction as arbitrary: n s)
  case Nil
  then show ?case by simp
next
  case (Cons a as)
  from Cons.prems(1) obtain g1 s1 where step: "fine E a (Sending x n, s) (g1, s1)"
      and rest: "run E as (g1, s1) (g', s')" by (auto elim: run_consE)
  note runs = fine_runs [OF assms step] run_runs [OF assms rest]
  from step waiting_simps(2) show ?case
  proof (cases rule: fine_waiting)
    case main
    then have "send_statement E x n s = (g1, s1)" by simp
    from send_statement_left [OF Cons.prems(2,4) this] show ?thesis
    proof (elim disjE exE conjE)
      assume "replied x s s1"
      then show ?thesis using runs by (rule replied_before)
    next
      fix n' assume "g1 = Sending x n'" "signalled c s1" "0 < statements_left c n'"
        "statements_left c n' < statements_left c n"
      with rest Cons.prems main have "replied x s1 s'" by (intro Cons.IH) auto
      then show ?thesis using runs by (rule replied_later)
    qed
  next
    case tick
    with rest Cons.prems have "replied x s1 s'"
      by (intro Cons.IH) (auto simp: signalled_def tick_watched)
    then show ?thesis using runs by (rule replied_later)
  next
    case (iic ev)
    with rest Cons.prems have "replied x s1 s'"
      by (intro Cons.IH) (auto simp: signalled_def io_simps)
    then show ?thesis using runs by (rule replied_later)
  next
    case other
    with rest Cons.prems have "replied x s1 s'"
      by (intro Cons.IH) (auto simp: signalled_def watched_def)
    then show ?thesis using runs by (rule replied_later)
  qed
qed

text \<open>
  C20: A finished transfer is answered promptly: once the transfer has been started and the completion
  has been signalled, or an error and nothing after it, six more statements of the main thread send
  the reply to the client, whatever interrupts arrive in between.
\<close>

theorem reply_after_completion:
  assumes "devices_apart E" and "run E as (Sending x n, s) (g', s')"
    and "n \<noteq> Clear_Count" and "n \<noteq> Clear_Complete"
    and "SendComplete s \<noteq> 0 \<or> TotalErrorCount s \<noteq> 0 \<and> Iic_Irq \<notin> set as"
    and "6 \<le> count_list as Main"
  shows "\<exists>bs. Tcp (Tcp_write (conn x) bs) \<in> set (calls_since s s')"
proof -
  define c where "c = (SendComplete s \<noteq> 0)"
  have "signalled c s" "c \<or> Iic_Irq \<notin> set as" using assms(5) by (auto simp: signalled_def c_def)
  moreover have "0 < statements_left c n" "statements_left c n \<le> 6"
    using assms(3,4) by (cases n; simp)+
  ultimately show ?thesis
    using signalled_run [OF assms(1,2)] assms(6) by (simp add: replied_def)
qed

section \<open>A bus that does not answer\<close>

text \<open>A transfer that nobody will end: what has been cleared so far is still clear.\<close>

primrec unanswered :: "send_stage \<Rightarrow> 'a iic_state_scheme \<Rightarrow> bool" where
  "unanswered Clear_Count s = True"
| "unanswered Clear_Complete s = (TotalErrorCount s = 0)"
| "unanswered Start_Transfer s = (TotalErrorCount s = 0 \<and> SendComplete s = 0)"
| "unanswered Test_Complete s = (TotalErrorCount s = 0 \<and> SendComplete s = 0)"
| "unanswered Test_Errors s = (TotalErrorCount s = 0 \<and> SendComplete s = 0)"
| "unanswered Print_Count s = False"
| "unanswered Read_Result s = False"
| "unanswered Reply s = False"

lemma unanswered_watched:
  "SendComplete t = SendComplete s \<Longrightarrow> TotalErrorCount t = TotalErrorCount s \<Longrightarrow>
   unanswered n t = unanswered n s"
  by (cases n) simp_all

lemma unanswered_fine:
  assumes "devices_apart E" and "fine E a (Sending x n, s) (g', s')" and "a \<noteq> Iic_Irq"
    and "unanswered n s"
  shows "(\<exists>n'. g' = Sending x n' \<and> unanswered n' s') \<and> behaves E s s'"
  using assms(2) waiting_simps(2)
proof (cases rule: fine_waiting)
  case main
  then have e: "send_statement E x n s = (g', s')" by simp
  then have "\<exists>n'. g' = Sending x n' \<and> unanswered n' s'"
    using assms(4) by (cases n) (auto simp: io_simps)
  with behaves_send_statement [of E s x n] e show ?thesis by simp
next
  case tick
  have "unanswered n s'" using tick assms(4) unanswered_watched [of s' s n] by (simp add: tick_watched)
  with tick show ?thesis by (simp add: behaves_TimerCounterHandler)
next
  case other
  have "unanswered n s'"
    using other assms(4) unanswered_watched [of s' s n] by (simp add: watched_def)
  moreover have "behaves E s s'"
    using assms(1,2) by (cases rule: fine_forms) (use other in auto)
  ultimately show ?thesis using other by simp
qed (use assms(3) in auto)

lemma unanswered_move:
  assumes "devices_apart E" and "(move E (- {Iic_Irq}))\<^sup>*\<^sup>* (Sending x n, s) y" and "unanswered n s"
  shows "(\<exists>n'. fst y = Sending x n' \<and> unanswered n' (snd y)) \<and> behaves E s (snd y)"
  using assms(2)
proof (induction rule: rtranclp_induct)
  case base
  show ?case using assms(3) by (auto intro: behaves_refl)
next
  case (step y z)
  then obtain a n' where "fine E a (Sending x n', snd y) (fst z, snd z)" "a \<noteq> Iic_Irq" "unanswered n' (snd y)"
    by (cases y) (auto simp: move_def)
  from unanswered_fine [OF assms(1) this] step.IH show ?case by (blast intro: behaves_trans)
qed

text \<open>
  C14: One request on a dead I2C bus stops the firmware for good: a valid I2C request puts the main
  thread into the transfer, and as long as the controller does not interrupt it never comes out
  again, however long it runs and whatever other interrupts arrive; the TCP timers are not run any
  more and the transfer is never given up, because the wait has no timeout.
\<close>

theorem dead_bus_never_left:
  assumes "devices_apart E" and "starts_transfer E tpcb p s"
  shows "let x = transfer_for E tpcb p s; t = mark E (answered E tpcb p s) in
    fine E Lwip (At In_Lwip, s) (Sending x Clear_Count, t) \<and>
    (\<forall>g' s'. (move E (- {Iic_Irq}))\<^sup>*\<^sup>* (Sending x Clear_Count, t) (g', s') \<longrightarrow>
       (\<exists>n. g' = Sending x n \<and> n \<noteq> Reply) \<and> list_all (\<lambda>c. \<not> is_tcp_timer c) (calls_since t s'))"
proof -
  let ?x = "transfer_for E tpcb p s" and ?t = "mark E (answered E tpcb p s)"
  have "(\<exists>n. g' = Sending ?x n \<and> n \<noteq> Reply) \<and> list_all (\<lambda>c. \<not> is_tcp_timer c) (calls_since ?t s')"
    if "(move E (- {Iic_Irq}))\<^sup>*\<^sup>* (Sending ?x Clear_Count, ?t) (g', s')" for g' s'
    using unanswered_move [OF assms(1) that] by (auto simp: behaves_def list_all_iff)
  with fine.receive_i2c [OF assms(2)] show ?thesis by (simp add: Let_def)
qed

section \<open>The end of the DHCP wait\<close>

text \<open>Statements of the main thread until the servers are started, once the time is over.\<close>

primrec dhcp_left :: "dhcp_stage \<Rightarrow> nat" where
  "dhcp_left Set_Timeout = 0"
| "dhcp_left Test_Address = 4"
| "dhcp_left Test_Counter = 3"
| "dhcp_left Test_Expired = 2"
| "dhcp_left Servers = 1"

definition served :: "'a io_scheme \<Rightarrow> 'a io_scheme \<Rightarrow> bool" where
  "served s s' \<longleftrightarrow> Tcp Tcp_new_ip_type \<in> set (calls_since s s')"

lemma served_later: "served t u \<Longrightarrow> runs E s t \<Longrightarrow> runs E t u \<Longrightarrow> served s u"
  using calls_since_trans [of s t u] by (auto simp: served_def runs_def)

lemma served_before: "served s t \<Longrightarrow> runs E s t \<Longrightarrow> runs E t u \<Longrightarrow> served s u"
  using calls_since_trans [of s t u] by (auto simp: served_def runs_def)

lemma start_servers_served: "served s (start_servers E s)" for s :: "'a dma_state_scheme"
proof -
  let ?t = "if LWIP_DHCP E then emit E (Netif Netif_netmask) (emit E (Netif Netif_gw)
    (emit E (Netif Netif_ip_addr) s)) else s"
  have eq: "start_servers E s = udp_start_application E (snd (start_application E ?t))"
    unfolding start_servers_def Let_def by (rule case_prod_beta)
  let ?u = "snd (start_application E ?t)"
  have "served t (snd (start_application E t))" for t :: "'a dma_state_scheme"
    using start_application_outcome [of E t] by (auto simp: served_def Let_def split_beta)
  note accepted = this [of ?t]
  have "behaves E s ?t" by (auto intro!: behaves_then behaves_refl)
  from served_later [OF accepted behaves_runs [OF this] behaves_runs [OF behaves_start_application]]
  have "served s ?u" .
  moreover have "runs E s ?u"
    by (rule runs_trans [OF behaves_runs behaves_runs]) (fact, rule behaves_start_application)
  ultimately show ?thesis
    unfolding eq by (rule served_before [OF _ _ behaves_runs [OF behaves_udp_start_application]])
qed

lemma dhcp_statement_left:
  fixes s s' :: "'a dma_state_scheme"
  assumes "dhcp_statement E d s = (g', s')" and "0 < dhcp_left d"
  shows "served s s' \<or> (\<exists>d'. g' = Dhcp d' \<and> 0 < dhcp_left d' \<and> dhcp_timoutcntr s' = dhcp_timoutcntr s
    \<and> (dhcp_timoutcntr s \<le> 0 \<longrightarrow> dhcp_left d' < dhcp_left d))"
  using assms
  by (cases d) (auto simp: Let_def io_simps start_servers_served split: if_splits)

text \<open>In a run the counter falls with the ticks, and once it is not positive few statements are left.\<close>

lemma dhcp_run:
  assumes "devices_apart E" and "LWIP_DHCP E"
  shows "run E as (Dhcp d, s) (g', s') \<Longrightarrow> 0 < dhcp_left d \<Longrightarrow>
    served s s' \<or> (\<exists>d'. g' = Dhcp d' \<and> 0 < dhcp_left d'
      \<and> dhcp_timoutcntr s' = dhcp_timoutcntr s - int (count_list as Timer_Irq)
      \<and> (dhcp_timoutcntr s \<le> 0 \<longrightarrow> dhcp_left d' + count_list as Main \<le> dhcp_left d))"
proof (induction as arbitrary: d s)
  case Nil
  then show ?case by auto
next
  case (Cons a as)
  from Cons.prems(1) obtain g1 s1 where step: "fine E a (Dhcp d, s) (g1, s1)"
      and rest: "run E as (g1, s1) (g', s')" by (auto elim: run_consE)
  note runs = fine_runs [OF assms(1) step] run_runs [OF assms(1) rest]
  have onward: ?case
    if "g1 = Dhcp d1" "0 < dhcp_left d1"
      "dhcp_timoutcntr s1 = dhcp_timoutcntr s - (if a = Timer_Irq then 1 else 0)"
      "dhcp_timoutcntr s \<le> 0 \<longrightarrow> dhcp_left d1 + (if a = Main then 1 else 0) \<le> dhcp_left d" for d1
    using Cons.IH [of d1 s1] rest that served_later [OF _ runs] by (auto split: if_splits)
  from step waiting_simps(1) show ?case
  proof (cases rule: fine_waiting)
    case main
    then have "dhcp_statement E d s = (g1, s1)" by simp
    from dhcp_statement_left [OF this Cons.prems(2)] show ?thesis
    proof (elim disjE exE conjE)
      assume "served s s1"
      then show ?thesis using served_before [OF _ runs] by blast
    qed (rule onward, use main in auto)
  next
    case tick
    then show ?thesis using Cons.prems(2) assms(2) by (intro onward) (auto simp: tick_watched)
  next
    case (iic ev)
    have "dhcp_timoutcntr (Handler E ev s) = dhcp_timoutcntr s" by (simp add: Handler_def)
    with iic show ?thesis using Cons.prems(2) by (intro onward) auto
  next
    case other
    then show ?thesis using Cons.prems(2) by (intro onward) (auto simp: watched_def)
  qed
qed


section \<open>The main loop is always reached again\<close>

text \<open>\<open>Hung\<close> is no state of the fine system, and the DHCP stages exist only with DHCP.\<close>

definition sound_point :: "env \<Rightarrow> control \<Rightarrow> bool" where
  "sound_point E g \<longleftrightarrow> g \<noteq> At Hung \<and> (\<forall>d. g = Dhcp d \<longrightarrow> d = Servers \<or> LWIP_DHCP E)"

lemma sound_fine:
  assumes "fine E a (g, s) (g', s')" and "sound_point E g"
  shows "sound_point E g'"
  using assms(1)
proof (cases rule: fine.cases)
  case main
  show ?thesis
  proof (cases g)
    case (At l)
    with main assms(2) show ?thesis
      by (cases l) (auto simp: sound_point_def enter_dhcp_def split: prod.splits if_splits)
  next
    case (Dhcp d)
    with main assms(2) show ?thesis
      by (cases d) (auto simp: sound_point_def Let_def split: if_splits)
  next
    case (Sending x n)
    with main show ?thesis by (cases n) (auto simp: sound_point_def)
  qed
qed (use assms(2) in \<open>auto simp: sound_point_def\<close>)

definition returns :: "env \<Rightarrow> control \<times> 'a dma_state_scheme \<Rightarrow> bool" where
  "returns E x \<longleftrightarrow> (\<exists>s'. (move E {Main, Lwip, Timer_Irq, Iic_Irq})\<^sup>*\<^sup>* x (At Test_Fast, s'))"

lemma returns_trans: "(move E {Main, Lwip, Timer_Irq, Iic_Irq})\<^sup>*\<^sup>* x y \<Longrightarrow> returns E y \<Longrightarrow> returns E x"
  by (auto simp: returns_def intro: rtranclp_trans)

lemma returns_main: "statement E g s = Some (g', s') \<Longrightarrow> returns E (g', s') \<Longrightarrow> returns E (g, s)"
  by (rule returns_trans [OF move_main]) simp_all

lemma returns_loop: "Test_Fast \<le> l \<Longrightarrow> l \<noteq> Hung \<Longrightarrow> returns E (At l, s)"
proof -
  have fast: "returns E (At Test_Fast, s)" for s by (auto simp: returns_def)
  have transfer: "returns E (At Transfer, s)" for s by (rule returns_main [OF _ fast]) simp
  have lwip: "returns E (At In_Lwip, s)" for s
    by (rule returns_trans [OF move_one [OF fine.input_done] transfer]) simp
  have poll: "returns E (At Poll_Input, s)" for s by (rule returns_main [OF _ lwip]) simp
  have clear_slow: "returns E (At Clear_Slow, s)" for s by (rule returns_main [OF _ poll]) simp
  have run_slow: "returns E (At Run_Slow, s)" for s by (rule returns_main [OF _ clear_slow]) simp
  have slow: "returns E (At Test_Slow, s)" for s
    by (cases "TcpSlowTmrFlag s \<noteq> 0") (rule returns_main [OF _ run_slow] returns_main [OF _ poll], simp)+
  have clear_fast: "returns E (At Clear_Fast, s)" for s by (rule returns_main [OF _ slow]) simp
  have run_fast: "returns E (At Run_Fast, s)" for s by (rule returns_main [OF _ clear_fast]) simp
  show "Test_Fast \<le> l \<Longrightarrow> l \<noteq> Hung \<Longrightarrow> returns E (At l, s)"
    by (cases l) (simp_all add: less_eq_pc_def fast run_fast clear_fast slow run_slow clear_slow poll lwip transfer)
qed

lemma returns_sending: "returns E (Sending x n, s)"
proof -
  have lwip: "returns E (At In_Lwip, s)" for s by (rule returns_loop) (simp_all add: less_eq_pc_def)
  have reply: "returns E (Sending x Reply, s)" for s by (rule returns_main [OF _ lwip]) simp
  have result: "returns E (Sending x Read_Result, s)" for s by (rule returns_main [OF _ reply]) simp
  have print: "returns E (Sending x Print_Count, s)" for s by (rule returns_main [OF _ result]) simp
  have errors: "returns E (Sending x Test_Errors, s)" for s
  proof (cases "TotalErrorCount s = 0")
    case True
    have "returns E (Sending x Test_Errors, Handler E 0 s)"
      by (rule returns_main [OF _ print]) (simp add: True Handler_def)
    then show ?thesis by (rule returns_trans [OF move_one [OF fine.iic_irq], rotated]) simp
  next
    case False
    then show ?thesis by (intro returns_main [OF _ print]) simp
  qed
  have complete: "returns E (Sending x Test_Complete, s)" for s
    by (cases "SendComplete s \<noteq> 0") (rule returns_main [OF _ print] returns_main [OF _ errors], simp)+
  have start: "returns E (Sending x Start_Transfer, s)" for s by (rule returns_main [OF _ complete]) simp
  have clear: "returns E (Sending x Clear_Complete, s)" for s by (rule returns_main [OF _ start]) simp
  have "returns E (Sending x Clear_Count, s)" for s by (rule returns_main [OF _ clear]) simp
  then show ?thesis using clear start complete errors print result reply by (cases n) simp_all
qed

lemma returns_dhcp:
  assumes "d = Servers \<or> LWIP_DHCP E"
  shows "returns E (Dhcp d, s)"
proof -
  have loop: "returns E (At Test_Fast, s)" for s by (rule returns_loop) (simp_all add: less_eq_pc_def)
  have servers: "returns E (Dhcp Servers, s)" for s by (rule returns_main [OF _ loop]) simp
  have expired: "returns E (Dhcp Test_Expired, s)" for s by (rule returns_main [OF _ servers]) simp
  have counter: "returns E (Dhcp Test_Counter, s)" if "LWIP_DHCP E" for s :: "'a dma_state_scheme"
  proof -
    let ?n = "nat (dhcp_timoutcntr s)" and ?tick = "TimerCounterHandler E"
    have "dhcp_timoutcntr ((?tick ^^ n) s) = dhcp_timoutcntr s - int n" for n
      by (induction n) (simp_all add: tick_watched that)
    then have "\<not> dhcp_timoutcntr ((?tick ^^ ?n) s) > 0" by simp
    then have "returns E (Dhcp Test_Counter, (?tick ^^ ?n) s)" by (intro returns_main [OF _ expired]) simp
    then show ?thesis by (rule returns_trans [OF move_ticks, rotated]) simp
  qed
  have address: "returns E (Dhcp Test_Address, s)" if "LWIP_DHCP E" for s :: "'a dma_state_scheme"
    by (cases "ans E (Netif Netif_ip_addr) s \<noteq> 0")
      (rule returns_main [OF _ expired] returns_main [OF _ counter [OF that]], simp add: Let_def)+
  have "returns E (Dhcp Set_Timeout, s)" if "LWIP_DHCP E" for s :: "'a dma_state_scheme"
    by (rule returns_main [OF _ address [OF that]]) simp
  then show ?thesis using assms servers expired counter address by (cases d) auto
qed

lemma returns_boot: "l \<noteq> Hung \<Longrightarrow> returns E (At l, s)" for s :: "'a dma_state_scheme"
proof -
  have ethernet: "returns E (At Boot_Ethernet, s)" for s :: "'a dma_state_scheme"
  proof -
    obtain g' s' where e: "enter_dhcp E s = (g', s')" by (metis surj_pair)
    then have "g' = At Test_Fast \<or> g' = Dhcp Servers \<or> g' = Dhcp Set_Timeout \<and> LWIP_DHCP E"
      by (auto simp: enter_dhcp_def split: prod.splits if_splits)
    then have "returns E (g', s')" using returns_dhcp returns_loop [of Test_Fast] by auto
    with e show ?thesis by (intro returns_main [of E "At Boot_Ethernet" s g' s']) simp_all
  qed
  have iic: "returns E (At Boot_Iic, s)" for s :: "'a dma_state_scheme"
    by (rule returns_main [OF _ ethernet]) simp
  have dma: "returns E (At Boot_Dma, s)" for s :: "'a dma_state_scheme"
    by (rule returns_main [OF _ iic]) simp
  have "returns E (At Boot_Platform, s)" for s :: "'a dma_state_scheme"
    by (rule returns_main [OF _ dma]) simp
  then show "l \<noteq> Hung \<Longrightarrow> returns E (At l, s)"
    using ethernet iic dma returns_loop [of l] by (cases l) (simp_all add: less_eq_pc_def)
qed


section \<open>Streaming\<close>


section \<open>A lost tick\<close>

text \<open>
  The main loop runs a TCP timer before it clears the flag, so a tick that raises the flag while the
  timer runs is lost: the paces of the timers are upper bounds only.
\<close>

lemma late_tick_lost:
  assumes "Tcp_Fasttimer s mod 5 = 4"
  shows "\<exists>t s'. run E [Main, Timer_Irq] (At Run_Fast, s) (At Clear_Fast, t) \<and> TcpFastTmrFlag t = 1
    \<and> run E [Main] (At Clear_Fast, t) (At Test_Slow, s') \<and> TcpFastTmrFlag s' = 0"
proof -
  let ?u = "emit E (Tcp Tcp_fasttmr) s"
  let ?t = "TimerCounterHandler E ?u"
  have tick: "run E [Timer_Irq] (At Clear_Fast, ?u) (At Clear_Fast, ?t)"
    by (rule run.cons [OF fine.timer_irq run.nil])
  have "run E [Main, Timer_Irq] (At Run_Fast, s) (At Clear_Fast, ?t)"
    by (rule run.cons [OF fine.main tick]) simp
  moreover have "TcpFastTmrFlag ?t = 1"
  proof -
    have "(Tcp_Fasttimer s + 1) mod 5 = 0" using assms by presburger
    then show ?thesis by (simp add: TimerCounterHandler_eq timer_callback_def io_simps)
  qed
  moreover have "run E [Main] (At Clear_Fast, ?t) (At Test_Slow, (mark E ?t)\<lparr>TcpFastTmrFlag := 0\<rparr>)"
    by (rule run.cons [OF fine.main run.nil]) simp
  ultimately show ?thesis by fastforce
qed

end
