(* ===== verification/Fine_Resources.thy ===== *)
theory Fine_Resources
  imports Fine_Progress
begin

text \<open>
  Two resources across the whole firmware, under every interleaving: the packet buffers of lwIP,
  which main thread, callbacks and the DMA interrupt take and free, and the address of the
  interface, which must be there before the servers are started.
\<close>

section \<open>Packet buffers\<close>

text \<open>
  What a call does to the number of buffers the firmware holds: it takes one by a successful
  allocation and by accepting a packet from a callback, and gives one back by freeing it.
\<close>

fun buffer_delta :: "call \<Rightarrow> u32 \<Rightarrow> int" where
  "buffer_delta (Udp (Pbuf_alloc n)) x = (if x \<noteq> 0 then 1 else 0)"
| "buffer_delta (Udp (Udp_sendto upcb p addr port)) x = 1"
| "buffer_delta (Tcp (Tcp_recved tpcb n)) x = 1"
| "buffer_delta (Udp (Pbuf_free p)) x = -1"
| "buffer_delta _ x = 0"

definition held :: "event list \<Rightarrow> int" where
  "held t = sum_list (map (\<lambda>(c, x). buffer_delta c x) t)"

lemma held_Nil [simp]: "held [] = 0"
  by (simp add: held_def)

lemma held_append [simp]: "held (t @ u) = held t + held u"
  by (simp add: held_def)

lemma held_Cons [simp]: "held ((c, x) # t) = buffer_delta c x + held t"
  by (simp add: held_def)

text \<open>Calls that have nothing to do with buffers.\<close>

definition neutral :: "call \<Rightarrow> bool" where
  "neutral c \<longleftrightarrow> (\<forall>x. buffer_delta c x = 0)"

lemma held_neutral:
  assumes "prefix (tr s) (tr s')" and "list_all neutral (calls_since s s')"
  shows "held (tr s') = held (tr s)"
proof -
  obtain u where u: "tr s' = tr s @ u" using assms(1) by (auto simp: prefix_def)
  have "held v = 0" if "list_all neutral (map fst v)" for v
    using that by (induction v) (auto simp: held_def neutral_def)
  with assms(2) u show ?thesis by (simp add: calls_since_def)
qed

lemma tick_call_neutral: "tick_call c \<Longrightarrow> neutral c"
  by (auto simp: tick_call_def neutral_def)

lemma permitted_neutral: "permitted E c \<Longrightarrow> neutral c"
proof (cases c)
  case (Iic i)
  then show "permitted E c \<Longrightarrow> neutral c" by (cases i) (auto simp: neutral_def)
qed (auto simp: neutral_def)

lemma held_tick: "held (tr (TimerCounterHandler E s)) = held (tr s)"
  using timer_callback_tick_calls [of s E] tick_call_neutral
  by (intro held_neutral) (auto simp: TimerCounterHandler_eq list_all_iff)

lemma held_reset_loop: "held (tr (snd (reset_loop E n s))) = held (tr s)"
  by (rule reset.loop_keeps [where P = "\<lambda>t. held (tr t) = held (tr s)"]) simp_all

lemma held_udp_packet_send: "held (tr (udp_packet_send E rx n s)) = held (tr s)"
proof -
  have loop: "held (tr (snd (send_loop E packet n r t))) = held (tr t)" for packet r and t :: "'a udp_state_scheme"
    by (rule udp_retry.loop_keeps [where P = "\<lambda>u. held (tr u) = held (tr t)"])
      (simp_all add: failed_attempt_def send_call_def)
  show ?thesis
  proof (cases "ans E (Udp (Pbuf_alloc n)) s = 0")
    case True
    then show ?thesis by (simp add: udp_packet_send_def Let_def ans_def)
  next
    case False
    let ?p = "ans E (Udp (Pbuf_alloc n)) s"
    let ?t = "(emit E (Udp (Pbuf_alloc n)) s)\<lparr>mem := memcpy (mem (emit E (Udp (Pbuf_alloc n)) s))
      (payload_of E ?p) rx (unat n)\<rparr>"
    have "udp_packet_send E rx n s =
        emit E (Udp (Pbuf_free ?p)) (snd (send_loop E ?p n (unat MAX_SEND_RETRY) ?t))"
      using False by (simp add: udp_packet_send_def Let_def split_beta)
    then show ?thesis using False loop [of ?p "unat MAX_SEND_RETRY" ?t] by (simp add: ans_def)
  qed
qed

lemma held_RxIntrHandler: "held (tr (RxIntrHandler E s)) = held (tr s)"
proof (cases rule: RxUDPIntrHandler_forms [where E = E and base = "XPAR_AXI_DMA_0_BASEADDR E"
      and rx = RX_DMA_BUFFER_BASE and s = s])
  case idle
  then show ?thesis by (simp add: RxIntrHandler_def acked_def)
next
  case (error l)
  then show ?thesis by (auto simp: RxIntrHandler_def held_reset_loop acked_def)
next
  case (finished t)
  have "held (tr t) = held (tr s)"
    unfolding finished(1) by (simp add: held_udp_packet_send block_ready_def acked_def)
  with finished(2) show ?thesis by (simp add: RxIntrHandler_def)
qed

section \<open>Who takes and frees them\<close>

lemma held_HandleCmdRequest:
  assumes "HandleCmdRequest E rx tx n s = Some (r, s')"
  shows "held (tr s') = held (tr s)"
  using handle_confined [OF assms] permitted_neutral
  by (intro held_neutral) (auto simp: reaches_def list_all_iff)

lemma held_recv_callback:
  assumes "recv_callback E rxp txp tpcb p s = Some (r, s')"
  shows "held (tr s') = held (tr s)"
proof (cases "p_addr p = 0")
  case True
  with assms show ?thesis by (auto simp: recv_callback_def Let_def)
next
  case False
  have "held (tr (received E rxp tpcb p s)) = held (tr s) + 1" "held (tr (announced E tpcb p s)) = held (tr s) + 1"
    by (simp_all add: received_def announced_def Let_def)
  with False assms show ?thesis
    by (auto simp: recv_callback_unfold split: if_splits option.splits dest: held_HandleCmdRequest)
qed

lemma held_udp_echo_recv: "held (tr (udp_echo_recv E upcb p addr port s)) = held (tr s)"
  by (simp add: udp_echo_recv_def Let_def)

lemma held_accept_callback: "held (tr (snd (accept_callback E newpcb s))) = held (tr s)"
  by (simp add: accept_callback_def Let_def)

lemma held_answered: "held (tr (answered E tpcb p s)) = held (tr s) + 1"
  by (simp add: answered_def received_def announced_def Let_def)

lemma held_send_statement:
  "held (tr (snd (send_statement E x n s))) = held (tr s) - (if n = Reply then 1 else 0)"
  by (cases n) (simp_all add: reply_def Let_def)

lemma held_applications:
  "held (tr (snd (start_application E s))) = held (tr s)"
  "held (tr (udp_start_application E t)) = held (tr t)"
  by (simp_all add: start_application_def udp_start_application_def Let_def)

lemma held_start_servers: "held (tr (start_servers E s)) = held (tr s)"
  by (simp add: start_servers_def Let_def split_beta held_applications)

lemma held_dhcp_statement: "held (tr (snd (dhcp_statement E d s))) = held (tr s)"
  by (cases d) (simp_all add: Let_def held_start_servers)

lemma held_enter_dhcp: "held (tr (snd (enter_dhcp E s))) = held (tr s)"
  by (simp add: enter_dhcp_def raise_interface_def init_platform_def init_timer_def enable_caches_def
      Let_def split_beta)

lemma held_main_statement:
  assumes "main_statement E l s = Some (l', s')" and "l \<noteq> Boot_Ethernet"
  shows "held (tr s') = held (tr s)"
proof -
  have "held (tr (snd (Init_Qpix_DMA E base rx tx s))) = held (tr s)" for base rx tx
    by (simp add: Init_Qpix_DMA_def InitDMA_def RxArmDMA_def Let_def)
  moreover have "held (tr (snd (SetupIIC E s))) = held (tr s)"
    by (simp add: SetupIIC_def XIicPsSmbusMasterInit_def Let_def)
  ultimately show ?thesis
    using assms
    by (cases l) (auto simp: init_platform_def init_timer_def enable_caches_def transfer_data_def)
qed

text \<open>The buffers held where control is: the request's, while its transfer is under way.\<close>

primrec holding :: "control \<Rightarrow> int" where
  "holding (At l) = 0"
| "holding (Dhcp d) = 0"
| "holding (Sending x n) = 1"

lemma held_statement:
  assumes "statement E g s = Some (g', s')" and "held (tr s) = holding g"
  shows "held (tr s') = holding g'"
proof (cases g)
  case (At l)
  show ?thesis
  proof (cases "l = Boot_Ethernet")
    case True
    with At assms(1) have e: "enter_dhcp E s = (g', s')" by simp
    then have "holding g' = 0" by (auto simp: enter_dhcp_def split: prod.splits if_splits)
    with e At assms(2) held_enter_dhcp [of E s] show ?thesis by simp
  next
    case False
    with At assms show ?thesis by (auto simp: held_main_statement)
  qed
next
  case (Dhcp d)
  with assms(1) have e: "dhcp_statement E d s = (g', s')" by simp
  then have "holding g' = 0" by (cases d) (auto simp: Let_def split: if_splits)
  with e Dhcp assms(2) held_dhcp_statement [of E d s] show ?thesis by simp
next
  case (Sending x n)
  with assms(1) have e: "send_statement E x n s = (g', s')" by simp
  then have "holding g' = (if n = Reply then 0 else 1)" by (cases n) auto
  with e Sending assms(2) held_send_statement [of E x n s] show ?thesis by (auto split: if_splits)
qed

lemma held_fine:
  assumes "fine E a (g, s) (g', s')" and "held (tr s) = holding g"
  shows "held (tr s') = holding g'"
  using assms(1)
proof (cases rule: fine.cases)
  case main
  then show ?thesis using held_statement assms(2) by blast
next
  case (accept newpcb r)
  then show ?thesis using held_accept_callback [of E newpcb s] assms(2) by simp
qed (use assms(2) in \<open>auto simp: held_recv_callback held_answered held_udp_echo_recv held_tick
    held_RxIntrHandler io_simps\<close>)


section \<open>The address of the interface\<close>

text \<open>Calls that neither report nor assign an address.\<close>

definition silent :: "call \<Rightarrow> bool" where
  "silent c \<longleftrightarrow> (\<forall>r x. address_after r (c, x) = r)"

lemma address_silent:
  assumes "prefix (tr s) (tr s')" and "list_all silent (calls_since s s')"
  shows "interface_address (tr s') = interface_address (tr s)"
proof -
  obtain u where u: "tr s' = tr s @ u" using assms(1) by (auto simp: prefix_def)
  have "foldl address_after r v = r" if "list_all silent (map fst v)" for r v
    using that by (induction v arbitrary: r) (auto simp: silent_def)
  with assms(2) u show ?thesis by (simp add: calls_since_def)
qed

lemma silent_simps [simp]:
  "silent Vaccess" "silent (In32 a)" "silent (Out32 a v)" "silent (Cpu cc)" "silent (Dma dc)"
  "silent (Iic ic)" "silent (Udp uc)" "silent (Tcp tc)" "silent (Netif Xemacif_input)"
  by (simp_all add: silent_def)

lemma address_emit: "silent c \<Longrightarrow> interface_address (tr (emit E c s)) = interface_address (tr s)"
  by (rule address_silent) (simp_all add: calls_since_def)

lemma address_tick: "interface_address (tr (TimerCounterHandler E s)) = interface_address (tr s)"
  using timer_callback_tick_calls [of s E]
  by (intro interface_address_quiet) (auto simp: TimerCounterHandler_eq list_all_iff)

lemma address_reset_loop: "interface_address (tr (snd (reset_loop E n s))) = interface_address (tr s)"
  by (rule reset.loop_keeps [where P = "\<lambda>t. interface_address (tr t) = interface_address (tr s)"])
    (simp_all add: address_emit del: tr_emit)

lemma address_udp_packet_send:
  "interface_address (tr (udp_packet_send E rx n s)) = interface_address (tr s)"
proof -
  let ?c = "Udp (Pbuf_alloc n)"
  let ?t = "(emit E ?c s)\<lparr>mem := memcpy (mem (emit E ?c s)) (payload_of E (ans E ?c s)) rx (unat n)\<rparr>"
  have loop: "interface_address (tr (snd (send_loop E packet n r t))) = interface_address (tr t)"
    for packet r and t :: "'a udp_state_scheme"
    by (rule udp_retry.loop_keeps [where P = "\<lambda>u. interface_address (tr u) = interface_address (tr t)"])
      (simp_all add: failed_attempt_def send_call_def address_emit del: tr_emit)
  have "udp_packet_send E rx n s = (if ans E ?c s = 0 then emit E ?c s else
      emit E (Udp (Pbuf_free (ans E ?c s))) (snd (send_loop E (ans E ?c s) n (unat MAX_SEND_RETRY) ?t)))"
    by (simp add: udp_packet_send_def Let_def split_beta)
  then show ?thesis
    using loop [of "ans E ?c s" "unat MAX_SEND_RETRY" ?t] by (simp add: address_emit del: tr_emit)
qed

lemma address_RxIntrHandler: "interface_address (tr (RxIntrHandler E s)) = interface_address (tr s)"
proof (cases rule: RxUDPIntrHandler_forms [where E = E and base = "XPAR_AXI_DMA_0_BASEADDR E"
      and rx = RX_DMA_BUFFER_BASE and s = s])
  case idle
  then show ?thesis by (simp add: RxIntrHandler_def acked_def address_emit del: tr_emit)
next
  case (error l)
  then show ?thesis
    by (auto simp: RxIntrHandler_def address_reset_loop acked_def address_emit simp del: tr_emit)
next
  case (finished t)
  have "interface_address (tr t) = interface_address (tr s)"
    unfolding finished(1)
    by (simp add: address_udp_packet_send block_ready_def acked_def address_emit del: tr_emit)
  with finished(2) show ?thesis by (simp add: RxIntrHandler_def address_emit del: tr_emit)
qed

text \<open>What each stage of the DHCP phase has established.\<close>

definition addressed :: "env \<Rightarrow> control \<Rightarrow> 'a timer_state_scheme \<Rightarrow> bool" where
  "addressed E g s \<longleftrightarrow> LWIP_DHCP E \<longrightarrow>
     (g = Dhcp Test_Expired \<longrightarrow> interface_address (tr s) \<noteq> 0 \<or> dhcp_timoutcntr s \<le> 0)
     \<and> (g = Dhcp Servers \<longrightarrow> interface_address (tr s) \<noteq> 0)"

lemma addressed_dhcp:
  assumes "dhcp_statement E d s = (g', s')" and "addressed E (Dhcp d) s"
  shows "addressed E g' s'"
proof -
  have fallback: "IP4_ADDR 192 168 1 10 \<noteq> 0" by (simp add: IP4_ADDR_def)
  show ?thesis
    using assms
  proof (cases d)
    case Test_Address
    with assms(1) show ?thesis
      by (auto simp: addressed_def Let_def ans_def split: if_splits)
  next
    case Test_Expired
    with assms fallback show ?thesis
      by (auto simp: addressed_def Let_def ans_def split: if_splits)
  qed (auto simp: addressed_def io_simps split: if_splits)
qed

lemma addressed_outside: "(\<forall>d. g \<noteq> Dhcp d) \<Longrightarrow> addressed E g s"
  by (auto simp: addressed_def)

lemma addressed_fine:
  assumes "fine E a (g, s) (g', s')" and "addressed E g s"
  shows "addressed E g' s'"
proof (cases "\<exists>d. g = Dhcp d")
  case True
  then obtain d where g: "g = Dhcp d" by blast
  from assms(1) show ?thesis
  proof (cases rule: fine.cases)
    case main
    with g assms(2) show ?thesis by (auto intro: addressed_dhcp)
  next
    case timer_irq
    then show ?thesis using assms(2) by (auto simp: addressed_def address_tick tick_watched)
  next
    case dma_irq
    then show ?thesis
      using assms(2) watched_RxIntrHandler [of E s]
      by (auto simp: addressed_def address_RxIntrHandler watched_def)
  next
    case (iic_irq ev)
    have "dhcp_timoutcntr (Handler E ev s) = dhcp_timoutcntr s" by (simp add: Handler_def)
    with iic_irq show ?thesis using assms(2) by (auto simp: addressed_def io_simps)
  next
    case hardware
    then show ?thesis using assms(2) by (auto simp: addressed_def)
  qed (use g in auto)
next
  case False
  show ?thesis
  proof (cases "g = At Boot_Ethernet \<and> g' \<noteq> g")
    case True
    then have "enter_dhcp E s = (g', s')" using assms(1) by (auto elim: fine.cases)
    then show ?thesis by (auto simp: enter_dhcp_def addressed_def split: prod.splits if_splits)
  next
    case outside: False
    have "\<forall>d. g' \<noteq> Dhcp d"
      using assms(1)
    proof (cases rule: fine.cases)
      case main
      show ?thesis
      proof (cases g)
        case (At l)
        with main outside show ?thesis by (cases "l = Boot_Ethernet") auto
      next
        case (Sending x n)
        with main show ?thesis by (cases n) auto
      qed (use False in auto)
    qed (use False in auto)
    then show ?thesis by (rule addressed_outside)
  qed
qed

text \<open>
  C22: The servers are started with an address: whenever control reaches the start of the TCP and UDP
  servers, under every interleaving, either lwIP has reported a nonzero address or the fallback
  192.168.1.10 has been assigned, whatever the DHCP server did and whenever the ticks arrived.
\<close>

theorem address_before_servers:
  assumes "fine_reachable E m (Dhcp Servers) s" and "LWIP_DHCP E"
  shows "interface_address (tr s) \<noteq> 0"
proof -
  have "addressed E (Dhcp Servers) s"
    by (rule fine_invariant [OF assms(1), where I = "addressed E"])
      (simp add: addressed_outside, rule addressed_fine)
  with assms(2) show ?thesis by (simp add: addressed_def)
qed

end
