(* ===== verification/Fine_Examples.thy ===== *)
theory Fine_Examples
  imports Fine_Refines Fine_Resources
begin

text \<open>
  A board on which the states of the fine system are reached: the whole boot runs, a client sends an
  I2C request, and the main thread waits for the transfer. The properties of the fine system are
  applied there.
\<close>

section \<open>A board\<close>

text \<open>
  Every call is answered 0x1000: lwIP has room for replies, DHCP has an address, and the DMA status
  says that a block is finished.
\<close>

definition demo_env :: env where
  "demo_env = zynq_env (\<lambda>_ _. 0x1000) (\<lambda>_. [1]) (\<lambda>_. 0)"

lemma demo_env_apart: "devices_apart demo_env"
  by (simp add: devices_apart_def dma_registers_def demo_env_def zynq_env_def)

lemma demo_env_consts:
  "XPAR_AXI_DMA_0_BASEADDR demo_env = 0x40400000" "TREG_ADDR demo_env = 0x43C00000" "LWIP_DHCP demo_env"
  "XAXIDMA_IRQ_ALL_MASK demo_env = 0x7000" "XAXIDMA_IRQ_ERROR_MASK demo_env = 0x4000"
  "XAXIDMA_IRQ_IOC_MASK demo_env = 0x1000" "ERR_OK demo_env = 0"
  "ans demo_env c s = 0x1000" "block_length demo_env base s = 0x1000"
  by (simp_all add: demo_env_def zynq_env_def ans_def block_length_def)

text \<open>A packet whose words ask for a transfer starts one.\<close>

lemma starts_transfer_words:
  assumes "p_addr p \<noteq> 0" and "tot_len p = 8" and "has_space E tpcb p s"
    and "load32 (mem s) (payload p) = I2C_PACKET"
    and "i2c_addr_of (load32 (mem s) (payload p + 4)) \<in> {IIC_SLAVE_ADDR_1, IIC_SLAVE_ADDR_2}"
  shows "starts_transfer E tpcb p s"
proof -
  have "apart 12 RX_ETH_BUFFER_BASE TX_ETH_BUFFER_BASE"
    using buffers_apart by (simp add: macro_defs)
  then have "rd (answered E tpcb p s) RX_ETH_BUFFER_BASE 1 = load32 (mem s) (payload p + 4)"
    by (simp add: answered_def rd_wr_reply received_words [OF assms(2)])
  with assms show ?thesis
    by (simp add: starts_transfer_def received_words [OF assms(2)] recv_size_of_def)
qed

abbreviation demo_request_mem :: memory where
  "demo_request_mem \<equiv> put_request I2C_PACKET 0x00C00000 0"

lemma demo_starts: "mem s = demo_request_mem \<Longrightarrow> starts_transfer demo_env 1 (demo_pbuf 8) s"
proof (rule starts_transfer_words)
  assume m: "mem s = demo_request_mem"
  show "has_space demo_env 1 (demo_pbuf 8) s"
    by (simp add: has_space_def demo_env_def zynq_env_def demo_pbuf_def ans_def)
  show "load32 (mem s) (payload (demo_pbuf 8)) = I2C_PACKET"
    unfolding m by (simp add: demo_pbuf_def load_request)
  show "i2c_addr_of (load32 (mem s) (payload (demo_pbuf 8) + 4)) \<in> {IIC_SLAVE_ADDR_1, IIC_SLAVE_ADDR_2}"
    unfolding m by (simp add: demo_pbuf_def load_request i2c_addr_of_def macro_defs)
qed (simp_all add: demo_pbuf_def)

section \<open>A reachable state inside a transfer\<close>

lemma move_mono: "(move E A)\<^sup>*\<^sup>* x y \<Longrightarrow> A \<subseteq> B \<Longrightarrow> (move E B)\<^sup>*\<^sup>* x y"
  by (erule predicate2D [OF rtranclp_mono, rotated]) (unfold move_def, blast)

lemma to_lwip: "\<exists>s'. (move E {Main})\<^sup>*\<^sup>* (At Test_Fast, s) (At In_Lwip, s')"
proof -
  let ?to = "(move E {Main})\<^sup>*\<^sup>*"
  have poll: "?to (At Poll_Input, s) (At In_Lwip, emit E (Netif Xemacif_input) s)" for s
    by (rule move_main) simp_all
  have slow: "\<exists>s'. ?to (At Test_Slow, s) (At In_Lwip, s')" for s
  proof (cases "TcpSlowTmrFlag s = 0")
    case True
    then have "?to (At Test_Slow, s) (At Poll_Input, emit E Vaccess s)" by (intro move_main) simp_all
    then show ?thesis using poll by (blast intro: rtranclp_trans)
  next
    case False
    then have "?to (At Test_Slow, s) (At Run_Slow, emit E Vaccess s)" by (intro move_main) simp_all
    also have "?to \<dots> (At Clear_Slow, emit E (Tcp Tcp_slowtmr) (emit E Vaccess s))"
      by (rule move_main) simp_all
    also have "?to \<dots> (At Poll_Input, (emit E Vaccess (emit E (Tcp Tcp_slowtmr) (emit E Vaccess s)))\<lparr>TcpSlowTmrFlag := 0\<rparr>)"
      by (rule move_main) simp_all
    finally show ?thesis using poll by (blast intro: rtranclp_trans)
  qed
  show ?thesis
  proof (cases "TcpFastTmrFlag s = 0")
    case True
    then have "?to (At Test_Fast, s) (At Test_Slow, emit E Vaccess s)" by (intro move_main) simp_all
    then show ?thesis using slow by (blast intro: rtranclp_trans)
  next
    case False
    then have "?to (At Test_Fast, s) (At Run_Fast, emit E Vaccess s)" by (intro move_main) simp_all
    also have "?to \<dots> (At Clear_Fast, emit E (Tcp Tcp_fasttmr) (emit E Vaccess s))"
      by (rule move_main) simp_all
    also have "?to \<dots> (At Test_Slow, (emit E Vaccess (emit E (Tcp Tcp_fasttmr) (emit E Vaccess s)))\<lparr>TcpFastTmrFlag := 0\<rparr>)"
      by (rule move_main) simp_all
    finally show ?thesis using slow by (blast intro: rtranclp_trans)
  qed
qed

lemma transfer_reachable: "\<exists>x s. fine_reachable demo_env blank (Sending x Clear_Count) s"
proof -
  let ?to = "(move demo_env UNIV)\<^sup>*\<^sup>*" and ?x0 = "(At Boot_Platform, firmware_start blank)"
  have "returns demo_env ?x0" by (rule returns_boot) simp
  then obtain s1 where "?to ?x0 (At Test_Fast, s1)"
    by (auto simp: returns_def intro: move_mono)
  also obtain s2 where "?to (At Test_Fast, s1) (At In_Lwip, s2)"
    using to_lwip move_mono by blast
  also have "?to (At In_Lwip, s2) (At In_Lwip, s2\<lparr>mem := demo_request_mem\<rparr>)"
    by (rule move_one [OF fine.hardware]) simp
  also have "?to (At In_Lwip, s2\<lparr>mem := demo_request_mem\<rparr>)
      (Sending (transfer_for demo_env 1 (demo_pbuf 8) (s2\<lparr>mem := demo_request_mem\<rparr>)) Clear_Count,
       mark demo_env (answered demo_env 1 (demo_pbuf 8) (s2\<lparr>mem := demo_request_mem\<rparr>)))"
    by (rule move_one [OF fine.receive_i2c [OF demo_starts]]) simp_all
  finally show ?thesis unfolding fine_reachable_def by blast
qed

section \<open>Every reachable state\<close>


theorem accesses_always_confined_witness:
  "\<exists>x s. fine_reachable demo_env blank (Sending x Clear_Count) s \<and>
     list_all (sanctioned demo_env) (map fst (tr s))"
  using transfer_reachable accesses_always_confined [OF demo_env_apart] by blast





text \<open>The boot of this board goes through the DHCP phase.\<close>

lemma servers_reachable: "\<exists>s. fine_reachable demo_env blank (Dhcp Servers) s"
proof -
  let ?to = "(move demo_env UNIV)\<^sup>*\<^sup>*" and ?s0 = "firmware_start blank"
  note dhcp = dhcp_stage_move [of UNIV demo_env, simplified]
  obtain s1 where "?to (At Boot_Platform, ?s0) (At Boot_Dma, s1)" by (rule that [OF move_main]) simp_all
  also obtain s2 where "?to (At Boot_Dma, s1) (At Boot_Iic, s2)" by (rule that [OF move_main]) simp_all
  also obtain s3 where "?to (At Boot_Iic, s2) (At Boot_Ethernet, s3)" by (rule that [OF move_main]) simp_all
  also obtain s4 where "?to (At Boot_Ethernet, s3) (Dhcp Set_Timeout, s4)"
  proof -
    have "fst (enter_dhcp demo_env s3) = Dhcp Set_Timeout"
      by (simp add: enter_dhcp_def raise_interface_def Let_def demo_env_consts split_beta)
    then have "statement demo_env (At Boot_Ethernet) s3 = Some (Dhcp Set_Timeout, snd (enter_dhcp demo_env s3))"
      by (simp add: prod_eq_iff)
    then show ?thesis by (rule that [OF move_main]) simp
  qed
  also have "?to (Dhcp Set_Timeout, s4) (Dhcp Test_Address, s4\<lparr>dhcp_timoutcntr := 240\<rparr>)"
    using dhcp [of Set_Timeout s4] by simp
  also obtain s5 where "?to (Dhcp Test_Address, s4\<lparr>dhcp_timoutcntr := 240\<rparr>) (Dhcp Test_Expired, s5)"
    using dhcp [of Test_Address "s4\<lparr>dhcp_timoutcntr := 240\<rparr>"] by (simp add: Let_def demo_env_consts)
  also obtain s6 where "?to (Dhcp Test_Expired, s5) (Dhcp Servers, s6)"
    using dhcp [of Test_Expired s5] by (simp add: Let_def)
  finally show ?thesis unfolding fine_reachable_def by blast
qed

theorem address_before_servers_witness:
  "\<exists>s. fine_reachable demo_env blank (Dhcp Servers) s \<and> interface_address (tr s) \<noteq> 0"
  using servers_reachable address_before_servers demo_env_consts(3) by blast

section \<open>Steps, transfers and streaming\<close>

abbreviation demo_state :: dma_state where
  "demo_state \<equiv> firmware_start demo_request_mem"

lemma demo_state_starts: "starts_transfer demo_env 1 (demo_pbuf 8) demo_state"
  by (rule demo_starts) (simp add: firmware_start_def)

lemma demo_request_step: "\<exists>s'. step demo_env (In_Lwip, demo_state) (In_Lwip, s')"
proof -
  have "\<exists>k. list_ex (send_event demo_env) (iic_irqs demo_env (repeated demo_env Vaccess t k))" for t
    by (simp add: demo_env_def zynq_env_def send_event_def)
  then have "\<exists>r. send_wait demo_env s = Some r" for s :: dma_state
    using send_wait_returns [of demo_env s] by blast
  then have "\<exists>r s'. IicSend demo_env bs n a s = Some (r, s')" for bs n a and s :: dma_state
    by (metis (no_types, lifting) IicSend_def option.case(2) split_beta)
  then obtain r s' where "IicSend demo_env (i2c_bytes (request_word (transfer_for demo_env 1 (demo_pbuf 8) demo_state))) 3
      (slave_of (transfer_for demo_env 1 (demo_pbuf 8) demo_state)) (answered demo_env 1 (demo_pbuf 8) demo_state) = Some (r, s')"
    by blast
  then obtain r s' where "recv_callback demo_env RX_ETH_BUFFER_BASE TX_ETH_BUFFER_BASE 1 (demo_pbuf 8) demo_state = Some (r, s')"
    by (auto simp: recv_callback_transfer [OF demo_state_starts] Let_def)
  then show ?thesis by (blast intro: step.receive)
qed


theorem dead_bus_never_left_witness:
  "\<exists>x t. fine demo_env Lwip (At In_Lwip, demo_state) (Sending x Clear_Count, t) \<and>
     (\<forall>g' s'. (move demo_env (- {Iic_Irq}))\<^sup>*\<^sup>* (Sending x Clear_Count, t) (g', s') \<longrightarrow>
        (\<exists>n. g' = Sending x n \<and> n \<noteq> Reply))"
  using dead_bus_never_left [OF demo_env_apart demo_state_starts] unfolding Let_def by blast


section \<open>Runs\<close>

lemma run_main:
  "statement E g s = Some (g', s') \<Longrightarrow> run E as (g', s') z \<Longrightarrow> run E (Main # as) (g, s) z"
  by (rule run.cons [OF fine.main])

lemma reply_run:
  assumes "SendComplete s \<noteq> 0" and "TcpFastTmrFlag s = 0"
  shows "\<exists>s'. run E [Main, Main, Main, Main, Lwip, Main, Main] (Sending x Test_Complete, s) (At Test_Slow, s')"
proof -
  let ?s1 = "reply E x (mark E (mark E s))"
  have "TcpFastTmrFlag ?s1 = 0" using assms(2) by (simp add: reply_def Let_def io_simps)
  then have "run E [Main, Main] (At Transfer, ?s1) (At Test_Slow, mark E ?s1)"
    by (intro run_main [OF _ run_main [OF _ run.nil]], simp add: transfer_data_def) simp
  then have lwip: "run E [Lwip, Main, Main] (At In_Lwip, ?s1) (At Test_Slow, mark E ?s1)"
    by (rule run.cons [OF fine.input_done])
  have "run E [Main, Lwip, Main, Main] (Sending x Reply, mark E (mark E s)) (At Test_Slow, mark E ?s1)"
    by (rule run_main [OF _ lwip]) simp
  then have result: "run E [Main, Main, Lwip, Main, Main] (Sending x Read_Result, mark E (mark E s))
      (At Test_Slow, mark E ?s1)" by (rule run_main [rotated]) simp
  have "run E [Main, Main, Main, Lwip, Main, Main] (Sending x Print_Count, mark E s) (At Test_Slow, mark E ?s1)"
    by (rule run_main [OF _ result]) simp
  then have "run E [Main, Main, Main, Main, Lwip, Main, Main] (Sending x Test_Complete, s)
      (At Test_Slow, mark E ?s1)" by (rule run_main [rotated]) (simp add: assms(1))
  then show ?thesis by blast
qed

theorem reply_after_completion_witness:
  "\<exists>s' bs. run demo_env [Main, Main, Main, Main, Lwip, Main, Main]
      (Sending \<lparr>conn = 1, packet = 64, request_word = 0\<rparr> Test_Complete, demo_state\<lparr>SendComplete := 1\<rparr>)
      (At Test_Slow, s') \<and>
    Tcp (Tcp_write 1 bs) \<in> set (calls_since (demo_state\<lparr>SendComplete := 1\<rparr>) s')"
proof -
  let ?x = "\<lparr>conn = 1, packet = 64, request_word = 0\<rparr>" and ?s = "demo_state\<lparr>SendComplete := 1\<rparr>"
  have "SendComplete ?s \<noteq> 0" "TcpFastTmrFlag ?s = 0" by (simp_all add: firmware_start_def)
  from reply_run [OF this] obtain s'
    where r: "run demo_env [Main, Main, Main, Main, Lwip, Main, Main] (Sending ?x Test_Complete, ?s) (At Test_Slow, s')"
    by blast
  from reply_after_completion [OF demo_env_apart r] r show ?thesis by simp blast
qed


end
