(* ===== verification/Spec2Isabelle.thy ===== *)
theory Spec2Isabelle
  imports Ps7_Properties Ps7_Gpl Platform_Zynq Platform_Builds Fine_Examples
begin

text \<open>
  \<^bold>\<open>Verification of the QpixLAR carrier firmware\<close>

  The program is the C firmware of a Zynq-7000 board that reads out a QPix detector: the generated
  initialisation of the processing system (\<^verbatim>\<open>src/vitis_workspace/qpixlar_carrier/hw/sdt\<close>) and the
  application (\<^verbatim>\<open>src/vitis_workspace/qpix_carrier_ctrl/src\<close>). The boot loader runs \<^verbatim>\<open>ps7_init\<close>; the
  application brings up the platform timer, the DMA engine, the I2C master and the network, and then
  loops over lwIP's timers and input. A client sends requests over TCP, which the command handler
  turns into register accesses and I2C transfers; the DMA interrupt streams detector data over UDP.

  \<^bold>\<open>The outside world.\<close> Registers, the Xilinx drivers and lwIP are not in the repository. The code
  reaches them through a \<open>call\<close>, an environment \<open>env\<close> answers it (from the whole history, so every
  register is volatile), and the call is appended to the trace \<open>tr\<close> of the state (\<^verbatim>\<open>Machine\<close>).
  The constants of the vendor headers are fields of \<open>env\<close>. A theorem without a hypothesis on the
  environment holds for any behaviour of the hardware and of lwIP. The state is a record that each
  component extends with its own variables, so a function of one component applies to the state of
  all those above it. \<open>xil_printf\<close> output is not modelled, except where it reads a volatile variable.

  \<^bold>\<open>Theories and the code they model\<close>

  \<^item> \<^verbatim>\<open>Prelude\<close>, \<^verbatim>\<open>Machine\<close>, \<^verbatim>\<open>Loops\<close>, \<^verbatim>\<open>Memory\<close>: types and facts on words; the environment, the trace
    and the contracts \<open>extends_trace\<close> and \<open>contract\<close>; bounded and unbounded waits (\<open>bounded_wait\<close>);
    byte-addressed little-endian memory, \<open>memcpy\<close> and the word-copy loop (\<open>word_copy\<close>).
  \<^item> \<^verbatim>\<open>Ps7_Config\<close> (the interpreter \<open>ps7_config\<close> of \<^verbatim>\<open>ps7_init.c\<close> and the macros of \<^verbatim>\<open>ps7_init.h\<close>),
    \<^verbatim>\<open>Ps7_Tables_3_0\<close>, \<^verbatim>\<open>Ps7_Tables_2_0\<close>, \<^verbatim>\<open>Ps7_Tables_1_0\<close> (every entry of the 21 tables),
    \<^verbatim>\<open>Ps7_Init\<close> (the entry points), \<^verbatim>\<open>Ps7_Semantics\<close> and \<^verbatim>\<open>Ps7_Checks\<close> (what a table does to the
    registers, and the checks evaluated on all of them), \<^verbatim>\<open>Ps7_Table_Facts\<close>, \<^verbatim>\<open>Ps7_Properties\<close>.
  \<^item> \<^verbatim>\<open>Ps7_Gpl_Config\<close>, \<^verbatim>\<open>Ps7_Gpl_Tables_3_0\<close>, \<^verbatim>\<open>Ps7_Gpl_Tables_2_0\<close>, \<^verbatim>\<open>Ps7_Gpl_Tables_1_0\<close>, \<^verbatim>\<open>Ps7_Gpl\<close>:
    the interpreter, the tables and the entry points of the second generated copy,
    \<^verbatim>\<open>ps7_init_gpl.c\<close> and \<^verbatim>\<open>ps7_init_gpl.h\<close>, and their agreement with the first.
  \<^item> \<^verbatim>\<open>Iic_Ctrl\<close> (\<^verbatim>\<open>iic_ctrl.c\<close>), \<^verbatim>\<open>Cmd_Handler\<close> (\<^verbatim>\<open>helper.c\<close>), \<^verbatim>\<open>Platform_Timer\<close> (\<^verbatim>\<open>platform.c\<close> and the
    timer callback of \<^verbatim>\<open>platform_zynq.c\<close>), \<^verbatim>\<open>Platform_Zynq\<close> (the rest of \<^verbatim>\<open>platform_zynq.c\<close>),
    \<^verbatim>\<open>Platform_Builds\<close> (the set-up code of \<^verbatim>\<open>platform.c\<close> in its builds for other processors),
    \<^verbatim>\<open>Udp_Server\<close> (\<^verbatim>\<open>udp_server.c\<close>), \<^verbatim>\<open>Eth_Control\<close> (\<^verbatim>\<open>ethControl.c\<close>), \<^verbatim>\<open>Dma_Control\<close>
    (\<^verbatim>\<open>dmaControl.c\<close>): one group of definitions per file, named after its functions; the state of each
    component is a record of its global, static and volatile variables under their C names.
  \<^item> \<^verbatim>\<open>Behaviour\<close>: a contract between the states before and after that every function and interrupt
    handler keeps. \<^verbatim>\<open>Firmware_Main\<close>: \<^verbatim>\<open>main.c\<close>, and the step relation that composes the statements
    of the main thread, lwIP's callbacks and the interrupts. \<^verbatim>\<open>Well_Formed\<close>: the well-formedness of
    the whole state, kept by every step.
  \<^item> \<^verbatim>\<open>Fine_Steps\<close>: the same system cut finer. The two waits inside a step (\<open>SetupEthernet\<close> waits for an
    address, \<open>IicSend\<close> for the end of a transfer) become control points of their own (\<open>control\<close>),
    with one statement for each access to a volatile variable, and every interrupt may arrive at
    each of them (\<open>fine\<close>). \<^verbatim>\<open>Fine_Refines\<close>: every run of the coarse system is one of the fine system.
    \<^verbatim>\<open>Fine_Safety\<close>: what holds in every reachable state of it. \<^verbatim>\<open>Fine_Progress\<close>: how its waits end.
    \<^verbatim>\<open>Fine_Resources\<close>: packet buffers balance, and servers start with an address.
    \<^verbatim>\<open>Fine_Examples\<close>: a board that boots, serves a request and waits for the transfer.

  \<^bold>\<open>What is shown\<close>

  \<^item> Board initialisation: the interpreter executes exactly the table's operations (refinement); no
    locked register is written and the lock is restored; \<open>ps7_init\<close> returns if the global timer runs,
    succeeds if the polled bits come up, and otherwise reports a timeout; PLLs and the 54 pins hold
    the intended configuration afterwards; the two generated copies agree.
  \<^item> Requests: \<open>HandleCmdRequest\<close> refines a specification on request words (\<open>serve\<close>), makes at most
    one access, and only inside the register map; written registers read back; fields of I2C words
    are not mixed up; the TCP callback frees every packet once and sends the reply of the request.
  \<^item> Waiting: \<open>IicSend\<close> returns if the controller completes; a signalled transfer is answered after at
    most six statements, and a dead bus is never left (there is no timeout); the DHCP wait ends four
    statements after 240 ticks at the latest, with a nonzero address; the DMA reset is looked for at
    most 10000 times; UDP sends are retried at most ten times.
  \<^item> Timers: the rates of the lwIP timers without drift; the TCP flags are raised on time, and the TCP
    timers never run more often than the ticks allow, in every interleaving.
  \<^item> The whole firmware, in every state reachable with interrupts at every access: the count reported
    to the FPGA is the number of finished blocks; its variables are well formed; all register
    accesses and I2C transfers are confined; streaming never stops once a client has connected;
    no packet buffer is leaked or freed twice; the servers are started with an address;
    the head of the main loop can always be reached again.

  \<^bold>\<open>Bounds and abstractions\<close>

  \<^item> As functions, the waits take their interrupts from the environment (\<open>irq_point\<close>, \<open>timer_point\<close>), at
    each access to a volatile variable; in the fine system the interrupts are steps, in any number
    and order. Interrupt handlers do not interrupt each other, and statements that access no
    volatile variable are not divided.
  \<^item> The \<open>int\<close> counters of the timer, \<open>recv_packets\<close> and \<open>tcp_connection\<close> are mathematical integers:
    exact below \<open>2 ^ 31\<close>, which the 50 ms tick reaches after three years. All other integers have
    their width. Loops that may not end are partial functions whose value \<open>None\<close> is not returning;
    bounded loops recurse on their C counter, so no fuel is chosen anywhere.
  \<^item> DMA and network hardware may change memory between any two steps; what \<open>XIicPs_MasterRecv\<close>
    stores in the caller's buffer is left open.

  \<^bold>\<open>Not modelled\<close>

  \<^item> \<^verbatim>\<open>print_ip\<close> and \<^verbatim>\<open>print_ip_settings\<close> only print.
  \<^item> The frequency macros of \<^verbatim>\<open>ps7_init.h\<close> other than \<open>APU_FREQ\<close> are used by no code in the repository.
  \<^item> The headers under \<^verbatim>\<open>dt-bindings\<close> are vendored constants for the device-tree compiler that no C
    code includes; the VHDL, Tcl, schematics and board files are not C.
\<close>

end
